(* ===== verification/Arc_Prelude.thy ===== *)
theory Arc_Prelude
  imports Main "HOL-Library.State_Monad" "HOL-Library.List_Lexorder" "HOL-Library.Char_ord"
    "HOL-Library.Word"
begin

text \<open>
  The shared layer of the development: the names of the types every component uses, the
  stateful computations (a server operation is a state-monad value \<open>('s, 'a) state\<close>, read
  like the Go function it models), the rules that push a property of the state through such a
  computation, and small facts on lists and maps that several components need.
\<close>

section \<open>Types\<close>

type_synonym byte = "8 word"
type_synonym u8 = "8 word"
type_synonym u32 = "32 word"
type_synonym u64 = "64 word"

text \<open>Go's \<open>(T, error)\<close> results: the error or the value.\<close>

type_synonym ('e, 'a) result = "'e + 'a"

text \<open>Times are nanoseconds since the Unix epoch; \<open>Unix()\<close> is the whole second.\<close>

abbreviation nsec :: int where "nsec \<equiv> 1000000000"
abbreviation nminute :: int where "nminute \<equiv> 60 * nsec"

definition unix_of :: "int \<Rightarrow> int" where
  "unix_of t = t div nsec"

section \<open>Stateful computations\<close>

named_theorems keeps_rules \<open>rules that show a computation keeps a property of the state\<close>
named_theorems run_rules \<open>evaluation of computations\<close>

declare State_Monad.run_state_bind [simp del]

lemma run_bind [simp, run_rules]:
  "run_state (State_Monad.bind m f) s =
    run_state (f (fst (run_state m s))) (snd (run_state m s))"
  by (simp add: State_Monad.bind_def split: prod.split)

lemma run_return [simp, run_rules]: "run_state (State_Monad.return x) s = (x, s)"
  by (simp add: State_Monad.return_def)

lemma run_get [simp, run_rules]: "run_state State_Monad.get s = (s, s)"
  by (simp add: State_Monad.get_def)

lemma run_set [simp, run_rules]: "run_state (State_Monad.set t) s = ((), t)"
  by (simp add: State_Monad.set_def)

lemma run_update [simp, run_rules]: "run_state (State_Monad.update f) s = ((), f s)"
  by (simp add: State_Monad.update_def State_Monad.bind_def State_Monad.get_def State_Monad.set_def)

text \<open>
  \<open>keeps P m\<close>: from a state with \<open>P\<close>, the computation \<open>m\<close> ends in a state with \<open>P\<close>,
  whatever it returns.
\<close>

definition keeps :: "('s \<Rightarrow> bool) \<Rightarrow> ('s, 'a) state \<Rightarrow> bool" where
  "keeps P m \<longleftrightarrow> (\<forall>s. P s \<longrightarrow> P (snd (run_state m s)))"

lemma keepsI: "(\<And>s. P s \<Longrightarrow> P (snd (run_state m s))) \<Longrightarrow> keeps P m"
  by (simp add: keeps_def)

lemma keepsD: "keeps P m \<Longrightarrow> P s \<Longrightarrow> P (snd (run_state m s))"
  by (simp add: keeps_def)

lemma keeps_return [keeps_rules]: "keeps P (State_Monad.return x)"
  by (simp add: keeps_def)

lemma keeps_get [keeps_rules]: "keeps P State_Monad.get"
  by (simp add: keeps_def)

lemma keeps_bind [keeps_rules]:
  assumes "keeps P m" and "\<And>r. keeps P (f r)"
  shows "keeps P (State_Monad.bind m f)"
  using assms unfolding keeps_def by (metis run_bind)

text \<open>A computation that reads the state first may use what it read.\<close>

lemma keeps_get_bind:
  assumes "\<And>s. P s \<Longrightarrow> keeps P (f s)"
  shows "keeps P (State_Monad.bind State_Monad.get f)"
  using assms by (simp add: keeps_def)

lemma keeps_update: "(\<And>s. P s \<Longrightarrow> P (f s)) \<Longrightarrow> keeps P (State_Monad.update f)"
  by (simp add: keeps_def)

lemma keeps_if [keeps_rules]:
  "(b \<Longrightarrow> keeps P m) \<Longrightarrow> (\<not> b \<Longrightarrow> keeps P n) \<Longrightarrow> keeps P (if b then m else n)"
  by simp

lemma keeps_case_sum [keeps_rules]:
  "(\<And>e. keeps P (f e)) \<Longrightarrow> (\<And>x. keeps P (g x)) \<Longrightarrow>
    keeps P (case r of Inl e \<Rightarrow> f e | Inr x \<Rightarrow> g x)"
  by (cases r) simp_all

lemma keeps_case_option [keeps_rules]:
  "keeps P m \<Longrightarrow> (\<And>x. keeps P (g x)) \<Longrightarrow>
    keeps P (case r of None \<Rightarrow> m | Some x \<Rightarrow> g x)"
  by (cases r) simp_all

lemma keeps_case_prod [keeps_rules]:
  "(\<And>x y. keeps P (f x y)) \<Longrightarrow> keeps P (case r of (x, y) \<Rightarrow> f x y)"
  by (cases r) simp

lemma keeps_case_list [keeps_rules]:
  "keeps P m \<Longrightarrow> (\<And>x xs. keeps P (g x xs)) \<Longrightarrow>
    keeps P (case r of [] \<Rightarrow> m | x # xs \<Rightarrow> g x xs)"
  by (cases r) simp_all

lemma keeps_Let [keeps_rules]: "(\<And>x. keeps P (f x)) \<Longrightarrow> keeps P (Let a f)"
  by (simp add: Let_def)

text \<open>A computation on one field of a larger state.\<close>

definition zoom :: "('t \<Rightarrow> 's) \<Rightarrow> ('s \<Rightarrow> 't \<Rightarrow> 't) \<Rightarrow> ('s, 'a) state \<Rightarrow> ('t, 'a) state" where
  "zoom rd wr m = State (\<lambda>t. case run_state m (rd t) of (r, s) \<Rightarrow> (r, wr s t))"

lemma run_zoom [simp, run_rules]:
  "run_state (zoom rd wr m) t =
    (fst (run_state m (rd t)), wr (snd (run_state m (rd t))) t)"
  by (simp add: zoom_def split: prod.split)

lemma keeps_zoom:
  assumes "keeps Q m" and "\<And>t. P t \<Longrightarrow> Q (rd t)"
    and "\<And>s t. P t \<Longrightarrow> Q s \<Longrightarrow> P (wr s t)"
  shows "keeps P (zoom rd wr m)"
  using assms by (simp add: keeps_def)

section \<open>Lists and association lists\<close>

text \<open>The first element that satisfies a predicate, as a \<open>SELECT ... WHERE key = ?\<close> reads it.\<close>

lemma find_Some_in: "List.find p xs = Some x \<Longrightarrow> x \<in> set xs \<and> p x"
  by (auto simp: find_Some_iff)

lemma find_None_all: "List.find p xs = None \<longleftrightarrow> (\<forall>x\<in>set xs. \<not> p x)"
  by (auto simp: find_None_iff)

lemma find_append: "List.find p (xs @ ys) =
    (case List.find p xs of None \<Rightarrow> List.find p ys | Some x \<Rightarrow> Some x)"
  by (induction xs) auto

lemma find_map_key:
  assumes "\<And>x. k (f x) = k x"
  shows "List.find (\<lambda>x. k x = a) (map f xs) = map_option f (List.find (\<lambda>x. k x = a) xs)"
  by (induction xs) (auto simp: assms)

lemma find_filter_key:
  "List.find (\<lambda>x. k x = a) (filter (\<lambda>x. k x \<noteq> b) xs) =
    (if a = b then None else List.find (\<lambda>x. k x = a) xs)"
  by (induction xs) auto

lemma find_distinct_key:
  "distinct (map k xs) \<Longrightarrow> x \<in> set xs \<Longrightarrow> List.find (\<lambda>y. k y = k x) xs = Some x"
  by (induction xs) (auto simp: image_iff)

lemma distinct_map_filter_key: "distinct (map k xs) \<Longrightarrow> distinct (map k (filter p xs))"
  by (induction xs) auto

lemma image_key_filter [simp]: "a \<in> k ` {x \<in> S. k x \<noteq> b} \<longleftrightarrow> a \<in> k ` S \<and> a \<noteq> b"
  by auto

lemma map_key_idem: "(\<And>x. k (f x) = k x) \<Longrightarrow> map k (map f xs) = map k xs"
  by simp

lemma map_delete_length_le: "length (filter p xs) \<le> length xs"
  by (rule length_filter_le)

end
