(* ===== verification/Go_Strings.thy ===== *)
theory Go_Strings
  imports Arc_Prelude
begin

text \<open>
  The parts of Go's standard packages \<open>strings\<close>, \<open>strconv\<close> and \<open>fmt\<close> that both
  programs use on text. A Go string is a list of bytes (\<open>char list\<close>); the case and
  white-space functions are those of the ASCII range, in which the identifiers, roles and paths
  the programs compare live. Each function is executable and comes with the facts the components
  use: idempotence of trimming and lowering, splitting what was joined, and that decimal text
  reads back as the number it was printed from.
\<close>

section \<open>strings\<close>

definition is_space :: "char \<Rightarrow> bool" where
  "is_space c \<longleftrightarrow> c \<in> {CHR 0x09, CHR 0x0A, CHR 0x0B, CHR 0x0C, CHR 0x0D, CHR '' ''}"

definition TrimLeftSpace :: "string \<Rightarrow> string" where
  "TrimLeftSpace s = dropWhile is_space s"

definition TrimSpace :: "string \<Rightarrow> string" where
  "TrimSpace s = rev (dropWhile is_space (rev (dropWhile is_space s)))"

definition lower_char :: "char \<Rightarrow> char" where
  "lower_char c =
    (if 65 \<le> (of_char c :: nat) \<and> (of_char c :: nat) \<le> 90 then char_of ((of_char c :: nat) + 32) else c)"

definition ToLower :: "string \<Rightarrow> string" where
  "ToLower s = map lower_char s"

definition EqualFold :: "string \<Rightarrow> string \<Rightarrow> bool" where
  "EqualFold a b \<longleftrightarrow> ToLower a = ToLower b"

definition HasPrefix :: "string \<Rightarrow> string \<Rightarrow> bool" where
  "HasPrefix s p \<longleftrightarrow> take (length p) s = p"

definition HasSuffix :: "string \<Rightarrow> string \<Rightarrow> bool" where
  "HasSuffix s p \<longleftrightarrow> HasPrefix (rev s) (rev p)"

definition TrimPrefix :: "string \<Rightarrow> string \<Rightarrow> string" where
  "TrimPrefix s p = (if HasPrefix s p then drop (length p) s else s)"

definition TrimSuffix :: "string \<Rightarrow> string \<Rightarrow> string" where
  "TrimSuffix s p = (if HasSuffix s p then take (length s - length p) s else s)"

definition TrimRight :: "string \<Rightarrow> char list \<Rightarrow> string" where
  "TrimRight s cutset = rev (dropWhile (\<lambda>c. c \<in> set cutset) (rev s))"

definition TrimLeft :: "string \<Rightarrow> char list \<Rightarrow> string" where
  "TrimLeft s cutset = dropWhile (\<lambda>c. c \<in> set cutset) s"

fun Contains :: "string \<Rightarrow> string \<Rightarrow> bool" where
  "Contains [] p = (p = [])"
| "Contains (c # s) p = (HasPrefix (c # s) p \<or> Contains s p)"

text \<open>\<open>strings.Index\<close>: where the first occurrence starts; Go's \<open>-1\<close> is \<open>None\<close>.\<close>

fun Index :: "string \<Rightarrow> string \<Rightarrow> nat option" where
  "Index [] p = (if p = [] then Some 0 else None)"
| "Index (c # s) p = (if HasPrefix (c # s) p then Some 0 else map_option Suc (Index s p))"

fun IndexByte :: "'c list \<Rightarrow> 'c \<Rightarrow> nat option" where
  "IndexByte [] b = None"
| "IndexByte (c # s) b = (if c = b then Some 0 else map_option Suc (IndexByte s b))"

definition LastIndexByte :: "'c list \<Rightarrow> 'c \<Rightarrow> nat option" where
  "LastIndexByte s b = map_option (\<lambda>i. length s - 1 - i) (IndexByte (rev s) b)"

text \<open>\<open>strings.Cut s sep\<close>: the text before and after the first \<open>sep\<close>, and whether it occurs.\<close>

definition Cut :: "string \<Rightarrow> string \<Rightarrow> string \<times> string \<times> bool" where
  "Cut s sep = (case Index s sep of
      Some i \<Rightarrow> (take i s, drop (i + length sep) s, True)
    | None \<Rightarrow> (s, [], False))"

fun split_on :: "char \<Rightarrow> string \<Rightarrow> string list" where
  "split_on b [] = [[]]"
| "split_on b (c # s) =
    (if c = b then [] # split_on b s
     else case split_on b s of [] \<Rightarrow> [[c]] | w # ws \<Rightarrow> (c # w) # ws)"

text \<open>The UTF-8 bytes of the dash in the messages.\<close>

definition em_dash :: string where
  "em_dash = [CHR 0xE2, CHR 0x80, CHR 0x94]"

subsection \<open>Facts\<close>

lemma dropWhile_dropWhile [simp]: "dropWhile p (dropWhile p xs) = dropWhile p xs"
  by (induction xs) auto

lemma dropWhile_rev_hd:
  "dropWhile p xs = xs \<Longrightarrow> dropWhile p (rev (dropWhile p (rev xs))) = rev (dropWhile p (rev xs))"
proof (cases "rev (dropWhile p (rev xs))")
  case Nil
  then show ?thesis by (simp only: dropWhile.simps)
next
  case (Cons y ys)
  assume fixed: "dropWhile p xs = xs"
  have split: "xs = rev (dropWhile p (rev xs)) @ rev (takeWhile p (rev xs))"
    by (metis rev_append rev_rev_ident takeWhile_dropWhile_id)
  with Cons obtain zs where "xs = y # zs" by (metis append_Cons)
  with fixed have "\<not> p y" by (metis dropWhile_eq_Cons_conv dropWhile_eq_self_iff list.sel(1) list.simps(3))
  with Cons show ?thesis by simp
qed

lemma TrimSpace_idem [simp]: "TrimSpace (TrimSpace s) = TrimSpace s"
proof -
  let ?d = "dropWhile is_space"
  have "?d (rev (?d (rev (?d s)))) = rev (?d (rev (?d s)))"
    by (rule dropWhile_rev_hd) simp
  then show ?thesis by (simp add: TrimSpace_def)
qed

lemma TrimSpace_Nil [simp]: "TrimSpace [] = []"
  by (simp add: TrimSpace_def)

lemma set_TrimSpace: "set (TrimSpace s) \<subseteq> set s"
  by (auto simp: TrimSpace_def dest!: set_dropWhileD)

lemma TrimSpace_no_space:
  assumes "\<forall>c\<in>set s. \<not> is_space c"
  shows "TrimSpace s = s"
proof -
  have "dropWhile is_space xs = xs" if "set xs \<subseteq> set s" for xs
    using that assms by (cases xs) auto
  then show ?thesis by (simp add: TrimSpace_def)
qed

lemma lower_char_idem [simp]: "lower_char (lower_char c) = lower_char c"
  by (simp add: lower_char_def)

lemma ToLower_idem [simp]: "ToLower (ToLower s) = ToLower s"
  by (simp add: ToLower_def)

lemma length_ToLower [simp]: "length (ToLower s) = length s"
  by (simp add: ToLower_def)

lemma lower_char_space [simp]: "is_space (lower_char c) = is_space c"
proof (cases "65 \<le> (of_char c :: nat) \<and> (of_char c :: nat) \<le> 90")
  case True
  then have big: "97 \<le> (of_char (lower_char c) :: nat)"
    by (simp add: lower_char_def)
  have "\<not> is_space c" using True by (auto simp: is_space_def)
  moreover have "\<not> is_space (lower_char c)" using big by (auto simp: is_space_def)
  ultimately show ?thesis by simp
next
  case False
  then have "lower_char c = c" unfolding lower_char_def by (rule if_not_P)
  then show ?thesis by simp
qed

lemma dropWhile_map_lower:
  "dropWhile is_space (map lower_char s) = map lower_char (dropWhile is_space s)"
  by (induction s) auto

lemma TrimSpace_ToLower [simp]: "TrimSpace (ToLower s) = ToLower (TrimSpace s)"
  by (simp add: TrimSpace_def ToLower_def dropWhile_map_lower rev_map)

lemma HasPrefix_append [simp]: "HasPrefix (p @ s) p"
  by (simp add: HasPrefix_def)

lemma HasPrefix_Nil [simp]: "HasPrefix s []"
  by (simp add: HasPrefix_def)

lemma HasPrefix_iff: "HasPrefix s p \<longleftrightarrow> (\<exists>t. s = p @ t)"
  by (metis HasPrefix_append HasPrefix_def append_take_drop_id)

lemma TrimPrefix_append [simp]: "TrimPrefix (p @ s) p = s"
  by (simp add: TrimPrefix_def)

lemma split_on_ne [simp]: "split_on b s \<noteq> []"
  by (induction s) (auto split: list.splits)

lemma split_on_none: "b \<notin> set s \<Longrightarrow> split_on b s = [s]"
  by (induction s) auto

lemma split_on_sep: "b \<notin> set w \<Longrightarrow> split_on b (w @ b # s) = w # split_on b s"
  by (induction w) auto

lemma IndexByte_None: "IndexByte s b = None \<longleftrightarrow> b \<notin> set s"
  by (induction s) auto

lemma IndexByte_Some:
  "IndexByte s b = Some i \<longleftrightarrow> i < length s \<and> s ! i = b \<and> b \<notin> set (take i s)"
proof (induction s arbitrary: i)
  case (Cons c s)
  show ?case by (cases i) (auto simp: Cons.IH)
qed simp

lemma IndexByte_append: "b \<notin> set w \<Longrightarrow> IndexByte (w @ b # s) b = Some (length w)"
  by (induction w) auto

section \<open>strconv and fmt\<close>

definition is_digit :: "char \<Rightarrow> bool" where
  "is_digit c \<longleftrightarrow> 48 \<le> (of_char c :: nat) \<and> (of_char c :: nat) \<le> 57"

definition digit_char :: "nat \<Rightarrow> char" where
  "digit_char d = char_of (48 + d)"

definition digit_val :: "char \<Rightarrow> nat" where
  "digit_val c = of_char c - 48"

fun dec_nat :: "nat \<Rightarrow> string" where
  "dec_nat n = (if n < 10 then [digit_char n] else dec_nat (n div 10) @ [digit_char (n mod 10)])"

declare dec_nat.simps [simp del]

definition FormatInt :: "int \<Rightarrow> string" where
  "FormatInt i = (if i < 0 then CHR ''-'' # dec_nat (nat (- i)) else dec_nat (nat i))"

definition digits_val :: "string \<Rightarrow> nat" where
  "digits_val s = foldl (\<lambda>v c. 10 * v + digit_val c) 0 s"

lemma digit_char_ok [simp]: "d < 10 \<Longrightarrow> is_digit (digit_char d)"
  by (simp add: is_digit_def digit_char_def)

lemma digit_char_eval:
  "digit_char 0 = CHR ''0''" "digit_char (Suc 0) = CHR ''1''" "digit_char 1 = CHR ''1''"
  "digit_char 2 = CHR ''2''" "digit_char 3 = CHR ''3''" "digit_char 4 = CHR ''4''"
  "digit_char 5 = CHR ''5''" "digit_char 6 = CHR ''6''" "digit_char 7 = CHR ''7''"
  "digit_char 8 = CHR ''8''" "digit_char 9 = CHR ''9''"
  by code_simp+

lemmas dec_nat_eval = dec_nat.simps digit_char_eval

lemma digit_val_char [simp]: "d < 10 \<Longrightarrow> digit_val (digit_char d) = d"
  by (simp add: digit_val_def digit_char_def)

lemma dec_nat_digits: "\<forall>c\<in>set (dec_nat n). is_digit c"
proof (induction n rule: dec_nat.induct)
  case (1 n)
  then show ?case by (subst dec_nat.simps) auto
qed

lemma dec_nat_ne [simp]: "dec_nat n \<noteq> []"
  by (subst dec_nat.simps) simp

lemma digits_val_dec_nat [simp]: "digits_val (dec_nat n) = n"
proof (induction n rule: dec_nat.induct)
  case (1 n)
  show ?case
  proof (cases "n < 10")
    case False
    with 1 have "digits_val (dec_nat (n div 10)) = n div 10" by simp
    with False show ?thesis
      by (subst dec_nat.simps) (simp add: digits_val_def)
  qed (subst dec_nat.simps, simp add: digits_val_def)
qed

lemma is_digit_not_space: "is_digit c \<Longrightarrow> \<not> is_space c"
  by (auto simp: is_digit_def is_space_def)

text \<open>\<open>strconv.ParseInt(s, 10, 64)\<close>.\<close>

definition ParseInt64 :: "string \<Rightarrow> int option" where
  "ParseInt64 s =
    (let (neg, body) = (case s of c # r \<Rightarrow>
            if c = CHR ''-'' then (True, r) else if c = CHR ''+'' then (False, r) else (False, s)
          | [] \<Rightarrow> (False, s))
     in if body = [] \<or> \<not> list_all is_digit body then None
        else let v = int (digits_val body)
             in if neg then (if v \<le> 2 ^ 63 then Some (- v) else None)
                else (if v < 2 ^ 63 then Some v else None))"

lemma dec_nat_hd_digit: "\<exists>c r. dec_nat n = c # r \<and> is_digit c"
  using dec_nat_digits [of n] by (cases "dec_nat n") auto

lemma ParseInt64_FormatInt:
  assumes "- (2 ^ 63) \<le> i" and "i < 2 ^ 63"
  shows "ParseInt64 (FormatInt i) = Some i"
proof -
  obtain c r where cr: "dec_nat (nat \<bar>i\<bar>) = c # r" and c: "is_digit c"
    using dec_nat_hd_digit by blast
  from c have "c \<noteq> CHR ''-''" "c \<noteq> CHR ''+''" by (auto simp: is_digit_def)
  moreover have "list_all is_digit (c # r)" "int (digits_val (c # r)) = \<bar>i\<bar>"
    using dec_nat_digits [of "nat \<bar>i\<bar>"] by (simp_all add: list_all_iff flip: cr)
  ultimately show ?thesis
    using assms cr by (auto simp: ParseInt64_def FormatInt_def Let_def abs_if split: if_splits)
qed

text \<open>
  \<open>fmt.Sscanf\<close>: the reader skips blanks before a number (a newline is an error), reads the
  longest run of digits, and checks the width of the target; a literal of the format must match
  the input; what is left of the input is ignored. Every failure is \<open>None\<close>.
\<close>

fun scan_skip :: "string \<Rightarrow> string option" where
  "scan_skip [] = Some []"
| "scan_skip (c # s) =
    (if c = CHR 0x0A then None else if is_space c then scan_skip s else Some (c # s))"

definition scan_lit :: "string \<Rightarrow> string \<Rightarrow> string option" where
  "scan_lit lit s = (if HasPrefix s lit then Some (drop (length lit) s) else None)"

definition scan_uint :: "nat \<Rightarrow> string \<Rightarrow> (nat \<times> string) option" where
  "scan_uint bits s = (case scan_skip s of None \<Rightarrow> None
    | Some t \<Rightarrow>
        let ds = takeWhile is_digit t
        in if ds = [] \<or> 2 ^ bits \<le> digits_val ds then None
           else Some (digits_val ds, dropWhile is_digit t))"

definition scan_int :: "string \<Rightarrow> (int \<times> string) option" where
  "scan_int s = (case scan_skip s of None \<Rightarrow> None
    | Some t \<Rightarrow>
        let sgn = (case t of c # _ \<Rightarrow> if c = CHR ''-'' \<or> c = CHR ''+'' then [c] else [] | [] \<Rightarrow> []);
            u = drop (length sgn) t;
            ds = takeWhile is_digit u
        in if ds = [] then None
           else map_option (\<lambda>i. (i, dropWhile is_digit u)) (ParseInt64 (sgn @ ds)))"

lemma scan_skip_digit: "is_digit c \<Longrightarrow> scan_skip (c # s) = Some (c # s)"
  using is_digit_not_space by (auto simp: is_digit_def)

lemma scan_lit_append [simp]: "scan_lit lit (lit @ s) = Some s"
  by (simp add: scan_lit_def)

lemma take_dropWhile_digits:
  assumes "\<forall>c\<in>set ds. is_digit c" and "\<forall>c\<in>set (take 1 s). \<not> is_digit c"
  shows "takeWhile is_digit (ds @ s) = ds" and "dropWhile is_digit (ds @ s) = s"
  using assms by (cases s; simp)+

lemma scan_uint_dec:
  assumes "n < 2 ^ bits" and "\<forall>c\<in>set (take 1 s). \<not> is_digit c"
  shows "scan_uint bits (dec_nat n @ s) = Some (n, s)"
proof -
  obtain c r where cr: "dec_nat n = c # r" and c: "is_digit c"
    using dec_nat_hd_digit by blast
  have "scan_skip (dec_nat n @ s) = Some (dec_nat n @ s)"
    using scan_skip_digit [OF c, of "r @ s"] cr by simp
  moreover have "takeWhile is_digit (dec_nat n @ s) = dec_nat n"
    and "dropWhile is_digit (dec_nat n @ s) = s"
    using take_dropWhile_digits [OF dec_nat_digits assms(2)] by auto
  ultimately show ?thesis
    using assms(1) by (simp add: scan_uint_def Let_def)
qed

text \<open>\<open>strconv.Quote\<close>, the \<open>%q\<close> verb, on bytes.\<close>

definition hex_digit :: "nat \<Rightarrow> char" where
  "hex_digit d = (if d < 10 then char_of (48 + d) else char_of (87 + d))"

definition quote_char :: "char \<Rightarrow> string" where
  "quote_char c =
    (if c = CHR 0x22 then [CHR 0x5C, CHR 0x22]
     else if c = CHR 0x5C then [CHR 0x5C, CHR 0x5C]
     else if c = CHR 0x07 then [CHR 0x5C, CHR ''a'']
     else if c = CHR 0x08 then [CHR 0x5C, CHR ''b'']
     else if c = CHR 0x0C then [CHR 0x5C, CHR ''f'']
     else if c = CHR 0x0A then [CHR 0x5C, CHR ''n'']
     else if c = CHR 0x0D then [CHR 0x5C, CHR ''r'']
     else if c = CHR 0x09 then [CHR 0x5C, CHR ''t'']
     else if c = CHR 0x0B then [CHR 0x5C, CHR ''v'']
     else if 32 \<le> (of_char c :: nat) \<and> (of_char c :: nat) < 127 then [c]
     else [CHR 0x5C, CHR ''x'', hex_digit (of_char c div 16), hex_digit (of_char c mod 16)])"

definition Quote :: "string \<Rightarrow> string" where
  "Quote s = [CHR 0x22] @ concat (map quote_char s) @ [CHR 0x22]"

end
