(* ===== verification/Codec.thy ===== *)
theory Codec
  imports Go_Strings
begin

text \<open>
  Go's \<open>encoding/hex\<close> and \<open>encoding/base64\<close> (raw, unpadded: the standard and the URL
  alphabet), with the interface \<open>text_codec\<close> that every textual encoding of the programs
  meets: what was encoded decodes to itself. Its clients (session codes, password records,
  repository ids, content addresses) get injectivity from the locale.
\<close>

section \<open>The interface of a textual encoding\<close>

locale text_codec =
  fixes enc :: "'a \<Rightarrow> string" and dec :: "string \<Rightarrow> 'a option" and ok :: "'a \<Rightarrow> bool"
  assumes dec_enc: "ok a \<Longrightarrow> dec (enc a) = Some a"
begin

lemma enc_inj: "ok a \<Longrightarrow> ok b \<Longrightarrow> enc a = enc b \<longleftrightarrow> a = b"
  by (metis dec_enc option.inject)

lemma enc_inj_on: "inj_on enc {a. ok a}"
  by (auto intro!: inj_onI simp: enc_inj)

lemma dec_enc_unique: "ok a \<Longrightarrow> dec (enc a) = Some b \<longleftrightarrow> b = a"
  by (auto simp: dec_enc)

end

section \<open>encoding/hex\<close>

definition hex_val :: "char \<Rightarrow> nat option" where
  "hex_val c = (let n = of_char c :: nat in
     if 48 \<le> n \<and> n \<le> 57 then Some (n - 48)
     else if 97 \<le> n \<and> n \<le> 102 then Some (n - 87)
     else if 65 \<le> n \<and> n \<le> 70 then Some (n - 55)
     else None)"

definition hex_byte :: "byte \<Rightarrow> string" where
  "hex_byte b = [hex_digit (unat b div 16), hex_digit (unat b mod 16)]"

definition hex_encode :: "byte list \<Rightarrow> string" where
  "hex_encode bs = concat (map hex_byte bs)"

fun hex_decode :: "string \<Rightarrow> byte list option" where
  "hex_decode [] = Some []"
| "hex_decode [c] = None"
| "hex_decode (a # b # s) = (case (hex_val a, hex_val b) of
      (Some h, Some l) \<Rightarrow> map_option (Cons (word_of_nat (16 * h + l))) (hex_decode s)
    | _ \<Rightarrow> None)"

lemma hex_val_digit [simp]: "d < 16 \<Longrightarrow> hex_val (hex_digit d) = Some d"
  by (simp add: hex_val_def hex_digit_def Let_def)

lemma unat_byte_less: "unat (b :: byte) < 256"
  using unsigned_less [of b] by simp

lemma hex_decode_byte [simp]:
  "hex_decode (hex_byte b @ s) = map_option (Cons b) (hex_decode s)"
proof -
  have "unat b div 16 < 16" using unat_byte_less [of b] by arith
  then show ?thesis by (simp add: hex_byte_def)
qed

lemma hex_decode_encode [simp]: "hex_decode (hex_encode bs) = Some bs"
  by (induction bs) (auto simp: hex_encode_def)

lemma length_hex_encode [simp]: "length (hex_encode bs) = 2 * length bs"
  by (induction bs) (auto simp: hex_encode_def hex_byte_def)

lemma hex_encode_append: "hex_encode (as @ bs) = hex_encode as @ hex_encode bs"
  by (simp add: hex_encode_def)

lemma length_hex_decode: "hex_decode s = Some bs \<Longrightarrow> length s = 2 * length bs"
  by (induction s arbitrary: bs rule: hex_decode.induct) (auto split: option.splits)

definition is_hex_lower :: "char \<Rightarrow> bool" where
  "is_hex_lower c \<longleftrightarrow> (let n = of_char c :: nat in 48 \<le> n \<and> n \<le> 57 \<or> 97 \<le> n \<and> n \<le> 102)"

lemma hex_digit_lower: "d < 16 \<Longrightarrow> is_hex_lower (hex_digit d)"
  by (auto simp: is_hex_lower_def hex_digit_def Let_def)

lemma hex_encode_lower: "\<forall>c\<in>set (hex_encode bs). is_hex_lower c"
proof -
  have "unat b div 16 < 16" for b :: byte using unat_byte_less [of b] by arith
  then show ?thesis by (auto simp: hex_encode_def hex_byte_def hex_digit_lower)
qed

lemma hex_val_cases: "hex_val c = Some d \<Longrightarrow> d < 16 \<and> hex_digit d = lower_char c"
  by (auto simp: hex_val_def hex_digit_def lower_char_def Let_def split: if_splits)

lemma hex_encode_decode: "hex_decode s = Some bs \<Longrightarrow> hex_encode bs = ToLower s"
proof (induction s arbitrary: bs rule: hex_decode.induct)
  case (3 a b s)
  then obtain h l cs where hl: "hex_val a = Some h" "hex_val b = Some l"
    and cs: "hex_decode s = Some cs" "bs = word_of_nat (16 * h + l) # cs"
    by (auto split: option.splits)
  from hl have "h < 16" "l < 16" "hex_digit h = lower_char a" "hex_digit l = lower_char b"
    by (auto dest: hex_val_cases)
  moreover from this have "unat (word_of_nat (16 * h + l) :: byte) = 16 * h + l"
    by (simp add: unsigned_of_nat take_bit_nat_eq_self del: of_nat_add of_nat_mult)
  ultimately show ?case
    using "3.IH" [OF refl hl cs(1)] cs by (simp add: hex_encode_def hex_byte_def ToLower_def)
qed (auto simp: hex_encode_def ToLower_def)

interpretation hex: text_codec hex_encode hex_decode "\<lambda>_. True"
  by unfold_locales simp

section \<open>encoding/base64, unpadded\<close>

text \<open>An alphabet is given by its characters for 62 and 63.\<close>

type_synonym b64_alphabet = "char \<times> char"

definition RawStd :: b64_alphabet where "RawStd = (CHR ''+'', CHR ''/'')"
definition RawURL :: b64_alphabet where "RawURL = (CHR ''-'', CHR ''_'')"

definition b64_char :: "b64_alphabet \<Rightarrow> nat \<Rightarrow> char" where
  "b64_char al v =
    (if v < 26 then char_of (65 + v) else if v < 52 then char_of (71 + v)
     else if v < 62 then char_of (v - 4) else if v = 62 then fst al else snd al)"

definition b64_val :: "b64_alphabet \<Rightarrow> char \<Rightarrow> nat option" where
  "b64_val al c = (let n = of_char c :: nat in
     if 65 \<le> n \<and> n \<le> 90 then Some (n - 65)
     else if 97 \<le> n \<and> n \<le> 122 then Some (n - 71)
     else if 48 \<le> n \<and> n \<le> 57 then Some (n + 4)
     else if c = fst al then Some 62 else if c = snd al then Some 63 else None)"

fun b64_groups :: "nat list \<Rightarrow> nat list" where
  "b64_groups [] = []"
| "b64_groups [a] = [a div 4, a mod 4 * 16]"
| "b64_groups [a, b] = [a div 4, a mod 4 * 16 + b div 16, b mod 16 * 4]"
| "b64_groups (a # b # c # r) =
    a div 4 # (a mod 4 * 16 + b div 16) # (b mod 16 * 4 + c div 64) # c mod 64 # b64_groups r"

fun b64_ungroup :: "nat list \<Rightarrow> nat list option" where
  "b64_ungroup [] = Some []"
| "b64_ungroup [x] = None"
| "b64_ungroup [x, y] = Some [x * 4 + y div 16]"
| "b64_ungroup [x, y, z] = Some [x * 4 + y div 16, y mod 16 * 16 + z div 4]"
| "b64_ungroup (x # y # z # w # r) =
    map_option (\<lambda>bs. (x * 4 + y div 16) # (y mod 16 * 16 + z div 4) # (z mod 4 * 64 + w) # bs)
      (b64_ungroup r)"

fun b64_vals :: "b64_alphabet \<Rightarrow> string \<Rightarrow> nat list option" where
  "b64_vals al [] = Some []"
| "b64_vals al (c # s) = (case b64_val al c of None \<Rightarrow> None
    | Some v \<Rightarrow> map_option (Cons v) (b64_vals al s))"

definition b64_encode :: "b64_alphabet \<Rightarrow> byte list \<Rightarrow> string" where
  "b64_encode al bs = map (b64_char al) (b64_groups (map unat bs))"

text \<open>The decoder skips carriage returns and newlines and takes unused low bits as they are.\<close>

definition b64_decode :: "b64_alphabet \<Rightarrow> string \<Rightarrow> byte list option" where
  "b64_decode al s =
    (case b64_vals al (filter (\<lambda>c. c \<noteq> CHR 0x0D \<and> c \<noteq> CHR 0x0A) s) of None \<Rightarrow> None
     | Some vs \<Rightarrow> map_option (map word_of_nat) (b64_ungroup vs))"

definition b64_alphabet_ok :: "b64_alphabet \<Rightarrow> bool" where
  "b64_alphabet_ok al \<longleftrightarrow> al = RawStd \<or> al = RawURL"

lemma b64_groups_less: "\<forall>a\<in>set as. a < 256 \<Longrightarrow> \<forall>v\<in>set (b64_groups as). v < 64"
  by (induction as rule: b64_groups.induct) auto

lemma b64_ungroup_groups: "\<forall>a\<in>set as. a < 256 \<Longrightarrow> b64_ungroup (b64_groups as) = Some as"
proof (induction as rule: b64_groups.induct)
  case (4 a b c r)
  then show ?case by (auto simp: mult.commute)
qed (auto simp: mult.commute)

lemma b64_val_char:
  assumes "v < 64" and "b64_alphabet_ok al"
  shows "b64_val al (b64_char al v) = Some v"
proof -
  consider "v < 26" | "26 \<le> v" "v < 52" | "52 \<le> v" "v < 62" | "v = 62" | "v = 63"
    using assms(1) by arith
  then show ?thesis
    using assms(2)
    by cases (auto simp: b64_val_def b64_char_def Let_def b64_alphabet_ok_def RawStd_def RawURL_def)
qed

lemma b64_vals_chars:
  "\<forall>v\<in>set vs. v < 64 \<Longrightarrow> b64_alphabet_ok al \<Longrightarrow> b64_vals al (map (b64_char al) vs) = Some vs"
  by (induction vs) (auto simp: b64_val_char)

lemma b64_encode_chars:
  assumes "b64_alphabet_ok al"
  shows "\<forall>c\<in>set (b64_encode al bs). b64_val al c \<noteq> None"
proof -
  have "\<forall>v\<in>set (b64_groups (map unat bs)). v < 64"
    by (rule b64_groups_less) (auto simp: unat_byte_less)
  then show ?thesis using assms by (auto simp: b64_encode_def b64_val_char)
qed

lemma b64_decode_encode:
  assumes "b64_alphabet_ok al"
  shows "b64_decode al (b64_encode al bs) = Some bs"
proof -
  let ?vs = "b64_groups (map unat bs)"
  have small: "\<forall>a\<in>set (map unat bs). a < 256" by (auto simp: unat_byte_less)
  have crlf: "b64_val al CHR 0x0D = None" "b64_val al CHR 0x0A = None"
    using assms by (auto simp: b64_val_def b64_alphabet_ok_def RawStd_def RawURL_def Let_def)
  have "filter (\<lambda>c. c \<noteq> CHR 0x0D \<and> c \<noteq> CHR 0x0A) (b64_encode al bs) = b64_encode al bs"
    using b64_encode_chars [OF assms, of bs] crlf by (intro filter_True) auto
  moreover have "b64_vals al (b64_encode al bs) = Some ?vs"
    unfolding b64_encode_def by (rule b64_vals_chars [OF b64_groups_less [OF small] assms])
  moreover have "b64_ungroup ?vs = Some (map unat bs)"
    by (rule b64_ungroup_groups [OF small])
  ultimately show ?thesis by (simp add: b64_decode_def comp_def)
qed

lemma b64_no_dollar: "b64_alphabet_ok al \<Longrightarrow> CHR ''$'' \<notin> set (b64_encode al bs)"
  using b64_encode_chars [of al bs]
  by (auto simp: b64_val_def b64_alphabet_ok_def RawStd_def RawURL_def Let_def)

lemma b64_no_dot: "b64_alphabet_ok al \<Longrightarrow> CHR ''.'' \<notin> set (b64_encode al bs)"
  using b64_encode_chars [of al bs]
  by (auto simp: b64_val_def b64_alphabet_ok_def RawStd_def RawURL_def Let_def)

interpretation rawstd: text_codec "b64_encode RawStd" "b64_decode RawStd" "\<lambda>_. True"
  by unfold_locales (simp add: b64_decode_encode b64_alphabet_ok_def)

interpretation rawurl: text_codec "b64_encode RawURL" "b64_decode RawURL" "\<lambda>_. True"
  by unfold_locales (simp add: b64_decode_encode b64_alphabet_ok_def)

end
