(* ===== verification/Users.thy ===== *)
theory Users
  imports Codec
begin

text \<open>
  \<open>src/arc-lore-auth/users.go\<close>: the argon2id password records (PHC strings), the password and
  user-name policy, and the password prompt. The derivation \<open>argon2.IDKey\<close> is a parameter
  \<open>idkey\<close> with the arguments in the order of the call: password, salt, passes, memory, lanes
  and key length. The random salt is an argument, \<open>None\<close> where the reader of randomness fails.
\<close>

section \<open>Errors of the user and store layers\<close>

text \<open>
  The error values the layer builds. \<open>DbError c m\<close> is a driver error with text \<open>m\<close>, wrapped
  with the context \<open>c\<close>; \<open>ErrUserNotFound\<close> comes bare or with the name it was asked for.
\<close>

datatype store_err =
    UsernameEmpty
  | InvalidUsername string
  | ErrUserExists string
  | ErrUserNotFound "string option"
  | ResourceIDEmpty
  | PermissionEmpty
  | DbError string string

fun err_text :: "store_err \<Rightarrow> string" where
  "err_text UsernameEmpty = ''username must not be empty''"
| "err_text (InvalidUsername n) =
    ''invalid username '' @ Quote n @ '': allowed chars are a-z 0-9 . _ - (max 64)''"
| "err_text (ErrUserExists n) = ''user already exists: '' @ n"
| "err_text (ErrUserNotFound None) = ''user not found''"
| "err_text (ErrUserNotFound (Some n)) = ''user not found: '' @ n"
| "err_text ResourceIDEmpty = ''resource_id must not be empty''"
| "err_text PermissionEmpty = ''permission must not be empty''"
| "err_text (DbError c m) = c @ '': '' @ m"

section \<open>Password records\<close>

type_synonym argon2_idkey =
  "string \<Rightarrow> byte list \<Rightarrow> u32 \<Rightarrow> u32 \<Rightarrow> u8 \<Rightarrow> u32 \<Rightarrow> byte list"

definition argon2_Version :: int where "argon2_Version = 19"
definition argon2idMemory :: u32 where "argon2idMemory = 64 * 1024"
definition argon2idTime :: u32 where "argon2idTime = 3"
definition argon2idParallelism :: u8 where "argon2idParallelism = 2"
definition argon2idSaltLen :: nat where "argon2idSaltLen = 16"
definition argon2idKeyLen :: u32 where "argon2idKeyLen = 32"

lemmas argon2_params = argon2_Version_def argon2idMemory_def argon2idTime_def
  argon2idParallelism_def argon2idKeyLen_def

definition dummyArgon2Hash :: string where
  "dummyArgon2Hash = ''$argon2id$v=19$m=65536,t=3,p=2$rNqxjxmzPcfjO+Ck26y1aw$4B+35/qNphh9HESl0lPkUTO77qiUc5yd7JSW+ujtiwg''"

definition HashPassword ::
  "argon2_idkey \<Rightarrow> byte list option \<Rightarrow> string \<Rightarrow> (string, string) result" where
  "HashPassword idkey rnd pw = (case rnd of
      None \<Rightarrow> Inl ''generating salt''
    | Some salt \<Rightarrow>
        let h = idkey pw salt argon2idTime argon2idMemory argon2idParallelism argon2idKeyLen
        in Inr (''$argon2id$v='' @ FormatInt argon2_Version
             @ ''$m='' @ dec_nat (unat argon2idMemory) @ '',t='' @ dec_nat (unat argon2idTime)
             @ '',p='' @ dec_nat (unat argon2idParallelism)
             @ ''$'' @ b64_encode RawStd salt @ ''$'' @ b64_encode RawStd h))"

text \<open>The two \<open>fmt.Sscanf\<close> formats of \<open>VerifyPassword\<close>.\<close>

definition scan_version :: "string \<Rightarrow> int option" where
  "scan_version s = (case scan_lit ''v='' s of None \<Rightarrow> None
    | Some t \<Rightarrow> map_option fst (scan_int t))"

definition scan_params :: "string \<Rightarrow> (u32 \<times> u32 \<times> u8) option" where
  "scan_params s = (case scan_lit ''m='' s of None \<Rightarrow> None
    | Some s1 \<Rightarrow> (case scan_uint 32 s1 of None \<Rightarrow> None
    | Some (m, s2) \<Rightarrow> (case scan_lit '',t='' s2 of None \<Rightarrow> None
    | Some s3 \<Rightarrow> (case scan_uint 32 s3 of None \<Rightarrow> None
    | Some (t, s4) \<Rightarrow> (case scan_lit '',p='' s4 of None \<Rightarrow> None
    | Some s5 \<Rightarrow> (case scan_uint 8 s5 of None \<Rightarrow> None
    | Some (p, _) \<Rightarrow> Some (word_of_nat m, word_of_nat t, word_of_nat p)))))))"

definition VerifyPassword :: "argon2_idkey \<Rightarrow> string \<Rightarrow> string \<Rightarrow> bool" where
  "VerifyPassword idkey stored pw =
    (let parts = split_on CHR ''$'' stored
     in if length parts \<noteq> 6 \<or> parts ! 0 \<noteq> '''' then False
        else if parts ! 1 \<noteq> ''argon2id'' then False
        else case scan_version (parts ! 2) of None \<Rightarrow> False
        | Some version \<Rightarrow>
        if version \<noteq> argon2_Version then False
        else case scan_params (parts ! 3) of None \<Rightarrow> False
        | Some (memory, timeCost, parallelism) \<Rightarrow>
        if memory < argon2idMemory \<or> timeCost < argon2idTime \<or> parallelism < argon2idParallelism
        then False
        else case b64_decode RawStd (parts ! 4) of None \<Rightarrow> False
        | Some salt \<Rightarrow> (case b64_decode RawStd (parts ! 5) of None \<Rightarrow> False
        | Some want \<Rightarrow>
        if want = [] then False
        else idkey pw salt timeCost memory parallelism (word_of_nat (length want)) = want))"

definition validatePassword :: "string \<Rightarrow> string option" where
  "validatePassword pw =
    (if length pw < 12 then
       if pw = '''' then Some ''password must not be empty''
       else Some ''password must be at least 12 characters''
     else if length pw > 1024 then Some ''password must not exceed 1024 characters''
     else None)"

section \<open>User names\<close>

definition username_char :: "char \<Rightarrow> bool" where
  "username_char c \<longleftrightarrow> (let n = of_char c :: nat in
     97 \<le> n \<and> n \<le> 122 \<or> 48 \<le> n \<and> n \<le> 57 \<or> c = CHR ''.'' \<or> c = CHR ''_'' \<or> c = CHR ''-'')"

definition usernamePattern :: "string \<Rightarrow> bool" where
  "usernamePattern s \<longleftrightarrow> 1 \<le> length s \<and> length s \<le> 64 \<and> list_all username_char s"

record user =
  Username :: string
  DisplayName :: string
  Argon2id :: string
  IsAdmin :: bool
  TokenVersion :: int
  Created :: int
  Updated :: int

definition zero_user :: user where
  "zero_user = \<lparr>Username = [], DisplayName = [], Argon2id = [], IsAdmin = False,
    TokenVersion = 0, Created = 0, Updated = 0\<rparr>"

definition normalizeUsername :: "string \<Rightarrow> string" where
  "normalizeUsername username = ToLower (TrimSpace username)"

definition validateUsername :: "string \<Rightarrow> (store_err, string) result" where
  "validateUsername username =
    (let norm = normalizeUsername username
     in if norm = '''' then Inl UsernameEmpty
        else if \<not> usernamePattern norm then Inl (InvalidUsername norm)
        else Inr norm)"

text \<open>
  The prompt: whether the standard input is a terminal, and what the two reads deliver
  (\<open>None\<close> an error).
\<close>

definition promptPasswordTwice ::
  "bool \<Rightarrow> string option \<Rightarrow> string option \<Rightarrow> (string, string) result" where
  "promptPasswordTwice isTerminal fstRead sndRead =
    (if \<not> isTerminal then Inl ''stdin is not a terminal; cannot prompt for a password''
     else case fstRead of None \<Rightarrow> Inl ''reading password''
     | Some p1 \<Rightarrow> (case sndRead of None \<Rightarrow> Inl ''reading password confirmation''
     | Some p2 \<Rightarrow>
         if p1 \<noteq> p2 then Inl ''passwords do not match''
         else if length p1 = 0 then Inl ''password must not be empty''
         else Inr p1))"

section \<open>Facts\<close>

lemma username_char_lower: "username_char c \<Longrightarrow> lower_char c = c"
  by (auto simp: username_char_def lower_char_def Let_def)

lemma username_char_space: "username_char c \<Longrightarrow> \<not> is_space c"
  by (auto simp: username_char_def is_space_def Let_def)

lemma normalizeUsername_idem [simp]:
  "normalizeUsername (normalizeUsername s) = normalizeUsername s"
  by (simp add: normalizeUsername_def)

lemma normalizeUsername_Nil [simp]: "normalizeUsername [] = []"
  by (simp add: normalizeUsername_def ToLower_def)

lemma normalizeUsername_pattern: "usernamePattern s \<Longrightarrow> normalizeUsername s = s"
proof -
  assume "usernamePattern s"
  then have ok: "\<forall>c\<in>set s. username_char c" by (simp add: usernamePattern_def list_all_iff)
  then have "TrimSpace s = s"
    by (intro TrimSpace_no_space) (blast dest: username_char_space)
  moreover have "ToLower s = s"
    using ok by (simp add: ToLower_def username_char_lower map_idI)
  ultimately show ?thesis by (simp add: normalizeUsername_def)
qed

lemma validateUsername_Inr:
  "validateUsername s = Inr n \<longleftrightarrow> n = normalizeUsername s \<and> usernamePattern n"
  by (auto simp: validateUsername_def Let_def usernamePattern_def)

lemma validateUsername_normal: "usernamePattern n \<Longrightarrow> validateUsername n = Inr n"
  by (simp add: validateUsername_Inr normalizeUsername_pattern)

lemma validateUsername_norm: "validateUsername (normalizeUsername s) = validateUsername s"
  by (simp add: validateUsername_def)

lemma usernamePattern_ne: "usernamePattern n \<Longrightarrow> n \<noteq> []"
  by (auto simp: usernamePattern_def)

lemma scan_version_self: "scan_version (''v='' @ FormatInt argon2_Version) = Some argon2_Version"
  by code_simp

lemma scan_params_dec:
  assumes "m < 2 ^ 32" and "t < 2 ^ 32" and "p < 2 ^ 8"
  shows "scan_params (''m='' @ dec_nat m @ '',t='' @ dec_nat t @ '',p='' @ dec_nat p) =
    Some (word_of_nat m, word_of_nat t, word_of_nat p)"
proof -
  have "scan_uint 32 (dec_nat m @ '',t='' @ dec_nat t @ '',p='' @ dec_nat p) =
      Some (m, '',t='' @ dec_nat t @ '',p='' @ dec_nat p)"
    and "scan_uint 32 (dec_nat t @ '',p='' @ dec_nat p) = Some (t, '',p='' @ dec_nat p)"
    and "scan_uint 8 (dec_nat p) = Some (p, [])"
    using assms scan_uint_dec [of p 8 "[]"] by (auto intro!: scan_uint_dec simp: is_digit_def)
  then show ?thesis
    by (simp add: scan_params_def scan_lit_def HasPrefix_def)
qed

lemma no_dollar_digits: "CHR ''$'' \<notin> set (dec_nat n)"
  using dec_nat_digits [of n] by (auto simp: is_digit_def)

lemma HashPassword_parts:
  assumes "HashPassword idkey (Some salt) pw = Inr h"
  shows "split_on CHR ''$'' h =
    ['''', ''argon2id'', ''v='' @ FormatInt argon2_Version,
     ''m='' @ dec_nat (unat argon2idMemory) @ '',t='' @ dec_nat (unat argon2idTime)
       @ '',p='' @ dec_nat (unat argon2idParallelism),
     b64_encode RawStd salt,
     b64_encode RawStd
       (idkey pw salt argon2idTime argon2idMemory argon2idParallelism argon2idKeyLen)]"
proof -
  have sep: "split_on CHR ''$'' (w @ ''$'' @ s) = w # split_on CHR ''$'' s"
    if "CHR ''$'' \<notin> set w" for w s using split_on_sep [OF that] by simp
  let ?k = "idkey pw salt argon2idTime argon2idMemory argon2idParallelism argon2idKeyLen"
  let ?v = "''v='' @ FormatInt argon2_Version"
  let ?m = "''m='' @ dec_nat (unat argon2idMemory) @ '',t='' @ dec_nat (unat argon2idTime)
       @ '',p='' @ dec_nat (unat argon2idParallelism)"
  have nd: "CHR ''$'' \<notin> set ?v" "CHR ''$'' \<notin> set ?m"
    "CHR ''$'' \<notin> set (b64_encode RawStd salt)" "CHR ''$'' \<notin> set (b64_encode RawStd ?k)"
    using no_dollar_digits b64_no_dollar
    by (auto simp: argon2_Version_def FormatInt_def b64_alphabet_ok_def)
  have h: "h = [] @ ''$'' @ ''argon2id'' @ ''$'' @ ?v @ ''$'' @ ?m @ ''$'' @ b64_encode RawStd salt
      @ ''$'' @ b64_encode RawStd ?k"
    using assms by (simp add: HashPassword_def Let_def)
  have "split_on CHR ''$'' ([] @ ''$'' @ s) = [] # split_on CHR ''$'' s"
    and "split_on CHR ''$'' (''argon2id'' @ ''$'' @ s) = ''argon2id'' # split_on CHR ''$'' s" for s
    by simp_all
  then show ?thesis
    unfolding h
    by (simp only: sep [OF nd(1)] sep [OF nd(2)] sep [OF nd(3)] split_on_none [OF nd(4)])
qed

lemma VerifyPassword_parts:
  assumes "split_on CHR ''$'' stored = ['''', ''argon2id'', pv, pp, ps, ph]"
    and "scan_version pv = Some argon2_Version" and "scan_params pp = Some (m, t, p)"
    and "argon2idMemory \<le> m" and "argon2idTime \<le> t" and "argon2idParallelism \<le> p"
    and "b64_decode RawStd ps = Some salt" and "b64_decode RawStd ph = Some want"
  shows "VerifyPassword idkey stored pw \<longleftrightarrow>
    want \<noteq> [] \<and> idkey pw salt t m p (word_of_nat (length want)) = want"
  using assms by (auto simp: VerifyPassword_def Let_def dest: leD)

lemma VerifyPasswordD:
  assumes "VerifyPassword idkey stored pw"
  shows "\<exists>pv pp ps ph m t p salt want.
    split_on CHR ''$'' stored = ['''', ''argon2id'', pv, pp, ps, ph] \<and>
    scan_version pv = Some argon2_Version \<and> scan_params pp = Some (m, t, p) \<and>
    argon2idMemory \<le> m \<and> argon2idTime \<le> t \<and> argon2idParallelism \<le> p \<and>
    b64_decode RawStd ps = Some salt \<and> b64_decode RawStd ph = Some want \<and> want \<noteq> [] \<and>
    idkey pw salt t m p (word_of_nat (length want)) = want"
proof -
  let ?parts = "split_on CHR ''$'' stored"
  from assms have "length ?parts = 6"
    by (auto simp: VerifyPassword_def Let_def split: if_splits)
  then obtain a b pv pp ps ph where parts: "?parts = [a, b, pv, pp, ps, ph]"
    by (auto simp: numeral_eq_Suc length_Suc_conv)
  show ?thesis
    using assms parts
    by (auto simp: VerifyPassword_def Let_def not_less split: if_splits option.splits prod.splits)
qed

lemma VerifyPassword_HashPassword:
  assumes "HashPassword idkey (Some salt) pw = Inr h"
    and "length (idkey pw salt argon2idTime argon2idMemory argon2idParallelism argon2idKeyLen) = 32"
  shows "VerifyPassword idkey h pw' \<longleftrightarrow>
    idkey pw' salt argon2idTime argon2idMemory argon2idParallelism argon2idKeyLen =
    idkey pw salt argon2idTime argon2idMemory argon2idParallelism argon2idKeyLen"
proof -
  let ?k = "idkey pw salt argon2idTime argon2idMemory argon2idParallelism argon2idKeyLen"
  have params: "scan_params (''m='' @ dec_nat (unat argon2idMemory) @ '',t='' @
      dec_nat (unat argon2idTime) @ '',p='' @ dec_nat (unat argon2idParallelism)) =
      Some (argon2idMemory, argon2idTime, argon2idParallelism)"
    by (subst scan_params_dec) (simp_all add: argon2_params)
  have "VerifyPassword idkey h pw' \<longleftrightarrow> ?k \<noteq> [] \<and>
      idkey pw' salt argon2idTime argon2idMemory argon2idParallelism
        (word_of_nat (length ?k)) = ?k"
    by (rule VerifyPassword_parts [OF HashPassword_parts [OF assms(1)] scan_version_self params])
       (simp_all add: rawstd.dec_enc)
  moreover have "word_of_nat (length ?k) = argon2idKeyLen"
    using assms(2) by (simp add: argon2idKeyLen_def)
  ultimately show ?thesis using assms(2) by auto
qed

section \<open>Properties\<close>

text \<open>C23: the record \<open>HashPassword\<close> writes is read back by \<open>VerifyPassword\<close>: it is accepted
  exactly for the passwords whose key, under the stored salt and the parameters of
  \<open>HashPassword\<close>, is the key of the password it was made from (so the password itself is accepted).
  The derivation must deliver the 32 bytes it is asked for.\<close>

theorem password_roundtrip:
  assumes "HashPassword idkey (Some salt) pw = Inr h"
    and "length (idkey pw salt argon2idTime argon2idMemory argon2idParallelism argon2idKeyLen) = 32"
  shows "VerifyPassword idkey h pw' \<longleftrightarrow>
    idkey pw' salt argon2idTime argon2idMemory argon2idParallelism argon2idKeyLen =
    idkey pw salt argon2idTime argon2idMemory argon2idParallelism argon2idKeyLen"
  using assms by (rule VerifyPassword_HashPassword)

definition toy_idkey :: argon2_idkey where
  "toy_idkey pw salt t m p n = replicate (unat n) (if pw = ''right'' then 1 else 2)"

theorem password_roundtrip_witness:
  "\<exists>h. HashPassword toy_idkey (Some [1, 2, 3]) ''right'' = Inr h \<and>
     VerifyPassword toy_idkey h ''right'' \<and> \<not> VerifyPassword toy_idkey h ''wrong''"
proof -
  obtain h where h: "HashPassword toy_idkey (Some [1, 2, 3]) ''right'' = Inr h"
    by (simp add: HashPassword_def Let_def)
  have "replicate 32 (2 :: byte) \<noteq> replicate 32 1" by simp
  then show ?thesis
    using h password_roundtrip [OF h, of "''right''"] password_roundtrip [OF h, of "''wrong''"]
    by (auto simp: toy_idkey_def argon2idKeyLen_def)
qed

text \<open>A record whose work factors are below the floor is refused: what \<open>VerifyPassword\<close>
  accepts is a record with at least 64 MiB of memory, three passes and two lanes, whose non-empty
  key the derivation reproduces under these very parameters.\<close>

theorem password_work_floor:
  assumes "VerifyPassword idkey stored pw"
  shows "\<exists>pv pp ps ph m t p salt want.
    split_on CHR ''$'' stored = ['''', ''argon2id'', pv, pp, ps, ph] \<and>
    scan_params pp = Some (m, t, p) \<and>
    64 * 1024 \<le> unat m \<and> 3 \<le> unat t \<and> 2 \<le> unat p \<and>
    b64_decode RawStd ps = Some salt \<and> b64_decode RawStd ph = Some want \<and> want \<noteq> [] \<and>
    idkey pw salt t m p (word_of_nat (length want)) = want"
proof -
  obtain pv pp ps ph m t p salt want where
    v: "split_on CHR ''$'' stored = ['''', ''argon2id'', pv, pp, ps, ph]"
      "scan_params pp = Some (m, t, p)"
      "b64_decode RawStd ps = Some salt" "b64_decode RawStd ph = Some want" "want \<noteq> []"
      "idkey pw salt t m p (word_of_nat (length want)) = want"
    and floor: "argon2idMemory \<le> m" "argon2idTime \<le> t" "argon2idParallelism \<le> p"
    using VerifyPasswordD [OF assms] by blast
  from floor have "64 * 1024 \<le> unat m" "3 \<le> unat t" "2 \<le> unat p"
    by (simp_all add: word_le_nat_alt argon2_params)
  with v show ?thesis by blast
qed

theorem password_work_floor_witness:
  "\<exists>h pv pp ps ph m t p. HashPassword toy_idkey (Some [7]) ''right'' = Inr h \<and>
     split_on CHR ''$'' h = ['''', ''argon2id'', pv, pp, ps, ph] \<and>
     scan_params pp = Some (m, t, p) \<and> 64 * 1024 \<le> unat (m :: u32)"
proof -
  obtain h where h: "HashPassword toy_idkey (Some [7]) ''right'' = Inr h"
    by (simp add: HashPassword_def Let_def)
  have "VerifyPassword toy_idkey h ''right''"
    using VerifyPassword_HashPassword [OF h] by (simp add: argon2idKeyLen_def toy_idkey_def)
  from password_work_floor [OF this] h show ?thesis by blast
qed

text \<open>The dummy record of the unknown-user login path makes \<open>VerifyPassword\<close> derive a key
  with the parameters of \<open>HashPassword\<close>, a 16-byte salt and a 32-byte key, so that path does
  the work of a real login.\<close>

theorem dummy_hash_full_derivation:
  "\<exists>salt want. length salt = argon2idSaltLen \<and> length want = unat argon2idKeyLen \<and>
    (\<forall>idkey pw. VerifyPassword idkey dummyArgon2Hash pw \<longleftrightarrow>
      idkey pw salt argon2idTime argon2idMemory argon2idParallelism argon2idKeyLen = want)"
proof -
  let ?ps = "''rNqxjxmzPcfjO+Ck26y1aw''" and ?ph = "''4B+35/qNphh9HESl0lPkUTO77qiUc5yd7JSW+ujtiwg''"
  have parts: "split_on CHR ''$'' dummyArgon2Hash =
      ['''', ''argon2id'', ''v=19'', ''m=65536,t=3,p=2'', ?ps, ?ph]"
    by code_simp
  have v: "scan_version ''v=19'' = Some argon2_Version" by code_simp
  have "''m='' @ dec_nat 65536 @ '',t='' @ dec_nat 3 @ '',p='' @ dec_nat 2 = ''m=65536,t=3,p=2''"
    by (simp add: dec_nat_eval)
  then have m: "scan_params ''m=65536,t=3,p=2'' =
      Some (argon2idMemory, argon2idTime, argon2idParallelism)"
    using scan_params_dec [of 65536 3 2] by (simp add: argon2_params)
  have "map_option length (b64_decode RawStd ?ps) = Some argon2idSaltLen"
    by (simp add: b64_decode_def b64_val_def RawStd_def Let_def argon2idSaltLen_def)
  then obtain salt where s: "b64_decode RawStd ?ps = Some salt" "length salt = argon2idSaltLen"
    by (auto simp: map_option_eq_Some)
  have "map_option length (b64_decode RawStd ?ph) = Some (unat argon2idKeyLen)"
    by (simp add: b64_decode_def b64_val_def RawStd_def Let_def argon2idKeyLen_def)
  then obtain want where w: "b64_decode RawStd ?ph = Some want" "length want = unat argon2idKeyLen"
    by (auto simp: map_option_eq_Some)
  have "length want = 32" using w(2) by (simp add: argon2idKeyLen_def)
  then have "VerifyPassword idkey dummyArgon2Hash pw \<longleftrightarrow>
      idkey pw salt argon2idTime argon2idMemory argon2idParallelism argon2idKeyLen = want" for idkey pw
    using VerifyPassword_parts [OF parts v m _ _ _ s(1) w(1), of idkey pw]
    by (auto simp: argon2idKeyLen_def)
  with s(2) w(2) show ?thesis by blast
qed

end
