(* ===== verification/Store.thy ===== *)
theory Store
  imports Users
begin

text \<open>
  \<open>src/arc-lore-auth/store.go\<close> over the schema of \<open>migrations/*.sql\<close>: the tables with their
  primary keys, foreign keys (with cascading deletes) and CHECK constraint, and every method of
  \<open>Store\<close>. The single connection serializes the methods, so each is one computation on the
  database. A schedule of driver faults is part of the state: each SQL call (a statement, the scan
  of a row, the count of affected rows, begin and commit) consumes one entry, and fails with the
  entry's text when there is one. So every error branch of the code is a branch of the model, and
  a theorem without a hypothesis on \<open>faults\<close> holds however the driver fails. The clock is an
  argument: \<open>now\<close> is \<open>time.Now().Unix()\<close>.
\<close>

section \<open>Tables and SQL\<close>

record resource =
  ResourceID :: string
  ResName :: string
  ResCreated :: int

record grant_row =
  GUser :: string
  GResource :: string
  GPermission :: string

record db =
  users :: "user list"
  resources :: "resource list"
  grants :: "grant_row list"
  config :: "(string \<times> string) list"
  faults :: "string option list"

type_synonym 'a store_op = "(db, (store_err, 'a) result) state"

text \<open>A SQL statement: an error text, or the new tables with what the statement returns.\<close>

type_synonym 'r stmt = "db \<Rightarrow> (string, db \<times> 'r) result"

definition fault_of :: "db \<Rightarrow> string option" where
  "fault_of d = (case faults d of [] \<Rightarrow> None | f # _ \<Rightarrow> f)"

definition popped :: "db \<Rightarrow> db" where
  "popped d = d\<lparr>faults := tl (faults d)\<rparr>"

definition sql_call :: "(db, string option) state" where
  "sql_call = State (\<lambda>d. (fault_of d, popped d))"

definition run_sql :: "'r stmt \<Rightarrow> (db, (string, 'r) result) state" where
  "run_sql st = do {
     f \<leftarrow> sql_call;
     case f of
       Some m \<Rightarrow> State_Monad.return (Inl m)
     | None \<Rightarrow> do {
         d \<leftarrow> State_Monad.get;
         case st d of
           Inl m \<Rightarrow> State_Monad.return (Inl m)
         | Inr (d', r) \<Rightarrow> do { State_Monad.set d'; State_Monad.return (Inr r) } } }"

definition query_sql :: "(db \<Rightarrow> 'r) \<Rightarrow> (db, (string, 'r) result) state" where
  "query_sql q = run_sql (\<lambda>d. Inr (d, q d))"

definition rows_affected :: "nat \<Rightarrow> (db, (string, nat) result) state" where
  "rows_affected n = do {
     f \<leftarrow> sql_call;
     State_Monad.return (case f of Some m \<Rightarrow> Inl m | None \<Rightarrow> Inr n) }"

text \<open>\<open>for rows.Next() \<dots> rows.Scan(\<dots>) \<dots> rows.Err()\<close>: each row may fail to scan, and
  the iteration may report an error at its end.\<close>

fun scan_rows :: "string \<Rightarrow> string \<Rightarrow> 'r list \<Rightarrow> 'r list store_op" where
  "scan_rows sctx ectx [] = do {
     f \<leftarrow> sql_call;
     State_Monad.return (case f of Some m \<Rightarrow> Inl (DbError ectx m) | None \<Rightarrow> Inr []) }"
| "scan_rows sctx ectx (r # rs) = do {
     f \<leftarrow> sql_call;
     case f of
       Some m \<Rightarrow> State_Monad.return (Inl (DbError sctx m))
     | None \<Rightarrow> do {
         out \<leftarrow> scan_rows sctx ectx rs;
         State_Monad.return (case out of Inl e \<Rightarrow> Inl e | Inr xs \<Rightarrow> Inr (r # xs)) } }"

section \<open>The statements\<close>

definition insert_user :: "user \<Rightarrow> unit stmt" where
  "insert_user u d =
    (if Username u \<in> Username ` set (users d)
     then Inl ''constraint failed: UNIQUE constraint failed: users.username (1555)''
     else Inr (d\<lparr>users := users d @ [u]\<rparr>, ()))"

definition update_user :: "string \<Rightarrow> (user \<Rightarrow> user) \<Rightarrow> nat stmt" where
  "update_user n f d =
    Inr (d\<lparr>users := map (\<lambda>u. if Username u = n then f u else u) (users d)\<rparr>,
      length (filter (\<lambda>u. Username u = n) (users d)))"

definition delete_user :: "string \<Rightarrow> nat stmt" where
  "delete_user n d =
    Inr (d\<lparr>users := filter (\<lambda>u. Username u \<noteq> n) (users d),
           grants := filter (\<lambda>g. GUser g \<noteq> n) (grants d)\<rparr>,
      length (filter (\<lambda>u. Username u = n) (users d)))"

definition upsert_resource :: "string \<Rightarrow> string \<Rightarrow> int \<Rightarrow> int stmt" where
  "upsert_resource i n now d =
    (case List.find (\<lambda>r. ResourceID r = i) (resources d) of
       None \<Rightarrow> Inr (d\<lparr>resources := resources d @
                 [\<lparr>ResourceID = i, ResName = n, ResCreated = now\<rparr>]\<rparr>, now)
     | Some r \<Rightarrow> Inr (d\<lparr>resources :=
                 map (\<lambda>r. if ResourceID r = i then r\<lparr>ResName := n\<rparr> else r) (resources d)\<rparr>,
                 ResCreated r))"

definition delete_resource :: "string \<Rightarrow> unit stmt" where
  "delete_resource i d =
    Inr (d\<lparr>resources := filter (\<lambda>r. ResourceID r \<noteq> i) (resources d),
           grants := filter (\<lambda>g. GResource g \<noteq> i) (grants d)\<rparr>, ())"

definition grant_permissions :: "string list" where
  "grant_permissions = [''read'', ''write'', ''owner'', ''admin'', ''obliterate'', ''migrate'']"

text \<open>\<open>INSERT OR IGNORE\<close>: a row that breaks the primary key or the CHECK is skipped; a broken
  foreign key is an error all the same.\<close>

definition insert_grant :: "grant_row \<Rightarrow> unit stmt" where
  "insert_grant g d =
    (if g \<in> set (grants d) \<or> GPermission g \<notin> set grant_permissions then Inr (d, ())
     else if GUser g \<notin> Username ` set (users d) \<or> GResource g \<notin> ResourceID ` set (resources d)
     then Inl ''constraint failed: FOREIGN KEY constraint failed (787)''
     else Inr (d\<lparr>grants := grants d @ [g]\<rparr>, ()))"

definition delete_grant :: "grant_row \<Rightarrow> unit stmt" where
  "delete_grant g d = Inr (d\<lparr>grants := filter (\<lambda>h. h \<noteq> g) (grants d)\<rparr>, ())"

definition replace_config :: "string \<Rightarrow> string \<Rightarrow> unit stmt" where
  "replace_config k v d =
    Inr (d\<lparr>config := filter (\<lambda>p. fst p \<noteq> k) (config d) @ [(k, v)]\<rparr>, ())"

definition select_user :: "string \<Rightarrow> db \<Rightarrow> user option" where
  "select_user n d = List.find (\<lambda>u. Username u = n) (users d)"

definition select_config :: "string \<Rightarrow> db \<Rightarrow> string option" where
  "select_config k d = map_option snd (List.find (\<lambda>p. fst p = k) (config d))"

text \<open>The key of \<open>ORDER BY resource_id, permission\<close>.\<close>

datatype grant_key = GrantKey (gk_resource: string) (gk_permission: string)

instantiation grant_key :: linorder
begin

definition less_eq_grant_key :: "grant_key \<Rightarrow> grant_key \<Rightarrow> bool" where
  "less_eq_grant_key a b \<longleftrightarrow> gk_resource a < gk_resource b \<or>
    gk_resource a = gk_resource b \<and> gk_permission a \<le> gk_permission b"

definition less_grant_key :: "grant_key \<Rightarrow> grant_key \<Rightarrow> bool" where
  "less_grant_key a b \<longleftrightarrow> gk_resource a < gk_resource b \<or>
    gk_resource a = gk_resource b \<and> gk_permission a < gk_permission b"

instance
  by standard (auto simp: less_eq_grant_key_def less_grant_key_def intro: grant_key.expand)

end

definition select_grants :: "string \<Rightarrow> db \<Rightarrow> grant_row list" where
  "select_grants n d = sort_key (\<lambda>g. GrantKey (GResource g) (GPermission g))
    (filter (\<lambda>g. GUser g = n) (grants d))"

section \<open>The methods of the store\<close>

definition isUniqueViolation :: "string \<Rightarrow> bool" where
  "isUniqueViolation msg \<longleftrightarrow> Contains msg ''UNIQUE constraint failed'' \<or>
    Contains msg ''PRIMARY KEY constraint failed''"

text \<open>Insertion of a user with the error handling that \<open>AddUser\<close> and \<open>ImportLegacyUser\<close>
  share; \<open>ctx\<close> is the context of their messages.\<close>

definition exec_insert_user :: "string \<Rightarrow> user \<Rightarrow> unit store_op" where
  "exec_insert_user ctx u = do {
     r \<leftarrow> run_sql (insert_user u);
     State_Monad.return (case r of
         Inl m \<Rightarrow> if isUniqueViolation m then Inl (ErrUserExists (Username u))
                  else Inl (DbError (ctx @ Username u) m)
       | Inr _ \<Rightarrow> Inr ()) }"

definition AddUser :: "int \<Rightarrow> string \<Rightarrow> string \<Rightarrow> string \<Rightarrow> bool \<Rightarrow> unit store_op" where
  "AddUser now username displayName pwHash isAdmin = (case validateUsername username of
      Inl e \<Rightarrow> State_Monad.return (Inl e)
    | Inr norm \<Rightarrow> exec_insert_user ''inserting user ''
        \<lparr>Username = norm,
         DisplayName = (if TrimSpace displayName = '''' then norm else displayName),
         Argon2id = pwHash, IsAdmin = isAdmin, TokenVersion = 0, Created = now, Updated = now\<rparr>)"

definition ImportLegacyUser ::
  "string \<Rightarrow> string \<Rightarrow> string \<Rightarrow> int \<Rightarrow> int \<Rightarrow> bool \<Rightarrow> unit store_op" where
  "ImportLegacyUser username displayName argon2id created updated isAdmin =
    (case validateUsername username of
      Inl e \<Rightarrow> State_Monad.return (Inl e)
    | Inr norm \<Rightarrow> exec_insert_user ''importing user ''
        \<lparr>Username = norm,
         DisplayName = (if TrimSpace displayName = '''' then norm else displayName),
         Argon2id = argon2id, IsAdmin = isAdmin, TokenVersion = 0,
         Created = created, Updated = updated\<rparr>)"

definition GetUser :: "string \<Rightarrow> user store_op" where
  "GetUser username =
    (let norm = normalizeUsername username
     in if norm = '''' then State_Monad.return (Inl (ErrUserNotFound None))
        else do {
          r \<leftarrow> query_sql (select_user norm);
          State_Monad.return (case r of
              Inl m \<Rightarrow> Inl (DbError (''querying user '' @ norm) m)
            | Inr None \<Rightarrow> Inl (ErrUserNotFound (Some norm))
            | Inr (Some u) \<Rightarrow> Inr u) })"

text \<open>The tail of the methods that change or delete one row: the count of affected rows.\<close>

definition need_row :: "string \<Rightarrow> nat \<Rightarrow> unit store_op" where
  "need_row norm n = do {
     r \<leftarrow> rows_affected n;
     State_Monad.return (case r of
         Inl m \<Rightarrow> Inl (DbError ''reading rows affected'' m)
       | Inr k \<Rightarrow> if k = 0 then Inl (ErrUserNotFound (Some norm)) else Inr ()) }"

definition SetPassword :: "int \<Rightarrow> string \<Rightarrow> string \<Rightarrow> unit store_op" where
  "SetPassword now username pwHash = (case validateUsername username of
      Inl e \<Rightarrow> State_Monad.return (Inl e)
    | Inr norm \<Rightarrow> do {
        r \<leftarrow> run_sql (update_user norm
          (\<lambda>u. u\<lparr>Argon2id := pwHash, Updated := now, TokenVersion := TokenVersion u + 1\<rparr>));
        case r of
          Inl m \<Rightarrow> State_Monad.return (Inl (DbError (''updating password for '' @ norm) m))
        | Inr n \<Rightarrow> need_row norm n })"

definition DeleteUser :: "string \<Rightarrow> unit store_op" where
  "DeleteUser username = (case validateUsername username of
      Inl e \<Rightarrow> State_Monad.return (Inl e)
    | Inr norm \<Rightarrow> do {
        r \<leftarrow> run_sql (delete_user norm);
        case r of
          Inl m \<Rightarrow> State_Monad.return (Inl (DbError (''deleting user '' @ norm) m))
        | Inr n \<Rightarrow> need_row norm n })"

definition ListUsers :: "user list store_op" where
  "ListUsers = do {
     r \<leftarrow> query_sql (\<lambda>d. sort_key Username (users d));
     case r of
       Inl m \<Rightarrow> State_Monad.return (Inl (DbError ''listing users'' m))
     | Inr rows \<Rightarrow> scan_rows ''scanning user row'' ''iterating user rows''
         (map (\<lambda>u. u\<lparr>Argon2id := ''''\<rparr>) rows) }"

definition HasUsers :: "bool store_op" where
  "HasUsers = do {
     r \<leftarrow> query_sql (\<lambda>d. length (users d));
     State_Monad.return (case r of
         Inl m \<Rightarrow> Inl (DbError ''counting users'' m)
       | Inr n \<Rightarrow> Inr (n > 0)) }"

definition VerifyHash :: "string \<Rightarrow> string store_op" where
  "VerifyHash username =
    (let norm = normalizeUsername username
     in if norm = '''' then State_Monad.return (Inl (ErrUserNotFound None))
        else do {
          r \<leftarrow> query_sql (\<lambda>d. map_option Argon2id (select_user norm d));
          State_Monad.return (case r of
              Inl m \<Rightarrow> Inl (DbError (''reading hash for '' @ norm) m)
            | Inr None \<Rightarrow> Inl (ErrUserNotFound (Some norm))
            | Inr (Some h) \<Rightarrow> Inr h) })"

text \<open>A transaction that does not commit is rolled back: the tables are those it began with.\<close>

definition rollback :: "db \<Rightarrow> store_err + bool \<Rightarrow> bool store_op" where
  "rollback d0 r = do {
     State_Monad.update (\<lambda>d. d0\<lparr>faults := faults d\<rparr>);
     State_Monad.return r }"

definition CreateFirstAdmin :: "int \<Rightarrow> string \<Rightarrow> string \<Rightarrow> string \<Rightarrow> bool store_op" where
  "CreateFirstAdmin now username displayName pwHash = (case validateUsername username of
      Inl e \<Rightarrow> State_Monad.return (Inl e)
    | Inr norm \<Rightarrow>
      let displayName = (if TrimSpace displayName = '''' then norm else displayName)
      in do {
        d0 \<leftarrow> State_Monad.get;
        b \<leftarrow> sql_call;
        case b of Some m \<Rightarrow> State_Monad.return (Inl (DbError ''beginning first-admin tx'' m))
        | None \<Rightarrow> do {
        c \<leftarrow> query_sql (\<lambda>d. length (users d));
        case c of Inl m \<Rightarrow> rollback d0 (Inl (DbError ''counting users in first-admin tx'' m))
        | Inr n \<Rightarrow>
        if n \<noteq> 0 then rollback d0 (Inr False)
        else do {
        i \<leftarrow> run_sql (insert_user
          \<lparr>Username = norm, DisplayName = displayName, Argon2id = pwHash, IsAdmin = True,
           TokenVersion = 0, Created = now, Updated = now\<rparr>);
        case i of Inl m \<Rightarrow> rollback d0 (Inl (DbError (''inserting first admin '' @ norm) m))
        | Inr _ \<Rightarrow> do {
        r \<leftarrow> run_sql (replace_config ''registration_open'' ''false'');
        case r of Inl m \<Rightarrow> rollback d0 (Inl (DbError ''closing registration'' m))
        | Inr _ \<Rightarrow> do {
        cm \<leftarrow> sql_call;
        case cm of Some m \<Rightarrow> rollback d0 (Inl (DbError ''committing first-admin tx'' m))
        | None \<Rightarrow> State_Monad.return (Inr True) } } } } })"

definition UpsertResource :: "int \<Rightarrow> string \<Rightarrow> string \<Rightarrow> bool store_op" where
  "UpsertResource now resourceID name =
    (let i = TrimSpace resourceID
     in if i = '''' then State_Monad.return (Inl ResourceIDEmpty)
        else do {
          r \<leftarrow> run_sql (upsert_resource i name now);
          State_Monad.return (case r of
              Inl m \<Rightarrow> Inl (DbError (''upserting resource '' @ i) m)
            | Inr storedCreated \<Rightarrow> Inr (storedCreated \<noteq> now)) })"

definition DeleteResource :: "string \<Rightarrow> unit store_op" where
  "DeleteResource resourceID =
    (let i = TrimSpace resourceID
     in if i = '''' then State_Monad.return (Inl ResourceIDEmpty)
        else do {
          r \<leftarrow> run_sql (delete_resource i);
          State_Monad.return (case r of
              Inl m \<Rightarrow> Inl (DbError (''deleting resource '' @ i) m)
            | Inr _ \<Rightarrow> Inr ()) })"

definition AddGrant :: "string \<Rightarrow> string \<Rightarrow> string \<Rightarrow> unit store_op" where
  "AddGrant username resourceID permission =
    (let norm = normalizeUsername username; i = TrimSpace resourceID; perm = TrimSpace permission
     in if norm = '''' then State_Monad.return (Inl (ErrUserNotFound None))
        else if i = '''' then State_Monad.return (Inl ResourceIDEmpty)
        else if perm = '''' then State_Monad.return (Inl PermissionEmpty)
        else do {
          r \<leftarrow> run_sql (insert_grant \<lparr>GUser = norm, GResource = i, GPermission = perm\<rparr>);
          State_Monad.return (case r of
              Inl m \<Rightarrow> Inl (DbError (''granting '' @ perm @ '' on '' @ i @ '' to '' @ norm) m)
            | Inr _ \<Rightarrow> Inr ()) })"

fun grant_all :: "string \<Rightarrow> string \<Rightarrow> string list \<Rightarrow> unit store_op" where
  "grant_all username resourceID [] = State_Monad.return (Inr ())"
| "grant_all username resourceID (perm # perms) = do {
     r \<leftarrow> AddGrant username resourceID perm;
     case r of Inl e \<Rightarrow> State_Monad.return (Inl e)
     | Inr _ \<Rightarrow> grant_all username resourceID perms }"

definition GrantOwner :: "string \<Rightarrow> string \<Rightarrow> unit store_op" where
  "GrantOwner username resourceID =
    grant_all username resourceID [''owner'', ''read'', ''write'']"

definition ListResources :: "resource list store_op" where
  "ListResources = do {
     r \<leftarrow> query_sql (\<lambda>d. sort_key ResourceID (resources d));
     case r of
       Inl m \<Rightarrow> State_Monad.return (Inl (DbError ''listing resources'' m))
     | Inr rows \<Rightarrow> scan_rows ''scanning resource row'' ''iterating resource rows'' rows }"

text \<open>\<open>out[resourceID] = append(out[resourceID], permission)\<close> on the map of the result, kept
  as an association list with distinct keys.\<close>

fun append_grant :: "string \<Rightarrow> string \<Rightarrow> (string \<times> string list) list \<Rightarrow> (string \<times> string list) list" where
  "append_grant i p [] = [(i, [p])]"
| "append_grant i p ((j, ps) # out) =
    (if i = j then (j, ps @ [p]) # out else (j, ps) # append_grant i p out)"

definition GrantsFor :: "string \<Rightarrow> (string \<times> string list) list store_op" where
  "GrantsFor username =
    (let norm = normalizeUsername username
     in if norm = '''' then State_Monad.return (Inr [])
        else do {
          r \<leftarrow> query_sql (select_grants norm);
          case r of
            Inl m \<Rightarrow> State_Monad.return (Inl (DbError (''listing grants for '' @ norm) m))
          | Inr rows \<Rightarrow> do {
              s \<leftarrow> scan_rows ''scanning grant row'' ''iterating grant rows'' rows;
              State_Monad.return (case s of
                  Inl e \<Rightarrow> Inl e
                | Inr gs \<Rightarrow>
                    Inr (fold (\<lambda>g. append_grant (GResource g) (GPermission g)) gs [])) } })"

definition FindByDisplayName :: "string \<Rightarrow> user option store_op" where
  "FindByDisplayName name =
    (let needle = ToLower (TrimSpace name)
     in if needle = '''' then State_Monad.return (Inr None)
        else do {
          r \<leftarrow> ListUsers;
          State_Monad.return (case r of
              Inl e \<Rightarrow> Inl e
            | Inr us \<Rightarrow> Inr (List.find
                (\<lambda>u. ToLower (DisplayName u) = needle \<or> ToLower (Username u) = needle) us)) })"

definition RemoveGrant :: "string \<Rightarrow> string \<Rightarrow> string \<Rightarrow> unit store_op" where
  "RemoveGrant username resourceID permission =
    (let norm = normalizeUsername username; i = TrimSpace resourceID; perm = TrimSpace permission
     in do {
       r \<leftarrow> run_sql (delete_grant \<lparr>GUser = norm, GResource = i, GPermission = perm\<rparr>);
       State_Monad.return (case r of
           Inl m \<Rightarrow> Inl (DbError (''revoking '' @ perm @ '' on '' @ i @ '' from '' @ norm) m)
         | Inr _ \<Rightarrow> Inr ()) })"

definition SetAdmin :: "int \<Rightarrow> string \<Rightarrow> bool \<Rightarrow> unit store_op" where
  "SetAdmin now username isAdmin = (case validateUsername username of
      Inl e \<Rightarrow> State_Monad.return (Inl e)
    | Inr norm \<Rightarrow> do {
        r \<leftarrow> run_sql (update_user norm
          (\<lambda>u. u\<lparr>IsAdmin := isAdmin, Updated := now, TokenVersion := TokenVersion u + 1\<rparr>));
        case r of
          Inl m \<Rightarrow> State_Monad.return (Inl (DbError (''updating admin flag for '' @ norm) m))
        | Inr n \<Rightarrow> need_row norm n })"

definition GetConfig :: "string \<Rightarrow> string option store_op" where
  "GetConfig key = do {
     r \<leftarrow> query_sql (select_config key);
     State_Monad.return (case r of
         Inl m \<Rightarrow> Inl (DbError (''reading config '' @ key) m)
       | Inr v \<Rightarrow> Inr v) }"

definition RegistrationOpen :: "bool store_op" where
  "RegistrationOpen = do {
     r \<leftarrow> GetConfig ''registration_open'';
     State_Monad.return (case r of
         Inl e \<Rightarrow> Inl e
       | Inr None \<Rightarrow> Inr False
       | Inr (Some v) \<Rightarrow> Inr (v = ''true'')) }"

definition CountAdmins :: "nat store_op" where
  "CountAdmins = do {
     r \<leftarrow> query_sql (\<lambda>d. length (filter IsAdmin (users d)));
     State_Monad.return (case r of
         Inl m \<Rightarrow> Inl (DbError ''counting admins'' m)
       | Inr n \<Rightarrow> Inr n) }"

definition SetConfig :: "string \<Rightarrow> string \<Rightarrow> unit store_op" where
  "SetConfig key val = do {
     r \<leftarrow> run_sql (replace_config key val);
     State_Monad.return (case r of
         Inl m \<Rightarrow> Inl (DbError (''writing config '' @ key) m)
       | Inr _ \<Rightarrow> Inr ()) }"

definition SetRegistrationOpen :: "bool \<Rightarrow> unit store_op" where
  "SetRegistrationOpen opn =
    (let val = (if opn then ''true'' else ''false'')
     in SetConfig ''registration_open'' val)"

end
