(* ===== verification/Store_Laws.thy ===== *)
theory Store_Laws
  imports Store
begin

text \<open>
  What the store promises. First the evaluation of its building blocks under any schedule of
  driver faults; then three interfaces, \<open>read_inv\<close> for a property of the tables that no query
  can change, \<open>grow_inv\<close> for one kept by the statements that take no administrator away and
  \<open>table_inv\<close> for one that every statement keeps, from which every method of the store keeps it;
  and their interpretations, on the well-formedness of the tables and on the presence of an
  administrator.
\<close>

section \<open>Evaluation\<close>

lemma run_sql_call [simp]: "run_state sql_call d = (fault_of d, popped d)"
  by (simp add: sql_call_def)

lemma run_run_sql [simp]:
  "run_state (run_sql st) d = (case fault_of d of
      Some m \<Rightarrow> (Inl m, popped d)
    | None \<Rightarrow> (case st (popped d) of Inl m \<Rightarrow> (Inl m, popped d) | Inr (d', r) \<Rightarrow> (Inr r, d')))"
  by (simp add: run_sql_def split: option.split sum.split)

lemma run_query_sql [simp]:
  "run_state (query_sql q) d = (case fault_of d of
      Some m \<Rightarrow> (Inl m, popped d)
    | None \<Rightarrow> (Inr (q (popped d)), popped d))"
  by (simp add: query_sql_def split: option.split)

lemma run_rows_affected [simp]:
  "run_state (rows_affected n) d =
    (case fault_of d of Some m \<Rightarrow> Inl m | None \<Rightarrow> Inr n, popped d)"
  by (simp add: rows_affected_def)

lemma popped_tables [simp]:
  "users (popped d) = users d" "resources (popped d) = resources d"
  "grants (popped d) = grants d" "config (popped d) = config d"
  by (simp_all add: popped_def)

text \<open>A database whose driver does not fail any more.\<close>

definition calm :: "db \<Rightarrow> bool" where
  "calm d \<longleftrightarrow> faults d = []"

lemma calm_simps [simp]: "calm d \<Longrightarrow> fault_of d = None" "calm d \<Longrightarrow> popped d = d"
  by (simp_all add: calm_def fault_of_def popped_def)

lemma calm_update [simp]:
  "calm (d\<lparr>users := us\<rparr>) = calm d" "calm (d\<lparr>resources := rs\<rparr>) = calm d"
  "calm (d\<lparr>grants := gs\<rparr>) = calm d" "calm (d\<lparr>config := cs\<rparr>) = calm d"
  by (simp_all add: calm_def)

lemma run_scan_rows_calm [simp]: "calm d \<Longrightarrow> run_state (scan_rows a b rs) d = (Inr rs, d)"
  by (induction rs) simp_all

lemma run_scan_rows:
  "\<exists>fs. snd (run_state (scan_rows a b rs) d) = d\<lparr>faults := fs\<rparr> \<and>
    (fst (run_state (scan_rows a b rs) d) = Inr rs \<or>
     (\<exists>c m. fst (run_state (scan_rows a b rs) d) = Inl (DbError c m)))"
proof (induction rs arbitrary: d)
  case Nil
  show ?case by (auto simp: popped_def split: option.split)
next
  case (Cons r rs)
  obtain fs where ih:
    "snd (run_state (scan_rows a b rs) (popped d)) = popped d\<lparr>faults := fs\<rparr>"
    "fst (run_state (scan_rows a b rs) (popped d)) = Inr rs \<or>
     (\<exists>c m. fst (run_state (scan_rows a b rs) (popped d)) = Inl (DbError c m))"
    using Cons.IH by blast
  show ?case
  proof (cases "fault_of d")
    case (Some m)
    then show ?thesis by (auto simp: popped_def intro: exI [of _ "tl (faults d)"])
  next
    case None
    with ih show ?thesis by (auto simp: popped_def intro: exI [of _ fs])
  qed
qed

section \<open>Interfaces: properties of the tables\<close>

definition stmt_keeps :: "(db \<Rightarrow> bool) \<Rightarrow> 'r stmt \<Rightarrow> bool" where
  "stmt_keeps P st \<longleftrightarrow> (\<forall>d d' r. P d \<longrightarrow> st d = Inr (d', r) \<longrightarrow> P d')"

lemma stmt_keepsI: "(\<And>d d' r. P d \<Longrightarrow> st d = Inr (d', r) \<Longrightarrow> P d') \<Longrightarrow> stmt_keeps P st"
  by (auto simp: stmt_keeps_def)

lemma stmt_keepsD: "stmt_keeps P st \<Longrightarrow> P d \<Longrightarrow> st d = Inr (d', r) \<Longrightarrow> P d'"
  by (auto simp: stmt_keeps_def)

locale read_inv =
  fixes P :: "db \<Rightarrow> bool"
  assumes faults_free: "P (d\<lparr>faults := fs\<rparr>) = P d"
begin

lemma P_popped [simp]: "P (popped d) = P d"
  by (simp add: popped_def faults_free)

lemma sql_call [keeps_rules]: "keeps P sql_call"
  by (rule keepsI) simp

lemma run_stmt:
  assumes "stmt_keeps P st"
  shows "keeps P (run_sql st)"
proof (rule keepsI)
  fix s assume "P s"
  then have "P d'" if "st (popped s) = Inr (d', r)" for d' r
    using stmt_keepsD [OF assms _ that] by simp
  with \<open>P s\<close> show "P (snd (run_state (run_sql st) s))"
    by (auto split: option.split sum.split)
qed

lemma query [keeps_rules]: "keeps P (query_sql q)"
  by (rule keepsI) (auto split: option.split)

lemma affected [keeps_rules]: "keeps P (rows_affected n)"
  by (rule keepsI) simp

lemma scan [keeps_rules]: "keeps P (scan_rows a b rs)"
  by (induction rs) (auto intro!: keeps_rules)

lemma need [keeps_rules]: "keeps P (need_row n k)"
  by (auto simp: need_row_def intro!: keeps_rules)

lemma get_user [keeps_rules]: "keeps P (GetUser n)"
  by (auto simp: GetUser_def Let_def intro!: keeps_rules)

lemma list_users [keeps_rules]: "keeps P ListUsers"
  by (auto simp: ListUsers_def intro!: keeps_rules)

lemma has_users [keeps_rules]: "keeps P HasUsers"
  by (auto simp: HasUsers_def intro!: keeps_rules)

lemma verify_hash [keeps_rules]: "keeps P (VerifyHash n)"
  by (auto simp: VerifyHash_def Let_def intro!: keeps_rules)

lemma list_resources [keeps_rules]: "keeps P ListResources"
  by (auto simp: ListResources_def intro!: keeps_rules)

lemma grants_for [keeps_rules]: "keeps P (GrantsFor n)"
  by (auto simp: GrantsFor_def Let_def intro!: keeps_rules)

lemma find_by_display_name [keeps_rules]: "keeps P (FindByDisplayName n)"
  by (auto simp: FindByDisplayName_def Let_def intro!: keeps_rules)

lemma get_config [keeps_rules]: "keeps P (GetConfig k)"
  by (auto simp: GetConfig_def intro!: keeps_rules)

lemma registration_open [keeps_rules]: "keeps P RegistrationOpen"
  by (auto simp: RegistrationOpen_def intro!: keeps_rules)

lemma count_admins [keeps_rules]: "keeps P CountAdmins"
  by (auto simp: CountAdmins_def intro!: keeps_rules)

end

text \<open>
  A property kept by each statement that takes no administrator away, for the arguments they can issue it with:
  validated names, trimmed ids, display names that are not blank.
\<close>

definition user_row_ok :: "user \<Rightarrow> bool" where
  "user_row_ok u \<longleftrightarrow> usernamePattern (Username u) \<and> TrimSpace (DisplayName u) \<noteq> [] \<and>
    0 \<le> TokenVersion u"

definition bumps :: "(user \<Rightarrow> user) \<Rightarrow> bool" where
  "bumps f \<longleftrightarrow> (\<forall>u. Username (f u) = Username u \<and> DisplayName (f u) = DisplayName u \<and>
    TokenVersion (f u) = TokenVersion u + 1)"

definition id_trimmed :: "string \<Rightarrow> bool" where
  "id_trimmed i \<longleftrightarrow> i \<noteq> [] \<and> TrimSpace i = i"

locale grow_inv = read_inv +
  assumes insert_user: "user_row_ok u \<Longrightarrow> stmt_keeps P (insert_user u)"
    and raise_user: "bumps f \<Longrightarrow> (\<And>u. IsAdmin u \<Longrightarrow> IsAdmin (f u)) \<Longrightarrow>
      stmt_keeps P (update_user n f)"
    and upsert_resource: "id_trimmed i \<Longrightarrow> stmt_keeps P (upsert_resource i nm t)"
    and delete_resource: "stmt_keeps P (delete_resource i)"
    and insert_grant: "stmt_keeps P (insert_grant g)"
    and delete_grant: "stmt_keeps P (delete_grant g)"
    and replace_config: "stmt_keeps P (replace_config k v)"
begin

lemma exec_insert:
  "user_row_ok u \<Longrightarrow> keeps P (exec_insert_user c u)"
  by (auto simp: exec_insert_user_def intro!: keeps_rules run_stmt insert_user)

lemma new_row_ok:
  "validateUsername n = Inr norm \<Longrightarrow>
   user_row_ok \<lparr>Username = norm, DisplayName = (if TrimSpace dn = '''' then norm else dn),
     Argon2id = h, IsAdmin = a, TokenVersion = 0, Created = c, Updated = t\<rparr>"
  by (auto simp: user_row_ok_def validateUsername_Inr normalizeUsername_def usernamePattern_def)

lemma add_user [keeps_rules]: "keeps P (AddUser t n dn h a)"
  unfolding AddUser_def
  by (cases "validateUsername n") (simp_all only: sum.case keeps_return exec_insert new_row_ok)

lemma import_legacy [keeps_rules]: "keeps P (ImportLegacyUser n dn h c t a)"
  unfolding ImportLegacyUser_def
  by (cases "validateUsername n") (simp_all only: sum.case keeps_return exec_insert new_row_ok)

lemma set_password [keeps_rules]: "keeps P (SetPassword t n h)"
  by (auto simp: SetPassword_def bumps_def intro!: keeps_rules run_stmt raise_user)

lemma promote [keeps_rules]: "keeps P (SetAdmin t n True)"
  by (auto simp: SetAdmin_def bumps_def intro!: keeps_rules run_stmt raise_user)

lemma upsert [keeps_rules]: "keeps P (UpsertResource t i n)"
  by (auto simp: UpsertResource_def Let_def id_trimmed_def
      intro!: keeps_rules run_stmt upsert_resource)

lemma remove_resource [keeps_rules]: "keeps P (DeleteResource i)"
  by (auto simp: DeleteResource_def Let_def intro!: keeps_rules run_stmt delete_resource)

lemma add_grant [keeps_rules]: "keeps P (AddGrant n i p)"
  by (auto simp: AddGrant_def Let_def intro!: keeps_rules run_stmt insert_grant)

lemma all_grants: "keeps P (grant_all n i ps)"
  by (induction ps) (auto intro!: keeps_rules)

lemma grant_owner [keeps_rules]: "keeps P (GrantOwner n i)"
  unfolding GrantOwner_def by (rule all_grants)

lemma remove_grant [keeps_rules]: "keeps P (RemoveGrant n i p)"
  by (auto simp: RemoveGrant_def Let_def intro!: keeps_rules run_stmt delete_grant)

lemma set_config [keeps_rules]: "keeps P (SetConfig k v)"
  by (auto simp: SetConfig_def intro!: keeps_rules run_stmt replace_config)

lemma set_registration [keeps_rules]: "keeps P (SetRegistrationOpen b)"
  by (auto simp: SetRegistrationOpen_def Let_def intro!: keeps_rules)

lemma rolled_back: "P d0 \<Longrightarrow> keeps P (rollback d0 r)"
  by (rule keepsI) (simp add: rollback_def faults_free)

lemma first_admin [keeps_rules]: "keeps P (CreateFirstAdmin t n dn h)"
proof (cases "validateUsername n")
  case (Inr norm)
  show ?thesis
    unfolding CreateFirstAdmin_def Inr sum.case Let_def
    by (rule keeps_get_bind)
       (intro keeps_rules rolled_back run_stmt insert_user replace_config new_row_ok [OF Inr])
qed (auto simp: CreateFirstAdmin_def intro!: keeps_rules)

end

text \<open>The other two statements: a user row changed in any way that bumps its version, and a user
  row removed with its grants.\<close>

locale table_inv = grow_inv +
  assumes update_user: "bumps f \<Longrightarrow> stmt_keeps P (update_user n f)"
    and delete_user: "stmt_keeps P (delete_user n)"
begin

lemma set_admin [keeps_rules]: "keeps P (SetAdmin t n a)"
  by (auto simp: SetAdmin_def bumps_def intro!: keeps_rules run_stmt update_user)

lemma remove_user [keeps_rules]: "keeps P (DeleteUser n)"
  by (auto simp: DeleteUser_def intro!: keeps_rules run_stmt delete_user)

end

section \<open>Well-formed tables\<close>

definition users_ok :: "db \<Rightarrow> bool" where
  "users_ok d \<longleftrightarrow> distinct (map Username (users d)) \<and> (\<forall>u\<in>set (users d). user_row_ok u)"

definition resources_ok :: "db \<Rightarrow> bool" where
  "resources_ok d \<longleftrightarrow> distinct (map ResourceID (resources d)) \<and>
    (\<forall>r\<in>set (resources d). id_trimmed (ResourceID r))"

definition grant_ok :: "db \<Rightarrow> grant_row \<Rightarrow> bool" where
  "grant_ok d g \<longleftrightarrow> GUser g \<in> Username ` set (users d) \<and>
    GResource g \<in> ResourceID ` set (resources d) \<and> GPermission g \<in> set grant_permissions"

definition db_ok :: "db \<Rightarrow> bool" where
  "db_ok d \<longleftrightarrow> users_ok d \<and> resources_ok d \<and> distinct (grants d) \<and>
    (\<forall>g\<in>set (grants d). grant_ok d g) \<and> distinct (map fst (config d))"

lemmas db_ok_defs = db_ok_def users_ok_def resources_ok_def grant_ok_def

lemma insert_user_ok: "user_row_ok u \<Longrightarrow> stmt_keeps db_ok (insert_user u)"
  by (rule stmt_keepsI) (auto simp: insert_user_def db_ok_defs split: if_splits)

lemma db_ok_cong:
  assumes "db_ok d" and "map Username (users d') = map Username (users d)"
    and "\<forall>u\<in>set (users d'). user_row_ok u"
    and "map ResourceID (resources d') = map ResourceID (resources d)"
    and "grants d' = grants d" and "config d' = config d"
  shows "db_ok d'"
proof -
  from assms(2,4) have u: "Username ` set (users d') = Username ` set (users d)"
    and r: "ResourceID ` set (resources d') = ResourceID ` set (resources d)"
    by (metis set_map)+
  have "id_trimmed (ResourceID r)" if "r \<in> set (resources d')" for r
    using that r assms(1) unfolding db_ok_def resources_ok_def by (metis imageE imageI)
  with assms u r show ?thesis by (simp add: db_ok_defs)
qed

lemma map_if_key: "(\<And>x. k (f x) = k x) \<Longrightarrow> map k (map (\<lambda>x. if b x then f x else x) xs) = map k xs"
  by simp

lemma update_user_ok:
  assumes "bumps f"
  shows "stmt_keeps db_ok (update_user n f)"
proof (rule stmt_keepsI)
  fix d d' r assume ok: "db_ok d" and upd: "update_user n f d = Inr (d', r)"
  from upd have d': "d' = d\<lparr>users := map (\<lambda>u. if Username u = n then f u else u) (users d)\<rparr>"
    by (simp add: update_user_def)
  have "user_row_ok (f u)" if "user_row_ok u" for u
    using that assms by (auto simp: bumps_def user_row_ok_def)
  with ok have "\<forall>u\<in>set (users d'). user_row_ok u"
    by (auto simp: d' db_ok_defs)
  moreover have "map Username (users d') = map Username (users d)"
    using map_if_key [of Username f] assms by (simp add: d' bumps_def del: map_map)
  ultimately show "db_ok d'"
    using ok by (intro db_ok_cong [OF ok]) (simp_all add: d')
qed

lemma delete_user_ok: "stmt_keeps db_ok (delete_user n)"
  by (rule stmt_keepsI) (auto simp: delete_user_def db_ok_defs distinct_map_filter_key)

lemma upsert_resource_ok:
  assumes "id_trimmed i"
  shows "stmt_keeps db_ok (upsert_resource i nm t)"
proof (rule stmt_keepsI)
  fix d d' r assume ok: "db_ok d" and ups: "upsert_resource i nm t d = Inr (d', r)"
  show "db_ok d'"
  proof (cases "List.find (\<lambda>r. ResourceID r = i) (resources d)")
    case None
    with ok ups assms show ?thesis
      by (auto simp: upsert_resource_def db_ok_defs find_None_all)
  next
    case (Some r)
    with ups have d': "d' = d\<lparr>resources :=
        map (\<lambda>r. if ResourceID r = i then r\<lparr>ResName := nm\<rparr> else r) (resources d)\<rparr>"
      by (simp add: upsert_resource_def)
    have "map ResourceID (resources d') = map ResourceID (resources d)"
      using map_if_key [of ResourceID "\<lambda>r. r\<lparr>ResName := nm\<rparr>"] by (simp add: d' del: map_map)
    then show ?thesis
      using ok by (intro db_ok_cong [OF ok]) (auto simp: d' db_ok_defs)
  qed
qed

lemma delete_resource_ok: "stmt_keeps db_ok (delete_resource i)"
  by (rule stmt_keepsI) (auto simp: delete_resource_def db_ok_defs distinct_map_filter_key)

lemma insert_grant_ok: "stmt_keeps db_ok (insert_grant g)"
  by (rule stmt_keepsI) (auto simp: insert_grant_def db_ok_defs split: if_splits)

lemma delete_grant_ok: "stmt_keeps db_ok (delete_grant g)"
  by (rule stmt_keepsI) (auto simp: delete_grant_def db_ok_defs)

lemma replace_config_ok: "stmt_keeps db_ok (replace_config k v)"
  by (rule stmt_keepsI) (auto simp: replace_config_def db_ok_defs distinct_map_filter_key)

lemmas db_ok_stmts = insert_user_ok update_user_ok delete_user_ok upsert_resource_ok
  delete_resource_ok insert_grant_ok delete_grant_ok replace_config_ok

interpretation store_ok: table_inv db_ok
  by unfold_locales (simp_all add: db_ok_stmts, simp add: db_ok_defs)

text \<open>That there is an administrator, on well-formed tables.\<close>

definition has_admin :: "db \<Rightarrow> bool" where
  "has_admin d \<longleftrightarrow> (\<exists>u\<in>set (users d). IsAdmin u)"

definition governed :: "db \<Rightarrow> bool" where
  "governed d \<longleftrightarrow> db_ok d \<and> has_admin d"

lemma stmt_keeps_governed:
  assumes "stmt_keeps db_ok st"
    and "\<And>d d' r. st d = Inr (d', r) \<Longrightarrow> has_admin d \<Longrightarrow> has_admin d'"
  shows "stmt_keeps governed st"
  using assms by (auto simp: governed_def stmt_keeps_def)

lemma has_admin_raise:
  assumes "\<And>u. IsAdmin u \<Longrightarrow> IsAdmin (f u)" and "update_user n f d = Inr (d', r)" and "has_admin d"
  shows "has_admin d'"
proof -
  let ?g = "\<lambda>u. if Username u = n then f u else u"
  from assms(3) obtain u where u: "u \<in> set (users d)" "IsAdmin u" by (auto simp: has_admin_def)
  with assms(1) have "IsAdmin (?g u)" by simp
  moreover have "users d' = map ?g (users d)" using assms(2) by (auto simp: update_user_def)
  then have "?g u \<in> set (users d')" using imageI [OF u(1), of ?g] by (simp only: set_map)
  ultimately show ?thesis unfolding has_admin_def by (rule bexI)
qed

lemma has_admin_stmts:
  "insert_user u d = Inr (d', x) \<Longrightarrow> has_admin d \<Longrightarrow> has_admin d'"
  "upsert_resource i nm t d = Inr (d', y) \<Longrightarrow> has_admin d \<Longrightarrow> has_admin d'"
  "delete_resource i d = Inr (d', x) \<Longrightarrow> has_admin d \<Longrightarrow> has_admin d'"
  "insert_grant g d = Inr (d', x) \<Longrightarrow> has_admin d \<Longrightarrow> has_admin d'"
  "delete_grant g d = Inr (d', x) \<Longrightarrow> has_admin d \<Longrightarrow> has_admin d'"
  "replace_config k v d = Inr (d', x) \<Longrightarrow> has_admin d \<Longrightarrow> has_admin d'"
  by (auto simp: has_admin_def insert_user_def upsert_resource_def delete_resource_def
      insert_grant_def delete_grant_def replace_config_def split: if_splits option.splits)

interpretation governed: grow_inv governed
proof unfold_locales
  show "governed (d\<lparr>faults := fs\<rparr>) = governed d" for d fs
    by (simp add: governed_def has_admin_def db_ok_defs)
qed (rule stmt_keeps_governed, (rule db_ok_stmts; assumption?),
     erule has_admin_raise has_admin_stmts, assumption+)+

text \<open>What no query changes: the tables themselves.\<close>

definition same_tables :: "db \<Rightarrow> db \<Rightarrow> bool" where
  "same_tables t d \<longleftrightarrow> d\<lparr>faults := []\<rparr> = t\<lparr>faults := []\<rparr>"

interpretation unchanged: read_inv "same_tables t" for t
  by unfold_locales (simp add: same_tables_def)

lemma same_tables_refl [simp]: "same_tables d d"
  by (simp add: same_tables_def)

lemma same_tablesD:
  "same_tables t d \<Longrightarrow> users d = users t" "same_tables t d \<Longrightarrow> resources d = resources t"
  "same_tables t d \<Longrightarrow> grants d = grants t" "same_tables t d \<Longrightarrow> config d = config t"
  by (metis same_tables_def db.select_convs db.surjective db.update_convs)+

section \<open>Any sequence of calls\<close>

text \<open>The calls that can change the tables, with the clock of each.\<close>

datatype store_call =
    CallAddUser int string string string bool
  | CallImportLegacyUser string string string int int bool
  | CallSetPassword int string string
  | CallDeleteUser string
  | CallCreateFirstAdmin int string string string
  | CallUpsertResource int string string
  | CallDeleteResource string
  | CallAddGrant string string string
  | CallGrantOwner string string
  | CallRemoveGrant string string string
  | CallSetAdmin int string bool
  | CallSetConfig string string
  | CallSetRegistrationOpen bool

definition ignore :: "('s, 'a) state \<Rightarrow> ('s, unit) state" where
  "ignore m = do { _ \<leftarrow> m; State_Monad.return () }"

fun exec_call :: "store_call \<Rightarrow> (db, unit) state" where
  "exec_call (CallAddUser t n dn h a) = ignore (AddUser t n dn h a)"
| "exec_call (CallImportLegacyUser n dn h c t a) = ignore (ImportLegacyUser n dn h c t a)"
| "exec_call (CallSetPassword t n h) = ignore (SetPassword t n h)"
| "exec_call (CallDeleteUser n) = ignore (DeleteUser n)"
| "exec_call (CallCreateFirstAdmin t n dn h) = ignore (CreateFirstAdmin t n dn h)"
| "exec_call (CallUpsertResource t i n) = ignore (UpsertResource t i n)"
| "exec_call (CallDeleteResource i) = ignore (DeleteResource i)"
| "exec_call (CallAddGrant n i p) = ignore (AddGrant n i p)"
| "exec_call (CallGrantOwner n i) = ignore (GrantOwner n i)"
| "exec_call (CallRemoveGrant n i p) = ignore (RemoveGrant n i p)"
| "exec_call (CallSetAdmin t n a) = ignore (SetAdmin t n a)"
| "exec_call (CallSetConfig k v) = ignore (SetConfig k v)"
| "exec_call (CallSetRegistrationOpen b) = ignore (SetRegistrationOpen b)"

fun exec_calls :: "store_call list \<Rightarrow> db \<Rightarrow> db" where
  "exec_calls [] d = d"
| "exec_calls (c # cs) d = exec_calls cs (snd (run_state (exec_call c) d))"

definition empty_db :: "string option list \<Rightarrow> db" where
  "empty_db fs = \<lparr>users = [], resources = [], grants = [], config = [], faults = fs\<rparr>"

lemma keeps_ignore [keeps_rules]: "keeps P m \<Longrightarrow> keeps P (ignore m)"
  by (auto simp: ignore_def intro: keeps_rules)

context table_inv
begin

lemma one_call: "keeps P (exec_call c)"
  by (cases c) (auto intro!: keeps_rules)

lemma all_calls: "P d \<Longrightarrow> P (exec_calls cs d)"
  by (induction cs arbitrary: d) (auto intro: keepsD [OF one_call])

end

lemma empty_db_ok: "db_ok (empty_db fs)"
  by (simp add: empty_db_def db_ok_defs)

text \<open>C9: after any sequence of store calls on a new database, and however the driver fails in
  between, user names and resource ids are unique and well-formed, no display name is blank, every
  grant names an existing user, an existing resource and a permission of the CHECK list, no grant
  is stored twice and no configuration key has two values.\<close>

theorem store_stays_well_formed: "db_ok (exec_calls cs (empty_db fs))"
  by (rule store_ok.all_calls [OF empty_db_ok])

end
