(* ===== verification/Store_Spec.thy ===== *)
theory Store_Spec
  imports Store_Laws
begin

text \<open>
  The specification of the store: a directory of maps (users by name, resources by id,
  configuration by key) and a set of grants, the effect of each method on it, and the refinement
  of the tables to it. Then the outcome of each method under any faults, the first-admin
  transaction, and the growth of token versions over any sequence of calls.
\<close>

section \<open>The abstract directory\<close>

record directory =
  d_user :: "string \<Rightarrow> user option"
  d_resource :: "string \<Rightarrow> resource option"
  d_grants :: "(string \<times> string \<times> string) set"
  d_config :: "string \<Rightarrow> string option"

definition select_resource :: "string \<Rightarrow> db \<Rightarrow> resource option" where
  "select_resource i d = List.find (\<lambda>r. ResourceID r = i) (resources d)"

definition grant_triple :: "grant_row \<Rightarrow> string \<times> string \<times> string" where
  "grant_triple g = (GUser g, GResource g, GPermission g)"

definition abs_db :: "db \<Rightarrow> directory" where
  "abs_db d = \<lparr>d_user = (\<lambda>n. select_user n d), d_resource = (\<lambda>i. select_resource i d),
    d_grants = grant_triple ` set (grants d), d_config = (\<lambda>k. select_config k d)\<rparr>"

definition d_add_user :: "user \<Rightarrow> directory \<Rightarrow> directory" where
  "d_add_user u a = a\<lparr>d_user := (d_user a)(Username u \<mapsto> u)\<rparr>"

definition d_change_user :: "string \<Rightarrow> (user \<Rightarrow> user) \<Rightarrow> directory \<Rightarrow> directory" where
  "d_change_user n f a = a\<lparr>d_user := (d_user a)(n := map_option f (d_user a n))\<rparr>"

definition d_remove_user :: "string \<Rightarrow> directory \<Rightarrow> directory" where
  "d_remove_user n a = a\<lparr>d_user := (d_user a)(n := None),
    d_grants := {(u, r, p) \<in> d_grants a. u \<noteq> n}\<rparr>"

definition d_put_resource :: "string \<Rightarrow> string \<Rightarrow> int \<Rightarrow> directory \<Rightarrow> directory" where
  "d_put_resource i nm now a = a\<lparr>d_resource := (d_resource a)(i \<mapsto>
    \<lparr>ResourceID = i, ResName = nm,
     ResCreated = (case d_resource a i of None \<Rightarrow> now | Some r \<Rightarrow> ResCreated r)\<rparr>)\<rparr>"

definition d_remove_resource :: "string \<Rightarrow> directory \<Rightarrow> directory" where
  "d_remove_resource i a = a\<lparr>d_resource := (d_resource a)(i := None),
    d_grants := {(u, r, p) \<in> d_grants a. r \<noteq> i}\<rparr>"

definition d_put_config :: "string \<Rightarrow> string \<Rightarrow> directory \<Rightarrow> directory" where
  "d_put_config k v a = a\<lparr>d_config := (d_config a)(k \<mapsto> v)\<rparr>"

section \<open>Tables as maps\<close>

lemma select_popped [simp]:
  "select_user n (popped d) = select_user n d" "select_config k (popped d) = select_config k d"
  "select_resource i (popped d) = select_resource i d"
  "select_grants n (popped d) = select_grants n d" "abs_db (popped d) = abs_db d"
  by (simp_all add: select_user_def select_config_def select_resource_def select_grants_def
      abs_db_def)

lemma select_user_Some: "select_user n d = Some u \<Longrightarrow> u \<in> set (users d) \<and> Username u = n"
  unfolding select_user_def by (rule find_Some_in)

lemma select_user_None: "select_user n d = None \<longleftrightarrow> n \<notin> Username ` set (users d)"
  by (auto simp: select_user_def find_None_all)

lemma select_user_in:
  "users_ok d \<Longrightarrow> u \<in> set (users d) \<Longrightarrow> select_user (Username u) d = Some u"
  by (simp add: select_user_def users_ok_def find_distinct_key)

lemma select_resource_None: "select_resource i d = None \<longleftrightarrow> i \<notin> ResourceID ` set (resources d)"
  by (auto simp: select_resource_def find_None_all)

lemma select_resource_Some:
  "select_resource i d = Some r \<Longrightarrow> r \<in> set (resources d) \<and> ResourceID r = i"
  unfolding select_resource_def by (rule find_Some_in)

lemma find_snoc_key:
  "k x \<notin> k ` set xs \<Longrightarrow> List.find (\<lambda>y. k y = a) (xs @ [x]) =
    (if a = k x then Some x else List.find (\<lambda>y. k y = a) xs)"
  by (induction xs) auto

lemma insert_user_abs:
  assumes "insert_user u d = Inr (d', r)"
  shows "select_user (Username u) d = None" and "abs_db d' = d_add_user u (abs_db d)"
proof -
  from assms have new: "Username u \<notin> Username ` set (users d)"
    and d': "d' = d\<lparr>users := users d @ [u]\<rparr>"
    by (simp_all add: insert_user_def split: if_splits)
  from new show "select_user (Username u) d = None" by (simp add: select_user_None)
  show "abs_db d' = d_add_user u (abs_db d)"
    using find_snoc_key [OF new]
    by (simp add: d' d_add_user_def abs_db_def select_user_def select_config_def
        select_resource_def fun_eq_iff)
qed

lemma update_user_abs:
  assumes "\<And>u. Username (f u) = Username u" and "update_user n f d = Inr (d', r)"
  shows "abs_db d' = d_change_user n f (abs_db d)"
proof -
  have "List.find (\<lambda>u. Username u = m) (map (\<lambda>u. if Username u = n then f u else u) us) =
      (if m = n then map_option f (List.find (\<lambda>u. Username u = n) us)
       else List.find (\<lambda>u. Username u = m) us)" for m us
    by (induction us) (auto simp: assms(1))
  with assms(2) show ?thesis
    by (auto simp: update_user_def d_change_user_def abs_db_def select_user_def select_config_def
        select_resource_def fun_eq_iff)
qed

lemma delete_user_abs: "delete_user n d = Inr (d', r) \<Longrightarrow> abs_db d' = d_remove_user n (abs_db d)"
  by (auto simp: delete_user_def d_remove_user_def abs_db_def select_user_def select_config_def
      select_resource_def grant_triple_def find_filter_key fun_eq_iff image_iff)

lemma upsert_resource_abs:
  assumes "upsert_resource i nm now d = Inr (d', r)"
  shows "abs_db d' = d_put_resource i nm now (abs_db d)"
    and "r = (case select_resource i d of None \<Rightarrow> now | Some q \<Rightarrow> ResCreated q)"
proof -
  have upd: "List.find (\<lambda>r. ResourceID r = j)
      (map (\<lambda>r. if ResourceID r = i then r\<lparr>ResName := nm\<rparr> else r) rs) =
      (if j = i then map_option (\<lambda>r. r\<lparr>ResName := nm\<rparr>) (List.find (\<lambda>r. ResourceID r = i) rs)
       else List.find (\<lambda>r. ResourceID r = j) rs)" for j rs
    by (induction rs) auto
  show "abs_db d' = d_put_resource i nm now (abs_db d)"
  proof (cases "select_resource i d")
    case None
    with assms show ?thesis
      by (auto simp: upsert_resource_def d_put_resource_def abs_db_def select_user_def
          select_config_def select_resource_def find_append fun_eq_iff split: option.split)
  next
    case (Some q)
    moreover from this have "ResourceID q = i" by (simp add: select_resource_Some)
    then have "q\<lparr>ResName := nm\<rparr> = \<lparr>ResourceID = i, ResName = nm, ResCreated = ResCreated q\<rparr>"
      by simp
    ultimately show ?thesis
      using assms
      by (auto simp: upsert_resource_def d_put_resource_def abs_db_def select_user_def
          select_config_def select_resource_def upd fun_eq_iff)
  qed
  show "r = (case select_resource i d of None \<Rightarrow> now | Some q \<Rightarrow> ResCreated q)"
    using assms by (auto simp: upsert_resource_def select_resource_def split: option.splits)
qed

lemma delete_resource_abs:
  "delete_resource i d = Inr (d', r) \<Longrightarrow> abs_db d' = d_remove_resource i (abs_db d)"
  by (auto simp: delete_resource_def d_remove_resource_def abs_db_def select_user_def
      select_config_def select_resource_def grant_triple_def find_filter_key fun_eq_iff image_iff)

lemma replace_config_abs:
  "replace_config k v d = Inr (d', r) \<Longrightarrow> abs_db d' = d_put_config k v (abs_db d)"
  by (auto simp: replace_config_def d_put_config_def abs_db_def select_user_def select_config_def
      select_resource_def find_append find_filter_key fun_eq_iff split: option.split)

lemma insert_grant_abs:
  "insert_grant g d = Inr (d', r) \<Longrightarrow> abs_db d' =
    (if GPermission g \<in> set grant_permissions
     then (abs_db d)\<lparr>d_grants := insert (grant_triple g) (d_grants (abs_db d))\<rparr> else abs_db d)"
  by (auto simp: insert_grant_def abs_db_def select_user_def select_config_def
      select_resource_def insert_absorb split: if_splits)

lemma grant_triple_inj: "inj grant_triple"
  by (auto intro!: injI simp: grant_triple_def)

lemma delete_grant_abs:
  "delete_grant g d = Inr (d', r) \<Longrightarrow> abs_db d' =
    (abs_db d)\<lparr>d_grants := d_grants (abs_db d) - {grant_triple g}\<rparr>"
  using grant_triple_inj
  by (auto simp: delete_grant_def abs_db_def select_user_def select_config_def
      select_resource_def inj_eq)

section \<open>The outcome of each method, under any faults\<close>

text \<open>
  \<open>outcome d r d'\<close>: a method that ended with \<open>r\<close> in \<open>d'\<close> has changed nothing, unless \<open>r\<close> is
  among the results it allows to come with the change.
\<close>

lemma isUniqueViolation_insert:
  "insert_user u d = Inl m \<Longrightarrow> isUniqueViolation m \<and> select_user (Username u) d \<noteq> None"
  by (auto simp: insert_user_def select_user_None isUniqueViolation_def HasPrefix_def
      split: if_splits)

lemma run_exec_insert_user:
  "run_state (exec_insert_user c u) d = (case fault_of d of
      Some m \<Rightarrow> (if isUniqueViolation m then Inl (ErrUserExists (Username u))
                  else Inl (DbError (c @ Username u) m), popped d)
    | None \<Rightarrow> (case insert_user u (popped d) of
          Inl m \<Rightarrow> (Inl (ErrUserExists (Username u)), popped d)
        | Inr (d', _) \<Rightarrow> (Inr (), d')))"
  using isUniqueViolation_insert [of u "popped d"]
  by (auto simp: exec_insert_user_def split: option.split sum.split)

lemma run_GetUser:
  "run_state (GetUser n) d = (let norm = normalizeUsername n in
     if norm = [] then (Inl (ErrUserNotFound None), d)
     else (case fault_of d of
         Some m \<Rightarrow> Inl (DbError (''querying user '' @ norm) m)
       | None \<Rightarrow> (case select_user norm d of
             None \<Rightarrow> Inl (ErrUserNotFound (Some norm)) | Some u \<Rightarrow> Inr u), popped d))"
  by (auto simp: GetUser_def Let_def split: option.split)

lemma GetUser_Inr:
  assumes "fst (run_state (GetUser n) d) = Inr u"
  shows "select_user (normalizeUsername n) d = Some u" and "Username u = normalizeUsername n"
proof -
  show sel: "select_user (normalizeUsername n) d = Some u"
    using assms by (auto simp: run_GetUser Let_def split: if_splits option.splits)
  then show "Username u = normalizeUsername n" by (simp add: select_user_Some)
qed

lemma GetUser_same: "same_tables d (snd (run_state (GetUser n) d))"
  by (rule keepsD [OF unchanged.get_user]) simp

lemma GetUser_not_found:
  assumes "users_ok d" and "fst (run_state (GetUser n) d) = Inl (ErrUserNotFound k)"
  shows "select_user (normalizeUsername n) d = None"
proof (cases "normalizeUsername n = []")
  case True
  have "u \<in> set (users d) \<Longrightarrow> Username u \<noteq> []" for u
    using assms(1) usernamePattern_ne by (auto simp: users_ok_def user_row_ok_def)
  with True show ?thesis by (force simp: select_user_None)
next
  case False
  with assms(2) show ?thesis
    by (auto simp: run_GetUser Let_def split: option.splits)
qed

text \<open>A change of a user row: what each result says about the tables.\<close>

lemma run_need_row:
  "run_state (need_row n k) d = (case fault_of d of
      Some m \<Rightarrow> Inl (DbError ''reading rows affected'' m)
    | None \<Rightarrow> if k = 0 then Inl (ErrUserNotFound (Some n)) else Inr (), popped d)"
  by (auto simp: need_row_def split: option.split)

lemma update_user_count:
  "update_user n f d = Inr (d', k) \<Longrightarrow> k = 0 \<longleftrightarrow> select_user n d = None"
  by (auto simp: update_user_def select_user_def find_None_all filter_empty_conv)

lemma delete_user_count:
  "delete_user n d = Inr (d', k) \<Longrightarrow> k = 0 \<longleftrightarrow> select_user n d = None"
  by (auto simp: delete_user_def select_user_def find_None_all filter_empty_conv)

definition password_change :: "int \<Rightarrow> string \<Rightarrow> user \<Rightarrow> user" where
  "password_change now h u =
    u\<lparr>Argon2id := h, Updated := now, TokenVersion := TokenVersion u + 1\<rparr>"

definition admin_change :: "int \<Rightarrow> bool \<Rightarrow> user \<Rightarrow> user" where
  "admin_change now a u =
    u\<lparr>IsAdmin := a, Updated := now, TokenVersion := TokenVersion u + 1\<rparr>"

lemma d_change_absent: "d_user a n = None \<Longrightarrow> d_change_user n f a = a"
  by (simp add: d_change_user_def fun_upd_idem)

lemma user_change_outcome:
  assumes "\<And>u. Username (f u) = Username u"
    and "run_state (do { r \<leftarrow> run_sql (update_user norm f);
        case r of Inl m \<Rightarrow> State_Monad.return (Inl (DbError c m)) | Inr k \<Rightarrow> need_row norm k }) d =
      (r, d')"
  shows "r = Inr () \<Longrightarrow> select_user norm d \<noteq> None \<and> abs_db d' = d_change_user norm f (abs_db d)"
    and "r = Inl (ErrUserNotFound k) \<Longrightarrow> select_user norm d = None \<and> abs_db d' = abs_db d"
    and "abs_db d' = abs_db d \<or> abs_db d' = d_change_user norm f (abs_db d)"
    and "calm d \<Longrightarrow> calm d' \<and> r = (if select_user norm d = None
           then Inl (ErrUserNotFound (Some norm)) else Inr ())"
proof -
  obtain e k' where e: "update_user norm f (popped d) = Inr (e, k')"
    by (simp add: update_user_def)
  have cnt: "k' = 0 \<longleftrightarrow> select_user norm d = None"
    using update_user_count [OF e] by simp
  have ab: "abs_db e = d_change_user norm f (abs_db d)"
    using update_user_abs [OF assms(1) e] by simp
  have abs0: "select_user norm d = None \<Longrightarrow> d_change_user norm f (abs_db d) = abs_db d"
    by (rule d_change_absent) (simp add: abs_db_def)
  note eval = assms(2) [unfolded run_bind run_run_sql, simplified e]
  show "r = Inr () \<Longrightarrow> select_user norm d \<noteq> None \<and> abs_db d' = d_change_user norm f (abs_db d)"
    using eval cnt ab by (auto simp: run_need_row split: option.splits if_splits)
  show "r = Inl (ErrUserNotFound k) \<Longrightarrow> select_user norm d = None \<and> abs_db d' = abs_db d"
    using eval cnt ab abs0 by (auto simp: run_need_row split: option.splits if_splits)
  show "abs_db d' = abs_db d \<or> abs_db d' = d_change_user norm f (abs_db d)"
    using eval ab by (auto simp: run_need_row split: option.splits if_splits)
  show "calm d \<Longrightarrow> calm d' \<and> r = (if select_user norm d = None
           then Inl (ErrUserNotFound (Some norm)) else Inr ())"
    using eval cnt e by (auto simp: run_need_row update_user_def split: if_splits)
qed

section \<open>Refinement\<close>

text \<open>The effect of each call on the directory.\<close>

definition new_user :: "string \<Rightarrow> string \<Rightarrow> string \<Rightarrow> bool \<Rightarrow> int \<Rightarrow> int \<Rightarrow> user" where
  "new_user norm displayName pwHash adm created updated =
    \<lparr>Username = norm, DisplayName = (if TrimSpace displayName = '''' then norm else displayName),
     Argon2id = pwHash, IsAdmin = adm, TokenVersion = 0, Created = created, Updated = updated\<rparr>"

definition d_create :: "user \<Rightarrow> directory \<Rightarrow> directory" where
  "d_create u a = (if d_user a (Username u) = None then d_add_user u a else a)"

definition d_first_admin :: "user \<Rightarrow> directory \<Rightarrow> directory" where
  "d_first_admin u a = (if d_user a = Map.empty
     then d_put_config ''registration_open'' ''false'' (d_add_user u a) else a)"

definition d_grant :: "string \<Rightarrow> string \<Rightarrow> string \<Rightarrow> directory \<Rightarrow> directory" where
  "d_grant n i p a =
    (let norm = normalizeUsername n; i = TrimSpace i; p = TrimSpace p
     in if norm \<noteq> [] \<and> i \<noteq> [] \<and> p \<in> set grant_permissions \<and>
          d_user a norm \<noteq> None \<and> d_resource a i \<noteq> None
        then a\<lparr>d_grants := insert (norm, i, p) (d_grants a)\<rparr> else a)"

definition d_revoke :: "string \<Rightarrow> string \<Rightarrow> string \<Rightarrow> directory \<Rightarrow> directory" where
  "d_revoke n i p a =
    a\<lparr>d_grants := d_grants a - {(normalizeUsername n, TrimSpace i, TrimSpace p)}\<rparr>"

definition for_valid :: "string \<Rightarrow> (string \<Rightarrow> directory \<Rightarrow> directory) \<Rightarrow> directory \<Rightarrow> directory" where
  "for_valid n f a = (case validateUsername n of Inl _ \<Rightarrow> a | Inr norm \<Rightarrow> f norm a)"

definition for_id :: "string \<Rightarrow> (string \<Rightarrow> directory \<Rightarrow> directory) \<Rightarrow> directory \<Rightarrow> directory" where
  "for_id i f a = (if TrimSpace i = [] then a else f (TrimSpace i) a)"

fun spec_call :: "store_call \<Rightarrow> directory \<Rightarrow> directory" where
  "spec_call (CallAddUser t n dn h adm) =
    for_valid n (\<lambda>norm. d_create (new_user norm dn h adm t t))"
| "spec_call (CallImportLegacyUser n dn h c t adm) =
    for_valid n (\<lambda>norm. d_create (new_user norm dn h adm c t))"
| "spec_call (CallSetPassword t n h) =
    for_valid n (\<lambda>norm. d_change_user norm (password_change t h))"
| "spec_call (CallDeleteUser n) = for_valid n d_remove_user"
| "spec_call (CallCreateFirstAdmin t n dn h) =
    for_valid n (\<lambda>norm. d_first_admin (new_user norm dn h True t t))"
| "spec_call (CallUpsertResource t i nm) = for_id i (\<lambda>i. d_put_resource i nm t)"
| "spec_call (CallDeleteResource i) = for_id i d_remove_resource"
| "spec_call (CallAddGrant n i p) = d_grant n i p"
| "spec_call (CallGrantOwner n i) =
    d_grant n i ''write'' \<circ> d_grant n i ''read'' \<circ> d_grant n i ''owner''"
| "spec_call (CallRemoveGrant n i p) = d_revoke n i p"
| "spec_call (CallSetAdmin t n adm) = for_valid n (\<lambda>norm. d_change_user norm (admin_change t adm))"
| "spec_call (CallSetConfig k v) = d_put_config k v"
| "spec_call (CallSetRegistrationOpen b) =
    d_put_config ''registration_open'' (if b then ''true'' else ''false'')"

text \<open>
  A method refines \<open>f\<close> when it either changes nothing or does all of \<open>f\<close>, and does \<open>f\<close> when the
  driver does not fail.
\<close>

definition refines :: "(db, 'a) state \<Rightarrow> (directory \<Rightarrow> directory) \<Rightarrow> bool" where
  "refines m f \<longleftrightarrow> (\<forall>d. let d' = snd (run_state m d) in
     (abs_db d' = abs_db d \<or> abs_db d' = f (abs_db d)) \<and>
     (calm d \<longrightarrow> calm d' \<and> abs_db d' = f (abs_db d)))"

definition quiet :: "(db, 'a) state \<Rightarrow> bool" where
  "quiet m \<longleftrightarrow> (\<forall>d. abs_db (snd (run_state m d)) = abs_db d \<and> (calm d \<longrightarrow> calm (snd (run_state m d))))"

lemma quiet_return [simp]: "quiet (State_Monad.return x)"
  by (simp add: quiet_def)

lemma quiet_need_row [simp]: "quiet (need_row n k)"
  by (simp add: quiet_def run_need_row)

lemma refines_quiet: "quiet m \<Longrightarrow> refines m (\<lambda>a. a)"
  by (simp add: quiet_def refines_def)

lemma refines_return [simp]: "refines (State_Monad.return x) (\<lambda>a. a)"
  by (simp add: refines_def)

lemma refines_ignore [simp]: "refines (ignore m) f = refines m f"
  by (simp add: refines_def ignore_def)

lemma refines_stmt:
  assumes step: "\<And>d d' r. st d = Inr (d', r) \<Longrightarrow>
      abs_db d' = f (abs_db d) \<and> (calm d \<longrightarrow> calm d')"
    and stop: "\<And>d m. st d = Inl m \<Longrightarrow> f (abs_db d) = abs_db d"
    and rest: "\<And>r. quiet (k r)"
  shows "refines (State_Monad.bind (run_sql st) k) f"
  unfolding refines_def Let_def
proof (rule allI)
  fix d
  let ?d' = "snd (run_state (State_Monad.bind (run_sql st) k) d)"
  have "abs_db ?d' = abs_db d \<or> abs_db ?d' = f (abs_db d)" and
    "calm d \<longrightarrow> calm ?d' \<and> abs_db ?d' = f (abs_db d)"
    using step [of "popped d"] stop [of "popped d"] rest
    by (auto simp: quiet_def split: option.split sum.split)
  then show "(abs_db ?d' = abs_db d \<or> abs_db ?d' = f (abs_db d)) \<and>
      (calm d \<longrightarrow> calm ?d' \<and> abs_db ?d' = f (abs_db d))" by blast
qed

lemma refines_for_valid:
  assumes "\<And>e. validateUsername n = Inl e \<Longrightarrow> m = State_Monad.return (Inl e)"
    and "\<And>norm. validateUsername n = Inr norm \<Longrightarrow> refines m (f norm)"
  shows "refines m (for_valid n f)"
  using assms by (cases "validateUsername n") (auto simp: refines_def for_valid_def)

lemma refines_for_id:
  assumes "TrimSpace i = [] \<Longrightarrow> quiet m" and "TrimSpace i \<noteq> [] \<Longrightarrow> refines m (f (TrimSpace i))"
  shows "refines m (for_id i f)"
  using assms by (auto simp: refines_def quiet_def for_id_def)

lemma refines_insert_user: "refines (exec_insert_user c u) (d_create u)"
  unfolding exec_insert_user_def
proof (rule refines_stmt)
  show "abs_db d' = d_create u (abs_db d) \<and> (calm d \<longrightarrow> calm d')"
    if "insert_user u d = Inr (d', r)" for d d' r
    using insert_user_abs [OF that] that
    by (auto simp: d_create_def abs_db_def insert_user_def split: if_splits)
  show "d_create u (abs_db d) = abs_db d" if "insert_user u d = Inl m" for d m
    using isUniqueViolation_insert [OF that] by (auto simp: d_create_def abs_db_def)
qed simp

lemma refines_update_user:
  assumes "\<And>u. Username (f u) = Username u"
  shows "refines (do { r \<leftarrow> run_sql (update_user n f);
      case r of Inl m \<Rightarrow> State_Monad.return (Inl (DbError c m)) | Inr k \<Rightarrow> need_row n k })
    (d_change_user n f)"
proof (rule refines_stmt)
  show "abs_db d' = d_change_user n f (abs_db d) \<and> (calm d \<longrightarrow> calm d')"
    if "update_user n f d = Inr (d', r)" for d d' r
    using update_user_abs [OF assms that] that by (auto simp: update_user_def)
qed (auto simp: update_user_def split: sum.split)

lemma refines_AddUser:
  "refines (AddUser t n dn h a) (for_valid n (\<lambda>norm. d_create (new_user norm dn h a t t)))"
  by (rule refines_for_valid)
     (simp_all only: AddUser_def sum.case new_user_def [symmetric] refines_insert_user)

lemma refines_ImportLegacyUser:
  "refines (ImportLegacyUser n dn h c t a)
    (for_valid n (\<lambda>norm. d_create (new_user norm dn h a c t)))"
  by (rule refines_for_valid)
     (simp_all only: ImportLegacyUser_def sum.case new_user_def [symmetric] refines_insert_user)

lemma refines_SetPassword:
  "refines (SetPassword t n h) (for_valid n (\<lambda>norm. d_change_user norm (password_change t h)))"
  by (rule refines_for_valid)
     (simp_all add: SetPassword_def password_change_def [abs_def] refines_update_user)

lemma refines_SetAdmin:
  "refines (SetAdmin t n a) (for_valid n (\<lambda>norm. d_change_user norm (admin_change t a)))"
  by (rule refines_for_valid)
     (simp_all add: SetAdmin_def admin_change_def [abs_def] refines_update_user)

lemma refines_DeleteUser: "refines (DeleteUser n) (for_valid n d_remove_user)"
proof (rule refines_for_valid)
  fix norm assume v: "validateUsername n = Inr norm"
  show "refines (DeleteUser n) (d_remove_user norm)"
    unfolding DeleteUser_def v sum.case
  proof (rule refines_stmt)
    show "abs_db d' = d_remove_user norm (abs_db d) \<and> (calm d \<longrightarrow> calm d')"
      if "delete_user norm d = Inr (d', r)" for d d' r
      using delete_user_abs [OF that] that by (auto simp: delete_user_def)
  qed (auto simp: delete_user_def split: sum.split)
qed (simp add: DeleteUser_def)

lemma refines_UpsertResource:
  "refines (UpsertResource t i nm) (for_id i (\<lambda>i. d_put_resource i nm t))"
proof (rule refines_for_id)
  assume ne: "TrimSpace i \<noteq> []"
  show "refines (UpsertResource t i nm) (d_put_resource (TrimSpace i) nm t)"
    unfolding UpsertResource_def Let_def if_not_P [OF ne]
    by (intro refines_stmt conjI upsert_resource_abs)
       (auto simp: upsert_resource_def split: option.splits)
qed (simp add: UpsertResource_def)

lemma refines_DeleteResource: "refines (DeleteResource i) (for_id i d_remove_resource)"
proof (rule refines_for_id)
  assume ne: "TrimSpace i \<noteq> []"
  show "refines (DeleteResource i) (d_remove_resource (TrimSpace i))"
    unfolding DeleteResource_def Let_def if_not_P [OF ne]
    by (intro refines_stmt conjI delete_resource_abs) (auto simp: delete_resource_def)
qed (simp add: DeleteResource_def)

lemma refines_AddGrant: "refines (AddGrant n i p) (d_grant n i p)"
proof -
  let ?n = "normalizeUsername n" and ?i = "TrimSpace i" and ?p = "TrimSpace p"
  let ?g = "\<lparr>GUser = ?n, GResource = ?i, GPermission = ?p\<rparr>"
  have ne: "[] \<notin> set grant_permissions" by (simp add: grant_permissions_def)
  show ?thesis
  proof (cases "?n = [] \<or> ?i = [] \<or> ?p = []")
    case True
    then have "d_grant n i p = (\<lambda>a. a)" using ne by (auto simp: d_grant_def fun_eq_iff Let_def)
    moreover have "quiet (AddGrant n i p)" using True by (auto simp: AddGrant_def Let_def)
    ultimately show ?thesis by (simp add: refines_quiet)
  next
    case False
    then have run: "AddGrant n i p = State_Monad.bind (run_sql (insert_grant ?g))
        (\<lambda>r. State_Monad.return (case r of
            Inl m \<Rightarrow> Inl (DbError (''granting '' @ ?p @ '' on '' @ ?i @ '' to '' @ ?n) m)
          | Inr _ \<Rightarrow> Inr ()))"
      by (simp add: AddGrant_def Let_def)
    show ?thesis
      unfolding run
    proof (rule refines_stmt)
      show "abs_db d' = d_grant n i p (abs_db d) \<and> (calm d \<longrightarrow> calm d')"
        if "insert_grant ?g d = Inr (d', r)" for d d' r
        using False that
        by (auto simp: d_grant_def insert_grant_def abs_db_def select_user_def
            select_config_def select_resource_def find_None_all grant_triple_def image_iff Let_def
            insert_absorb intro: rev_image_eqI split: if_splits)
      show "d_grant n i p (abs_db d) = abs_db d" if "insert_grant ?g d = Inl m" for d m
        using that
        by (auto simp: d_grant_def insert_grant_def abs_db_def select_user_None
            select_resource_None Let_def split: if_splits)
    qed simp
  qed
qed

lemma refines_RemoveGrant: "refines (RemoveGrant n i p) (d_revoke n i p)"
  unfolding RemoveGrant_def Let_def
proof (rule refines_stmt)
  show "abs_db d' = d_revoke n i p (abs_db d) \<and> (calm d \<longrightarrow> calm d')"
    if "delete_grant \<lparr>GUser = normalizeUsername n, GResource = TrimSpace i,
      GPermission = TrimSpace p\<rparr> d = Inr (d', r)" for d d' r
    using delete_grant_abs [OF that] that
    by (auto simp: d_revoke_def delete_grant_def grant_triple_def)
qed (auto simp: delete_grant_def)

lemma refines_SetConfig: "refines (SetConfig k v) (d_put_config k v)"
  unfolding SetConfig_def
  by (intro refines_stmt conjI replace_config_abs) (auto simp: replace_config_def)

text \<open>The three grants of an owner are three calls: a failure in between leaves a prefix.\<close>

lemma GrantOwner_calm:
  assumes "calm d"
  shows "calm (snd (run_state (GrantOwner n i) d)) \<and>
    abs_db (snd (run_state (GrantOwner n i) d)) =
      (d_grant n i ''write'' \<circ> d_grant n i ''read'' \<circ> d_grant n i ''owner'') (abs_db d)"
proof -
  have one: "calm (snd (run_state (AddGrant n i p) d)) \<and>
      abs_db (snd (run_state (AddGrant n i p) d)) = d_grant n i p (abs_db d)" if "calm d" for d p
    using refines_AddGrant [of n i p] that by (auto simp: refines_def Let_def)
  have ne: "[] \<notin> set grant_permissions" by (simp add: grant_permissions_def)
  have bad: "(\<exists>e. fst (run_state (AddGrant n i p) d) = Inl e) \<Longrightarrow>
      p \<in> set grant_permissions \<Longrightarrow> TrimSpace p = p \<Longrightarrow>
      d_grant n i q (abs_db d) = abs_db d" if "calm d" for d p q
    using that ne
    by (auto simp: AddGrant_def Let_def insert_grant_def d_grant_def abs_db_def
        select_user_None select_resource_None split: if_splits)
  have ps: "TrimSpace ''owner'' = ''owner''" "TrimSpace ''read'' = ''read''"
    "TrimSpace ''write'' = ''write''"
    "''owner'' \<in> set grant_permissions" "''read'' \<in> set grant_permissions"
    "''write'' \<in> set grant_permissions"
    by (simp_all add: TrimSpace_def is_space_def grant_permissions_def)
  let ?d1 = "snd (run_state (AddGrant n i ''owner'') d)"
  let ?d2 = "snd (run_state (AddGrant n i ''read'') ?d1)"
  have c1: "calm ?d1" and a1: "abs_db ?d1 = d_grant n i ''owner'' (abs_db d)" using one assms by auto
  have c2: "calm ?d2" and a2: "abs_db ?d2 = d_grant n i ''read'' (abs_db ?d1)" using one c1 by auto
  consider (e1) e where "fst (run_state (AddGrant n i ''owner'') d) = Inl e"
    | (e2) e where "fst (run_state (AddGrant n i ''owner'') d) = Inr ()"
        "fst (run_state (AddGrant n i ''read'') ?d1) = Inl e"
    | (ok) "fst (run_state (AddGrant n i ''owner'') d) = Inr ()"
        "fst (run_state (AddGrant n i ''read'') ?d1) = Inr ()"
    by (cases "fst (run_state (AddGrant n i ''owner'') d)";
        cases "fst (run_state (AddGrant n i ''read'') ?d1)") auto
  then show ?thesis
  proof cases
    case e1
    then have "d_grant n i q (abs_db d) = abs_db d" for q using bad [OF assms] ps by blast
    with e1 a1 c1 show ?thesis by (simp add: GrantOwner_def)
  next
    case e2
    then have "d_grant n i q (abs_db ?d1) = abs_db ?d1" for q using bad [OF c1] ps by blast
    with e2 a1 a2 c2 show ?thesis by (simp add: GrantOwner_def)
  next
    case ok
    with one [OF c2, of "''write''"] a1 a2 show ?thesis
      by (cases "fst (run_state (AddGrant n i ''write'') ?d2)") (simp_all add: GrantOwner_def)
  qed
qed

subsection \<open>The first administrator\<close>

lemma insert_first_user: "users d = [] \<Longrightarrow> insert_user u d = Inr (d\<lparr>users := [u]\<rparr>, ())"
  by (simp add: insert_user_def)

lemma run_rollback [simp]: "run_state (rollback d0 r) d = (r, d0\<lparr>faults := faults d\<rparr>)"
  by (simp add: rollback_def)

lemma faults_self [simp]: "(d :: db)\<lparr>faults := faults d\<rparr> = d" by simp

text \<open>All that \<open>CreateFirstAdmin\<close> can end with: it created the administrator and closed the
  registration, or it left every table as it was.\<close>

definition first_admin_done :: "int \<Rightarrow> string \<Rightarrow> string \<Rightarrow> string \<Rightarrow> db \<Rightarrow> db \<Rightarrow> bool" where
  "first_admin_done t n dn h d d' \<longleftrightarrow> users d = [] \<and>
    (\<exists>norm fs. validateUsername n = Inr norm \<and>
      d' = d\<lparr>users := [new_user norm dn h True t t],
             config := filter (\<lambda>p. fst p \<noteq> ''registration_open'') (config d) @
                [(''registration_open'', ''false'')], faults := fs\<rparr>)"

lemma CreateFirstAdmin_outcome:
  assumes "run_state (CreateFirstAdmin t n dn h) d = (r, d')"
  shows "r = Inr True \<and> first_admin_done t n dn h d d' \<or>
    r \<noteq> Inr True \<and> (\<exists>fs. d' = d\<lparr>faults := fs\<rparr>) \<and> (r = Inr False \<longrightarrow> users d \<noteq> [])"
proof (cases "validateUsername n")
  case (Inl e)
  with assms have "r = Inl e \<and> d' = d\<lparr>faults := faults d\<rparr>" by (simp add: CreateFirstAdmin_def)
  then show ?thesis by blast
next
  case (Inr norm)
  let ?u = "new_user norm dn h True t t"
  note run = assms [unfolded CreateFirstAdmin_def Inr sum.case Let_def, folded new_user_def]
  let ?d2 = "popped (popped d)"
  show ?thesis
  proof (cases "fault_of d = None \<and> fault_of (popped d) = None \<and> users d = []")
    case False
    with run show ?thesis
      by (auto simp: popped_def split: option.splits if_splits)
  next
    case True
    then have ins: "insert_user ?u (popped ?d2) = Inr ((popped ?d2)\<lparr>users := [?u]\<rparr>, ())"
      by (simp add: insert_first_user)
    with run True Inr show ?thesis
      by (auto simp: replace_config_def popped_def first_admin_done_def split: option.splits)
  qed
qed

lemma users_empty_abs: "d_user (abs_db d) = Map.empty \<longleftrightarrow> users d = []"
proof
  assume "d_user (abs_db d) = Map.empty"
  then have "select_user n d = None" for n by (simp add: abs_db_def fun_eq_iff)
  then show "users d = []"
    by (cases "users d") (auto simp: select_user_None)
qed (simp add: abs_db_def select_user_def fun_eq_iff)

lemma abs_faults [simp]: "abs_db (d\<lparr>faults := fs\<rparr>) = abs_db d"
  by (simp add: abs_db_def select_user_def select_config_def select_resource_def fun_eq_iff)

lemma first_admin_abs:
  assumes "first_admin_done t n dn h d d'"
  shows "abs_db d' =
    for_valid n (\<lambda>norm. d_first_admin (new_user norm dn h True t t)) (abs_db d)"
proof -
  from assms obtain norm fs where v: "validateUsername n = Inr norm" and e: "users d = []"
    and d': "d' = d\<lparr>users := [new_user norm dn h True t t],
        config := filter (\<lambda>p. fst p \<noteq> ''registration_open'') (config d) @
          [(''registration_open'', ''false'')], faults := fs\<rparr>"
    by (auto simp: first_admin_done_def)
  let ?u = "new_user norm dn h True t t"
  have "abs_db d' = d_put_config ''registration_open'' ''false'' (abs_db (d\<lparr>users := [?u]\<rparr>))"
    using replace_config_abs [of "''registration_open''" "''false''" "d\<lparr>users := [?u]\<rparr>" "d'\<lparr>faults := faults d\<rparr>" "()"]
    by (simp add: replace_config_def d')
  also have "abs_db (d\<lparr>users := [?u]\<rparr>) = d_add_user ?u (abs_db d)"
    by (rule insert_user_abs(2)) (rule insert_first_user [OF e])
  finally show ?thesis
    using v e by (simp add: for_valid_def d_first_admin_def users_empty_abs)
qed

lemma CreateFirstAdmin_calm:
  assumes "calm d" and "users d = []" and "validateUsername n = Inr norm"
  shows "fst (run_state (CreateFirstAdmin t n dn h) d) = Inr True"
  using assms by (simp add: CreateFirstAdmin_def Let_def insert_user_def replace_config_def)

lemma refines_CreateFirstAdmin:
  "refines (CreateFirstAdmin t n dn h)
    (for_valid n (\<lambda>norm. d_first_admin (new_user norm dn h True t t)))"
  unfolding refines_def Let_def
proof (rule allI)
  fix d
  let ?f = "for_valid n (\<lambda>norm. d_first_admin (new_user norm dn h True t t))"
  obtain r d' where run: "run_state (CreateFirstAdmin t n dn h) d = (r, d')" by fastforce
  note out = CreateFirstAdmin_outcome [OF run]
  have calm': "calm d'" if "calm d"
    using run that
    by (cases "validateUsername n")
       (auto simp: CreateFirstAdmin_def Let_def insert_user_def replace_config_def calm_def
          split: if_splits)
  have "abs_db d' = ?f (abs_db d)" if "calm d" "r \<noteq> Inr True"
  proof -
    from out that have d': "abs_db d' = abs_db d" by auto
    show ?thesis
    proof (cases "validateUsername n")
      case (Inr norm)
      with CreateFirstAdmin_calm [OF that(1) _ Inr, of t dn h] run that(2) have "users d \<noteq> []" by auto
      with Inr d' show ?thesis by (simp add: for_valid_def d_first_admin_def users_empty_abs)
    qed (simp add: d' for_valid_def)
  qed
  with out calm' show "(abs_db (snd (run_state (CreateFirstAdmin t n dn h) d)) = abs_db d \<or>
      abs_db (snd (run_state (CreateFirstAdmin t n dn h) d)) = ?f (abs_db d)) \<and>
    (calm d \<longrightarrow> calm (snd (run_state (CreateFirstAdmin t n dn h) d)) \<and>
      abs_db (snd (run_state (CreateFirstAdmin t n dn h) d)) = ?f (abs_db d))"
    using first_admin_abs [of t n dn h d d'] by (auto simp: run)
qed

lemma calls_refine:
  assumes "\<forall>n i. c \<noteq> CallGrantOwner n i"
  shows "refines (exec_call c) (spec_call c)"
  using assms
  by (cases c) (auto simp: SetRegistrationOpen_def Let_def refines_AddUser refines_ImportLegacyUser
      refines_SetPassword refines_DeleteUser refines_CreateFirstAdmin refines_UpsertResource
      refines_DeleteResource refines_AddGrant refines_RemoveGrant refines_SetAdmin refines_SetConfig)

lemma calls_refine_calm:
  assumes "calm d"
  shows "calm (snd (run_state (exec_call c) d)) \<and>
    abs_db (snd (run_state (exec_call c) d)) = spec_call c (abs_db d)"
proof (cases "\<exists>n i. c = CallGrantOwner n i")
  case True
  with GrantOwner_calm [OF assms] show ?thesis by (auto simp: ignore_def)
next
  case False
  with calls_refine [of c] assms show ?thesis by (auto simp: refines_def Let_def)
qed

lemma store_run_calm: "calm d \<Longrightarrow> calm (exec_calls cs d)"
  by (induction cs arbitrary: d) (simp_all add: calls_refine_calm)

lemma store_map_run:
  assumes "calm d"
  shows "abs_db (exec_calls cs d) = fold spec_call cs (abs_db d)"
  using assms
proof (induction cs arbitrary: d)
  case (Cons c cs)
  with calls_refine_calm [OF Cons.prems, of c] show ?case by simp
qed simp

text \<open>C7: the tables refine the directory of maps: when the driver does not fail, each sequence of
  store calls has on the maps exactly the effect of the sequence of its specifications.\<close>

theorem store_refines_directory:
  assumes "calm d"
  shows "abs_db (exec_calls cs d) = fold spec_call cs (abs_db d)"
  by (rule store_map_run [OF assms])

theorem store_refines_directory_witness:
  "abs_db (exec_calls [CallAddUser 7 ''Bob'' '''' ''h'' False, CallSetAdmin 8 ''bob'' True] (empty_db [])) =
   fold spec_call [CallAddUser 7 ''Bob'' '''' ''h'' False, CallSetAdmin 8 ''bob'' True]
     (abs_db (empty_db []))"
  by (rule store_refines_directory) (simp add: calm_def empty_db_def)

text \<open>C8: every call but \<open>GrantOwner\<close> is atomic under any driver fault: it leaves the directory as
  it was, or has its whole specified effect.\<close>

theorem store_calls_atomic:
  assumes "\<forall>n i. c \<noteq> CallGrantOwner n i"
  shows "abs_db (snd (run_state (exec_call c) d)) = abs_db d \<or>
    abs_db (snd (run_state (exec_call c) d)) = spec_call c (abs_db d)"
  using calls_refine [OF assms] by (auto simp: refines_def Let_def)

theorem store_calls_atomic_witness:
  "abs_db (snd (run_state (exec_call (CallDeleteUser ''bob'')) (empty_db [Some ''disk I/O error'']))) =
     abs_db (empty_db [Some ''disk I/O error'']) \<or>
   abs_db (snd (run_state (exec_call (CallDeleteUser ''bob'')) (empty_db [Some ''disk I/O error'']))) =
     spec_call (CallDeleteUser ''bob'') (abs_db (empty_db [Some ''disk I/O error'']))"
  by (rule store_calls_atomic) simp

text \<open>Any number of bootstrap calls, one after the other on the single connection.\<close>

fun bootstrap :: "(int \<times> string \<times> string \<times> string) list \<Rightarrow> (db, (store_err, bool) result list) state" where
  "bootstrap [] = State_Monad.return []"
| "bootstrap ((t, n, dn, h) # cs) = do {
     r \<leftarrow> CreateFirstAdmin t n dn h;
     rs \<leftarrow> bootstrap cs;
     State_Monad.return (r # rs) }"

lemma bootstrap_none:
  "users d \<noteq> [] \<Longrightarrow> Inr True \<notin> set (fst (run_state (bootstrap cs) d)) \<and>
    users (snd (run_state (bootstrap cs) d)) = users d \<and>
    config (snd (run_state (bootstrap cs) d)) = config d"
proof (induction cs arbitrary: d)
  case (Cons c cs)
  obtain t n dn h where c: "c = (t, n, dn, h)" by (cases c)
  obtain r d' where run: "run_state (CreateFirstAdmin t n dn h) d = (r, d')" by fastforce
  from CreateFirstAdmin_outcome [OF run] Cons.prems
  have "r \<noteq> Inr True" "users d' = users d" "config d' = config d"
    by (auto simp: first_admin_done_def)
  with Cons.IH [of d'] Cons.prems show ?case by (simp add: c run)
qed simp

lemma first_admin_done_state:
  assumes "first_admin_done t n dn h d d'"
  shows "users d = []" and "\<exists>u. users d' = [u] \<and> IsAdmin u \<and> usernamePattern (Username u)"
    and "select_config ''registration_open'' d' = Some ''false''"
  using assms
  by (auto simp: first_admin_done_def new_user_def validateUsername_Inr select_config_def
      find_append find_filter_key find_None_all split: option.split)

text \<open>C10: however many first-admin requests race and however the driver fails, at most one of them
  reports that it created the administrator; if one does, the only user is its administrator and
  the registration is closed, and if none does, the users are those of the start.\<close>

theorem first_admin_once:
  "let (rs, d') = run_state (bootstrap cs) d in
     length (filter (\<lambda>r. r = Inr True) rs) \<le> 1 \<and>
     (Inr True \<in> set rs \<longrightarrow> users d = [] \<and>
        (\<exists>u. users d' = [u] \<and> IsAdmin u \<and> usernamePattern (Username u)) \<and>
        select_config ''registration_open'' d' = Some ''false'') \<and>
     (Inr True \<notin> set rs \<longrightarrow> users d' = users d)"
proof (induction cs arbitrary: d)
  case (Cons c cs)
  obtain t n dn h where c: "c = (t, n, dn, h)" by (cases c)
  obtain r d1 where run: "run_state (CreateFirstAdmin t n dn h) d = (r, d1)" by fastforce
  obtain rs d' where rest: "run_state (bootstrap cs) d1 = (rs, d')" by fastforce
  have all: "run_state (bootstrap (c # cs)) d = (r # rs, d')" by (simp add: c run rest)
  show ?case
  proof (cases "r = Inr True")
    case False
    with CreateFirstAdmin_outcome [OF run] have "users d1 = users d" by auto
    with Cons.IH [of d1] False show ?thesis by (simp add: all rest)
  next
    case True
    with CreateFirstAdmin_outcome [OF run] have created: "first_admin_done t n dn h d d1" by auto
    then have "users d1 \<noteq> []" using first_admin_done_state(2) by fastforce
    with bootstrap_none [of d1 cs] rest have "Inr True \<notin> set rs" "users d' = users d1"
      "select_config ''registration_open'' d' = select_config ''registration_open'' d1"
      by (auto simp: select_config_def)
    moreover from this(1) have "filter (\<lambda>r. r = Inr True) rs = []" by (auto simp: filter_empty_conv)
    ultimately show ?thesis
      using first_admin_done_state [OF created] True by (simp add: all)
  qed
qed simp

theorem first_admin_once_witness:
  "\<exists>u. users (snd (run_state (bootstrap [(1, ''ann'', '''', ''h1''), (2, ''bob'', '''', ''h2'')]) (empty_db []))) = [u] \<and>
    IsAdmin u"
proof -
  let ?d = "empty_db []"
  have "usernamePattern ''ann''" "normalizeUsername ''ann'' = ''ann''" by code_simp+
  then have v: "validateUsername ''ann'' = Inr ''ann''" by (simp add: validateUsername_Inr)
  have d: "calm ?d" "users ?d = []" by (simp_all add: calm_def empty_db_def)
  have "Inr True \<in> set (fst (run_state (bootstrap [(1, ''ann'', '''', ''h1''), (2, ''bob'', '''', ''h2'')]) ?d))"
    using CreateFirstAdmin_calm [OF d v] by simp
  with first_admin_once [of "[(1, ''ann'', '''', ''h1''), (2, ''bob'', '''', ''h2'')]" ?d] show ?thesis
    by (auto simp: Let_def split: prod.splits)
qed

subsection \<open>Token versions\<close>

definition version_of :: "string \<Rightarrow> directory \<Rightarrow> int option" where
  "version_of n a = map_option TokenVersion (d_user a n)"

text \<open>
  The interface of a directory whose users carry a version: a step either leaves the version of a
  user alone or increases it, as long as the user is not removed.
\<close>

locale version_clock =
  fixes version :: "'d \<Rightarrow> int option" and step :: "'c \<Rightarrow> 'd \<Rightarrow> 'd" and keep :: "'c \<Rightarrow> bool"
  assumes step_mono: "keep c \<Longrightarrow> version d = Some v \<Longrightarrow> \<exists>v'\<ge>v. version (step c d) = Some v'"
begin

lemma steps_mono:
  "\<forall>c\<in>set cs. keep c \<Longrightarrow> version d = Some v \<Longrightarrow> \<exists>v'\<ge>v. version (fold step cs d) = Some v'"
proof (induction cs arbitrary: d v)
  case (Cons c cs)
  then obtain v1 where "v \<le> v1" "version (step c d) = Some v1"
    using step_mono [of c d v] by auto
  with Cons.IH [of "step c d" v1] Cons.prems show ?case by fastforce
qed simp

lemma stale:
  assumes "\<forall>c\<in>set cs. keep c" and "version d = Some v" and "old < v"
  shows "version (fold step cs d) \<noteq> Some old"
  using steps_mono [OF assms(1,2)] assms(3) by auto

end

text \<open>
  The same with removals and creations: a removed user has no version until some step makes him again.
\<close>

locale account_clock = version_clock version step keep
  for version :: "'d \<Rightarrow> int option" and step :: "'c \<Rightarrow> 'd \<Rightarrow> 'd" and keep :: "'c \<Rightarrow> bool" +
  fixes makes :: "'c \<Rightarrow> bool"
  assumes step_drop: "version d = Some v \<Longrightarrow> version (step c d) = None \<or> (\<exists>v'\<ge>v. version (step c d) = Some v')"
    and step_absent: "\<not> makes c \<Longrightarrow> version d = None \<Longrightarrow> version (step c d) = None"
begin

lemma steps_absent: "\<forall>c\<in>set cs. \<not> makes c \<Longrightarrow> version d = None \<Longrightarrow> version (fold step cs d) = None"
  by (induction cs arbitrary: d) (simp_all add: step_absent)

lemma stale_unless_remade:
  assumes "sorted_wrt (\<lambda>x y. keep x \<or> \<not> makes y) cs" and "version d = Some v" and "old < v"
  shows "version (fold step cs d) \<noteq> Some old"
  using assms
proof (induction cs arbitrary: d v)
  case (Cons c cs)
  show ?case
  proof (cases "version (step c d)")
    case None
    with Cons.prems(1,2) step_mono [of c d v] have "\<forall>x\<in>set cs. \<not> makes x" by auto
    from steps_absent [OF this None] show ?thesis by simp
  next
    case (Some v')
    with step_drop [OF Cons.prems(2), of c] have "v \<le> v'" by auto
    with Cons.IH [OF _ Some] Cons.prems show ?thesis by simp
  qed
qed simp

end

definition deletes :: "string \<Rightarrow> store_call \<Rightarrow> bool" where
  "deletes n c \<longleftrightarrow> (\<exists>m. c = CallDeleteUser m \<and> normalizeUsername m = n)"

lemma version_d_simps:
  "version_of n (d_change_user m f a) =
    (if n = m then map_option (TokenVersion \<circ> f) (d_user a n) else version_of n a)"
  "version_of n (d_put_resource i nm t a) = version_of n a"
  "version_of n (d_remove_resource i a) = version_of n a"
  "version_of n (d_put_config k v a) = version_of n a"
  "version_of n (d_revoke u i p a) = version_of n a"
  "version_of n (d_grant u i p a) = version_of n a"
  by (auto simp: version_of_def d_change_user_def d_put_resource_def d_remove_resource_def
      d_put_config_def d_revoke_def d_grant_def Let_def option.map_comp)

lemma version_create:
  "version_of n a = Some v \<Longrightarrow> version_of n (d_create u a) = Some v"
  by (auto simp: version_of_def d_create_def d_add_user_def)

lemma version_first_admin:
  "version_of n a = Some v \<Longrightarrow> version_of n (d_first_admin u a) = Some v"
  by (auto simp: version_of_def d_first_admin_def d_add_user_def d_put_config_def)

lemma version_remove:
  "version_of n a = Some v \<Longrightarrow> m \<noteq> n \<Longrightarrow> version_of n (d_remove_user m a) = Some v"
  by (auto simp: version_of_def d_remove_user_def)

definition version_ge :: "string \<Rightarrow> int \<Rightarrow> directory \<Rightarrow> bool" where
  "version_ge n v a \<longleftrightarrow> (\<exists>v'\<ge>v. version_of n a = Some v')"

lemma version_geI: "version_of n a = Some v \<Longrightarrow> version_ge n v a"
  by (auto simp: version_ge_def)

lemma version_ge_valid:
  assumes "version_of n a = Some v"
    and "\<And>norm. validateUsername m = Inr norm \<Longrightarrow> version_ge n v (f norm a)"
  shows "version_ge n v (for_valid m f a)"
  using assms by (cases "validateUsername m") (auto simp: for_valid_def intro: version_geI)

lemma version_ge_change:
  assumes "version_of n a = Some v" and "\<And>u. TokenVersion u \<le> TokenVersion (f u)"
  shows "version_ge n v (d_change_user m f a)"
  using assms by (cases "n = m") (auto simp: version_ge_def version_of_def d_change_user_def)

lemma version_spec_call:
  assumes "\<not> deletes n c" and "version_of n a = Some v"
  shows "\<exists>v'\<ge>v. version_of n (spec_call c a) = Some v'"
proof -
  note rules = version_ge_valid version_ge_change version_geI [OF version_create]
    version_geI [OF version_first_admin] version_geI [OF version_remove]
  have "version_ge n v (spec_call c a)"
    using assms
    by (cases c)
       (auto intro!: rules intro: version_geI simp: version_d_simps for_id_def password_change_def admin_change_def
          deletes_def validateUsername_Inr)
  then show ?thesis by (simp add: version_ge_def)
qed

text \<open>The calls that may put a user into the tables.\<close>

fun creates :: "string \<Rightarrow> store_call \<Rightarrow> bool" where
  "creates n (CallAddUser t m dn h a) \<longleftrightarrow> normalizeUsername m = n"
| "creates n (CallImportLegacyUser m dn h c t a) \<longleftrightarrow> normalizeUsername m = n"
| "creates n (CallCreateFirstAdmin t m dn h) \<longleftrightarrow> normalizeUsername m = n"
| "creates n _ \<longleftrightarrow> False"

lemma version_none_simps:
  "version_of n a = None \<Longrightarrow> version_of n (d_remove_user m a) = None"
  "version_of n a = None \<Longrightarrow> version_of n (d_change_user m f a) = None"
  "version_of n a = None \<Longrightarrow> Username u \<noteq> n \<Longrightarrow> version_of n (d_create u a) = None"
  "version_of n a = None \<Longrightarrow> Username u \<noteq> n \<Longrightarrow> version_of n (d_first_admin u a) = None"
  by (auto simp: version_of_def d_remove_user_def d_change_user_def d_create_def d_first_admin_def
      d_add_user_def d_put_config_def)

lemma version_spec_absent:
  assumes "\<not> creates n c" and "version_of n a = None"
  shows "version_of n (spec_call c a) = None"
  using assms
  by (cases c)
     (auto simp: for_valid_def for_id_def version_d_simps(2-) version_none_simps validateUsername_Inr new_user_def
       intro!: version_none_simps split: sum.split)

lemma version_spec_drop:
  assumes "version_of n a = Some v"
  shows "version_of n (spec_call c a) = None \<or> (\<exists>v'\<ge>v. version_of n (spec_call c a) = Some v')"
proof (cases "deletes n c")
  case True
  then obtain m where m: "c = CallDeleteUser m" "normalizeUsername m = n" by (auto simp: deletes_def)
  show ?thesis
  proof (cases "validateUsername m")
    case (Inl e)
    with m assms show ?thesis by (simp add: for_valid_def)
  next
    case (Inr norm)
    moreover from this m have "norm = n" by (simp add: validateUsername_Inr)
    ultimately show ?thesis using m by (simp add: for_valid_def version_of_def d_remove_user_def)
  qed
qed (use version_spec_call [OF _ assms] in blast)

interpretation versions: account_clock "version_of n" spec_call "\<lambda>c. \<not> deletes n c" "creates n" for n
  by unfold_locales (rule version_spec_call, assumption+, rule version_spec_drop, assumption,
    rule version_spec_absent, assumption+)

section \<open>The grants of a user\<close>

definition grants_map :: "grant_row list \<Rightarrow> (string \<times> string list) list" where
  "grants_map gs = fold (\<lambda>g. append_grant (GResource g) (GPermission g)) gs []"

lemma append_grant_map_of:
  "map_of (append_grant i p out) j =
    (if j = i then Some ((case map_of out i of None \<Rightarrow> [] | Some ps \<Rightarrow> ps) @ [p]) else map_of out j)"
  by (induction i p out rule: append_grant.induct) auto

lemma append_grant_keys: "fst ` set (append_grant i p out) = insert i (fst ` set out)"
  by (induction i p out rule: append_grant.induct) auto

lemma append_grant_distinct: "distinct (map fst out) \<Longrightarrow> distinct (map fst (append_grant i p out))"
  by (induction i p out rule: append_grant.induct) (auto simp: append_grant_keys)

lemma grants_map_spec:
  "distinct (map fst (grants_map gs)) \<and> fst ` set (grants_map gs) = GResource ` set gs \<and>
   map_of (grants_map gs) i =
    (let ps = map GPermission (filter (\<lambda>g. GResource g = i) gs) in if ps = [] then None else Some ps)"
proof (induction gs rule: rev_induct)
  case (snoc g gs)
  then show ?case
    by (auto simp: grants_map_def append_grant_distinct append_grant_keys append_grant_map_of
        filter_empty_conv Let_def)
qed (simp add: grants_map_def)

lemma select_grants_set: "set (select_grants n d) = {g \<in> set (grants d). GUser g = n}"
  by (auto simp: select_grants_def)

lemma sorted_permissions:
  "sorted (map GPermission (filter (\<lambda>g. GResource g = i) (select_grants n d)))"
proof -
  let ?k = "\<lambda>g. GrantKey (GResource g) (GPermission g)"
  have "sorted (map ?k (select_grants n d))"
    by (simp add: select_grants_def)
  then have "sorted_wrt (\<lambda>g h. ?k g \<le> ?k h) (filter (\<lambda>g. GResource g = i) (select_grants n d))"
    by (simp add: sorted_map sorted_wrt_filter)
  then have "sorted_wrt (\<lambda>g h. GPermission g \<le> GPermission h)
      (filter (\<lambda>g. GResource g = i) (select_grants n d))"
    by (rule sorted_wrt_mono_rel [rotated]) (auto simp: less_eq_grant_key_def)
  then show ?thesis by (simp add: sorted_map)
qed

lemma run_GrantsFor_Inr:
  assumes "fst (run_state (GrantsFor n) d) = Inr out"
  shows "out = (if normalizeUsername n = [] then []
    else grants_map (select_grants (normalizeUsername n) d))"
proof (cases "normalizeUsername n = []")
  case False
  let ?gs = "select_grants (normalizeUsername n) d"
  note scan = run_scan_rows [of "''scanning grant row''" "''iterating grant rows''" ?gs "popped d"]
  from assms False scan show ?thesis
    by (auto simp: GrantsFor_def Let_def grants_map_def split: option.splits)
qed (use assms in \<open>simp add: GrantsFor_def\<close>)

lemma GrantsFor_calm:
  "calm d \<Longrightarrow> fst (run_state (GrantsFor n) d) = Inr (if normalizeUsername n = [] then []
    else grants_map (select_grants (normalizeUsername n) d))"
  by (simp add: GrantsFor_def Let_def grants_map_def)

end
