(* ===== verification/Durations.thy ===== *)
theory Durations
  imports Go_Strings
begin

text \<open>
  \<open>time.ParseDuration\<close>, through which the programs read their \<open>token_ttl\<close> setting: a signed
  sequence of decimal numbers with units, in nanoseconds, with the range checks of the library.
  The fraction of a number is taken exactly.
\<close>

definition duration_unit :: "string \<Rightarrow> nat option" where
  "duration_unit u =
    (if u = ''ns'' then Some 1
     else if u = ''us'' \<or> u = [CHR 0xC2, CHR 0xB5, CHR ''s''] \<or> u = [CHR 0xCE, CHR 0xBC, CHR ''s'']
     then Some 1000
     else if u = ''ms'' then Some 1000000
     else if u = ''s'' then Some 1000000000
     else if u = ''m'' then Some (60 * 1000000000)
     else if u = ''h'' then Some (3600 * 1000000000)
     else None)"

text \<open>The digits of a fraction, up to the point where they would overflow.\<close>

fun leading_fraction :: "string \<Rightarrow> nat \<Rightarrow> nat \<Rightarrow> nat \<times> nat" where
  "leading_fraction [] x scale = (x, scale)"
| "leading_fraction (c # s) x scale =
    (let y = x * 10 + digit_val c
     in if x > (2 ^ 63 - 1) div 10 \<or> y > 2 ^ 63 then (x, scale)
        else leading_fraction s y (scale * 10))"

text \<open>One number with its unit: its value and the rest of the text.\<close>

definition duration_part :: "string \<Rightarrow> (nat \<times> string) option" where
  "duration_part s =
    (let ds = takeWhile is_digit s; s1 = dropWhile is_digit s;
         dot = (case s1 of c # _ \<Rightarrow> c = CHR ''.'' | [] \<Rightarrow> False);
         fs = (if dot then takeWhile is_digit (tl s1) else []);
         s2 = (if dot then dropWhile is_digit (tl s1) else s1);
         u = takeWhile (\<lambda>c. c \<noteq> CHR ''.'' \<and> \<not> is_digit c) s2;
         s3 = dropWhile (\<lambda>c. c \<noteq> CHR ''.'' \<and> \<not> is_digit c) s2;
         (f, scale) = leading_fraction fs 0 1
     in if digits_val ds > 2 ^ 63 then None
        else if ds = [] \<and> fs = [] then None
        else if u = [] then None
        else case duration_unit u of None \<Rightarrow> None
        | Some unit \<Rightarrow>
            let v = digits_val ds * unit; w = v + f * unit div scale
            in if digits_val ds > 2 ^ 63 div unit \<or> w > 2 ^ 63 then None else Some (w, s3))"

lemma duration_part_shorter: "duration_part s = Some (w, r) \<Longrightarrow> length r < length s"
proof -
  assume part: "duration_part s = Some (w, r)"
  let ?s1 = "dropWhile is_digit s"
  let ?dot = "case ?s1 of c # _ \<Rightarrow> c = CHR ''.'' | [] \<Rightarrow> False"
  let ?s2 = "if ?dot then dropWhile is_digit (tl ?s1) else ?s1"
  let ?p = "\<lambda>c. c \<noteq> CHR ''.'' \<and> \<not> is_digit c"
  have "length ?s1 \<le> length s"
    and "length (dropWhile is_digit (tl ?s1)) \<le> length (tl ?s1)"
    by (rule length_dropWhile_le)+
  moreover from this have "length (dropWhile is_digit (tl ?s1)) \<le> length s"
    unfolding length_tl by linarith
  ultimately have "length ?s2 \<le> length s" by simp
  moreover from part have u: "takeWhile ?p ?s2 \<noteq> []" and r: "r = dropWhile ?p ?s2"
    by (auto simp: duration_part_def Let_def split: if_splits option.splits prod.splits)
  have "length (takeWhile ?p ?s2) + length (dropWhile ?p ?s2) = length ?s2"
    by (metis length_append takeWhile_dropWhile_id)
  ultimately show ?thesis using u r by (cases "takeWhile ?p ?s2") auto
qed

function duration_parts :: "string \<Rightarrow> nat \<Rightarrow> nat option" where
  "duration_parts s d =
    (if s = [] then Some d
     else case duration_part s of None \<Rightarrow> None
     | Some (w, r) \<Rightarrow> if d + w > 2 ^ 63 then None else duration_parts r (d + w))"
  by auto
termination
  by (relation "measure (length \<circ> fst)") (auto simp: duration_part_shorter)

declare duration_parts.simps [simp del]

definition ParseDuration :: "string \<Rightarrow> int option" where
  "ParseDuration orig =
    (let signed = (case orig of c # _ \<Rightarrow> c = CHR ''-'' \<or> c = CHR ''+'' | [] \<Rightarrow> False);
         neg = (case orig of c # _ \<Rightarrow> c = CHR ''-'' | [] \<Rightarrow> False);
         s = (if signed then tl orig else orig)
     in if s = ''0'' then Some 0
        else if s = [] then None
        else case duration_parts s 0 of None \<Rightarrow> None
        | Some d \<Rightarrow> if neg then Some (- int d) else if d > 2 ^ 63 - 1 then None else Some (int d))"

lemma ParseDuration_range:
  assumes "ParseDuration s = Some t"
  shows "- (2 ^ 63) \<le> t \<and> t < 2 ^ 63"
proof -
  have bound: "duration_parts s d = Some r \<Longrightarrow> d \<le> 2 ^ 63 \<Longrightarrow> r \<le> 2 ^ 63" for s d r
  proof (induction s d rule: duration_parts.induct)
    case (1 s d)
    from "1.prems" show ?case
      using "1.IH"
      by (subst (asm) duration_parts.simps) (auto split: if_splits option.splits)
  qed
  show ?thesis
    using assms bound [of _ 0]
    by (fastforce simp: ParseDuration_def Let_def split: if_splits option.splits)
qed

lemma ParseDuration_default: "ParseDuration ''168h'' = Some (168 * 60 * nminute)"
  by (simp add: ParseDuration_def Let_def duration_parts.simps duration_part_def is_digit_def
      duration_unit_def digits_val_def digit_val_def)

end
