(* ===== verification/Service.thy ===== *)
theory Service
  imports Store_Spec Durations
begin

text \<open>
  The minting and verification of tokens: \<open>src/arc-lore-auth/perms.go\<close> (the effective grants of
  a user), \<open>mint.go\<close> (the claims), \<open>service.go\<close> (\<open>MintFor\<close>, \<open>VerifyAuthn\<close>) and the token
  helpers of \<open>grpc.go\<close>. The JWT library and the server's key are parameters: \<open>jwt_sign\<close> maps a
  key id and claims to the signed text, \<open>jwt_parse\<close> checks a text under parser options at a time
  and delivers its claims with the \<open>Valid\<close> flag.
\<close>

section \<open>Configuration, claims and the token library\<close>

record resource_entry =
  re_ResourceID :: string
  re_Permission :: "string list"

record auth_config =
  cfg_Issuer :: string
  cfg_Audience :: string
  cfg_Env :: string
  cfg_IDP :: string
  cfg_AdminSecret :: string
  cfg_WebBaseURL :: string
  cfg_SessionTTL :: int
  cfg_TokenTTL :: string
  cfg_UsersFile :: string
  cfg_DefaultResources :: "resource_entry list"

record arcLoreClaims =
  Subject :: string
  Issuer :: string
  Audience :: "string list"
  IssuedAt :: "int option"
  ExpiresAt :: "int option"
  ClName :: string
  PreferredUsername :: string
  ClEnv :: string
  ClIDP :: string
  ClResources :: "resource_entry list"
  IsServiceAccount :: bool
  ClTokenVersion :: int

text \<open>Times of claims (\<open>NumericDate\<close>) are Unix seconds. A parser's options, with the key function:
  what it answers for the signing method of the token, an error or the public key.\<close>

record jwt_method =
  method_RSA :: bool
  method_Alg :: string

record parser_opts =
  ValidMethods :: "string list"
  ExpirationRequired :: bool
  WithIssuer :: "string option"
  WithAudience :: "string option"
  KeyFunc :: "jwt_method \<Rightarrow> string option"

record jwt_lib =
  jwt_sign :: "string \<Rightarrow> arcLoreClaims \<Rightarrow> (string, string) result"
  jwt_parse :: "parser_opts \<Rightarrow> int \<Rightarrow> string \<Rightarrow> (string, arcLoreClaims \<times> bool) result"

text \<open>gRPC status codes.\<close>

datatype code =
    Unauthenticated
  | PermissionDenied
  | Internal
  | InvalidArgument
  | FailedPrecondition
  | Unimplemented

type_synonym rpc_err = "code \<times> string"

section \<open>perms.go\<close>

definition is_not_found :: "store_err \<Rightarrow> bool" where
  "is_not_found e = (case e of ErrUserNotFound _ \<Rightarrow> True | _ \<Rightarrow> False)"

definition is_user_exists :: "store_err \<Rightarrow> bool" where
  "is_user_exists e = (case e of ErrUserExists _ \<Rightarrow> True | _ \<Rightarrow> False)"

definition full_permissions :: "string list" where
  "full_permissions = [''read'', ''write'', ''owner'', ''admin'', ''obliterate'', ''migrate'']"

definition wildcard_entry :: resource_entry where
  "wildcard_entry = \<lparr>re_ResourceID = ''urc-*'',
    re_Permission = [''read'', ''write'', ''migrate'', ''obliterate'']\<rparr>"

definition effectiveResources :: "string \<Rightarrow> (resource_entry list \<times> bool) store_op" where
  "effectiveResources username = do {
     r \<leftarrow> GetUser username;
     case r of
       Inl e \<Rightarrow> State_Monad.return (if is_not_found e then Inr ([], False) else Inl e)
     | Inr u \<Rightarrow>
         if IsAdmin u then do {
           rs \<leftarrow> ListResources;
           State_Monad.return (case rs of
               Inl e \<Rightarrow> Inl e
             | Inr rows \<Rightarrow> Inr (map (\<lambda>r. \<lparr>re_ResourceID = ResourceID r,
                   re_Permission = full_permissions\<rparr>) rows @ [wildcard_entry], True)) }
         else do {
           gs \<leftarrow> GrantsFor username;
           State_Monad.return (case gs of
               Inl e \<Rightarrow> Inl e
             | Inr granted \<Rightarrow>
                 let ids = sort (map fst granted)
                 in Inr (map (\<lambda>i. \<lparr>re_ResourceID = i,
                       re_Permission = (case map_of granted i of None \<Rightarrow> [] | Some ps \<Rightarrow> ps)\<rparr>) ids,
                     True)) } }"

section \<open>mint.go\<close>

definition defaultResources :: "auth_config \<Rightarrow> resource_entry list" where
  "defaultResources cfg =
    (if length (cfg_DefaultResources cfg) > 0 then cfg_DefaultResources cfg
     else [\<lparr>re_ResourceID = ''urc-*'', re_Permission = [''read'', ''write'']\<rparr>])"

datatype mint_err =
    BadTTL string
  | SignFailed string
  | UnknownSubject
  | StoreFailed store_err
  | ParseFailed string
  | NoExpiry
  | NoSubject

definition mintTokenWithResources ::
  "jwt_lib \<Rightarrow> auth_config \<Rightarrow> int \<Rightarrow> string \<Rightarrow> string \<Rightarrow> string \<Rightarrow> resource_entry list \<Rightarrow> int \<Rightarrow>
    (mint_err, string) result" where
  "mintTokenWithResources lib cfg now kid subject displayName entries tokenVersion =
    (case ParseDuration (cfg_TokenTTL cfg) of
       None \<Rightarrow> Inl (BadTTL (cfg_TokenTTL cfg))
     | Some ttl \<Rightarrow>
         let displayName = (if displayName = '''' then subject else displayName);
             claims = \<lparr>Subject = subject, Issuer = cfg_Issuer cfg, Audience = [cfg_Audience cfg],
               IssuedAt = Some (unix_of now), ExpiresAt = Some (unix_of (now + ttl)),
               ClName = displayName, PreferredUsername = subject, ClEnv = cfg_Env cfg,
               ClIDP = cfg_IDP cfg, ClResources = entries, IsServiceAccount = False,
               ClTokenVersion = tokenVersion\<rparr>
         in case jwt_sign lib kid claims of
              Inl e \<Rightarrow> Inl (SignFailed e)
            | Inr tok \<Rightarrow> Inr tok)"

definition mintToken ::
  "jwt_lib \<Rightarrow> auth_config \<Rightarrow> int \<Rightarrow> string \<Rightarrow> string \<Rightarrow> (mint_err, string) result" where
  "mintToken lib cfg now kid username =
    mintTokenWithResources lib cfg now kid username username (defaultResources cfg) 0"

section \<open>The token helpers of grpc.go\<close>

definition authn_opts :: "auth_config \<Rightarrow> parser_opts" where
  "authn_opts cfg = \<lparr>ValidMethods = [''RS256''], ExpirationRequired = True,
    WithIssuer = Some (cfg_Issuer cfg), WithAudience = Some (cfg_Audience cfg),
    KeyFunc = (\<lambda>m. if method_RSA m then None
      else Some (''unexpected signing method '' @ Quote (method_Alg m) @ '' (require RS256)''))\<rparr>"

definition own_opts :: parser_opts where
  "own_opts = \<lparr>ValidMethods = [''RS256''], ExpirationRequired = False, WithIssuer = None,
    WithAudience = None, KeyFunc = (\<lambda>_. None)\<rparr>"

definition verifyAuthnToken ::
  "jwt_lib \<Rightarrow> auth_config \<Rightarrow> int \<Rightarrow> string \<Rightarrow> (rpc_err, arcLoreClaims) result" where
  "verifyAuthnToken lib cfg now raw =
    (case jwt_parse lib (authn_opts cfg) now raw of
       Inl e \<Rightarrow> Inl (Unauthenticated, ''authn token rejected: '' @ e)
     | Inr (claims, valid) \<Rightarrow>
         if \<not> valid then Inl (Unauthenticated, ''authn token invalid'')
         else if TrimSpace (Subject claims) = ''''
         then Inl (Unauthenticated, ''authn token missing subject'')
         else Inr claims)"

definition displayNameFor :: "arcLoreClaims \<Rightarrow> string" where
  "displayNameFor claims =
    (if TrimSpace (ClName claims) \<noteq> '''' then ClName claims
     else if TrimSpace (PreferredUsername claims) \<noteq> '''' then PreferredUsername claims
     else Subject claims)"

definition authzTokenExpiryUnix :: "jwt_lib \<Rightarrow> int \<Rightarrow> string \<Rightarrow> (mint_err, int) result" where
  "authzTokenExpiryUnix lib now tok =
    (case jwt_parse lib own_opts now tok of
       Inl e \<Rightarrow> Inl (ParseFailed e)
     | Inr (claims, _) \<Rightarrow> (case ExpiresAt claims of None \<Rightarrow> Inl NoExpiry | Some e \<Rightarrow> Inr e))"

definition tokenIdentity :: "jwt_lib \<Rightarrow> int \<Rightarrow> string \<Rightarrow> (mint_err, string \<times> string) result" where
  "tokenIdentity lib now tok =
    (case jwt_parse lib own_opts now tok of
       Inl e \<Rightarrow> Inl (ParseFailed e)
     | Inr (claims, _) \<Rightarrow>
         if TrimSpace (Subject claims) = '''' then Inl NoSubject
         else Inr (Subject claims, displayNameFor claims))"

section \<open>service.go\<close>

text \<open>\<open>now\<close> is the time of the mint, \<open>now'\<close> that of the parse of the minted token. The result is
  the token and its expiry in seconds and in milliseconds.\<close>

definition MintFor ::
  "jwt_lib \<Rightarrow> auth_config \<Rightarrow> string \<Rightarrow> int \<Rightarrow> int \<Rightarrow> string \<Rightarrow> string \<Rightarrow>
    (db, (mint_err, string \<times> int \<times> int) result) state" where
  "MintFor lib cfg kid now now' subject displayName = do {
     e \<leftarrow> effectiveResources subject;
     case e of
       Inl err \<Rightarrow> State_Monad.return (Inl (StoreFailed err))
     | Inr (entries, ok) \<Rightarrow>
       if \<not> ok then State_Monad.return (Inl UnknownSubject)
       else do {
         g \<leftarrow> GetUser subject;
         State_Monad.return (case g of
             Inl err \<Rightarrow> Inl (StoreFailed err)
           | Inr u \<Rightarrow> (case mintTokenWithResources lib cfg now kid subject displayName entries
                   (TokenVersion u) of
                 Inl err \<Rightarrow> Inl err
               | Inr token \<Rightarrow> (case authzTokenExpiryUnix lib now' token of
                     Inl err \<Rightarrow> Inl err
                   | Inr expSec \<Rightarrow> Inr (token, expSec, expSec * 1000)))) } }"

definition VerifyAuthn ::
  "jwt_lib \<Rightarrow> auth_config \<Rightarrow> int \<Rightarrow> string \<Rightarrow> (db, (rpc_err, arcLoreClaims) result) state" where
  "VerifyAuthn lib cfg now raw =
    (case verifyAuthnToken lib cfg now raw of
       Inl e \<Rightarrow> State_Monad.return (Inl e)
     | Inr claims \<Rightarrow> do {
         r \<leftarrow> GetUser (Subject claims);
         State_Monad.return (case r of
             Inl _ \<Rightarrow> Inl (Unauthenticated,
               ''token subject '' @ Quote (Subject claims) @ '' not found'')
           | Inr u \<Rightarrow>
               if TokenVersion u \<noteq> ClTokenVersion claims
               then Inl (Unauthenticated, ''token revoked'')
               else Inr claims) })"

section \<open>Facts\<close>

context read_inv
begin

lemma effective_resources [keeps_rules]: "keeps P (effectiveResources n)"
  by (auto simp: effectiveResources_def Let_def intro!: keeps_rules)

lemma mint_for [keeps_rules]: "keeps P (MintFor lib cfg kid t t' s dn)"
  by (auto simp: MintFor_def intro!: keeps_rules)

lemma verify_authn [keeps_rules]: "keeps P (VerifyAuthn lib cfg t raw)"
  by (auto simp: VerifyAuthn_def intro!: keeps_rules)

end

text \<open>What the entries of a user are, on the tables.\<close>

definition user_entries :: "user \<Rightarrow> db \<Rightarrow> resource_entry list" where
  "user_entries u d =
    (if IsAdmin u
     then map (\<lambda>r. \<lparr>re_ResourceID = ResourceID r, re_Permission = full_permissions\<rparr>)
            (sort_key ResourceID (resources d)) @ [wildcard_entry]
     else let granted = grants_map (select_grants (Username u) d)
       in map (\<lambda>i. \<lparr>re_ResourceID = i,
             re_Permission = (case map_of granted i of None \<Rightarrow> [] | Some ps \<Rightarrow> ps)\<rparr>)
           (sort (map fst granted)))"

lemma run_ListResources_Inr:
  assumes "fst (run_state ListResources d) = Inr rs"
  shows "rs = sort_key ResourceID (resources d)"
  using assms run_scan_rows [of "''scanning resource row''" "''iterating resource rows''"
      "sort_key ResourceID (resources d)" "popped d"]
  by (auto simp: ListResources_def split: option.splits)

lemma same_tables_trans: "same_tables a b \<Longrightarrow> same_tables b c \<Longrightarrow> same_tables a c"
  by (simp add: same_tables_def)

lemma same_tables_select:
  assumes "same_tables a b"
  shows "select_user n b = select_user n a" and "select_grants n b = select_grants n a"
    and "abs_db b = abs_db a"
  using same_tablesD [OF assms]
  by (simp_all add: select_user_def select_grants_def abs_db_def select_config_def select_resource_def)

lemma effectiveResources_Inr:
  assumes "fst (run_state (effectiveResources n) d) = Inr (es, ok)" and "users_ok d"
  shows "if ok then \<exists>u. select_user (normalizeUsername n) d = Some u \<and> es = user_entries u d
    else es = [] \<and> select_user (normalizeUsername n) d = None"
proof -
  let ?d1 = "snd (run_state (GetUser n) d)"
  note same = same_tablesD [OF GetUser_same [of d n]]
  note sel = same_tables_select [OF GetUser_same [of d n]]
  show ?thesis
  proof (cases "fst (run_state (GetUser n) d)")
    case (Inl e)
    with assms GetUser_not_found [OF assms(2), of n] show ?thesis
      by (auto simp: effectiveResources_def is_not_found_def split: store_err.splits if_splits)
  next
    case (Inr u)
    note u = GetUser_Inr [OF Inr]
    have ne: "normalizeUsername n \<noteq> []"
      using u select_user_Some [of "[]" d] assms(2) usernamePattern_ne
      by (auto simp: users_ok_def user_row_ok_def)
    show ?thesis
    proof (cases "IsAdmin u")
      case True
      with assms Inr u same run_ListResources_Inr [of ?d1] show ?thesis
        by (auto simp: effectiveResources_def user_entries_def split: sum.splits)
    next
      case False
      with assms Inr u ne sel run_GrantsFor_Inr [of n ?d1] show ?thesis
        by (auto simp: effectiveResources_def user_entries_def Let_def split: sum.splits)
    qed
  qed
qed

lemma GetUser_calm:
  "calm d \<Longrightarrow> users_ok d \<Longrightarrow> run_state (GetUser n) d =
    (case select_user (normalizeUsername n) d of
       None \<Rightarrow> Inl (ErrUserNotFound (if normalizeUsername n = [] then None else Some (normalizeUsername n)))
     | Some u \<Rightarrow> Inr u, d)"
proof -
  assume d: "calm d" "users_ok d"
  have "select_user [] d = None"
    using select_user_Some [of "[]" d] d(2) usernamePattern_ne
    by (cases "select_user [] d") (auto simp: users_ok_def user_row_ok_def)
  with d(1) show ?thesis by (auto simp: run_GetUser Let_def split: option.split)
qed

lemma effectiveResources_calm:
  assumes "calm d" and "users_ok d"
  shows "run_state (effectiveResources n) d =
    (case select_user (normalizeUsername n) d of
       None \<Rightarrow> Inr ([], False) | Some u \<Rightarrow> Inr (user_entries u d, True), d)"
proof (cases "select_user (normalizeUsername n) d")
  case None
  with assms show ?thesis by (simp add: effectiveResources_def GetUser_calm is_not_found_def)
next
  case (Some u)
  have ne: "normalizeUsername n \<noteq> []"
    using Some select_user_Some [OF Some] assms(2) usernamePattern_ne
    by (auto simp: users_ok_def user_row_ok_def)
  from Some have "Username u = normalizeUsername n" by (simp add: select_user_Some)
  with Some assms ne show ?thesis
    by (simp add: effectiveResources_def GetUser_calm ListResources_def GrantsFor_def
        user_entries_def grants_map_def Let_def)
qed

section \<open>Documented behaviour of the token library\<close>

text \<open>When a parser accepts claims that the server signed with RS256.\<close>

definition token_acceptable :: "parser_opts \<Rightarrow> int \<Rightarrow> arcLoreClaims \<Rightarrow> bool" where
  "token_acceptable opts now c \<longleftrightarrow>
    ''RS256'' \<in> set (ValidMethods opts) \<and>
    KeyFunc opts \<lparr>method_RSA = True, method_Alg = ''RS256''\<rparr> = None \<and>
    (case ExpiresAt c of None \<Rightarrow> \<not> ExpirationRequired opts | Some e \<Rightarrow> now < e * nsec) \<and>
    (case WithIssuer opts of None \<Rightarrow> True | Some i \<Rightarrow> i = [] \<or> Issuer c = i) \<and>
    (case WithAudience opts of None \<Rightarrow> True | Some a \<Rightarrow> a \<noteq> [] \<and> a \<in> set (Audience c))"

text \<open>What the server signed is read back exactly while it is acceptable, and is refused otherwise.\<close>

definition jwt_exact :: "jwt_lib \<Rightarrow> bool" where
  "jwt_exact lib \<longleftrightarrow> (\<forall>opts now kid c tok. jwt_sign lib kid c = Inr tok \<longrightarrow>
    (if token_acceptable opts now c then jwt_parse lib opts now tok = Inr (c, True)
     else \<exists>e. jwt_parse lib opts now tok = Inl e))"

text \<open>The claims are in the token: they depend neither on the options nor on the time.\<close>

definition jwt_fixed :: "jwt_lib \<Rightarrow> bool" where
  "jwt_fixed lib \<longleftrightarrow> (\<forall>o1 o2 t1 t2 raw c1 c2 v1 v2. jwt_parse lib o1 t1 raw = Inr (c1, v1) \<longrightarrow>
    jwt_parse lib o2 t2 raw = Inr (c2, v2) \<longrightarrow> c1 = c2)"

lemma jwt_exactD:
  assumes "jwt_exact lib" and "jwt_sign lib kid c = Inr tok"
  shows "token_acceptable opts now c \<Longrightarrow> jwt_parse lib opts now tok = Inr (c, True)"
    and "\<not> token_acceptable opts now c \<Longrightarrow> \<exists>e. jwt_parse lib opts now tok = Inl e"
  using assms unfolding jwt_exact_def by metis+

lemma own_acceptable: "token_acceptable own_opts now c \<longleftrightarrow>
    (case ExpiresAt c of None \<Rightarrow> True | Some e \<Rightarrow> now < e * nsec)"
  by (simp add: token_acceptable_def own_opts_def split: option.split)

lemma authn_acceptable: "token_acceptable (authn_opts cfg) now c \<longleftrightarrow>
    (case ExpiresAt c of None \<Rightarrow> False | Some e \<Rightarrow> now < e * nsec) \<and>
    (cfg_Issuer cfg = [] \<or> Issuer c = cfg_Issuer cfg) \<and>
    cfg_Audience cfg \<noteq> [] \<and> cfg_Audience cfg \<in> set (Audience c)"
  by (simp add: token_acceptable_def authn_opts_def split: option.split)

text \<open>A library that signs one set of claims, to instantiate the hypotheses.\<close>

definition one_token_lib :: "arcLoreClaims \<Rightarrow> jwt_lib" where
  "one_token_lib c0 = \<lparr>
    jwt_sign = (\<lambda>kid c. if c = c0 then Inr ''token'' else Inl ''other claims''),
    jwt_parse = (\<lambda>opts now raw. if raw = ''token'' \<and> token_acceptable opts now c0
       then Inr (c0, True) else Inl ''rejected'')\<rparr>"

lemma one_token_exact: "jwt_exact (one_token_lib c0)"
  by (simp add: jwt_exact_def one_token_lib_def)

lemma one_token_fixed: "jwt_fixed (one_token_lib c0)"
  by (auto simp: jwt_fixed_def one_token_lib_def split: if_splits)

section \<open>Minting and verification\<close>

lemma MintFor_Inr:
  assumes "fst (run_state (MintFor lib cfg kid now now' s dn) d) = Inr (tok, sec, ms)"
    and "users_ok d" and "jwt_exact lib"
  obtains u ttl where "select_user (normalizeUsername s) d = Some u"
    and "ParseDuration (cfg_TokenTTL cfg) = Some ttl" and "sec = unix_of (now + ttl)"
    and "ms = sec * 1000" and "now' < sec * nsec"
    and "jwt_sign lib kid \<lparr>Subject = s, Issuer = cfg_Issuer cfg, Audience = [cfg_Audience cfg],
       IssuedAt = Some (unix_of now), ExpiresAt = Some sec,
       ClName = (if dn = '''' then s else dn), PreferredUsername = s, ClEnv = cfg_Env cfg,
       ClIDP = cfg_IDP cfg, ClResources = user_entries u d, IsServiceAccount = False,
       ClTokenVersion = TokenVersion u\<rparr> = Inr tok"
proof -
  let ?d1 = "snd (run_state (effectiveResources s) d)"
  obtain es ok where eff: "fst (run_state (effectiveResources s) d) = Inr (es, ok)" and ok: ok
    using assms(1) by (auto simp: MintFor_def split: sum.splits if_splits)
  obtain u where u: "select_user (normalizeUsername s) d = Some u" "es = user_entries u d"
    using effectiveResources_Inr [OF eff assms(2)] ok by auto
  have same: "same_tables d ?d1" by (rule keepsD [OF unchanged.effective_resources]) simp
  obtain u' where g: "fst (run_state (GetUser s) ?d1) = Inr u'"
    using assms(1) eff ok by (auto simp: MintFor_def split: sum.splits)
  have "u' = u" using GetUser_Inr(1) [OF g] u(1) same_tables_select(1) [OF same] by simp
  with assms(1) eff ok g obtain ttl where ttl: "ParseDuration (cfg_TokenTTL cfg) = Some ttl"
    and sign: "jwt_sign lib kid \<lparr>Subject = s, Issuer = cfg_Issuer cfg,
       Audience = [cfg_Audience cfg], IssuedAt = Some (unix_of now),
       ExpiresAt = Some (unix_of (now + ttl)), ClName = (if dn = '''' then s else dn),
       PreferredUsername = s, ClEnv = cfg_Env cfg, ClIDP = cfg_IDP cfg, ClResources = es,
       IsServiceAccount = False, ClTokenVersion = TokenVersion u\<rparr> = Inr tok"
    and expiry: "authzTokenExpiryUnix lib now' tok = Inr sec" and ms: "ms = sec * 1000"
    by (auto simp: MintFor_def mintTokenWithResources_def Let_def split: option.splits sum.splits)
  have "sec = unix_of (now + ttl) \<and> now' < sec * nsec"
  proof (cases "now' < unix_of (now + ttl) * nsec")
    case True
    with jwt_exactD(1) [OF assms(3) sign, of own_opts now'] expiry show ?thesis
      by (simp add: authzTokenExpiryUnix_def own_acceptable)
  next
    case False
    with jwt_exactD(2) [OF assms(3) sign, of own_opts now'] expiry show ?thesis
      by (auto simp: authzTokenExpiryUnix_def own_acceptable)
  qed
  with that [OF u(1) ttl _ ms] sign u(2) show thesis by simp
qed

lemma MintFor_InrD:
  assumes "fst (run_state (MintFor lib cfg kid now now' s dn) d) = Inr (tok, sec, ms)"
    and "users_ok d" and "jwt_exact lib"
  shows "\<exists>u c. select_user (normalizeUsername s) d = Some u \<and> jwt_sign lib kid c = Inr tok \<and>
    Subject c = s \<and> ExpiresAt c = Some sec \<and> ClResources c = user_entries u d \<and>
    ClTokenVersion c = TokenVersion u \<and> Issuer c = cfg_Issuer cfg \<and>
    Audience c = [cfg_Audience cfg] \<and> ms = sec * 1000"
  by (rule MintFor_Inr [OF assms], intro exI conjI, assumption+) simp_all

lemma VerifyAuthn_calm:
  assumes "calm d" and "users_ok d"
  shows "run_state (VerifyAuthn lib cfg now raw) d =
    (case verifyAuthnToken lib cfg now raw of
       Inl e \<Rightarrow> Inl e
     | Inr c \<Rightarrow> (case select_user (normalizeUsername (Subject c)) d of
           None \<Rightarrow> Inl (Unauthenticated, ''token subject '' @ Quote (Subject c) @ '' not found'')
         | Some u \<Rightarrow> if TokenVersion u \<noteq> ClTokenVersion c
             then Inl (Unauthenticated, ''token revoked'') else Inr c), d)"
  by (auto simp: VerifyAuthn_def GetUser_calm [OF assms] split: sum.split option.split)

lemma VerifyAuthn_Inr:
  assumes "fst (run_state (VerifyAuthn lib cfg now raw) d) = Inr c"
  obtains u where "verifyAuthnToken lib cfg now raw = Inr c"
    and "select_user (normalizeUsername (Subject c)) d = Some u"
    and "TokenVersion u = ClTokenVersion c" and "TrimSpace (Subject c) \<noteq> []"
proof -
  from assms have v: "verifyAuthnToken lib cfg now raw = Inr c"
    and "\<exists>u. fst (run_state (GetUser (Subject c)) d) = Inr u \<and> TokenVersion u = ClTokenVersion c"
    by (auto simp: VerifyAuthn_def split: sum.splits if_splits)
  moreover from v have "TrimSpace (Subject c) \<noteq> []"
    by (auto simp: verifyAuthnToken_def split: sum.splits if_splits)
  ultimately show thesis using that GetUser_Inr(1) by blast
qed

lemma VerifyAuthn_InrD:
  assumes "fst (run_state (VerifyAuthn lib cfg now raw) d) = Inr c"
  shows "verifyAuthnToken lib cfg now raw = Inr c \<and> TrimSpace (Subject c) \<noteq> [] \<and>
    (\<exists>u. select_user (normalizeUsername (Subject c)) d = Some u \<and> TokenVersion u = ClTokenVersion c)"
  by (rule VerifyAuthn_Inr [OF assms]) blast

lemma normalizeUsername_eq_Nil: "normalizeUsername s = [] \<longleftrightarrow> TrimSpace s = []"
  by (simp add: normalizeUsername_def ToLower_def)


text \<open>A small database for the witnesses: an administrator, a user with one grant, one resource.\<close>

definition demo_user :: "string \<Rightarrow> bool \<Rightarrow> int \<Rightarrow> user" where
  "demo_user n a v = \<lparr>Username = n, DisplayName = n, Argon2id = ''h'', IsAdmin = a,
    TokenVersion = v, Created = 1, Updated = 1\<rparr>"

definition demo_db :: db where
  "demo_db = \<lparr>users = [demo_user ''ann'' True 0, demo_user ''bob'' False 0],
    resources = [\<lparr>ResourceID = ''urc-1'', ResName = ''r'', ResCreated = 1\<rparr>],
    grants = [\<lparr>GUser = ''bob'', GResource = ''urc-1'', GPermission = ''read''\<rparr>],
    config = [], faults = []\<rparr>"

lemma demo_calm [simp]: "calm demo_db"
  by (simp add: calm_def demo_db_def)

lemma demo_names:
  "normalizeUsername ''ann'' = ''ann''" "normalizeUsername ''bob'' = ''bob''"
  "usernamePattern ''ann''" "usernamePattern ''bob''"
  by code_simp+

lemma demo_ok [simp]: "db_ok demo_db"
proof -
  have "TrimSpace ''ann'' = ''ann''" "TrimSpace ''bob'' = ''bob''" "id_trimmed ''urc-1''"
    "''read'' \<in> set grant_permissions"
    by code_simp+
  then show ?thesis
    by (simp add: db_ok_defs demo_db_def demo_user_def user_row_ok_def demo_names)
qed

lemma demo_users_ok [simp]: "users_ok demo_db"
  using demo_ok by (simp add: db_ok_def)

lemma demo_select [simp]:
  "select_user ''ann'' demo_db = Some (demo_user ''ann'' True 0)"
  "select_user ''bob'' demo_db = Some (demo_user ''bob'' False 0)"
  by (simp_all add: select_user_def demo_db_def demo_user_def)


text \<open>C5: minting and verification agree. A token of \<open>MintFor\<close> carries the subject, its current
  effective grants and token version, and expires after the configured lifetime, reported in
  seconds and milliseconds; at any later state of the store in which the subject still has that
  version, \<open>VerifyAuthn\<close> accepts exactly these claims before the expiry and refuses the token from
  then on. The audience must be configured.\<close>

theorem mint_verify_roundtrip:
  assumes "jwt_exact lib" and "users_ok d"
    and "fst (run_state (MintFor lib cfg kid now now' s dn) d) = Inr (tok, sec, ms)"
    and "cfg_Audience cfg \<noteq> ''''"
    and "calm d2" and "users_ok d2"
    and "map_option TokenVersion (select_user (normalizeUsername s) d2) =
      map_option TokenVersion (select_user (normalizeUsername s) d)"
  shows "\<exists>c u ttl. select_user (normalizeUsername s) d = Some u \<and> Subject c = s \<and>
    ClTokenVersion c = TokenVersion u \<and> ClResources c = user_entries u d \<and>
    ParseDuration (cfg_TokenTTL cfg) = Some ttl \<and>
    ExpiresAt c = Some sec \<and> sec = unix_of (now + ttl) \<and> ms = sec * 1000 \<and>
    (\<forall>t. t < sec * nsec \<longrightarrow> fst (run_state (VerifyAuthn lib cfg t tok) d2) = Inr c) \<and>
    (\<forall>t. t \<ge> sec * nsec \<longrightarrow> (\<exists>e. fst (run_state (VerifyAuthn lib cfg t tok) d2) = Inl (Unauthenticated, e)))"
proof -
  obtain u ttl where u: "select_user (normalizeUsername s) d = Some u"
    and ttl: "ParseDuration (cfg_TokenTTL cfg) = Some ttl" "sec = unix_of (now + ttl)" "ms = sec * 1000"
    and sign: "jwt_sign lib kid \<lparr>Subject = s, Issuer = cfg_Issuer cfg,
       Audience = [cfg_Audience cfg], IssuedAt = Some (unix_of now), ExpiresAt = Some sec,
       ClName = (if dn = '''' then s else dn), PreferredUsername = s, ClEnv = cfg_Env cfg,
       ClIDP = cfg_IDP cfg, ClResources = user_entries u d, IsServiceAccount = False,
       ClTokenVersion = TokenVersion u\<rparr> = Inr tok"
    by (rule MintFor_Inr [OF assms(3,2,1)])
  let ?c = "\<lparr>Subject = s, Issuer = cfg_Issuer cfg, Audience = [cfg_Audience cfg],
       IssuedAt = Some (unix_of now), ExpiresAt = Some sec,
       ClName = (if dn = '''' then s else dn), PreferredUsername = s, ClEnv = cfg_Env cfg,
       ClIDP = cfg_IDP cfg, ClResources = user_entries u d, IsServiceAccount = False,
       ClTokenVersion = TokenVersion u\<rparr>"
  from assms(7) u obtain u2 where u2: "select_user (normalizeUsername s) d2 = Some u2"
    "TokenVersion u2 = TokenVersion u" by auto
  have "normalizeUsername s \<noteq> []"
    using select_user_Some [OF u] assms(2) usernamePattern_ne
    by (auto simp: users_ok_def user_row_ok_def)
  then have sub: "TrimSpace s \<noteq> []" by (simp add: normalizeUsername_eq_Nil)
  note run = VerifyAuthn_calm [OF assms(5,6), of lib cfg]
  have "fst (run_state (VerifyAuthn lib cfg t tok) d2) = Inr ?c" if "t < sec * nsec" for t
    using jwt_exactD(1) [OF assms(1) sign, of "authn_opts cfg" t] that assms(4) sub u2
    by (simp add: run verifyAuthnToken_def authn_acceptable)
  moreover have "\<exists>e. fst (run_state (VerifyAuthn lib cfg t tok) d2) = Inl (Unauthenticated, e)"
    if "t \<ge> sec * nsec" for t
    using jwt_exactD(2) [OF assms(1) sign, of "authn_opts cfg" t] that
    by (auto simp: run verifyAuthnToken_def authn_acceptable)
  ultimately show ?thesis using u ttl by (intro exI [of _ ?c] exI [of _ u] exI [of _ ttl]) simp
qed

definition demo_cfg :: auth_config where
  "demo_cfg = \<lparr>cfg_Issuer = ''arc-lore-auth'', cfg_Audience = ''lore.lan'', cfg_Env = ''local'',
    cfg_IDP = ''arc-lore-auth'', cfg_AdminSecret = '''', cfg_WebBaseURL = '''',
    cfg_SessionTTL = 600, cfg_TokenTTL = ''168h'', cfg_UsersFile = '''', cfg_DefaultResources = []\<rparr>"

definition demo_claims :: arcLoreClaims where
  "demo_claims = \<lparr>Subject = ''bob'', Issuer = ''arc-lore-auth'', Audience = [''lore.lan''],
    IssuedAt = Some 0, ExpiresAt = Some 604800, ClName = ''bob'', PreferredUsername = ''bob'',
    ClEnv = ''local'', ClIDP = ''arc-lore-auth'',
    ClResources = user_entries (demo_user ''bob'' False 0) demo_db, IsServiceAccount = False,
    ClTokenVersion = 0\<rparr>"

lemma demo_mint:
  "fst (run_state (MintFor (one_token_lib demo_claims) demo_cfg ''k'' 0 0 ''bob'' ''bob'') demo_db) =
    Inr (''token'', 604800, 604800000)"
  by (simp add: MintFor_def effectiveResources_calm GetUser_calm demo_names
      mintTokenWithResources_def demo_cfg_def ParseDuration_default unix_of_def one_token_lib_def
      demo_claims_def demo_user_def authzTokenExpiryUnix_def own_acceptable Let_def)

theorem mint_verify_roundtrip_witness:
  "\<exists>c. Subject c = ''bob'' \<and>
    fst (run_state (VerifyAuthn (one_token_lib demo_claims) demo_cfg 5 ''token'') demo_db) = Inr c"
proof -
  obtain c where "Subject c = ''bob''" and acc: "\<forall>t. t < 604800 * nsec \<longrightarrow>
      fst (run_state (VerifyAuthn (one_token_lib demo_claims) demo_cfg t ''token'') demo_db) = Inr c"
    using mint_verify_roundtrip [OF one_token_exact demo_users_ok demo_mint _ demo_calm demo_users_ok refl]
    by (auto simp: demo_cfg_def)
  moreover from acc have
    "fst (run_state (VerifyAuthn (one_token_lib demo_claims) demo_cfg 5 ''token'') demo_db) = Inr c"
    by (rule allE [of _ 5]) simp
  ultimately show ?thesis by blast
qed

section \<open>Revocation\<close>

lemma refines_version:
  assumes "refines m f" and "version_of n (abs_db d) = Some v"
    and "\<exists>v'\<ge>v. version_of n (f (abs_db d)) = Some v'"
  shows "\<exists>v'\<ge>v. version_of n (abs_db (snd (run_state m d))) = Some v'"
  using assms unfolding refines_def Let_def by (metis order_refl)

lemma users_version: "users d' = users d \<Longrightarrow> version_of n (abs_db d') = version_of n (abs_db d)"
  by (simp add: version_of_def abs_db_def select_user_def)

lemma AddGrant_users: "users (snd (run_state (AddGrant n i p) d)) = users d"
  by (auto simp: AddGrant_def Let_def insert_grant_def split: option.split sum.split)

lemma GrantOwner_users: "users (snd (run_state (GrantOwner n i) d)) = users d"
proof -
  have "users (snd (run_state (grant_all n i ps) d)) = users d" for ps
    by (induction ps arbitrary: d) (auto simp: AddGrant_users split: sum.split)
  then show ?thesis by (simp only: GrantOwner_def)
qed

text \<open>Versions only grow, however the driver fails.\<close>

lemma exec_call_version:
  assumes "\<not> deletes n c" and "version_of n (abs_db d) = Some v"
  shows "\<exists>v'\<ge>v. version_of n (abs_db (snd (run_state (exec_call c) d))) = Some v'"
proof (cases "\<exists>m i. c = CallGrantOwner m i")
  case True
  then have "users (snd (run_state (exec_call c) d)) = users d"
    by (auto simp: ignore_def GrantOwner_users)
  from users_version [OF this] assms(2) show ?thesis by auto
next
  case False
  then have "refines (exec_call c) (spec_call c)" by (intro calls_refine) auto
  from refines_version [OF this assms(2) version_spec_call [OF assms]] show ?thesis .
qed

lemma exec_call_absent:
  assumes "\<not> creates n c" and "version_of n (abs_db d) = None"
  shows "version_of n (abs_db (snd (run_state (exec_call c) d))) = None"
proof (cases "\<exists>m i. c = CallGrantOwner m i")
  case True
  then have "users (snd (run_state (exec_call c) d)) = users d"
    by (auto simp: ignore_def GrantOwner_users)
  from users_version [OF this] assms(2) show ?thesis by simp
next
  case False
  then have "refines (exec_call c) (spec_call c)" by (intro calls_refine) auto
  then show ?thesis
    using assms version_spec_absent [OF assms] unfolding refines_def Let_def by metis
qed

lemma exec_call_drop:
  assumes "version_of n (abs_db d) = Some v"
  shows "version_of n (abs_db (snd (run_state (exec_call c) d))) = None \<or>
    (\<exists>v'\<ge>v. version_of n (abs_db (snd (run_state (exec_call c) d))) = Some v')"
proof (cases "deletes n c")
  case True
  then have "refines (exec_call c) (spec_call c)" by (intro calls_refine) (auto simp: deletes_def)
  then show ?thesis
    using assms version_spec_drop [OF assms, of c] unfolding refines_def Let_def by (metis order_refl)
qed (use exec_call_version [OF _ assms] in blast)

interpretation db_versions: account_clock "\<lambda>d. version_of n (abs_db d)"
  "\<lambda>c d. snd (run_state (exec_call c) d)" "\<lambda>c. \<not> deletes n c" "creates n" for n
  by unfold_locales (rule exec_call_version, assumption+, rule exec_call_drop, assumption,
    rule exec_call_absent, assumption+)

lemma exec_calls_fold: "exec_calls cs d = fold (\<lambda>c d. snd (run_state (exec_call c) d)) cs d"
  by (induction cs arbitrary: d) simp_all

text \<open>A successful change of a password or of the admin flag increases the version.\<close>

lemma change_bumps_version:
  assumes "run_state (SetPassword t n h) d = (Inr (), d1) \<or> run_state (SetAdmin t n a) d = (Inr (), d1)"
  shows "\<exists>v. version_of (normalizeUsername n) (abs_db d) = Some v \<and>
    version_of (normalizeUsername n) (abs_db d1) = Some (v + 1)"
proof -
  obtain norm where v: "validateUsername n = Inr norm"
    using assms by (cases "validateUsername n") (auto simp: SetPassword_def SetAdmin_def)
  have norm: "norm = normalizeUsername n" using v by (simp add: validateUsername_Inr)
  let ?p = "\<lambda>u. u\<lparr>Argon2id := h, Updated := t, TokenVersion := TokenVersion u + 1\<rparr>"
  let ?a = "\<lambda>u. u\<lparr>IsAdmin := a, Updated := t, TokenVersion := TokenVersion u + 1\<rparr>"
  obtain f where "abs_db d1 = d_change_user norm f (abs_db d)" "select_user norm d \<noteq> None"
    "\<And>u. TokenVersion (f u) = TokenVersion u + 1"
    using assms user_change_outcome(1) [of ?p norm "''updating password for '' @ norm" d "Inr ()" d1]
      user_change_outcome(1) [of ?a norm "''updating admin flag for '' @ norm" d "Inr ()" d1]
    unfolding SetPassword_def SetAdmin_def v sum.case by fastforce
  then show ?thesis
    by (auto simp: d_change_user_def version_of_def abs_db_def norm)
qed

text \<open>A token whose version is not the stored one any more is refused.\<close>

lemma moved_version_refused:
  assumes "jwt_fixed lib" and "verifyAuthnToken lib cfg t0 tok = Inr c"
    and "version_of (normalizeUsername (Subject c)) (abs_db d) \<noteq> Some (ClTokenVersion c)"
  shows "\<exists>e. fst (run_state (VerifyAuthn lib cfg t2 tok) d) = Inl (Unauthenticated, e)"
proof (cases "fst (run_state (VerifyAuthn lib cfg t2 tok) d)")
  case (Inl e)
  then show ?thesis
    by (auto simp: VerifyAuthn_def verifyAuthnToken_def split: sum.splits if_splits)
next
  case (Inr c2)
  then obtain u2 where v2: "verifyAuthnToken lib cfg t2 tok = Inr c2"
    and u2: "select_user (normalizeUsername (Subject c2)) d = Some u2"
      "TokenVersion u2 = ClTokenVersion c2"
    using VerifyAuthn_InrD [of lib cfg t2 tok d c2] by auto
  from assms(2) v2 assms(1) have "c2 = c"
    unfolding jwt_fixed_def verifyAuthnToken_def
    by (auto split: sum.splits if_splits) blast
  with u2 assms(3) show ?thesis by (simp add: version_of_def abs_db_def)
qed

text \<open>C4: a change of the password or of the admin flag of a user revokes every token accepted
  before it, for as long as the account is not deleted and created anew: whatever calls of the store follow, in which no
  call that creates the account comes after one that deletes it, and however the driver fails, the token is refused.\<close>

theorem changed_credentials_revoke_tokens:
  assumes "jwt_fixed lib"
    and "fst (run_state (VerifyAuthn lib cfg t0 tok) d) = Inr c"
    and "run_state (SetPassword t n h) d = (Inr (), d1) \<or> run_state (SetAdmin t n a) d = (Inr (), d1)"
    and "normalizeUsername n = normalizeUsername (Subject c)"
    and "sorted_wrt (\<lambda>before after. deletes (normalizeUsername n) before \<longrightarrow> \<not> creates (normalizeUsername n) after) cs"
  shows "\<exists>e. fst (run_state (VerifyAuthn lib cfg t2 tok) (exec_calls cs d1)) = Inl (Unauthenticated, e)"
proof -
  let ?n = "normalizeUsername n" and ?d2 = "exec_calls cs d1"
  obtain u where v1: "verifyAuthnToken lib cfg t0 tok = Inr c"
    and u: "select_user ?n d = Some u" "TokenVersion u = ClTokenVersion c"
    using VerifyAuthn_InrD [OF assms(2)] assms(4) by auto
  from change_bumps_version [OF assms(3)] u
  have "version_of ?n (abs_db d1) = Some (ClTokenVersion c + 1)"
    by (auto simp: version_of_def abs_db_def)
  from db_versions.stale_unless_remade [OF assms(5) [unfolded imp_conv_disj] this, of "ClTokenVersion c"]
  have "version_of ?n (abs_db ?d2) \<noteq> Some (ClTokenVersion c)"
    by (simp add: exec_calls_fold)
  then show ?thesis using moved_version_refused [OF assms(1) v1] assms(4) by simp
qed

theorem changed_credentials_revoke_tokens_witness:
  "\<exists>e. fst (run_state (VerifyAuthn (one_token_lib demo_claims) demo_cfg 9 ''token'')
     (exec_calls [CallSetAdmin 8 ''bob'' True, CallAddUser 9 ''bob'' '''' ''h2'' True, CallDeleteUser ''bob'']
       (snd (run_state (SetPassword 7 ''bob'' ''h1'') demo_db)))) = Inl (Unauthenticated, e)"
proof -
  let ?lib = "one_token_lib demo_claims"
  have "verifyAuthnToken ?lib demo_cfg 5 ''token'' = Inr demo_claims"
    by (simp add: verifyAuthnToken_def one_token_lib_def authn_acceptable demo_cfg_def
        demo_claims_def TrimSpace_def is_space_def)
  then have acc: "fst (run_state (VerifyAuthn ?lib demo_cfg 5 ''token'') demo_db) = Inr demo_claims"
    by (simp add: VerifyAuthn_calm demo_claims_def demo_names demo_user_def)
  have val: "validateUsername ''bob'' = Inr ''bob''" by (simp add: validateUsername_Inr demo_names)
  obtain d1 where ch: "run_state (SetPassword 7 ''bob'' ''h1'') demo_db = (Inr (), d1)"
    by (simp add: SetPassword_def val update_user_def run_need_row demo_db_def demo_user_def
        fault_of_def popped_def)
  show ?thesis
    using changed_credentials_revoke_tokens [OF one_token_fixed acc disjI1 [OF ch],
        of "[CallSetAdmin 8 ''bob'' True, CallAddUser 9 ''bob'' '''' ''h2'' True, CallDeleteUser ''bob'']" 9]
    by (simp add: ch deletes_def demo_claims_def)
qed

text \<open>The exception of the previous property. Deleting an account and creating one with the same
  name starts its version at zero again, so a token of the deleted account that carried version
  zero is accepted for the new one.\<close>

theorem recreated_account_accepts_old_token:
  assumes "calm d" and "users_ok d"
    and "fst (run_state (VerifyAuthn lib cfg t tok) d) = Inr c" and "ClTokenVersion c = 0"
  shows "fst (run_state (VerifyAuthn lib cfg t tok)
    (exec_calls [CallDeleteUser (Subject c), CallAddUser now (Subject c) dn h adm] d)) = Inr c"
proof -
  let ?n = "normalizeUsername (Subject c)"
  let ?d2 = "exec_calls [CallDeleteUser (Subject c), CallAddUser now (Subject c) dn h adm] d"
  obtain u where v: "verifyAuthnToken lib cfg t tok = Inr c" and u: "select_user ?n d = Some u"
    using VerifyAuthn_InrD [OF assms(3)] by auto
  have val: "validateUsername (Subject c) = Inr ?n"
    using select_user_Some [OF u] assms(2)
    by (auto simp: validateUsername_Inr users_ok_def user_row_ok_def)
  have "calm ?d2"
    by (rule store_run_calm [OF assms(1)])
  moreover have "abs_db ?d2 = fold spec_call [CallDeleteUser (Subject c),
      CallAddUser now (Subject c) dn h adm] (abs_db d)"
    by (rule store_map_run [OF assms(1)])
  then have "d_user (abs_db ?d2) ?n = Some (new_user ?n dn h adm now now)"
    by (simp add: for_valid_def val d_create_def d_add_user_def d_remove_user_def new_user_def)
  then have "select_user ?n ?d2 = Some (new_user ?n dn h adm now now)"
    by (simp add: abs_db_def)
  moreover have "?n \<noteq> []" using val by (simp add: validateUsername_Inr usernamePattern_ne)
  ultimately show ?thesis
    using assms(4)
    by (simp add: VerifyAuthn_def v run_GetUser Let_def new_user_def del: exec_calls.simps)
qed

theorem recreated_account_accepts_old_token_witness:
  "fst (run_state (VerifyAuthn (one_token_lib demo_claims) demo_cfg 5 ''token'')
    (exec_calls [CallDeleteUser (Subject demo_claims), CallAddUser 9 (Subject demo_claims) '''' ''other'' False]
      demo_db)) = Inr demo_claims"
proof (rule recreated_account_accepts_old_token [OF demo_calm demo_users_ok])
  have "verifyAuthnToken (one_token_lib demo_claims) demo_cfg 5 ''token'' = Inr demo_claims"
    by (simp add: verifyAuthnToken_def one_token_lib_def authn_acceptable demo_cfg_def
        demo_claims_def TrimSpace_def is_space_def)
  then show "fst (run_state (VerifyAuthn (one_token_lib demo_claims) demo_cfg 5 ''token'') demo_db) =
      Inr demo_claims"
    by (simp add: VerifyAuthn_calm demo_claims_def demo_names demo_user_def)
qed (simp add: demo_claims_def)

end
