(* ===== verification/Sessions.thy ===== *)
theory Sessions
  imports Codec "HOL-Library.AList"
begin

text \<open>
  \<open>src/arc-lore-auth/session.go\<close>: the store of interactive-login sessions, shared by the gRPC
  methods and the web login. Each method holds the store's mutex, so it is one computation on the
  map of sessions; the map is an association list with one entry per code. Times are nanoseconds
  and an argument of each method; the 32 random bytes of a code are an argument of \<open>Create\<close>.
\<close>

section \<open>The store\<close>

datatype sessionStatus = sessionPending | sessionComplete

record authSession =
  clientState :: string
  ses_status :: sessionStatus
  ses_username :: string
  mintedToken :: string
  expiresAtMs :: int
  ses_created :: int

record session_store =
  sessions :: "(string \<times> authSession) list"
  ses_ttl :: int

definition NewSessionStore :: "int \<Rightarrow> session_store" where
  "NewSessionStore ttl = \<lparr>sessions = [], ses_ttl = (if ttl \<le> 0 then 600 * nsec else ttl)\<rparr>"

definition newSessionCode :: "byte list option \<Rightarrow> (string, string) result" where
  "newSessionCode rnd = (case rnd of
      None \<Rightarrow> Inl ''generating session code''
    | Some raw \<Rightarrow> Inr (b64_encode RawURL raw))"

definition expired :: "session_store \<Rightarrow> authSession \<Rightarrow> int \<Rightarrow> bool" where
  "expired st s now \<longleftrightarrow> now - ses_created s > ses_ttl st"

definition put_session :: "string \<Rightarrow> authSession \<Rightarrow> session_store \<Rightarrow> session_store" where
  "put_session code s st = st\<lparr>sessions := AList.update code s (sessions st)\<rparr>"

definition drop_session :: "string \<Rightarrow> session_store \<Rightarrow> session_store" where
  "drop_session code st = st\<lparr>sessions := AList.delete code (sessions st)\<rparr>"

definition Create ::
  "byte list option \<Rightarrow> int \<Rightarrow> string \<Rightarrow> (session_store, (string, string) result) state" where
  "Create rnd now cs = (case newSessionCode rnd of
      Inl e \<Rightarrow> State_Monad.return (Inl e)
    | Inr code \<Rightarrow> do {
        State_Monad.update (put_session code
          \<lparr>clientState = cs, ses_status = sessionPending, ses_username = '''', mintedToken = '''',
           expiresAtMs = 0, ses_created = now\<rparr>);
        State_Monad.return (Inr code) })"

definition Get :: "int \<Rightarrow> string \<Rightarrow> (session_store, authSession option) state" where
  "Get now code = do {
     st \<leftarrow> State_Monad.get;
     case map_of (sessions st) code of
       None \<Rightarrow> State_Monad.return None
     | Some s \<Rightarrow>
         if expired st s now then do {
           State_Monad.update (drop_session code);
           State_Monad.return None }
         else State_Monad.return (Some s) }"

definition Complete ::
  "int \<Rightarrow> string \<Rightarrow> string \<Rightarrow> string \<Rightarrow> int \<Rightarrow> (session_store, (string, unit) result) state" where
  "Complete now code username token expMs = do {
     st \<leftarrow> State_Monad.get;
     case map_of (sessions st) code of
       None \<Rightarrow> State_Monad.return (Inl ''unknown session'')
     | Some s \<Rightarrow>
         if expired st s now then do {
           State_Monad.update (drop_session code);
           State_Monad.return (Inl ''session expired'') }
         else if ses_status s \<noteq> sessionPending then State_Monad.return (Inl ''session not pending'')
         else do {
           State_Monad.update (put_session code
             (s\<lparr>ses_status := sessionComplete, ses_username := username, mintedToken := token,
                expiresAtMs := expMs\<rparr>));
           State_Monad.return (Inr ()) } }"

definition Take :: "int \<Rightarrow> string \<Rightarrow> string \<Rightarrow> (session_store, (string \<times> int) option) state" where
  "Take now code cs = do {
     st \<leftarrow> State_Monad.get;
     case map_of (sessions st) code of
       None \<Rightarrow> State_Monad.return None
     | Some s \<Rightarrow>
         if expired st s now then do {
           State_Monad.update (drop_session code);
           State_Monad.return None }
         else if clientState s \<noteq> cs then State_Monad.return None
         else if ses_status s \<noteq> sessionComplete then State_Monad.return None
         else do {
           State_Monad.update (drop_session code);
           State_Monad.return (Some (mintedToken s, expiresAtMs s)) } }"

text \<open>The two passes of the sweep: collect the dead codes, then delete them.\<close>

definition sweepExpired :: "int \<Rightarrow> (session_store, nat) state" where
  "sweepExpired now = do {
     st \<leftarrow> State_Monad.get;
     let dead = map fst (filter (\<lambda>(code, s). expired st s now) (sessions st));
     State_Monad.update (fold drop_session dead);
     State_Monad.return (length dead) }"

text \<open>The interval of the eviction loop.\<close>

definition eviction_interval :: "session_store \<Rightarrow> int" where
  "eviction_interval st = (let i = ses_ttl st div 2 in if i < 30 * nsec then 30 * nsec else i)"

section \<open>Facts\<close>

lemma sessions_put [simp]:
  "map_of (sessions (put_session code s st)) = (map_of (sessions st))(code \<mapsto> s)"
  "ses_ttl (put_session code s st) = ses_ttl st"
  by (simp_all add: put_session_def update_conv')

lemma sessions_drop [simp]:
  "map_of (sessions (drop_session code st)) = (map_of (sessions st))(code := None)"
  "ses_ttl (drop_session code st) = ses_ttl st"
  by (simp_all add: drop_session_def delete_conv')

lemma sessions_drop_all [simp]:
  "map_of (sessions (fold drop_session codes st)) =
    (\<lambda>c. if c \<in> set codes then None else map_of (sessions st) c)"
  "ses_ttl (fold drop_session codes st) = ses_ttl st"
  by (induction codes arbitrary: st) (auto simp: fun_eq_iff)

definition sessions_ok :: "session_store \<Rightarrow> bool" where
  "sessions_ok st \<longleftrightarrow> distinct (map fst (sessions st))"

lemma sessions_ok_put [simp]: "sessions_ok st \<Longrightarrow> sessions_ok (put_session code s st)"
  by (simp add: sessions_ok_def put_session_def distinct_update)

lemma sessions_ok_drop [simp]: "sessions_ok st \<Longrightarrow> sessions_ok (drop_session code st)"
  by (simp add: sessions_ok_def drop_session_def distinct_delete)

lemma sessions_ok_drop_all [simp]: "sessions_ok st \<Longrightarrow> sessions_ok (fold drop_session codes st)"
  by (induction codes arbitrary: st) simp_all

section \<open>Traces of the store\<close>

text \<open>Any interleaving of the methods, with what each returned.\<close>

datatype session_event =
    Opened string string int
  | CreateFailed
  | Got string int "authSession option"
  | Completed int string string string int "(string, unit) result"
  | Took int string string "(string \<times> int) option"
  | Swept int nat

inductive session_trace :: "session_store \<Rightarrow> session_event list \<Rightarrow> session_store \<Rightarrow> bool"
  for st0 :: session_store where
  start: "session_trace st0 [] st0"
| create: "session_trace st0 h st \<Longrightarrow> run_state (Create rnd now cs) st = (Inr code, st') \<Longrightarrow>
    session_trace st0 (h @ [Opened code cs now]) st'"
| create_failed: "session_trace st0 h st \<Longrightarrow> run_state (Create rnd now cs) st = (Inl e, st') \<Longrightarrow>
    session_trace st0 (h @ [CreateFailed]) st'"
| get: "session_trace st0 h st \<Longrightarrow> run_state (Get now code) st = (r, st') \<Longrightarrow>
    session_trace st0 (h @ [Got code now r]) st'"
| complete: "session_trace st0 h st \<Longrightarrow> run_state (Complete now code u tok e) st = (r, st') \<Longrightarrow>
    session_trace st0 (h @ [Completed now code u tok e r]) st'"
| take: "session_trace st0 h st \<Longrightarrow> run_state (Take now code cs) st = (r, st') \<Longrightarrow>
    session_trace st0 (h @ [Took now code cs r]) st'"
| sweep: "session_trace st0 h st \<Longrightarrow> run_state (sweepExpired now) st = (n, st') \<Longrightarrow>
    session_trace st0 (h @ [Swept now n]) st'"

inductive_cases session_trace_snocE: "session_trace st0 (h @ [e]) st"

fun creates :: "string \<Rightarrow> session_event \<Rightarrow> bool" where
  "creates code (Opened c _ _) = (c = code)"
| "creates code _ = False"

fun delivers :: "string \<Rightarrow> session_event \<Rightarrow> bool" where
  "delivers code (Took _ c _ r) = (c = code \<and> r \<noteq> None)"
| "delivers code _ = False"

lemma run_Get:
  "run_state (Get now code) st = (case map_of (sessions st) code of
      None \<Rightarrow> (None, st)
    | Some s \<Rightarrow> if expired st s now then (None, drop_session code st) else (Some s, st))"
  by (auto simp: Get_def split: option.split)

lemma run_Complete:
  "run_state (Complete now code u tok e) st = (case map_of (sessions st) code of
      None \<Rightarrow> (Inl ''unknown session'', st)
    | Some s \<Rightarrow> if expired st s now then (Inl ''session expired'', drop_session code st)
        else if ses_status s \<noteq> sessionPending then (Inl ''session not pending'', st)
        else (Inr (), put_session code (s\<lparr>ses_status := sessionComplete, ses_username := u,
                mintedToken := tok, expiresAtMs := e\<rparr>) st))"
  by (auto simp: Complete_def split: option.split)

lemma run_Take:
  "run_state (Take now code cs) st = (case map_of (sessions st) code of
      None \<Rightarrow> (None, st)
    | Some s \<Rightarrow> if expired st s now then (None, drop_session code st)
        else if clientState s = cs \<and> ses_status s = sessionComplete
        then (Some (mintedToken s, expiresAtMs s), drop_session code st)
        else (None, st))"
  by (auto simp: Take_def split: option.split)

lemma run_Create:
  "run_state (Create rnd now cs) st = (case newSessionCode rnd of
      Inl e \<Rightarrow> (Inl e, st)
    | Inr code \<Rightarrow> (Inr code, put_session code \<lparr>clientState = cs, ses_status = sessionPending,
        ses_username = '''', mintedToken = '''', expiresAtMs = 0, ses_created = now\<rparr> st))"
  by (simp add: Create_def split: sum.split)

lemma run_sweep:
  "run_state (sweepExpired now) st =
    (let dead = map fst (filter (\<lambda>(code, s). expired st s now) (sessions st))
     in (length dead, fold drop_session dead st))"
  by (simp add: sweepExpired_def Let_def)

lemma sweep_sessions:
  assumes "sessions_ok st"
  shows "map_of (sessions (snd (run_state (sweepExpired now) st))) code =
    (case map_of (sessions st) code of
       None \<Rightarrow> None | Some s \<Rightarrow> if expired st s now then None else Some s)"
proof -
  have "code \<in> fst ` {(c, s). (c, s) \<in> set (sessions st) \<and> expired st s now} \<longleftrightarrow>
      (\<exists>s. map_of (sessions st) code = Some s \<and> expired st s now)"
    using assms by (force simp: sessions_ok_def)
  then show ?thesis
    by (auto simp: run_sweep Let_def split: option.split)
qed

lemma session_trace_ok:
  assumes "session_trace st0 h st" and "sessions_ok st0"
  shows "sessions_ok st \<and> ses_ttl st = ses_ttl st0"
  using assms
  by induction
     (auto simp: run_Create run_Get run_Complete run_Take run_sweep Let_def
        split: option.splits sum.splits if_splits)

text \<open>Where a stored session comes from.\<close>

definition session_origin :: "session_event list \<Rightarrow> string \<Rightarrow> authSession \<Rightarrow> bool" where
  "session_origin h code s \<longleftrightarrow> Opened code (clientState s) (ses_created s) \<in> set h \<and>
    (ses_status s = sessionComplete \<longrightarrow>
      (\<exists>t. Completed t code (ses_username s) (mintedToken s) (expiresAtMs s) (Inr ()) \<in> set h))"

lemma session_origin_mono: "session_origin h code s \<Longrightarrow> session_origin (h @ h') code s"
  by (auto simp: session_origin_def)

lemma session_trace_origin:
  assumes "session_trace st0 h st" and "sessions_ok st0" and "sessions st0 = []"
    and "map_of (sessions st) code = Some s"
  shows "session_origin h code s"
  using assms
proof (induction arbitrary: code s)
  case (create h st rnd now cs c st')
  then show ?case
    by (auto simp: run_Create session_origin_def split: sum.splits if_splits)
next
  case (complete h st now c u tok e r st')
  show ?case
  proof (cases "c = code \<and> r = Inr ()")
    case True
    with complete.hyps(2) obtain s0 where "map_of (sessions st) code = Some s0"
      and "st' = put_session code (s0\<lparr>ses_status := sessionComplete, ses_username := u,
                mintedToken := tok, expiresAtMs := e\<rparr>) st"
      by (auto simp: run_Complete split: option.splits if_splits)
    with complete.IH [of code s0] complete.prems True show ?thesis
      by (auto simp: session_origin_def)
  next
    case False
    with complete.hyps(2) complete.prems(3) have "map_of (sessions st) code = Some s"
      by (auto simp: run_Complete split: option.splits if_splits)
    with complete.IH complete.prems session_origin_mono show ?thesis by blast
  qed
next
  case (sweep h st now n st')
  then have "map_of (sessions st) code = Some s"
    by (auto simp: run_sweep Let_def split: if_splits)
  with sweep.IH sweep.prems session_origin_mono show ?case by blast
qed (auto simp: run_Create run_Get run_Take session_origin_mono
      split: option.splits sum.splits if_splits)

lemma session_trace_count:
  assumes "session_trace st0 h st" and "sessions st0 = []"
  shows "length (filter (delivers code) h) + (if map_of (sessions st) code = None then 0 else 1) \<le>
    length (filter (creates code) h)"
  using assms
proof induction
  case (sweep h st now n st')
  then have "map_of (sessions st) code = None \<Longrightarrow> map_of (sessions st') code = None"
    by (auto simp: run_sweep Let_def split: if_splits)
  with sweep show ?case by (auto split: if_splits)
qed (auto simp: run_Create run_Get run_Complete run_Take
      split: option.splits sum.splits if_splits)

section \<open>Properties\<close>

text \<open>C20: a login token is delivered at most once: in any interleaving of the store's methods, the
  polls that deliver for a session code are no more than the sessions that were created with it
  (one, for codes drawn at random).\<close>

theorem session_single_delivery:
  assumes "session_trace (NewSessionStore ttl) h st"
  shows "length (filter (delivers code) h) \<le> length (filter (creates code) h)"
  using session_trace_count [OF assms, of code] by (simp add: NewSessionStore_def)

text \<open>C21: what a poll delivers was put there by the login of this very session: it was created with
  the same client state, no longer ago than the lifetime of sessions, and completed, while still
  pending, with exactly the token and the expiry delivered.\<close>

theorem session_delivery_authentic:
  assumes "session_trace (NewSessionStore ttl) h st"
    and "run_state (Take now code cs) st = (Some (tok, e), st')"
  shows "\<exists>t0 t u. Opened code cs t0 \<in> set h \<and> now - t0 \<le> ses_ttl (NewSessionStore ttl) \<and>
    Completed t code u tok e (Inr ()) \<in> set h \<and>
    (\<forall>now' cs'. fst (run_state (Take now' code cs') st') = None)"
proof -
  have new: "sessions_ok (NewSessionStore ttl)" "sessions (NewSessionStore ttl) = []"
    by (simp_all add: NewSessionStore_def sessions_ok_def)
  from assms(2) obtain s where s: "map_of (sessions st) code = Some s" "\<not> expired st s now"
    "clientState s = cs" "ses_status s = sessionComplete" "tok = mintedToken s" "e = expiresAtMs s"
    and st': "st' = drop_session code st"
    by (auto simp: run_Take split: option.splits if_splits)
  have "session_origin h code s" by (rule session_trace_origin [OF assms(1) new s(1)])
  moreover have "ses_ttl st = ses_ttl (NewSessionStore ttl)"
    using session_trace_ok [OF assms(1) new(1)] by simp
  moreover have "fst (run_state (Take now' code cs') st') = None" for now' cs'
    by (simp add: st' run_Take)
  ultimately show ?thesis
    using s by (fastforce simp: session_origin_def expired_def)
qed

lemma demo_trace:
  "session_trace (NewSessionStore 0)
    [Opened ''AA'' ''cs'' 5, Completed 6 ''AA'' ''bob'' ''token'' 99 (Inr ())]
    (snd (run_state (Complete 6 ''AA'' ''bob'' ''token'' 99)
      (snd (run_state (Create (Some [0]) 5 ''cs'') (NewSessionStore 0)))))"
proof -
  let ?st1 = "snd (run_state (Create (Some [0]) 5 ''cs'') (NewSessionStore 0))"
  have "newSessionCode (Some [0]) = Inr ''AA''"
    by code_simp
  then have a: "run_state (Create (Some [0]) 5 ''cs'') (NewSessionStore 0) = (Inr ''AA'', ?st1)"
    and c: "run_state (Complete 6 ''AA'' ''bob'' ''token'' 99) ?st1 =
      (Inr (), snd (run_state (Complete 6 ''AA'' ''bob'' ''token'' 99) ?st1))"
    by (simp_all add: run_Create run_Complete NewSessionStore_def expired_def)
  from a have "session_trace (NewSessionStore 0) ([] @ [Opened ''AA'' ''cs'' 5]) ?st1"
    by (rule session_trace.create [OF session_trace.start])
  from session_trace.complete [OF this c] show ?thesis by simp
qed

theorem session_single_delivery_witness:
  "length (filter (delivers ''AA'')
     [Opened ''AA'' ''cs'' 5, Completed 6 ''AA'' ''bob'' ''token'' 99 (Inr ())]) \<le>
   length (filter (creates ''AA'')
     [Opened ''AA'' ''cs'' 5, Completed 6 ''AA'' ''bob'' ''token'' 99 (Inr ())])"
  by (rule session_single_delivery [OF demo_trace])

theorem session_delivery_authentic_witness:
  "\<exists>t0 t u. Opened ''AA'' ''cs'' t0 \<in> set [Opened ''AA'' ''cs'' 5, Completed 6 ''AA'' ''bob'' ''token'' 99 (Inr ())] \<and>
     Completed t ''AA'' u ''token'' 99 (Inr ()) \<in>
       set [Opened ''AA'' ''cs'' 5, Completed 6 ''AA'' ''bob'' ''token'' 99 (Inr ())]"
proof -
  let ?st = "snd (run_state (Complete 6 ''AA'' ''bob'' ''token'' 99)
      (snd (run_state (Create (Some [0]) 5 ''cs'') (NewSessionStore 0))))"
  have "newSessionCode (Some [0]) = Inr ''AA''"
    by code_simp
  then have "run_state (Take 7 ''AA'' ''cs'') ?st =
      (Some (''token'', 99), snd (run_state (Take 7 ''AA'' ''cs'') ?st))"
    by (simp add: run_Create run_Complete run_Take NewSessionStore_def expired_def)
  from session_delivery_authentic [OF demo_trace this] show ?thesis by blast
qed

text \<open>The handshake succeeds: a session that is completed and polled with its client state within
  the lifetime delivers the token and expiry of its completion.\<close>

theorem session_handshake_delivers:
  assumes "newSessionCode rnd = Inr code"
    and "t1 - t0 \<le> ses_ttl st" and "t2 - t0 \<le> ses_ttl st"
  shows "fst (run_state (do {
      _ \<leftarrow> Create rnd t0 cs;
      _ \<leftarrow> Complete t1 code u tok e;
      Take t2 code cs }) st) = Some (tok, e)"
  using assms by (simp add: run_Create run_Complete run_Take expired_def)

theorem session_handshake_delivers_witness:
  "fst (run_state (do {
      _ \<leftarrow> Create (Some []) 0 ''cs'';
      _ \<leftarrow> Complete 1 '''' ''bob'' ''token'' 7;
      Take 2 '''' ''cs'' }) (NewSessionStore 0)) = Some (''token'', 7)"
  by (rule session_handshake_delivers)
     (simp_all add: newSessionCode_def b64_encode_def NewSessionStore_def)

end
