(* ===== verification/Grpc.thy ===== *)
theory Grpc
  imports Service Sessions "HOL-Library.Multiset"
begin

text \<open>
  The two gRPC services of the authentication server: \<open>UrcAuthApi\<close> of
  \<open>src/arc-lore-auth/grpc.go\<close> and \<open>RebacApi\<close> of \<open>rebac.go\<close>, with \<open>normalizeResourceID\<close> of
  \<open>api.go\<close>. A request comes with its metadata: \<open>None\<close> for none, else the values of its
  \<open>authorization\<close> key. The times at which a method reads the clock are arguments, in order.
\<close>

section \<open>grpc.go\<close>

definition bearerFromContext :: "string list option \<Rightarrow> (rpc_err, string) result" where
  "bearerFromContext md = (case md of
      None \<Rightarrow> Inl (Unauthenticated, ''missing request metadata'')
    | Some vals \<Rightarrow>
        if length vals = 0 then Inl (Unauthenticated, ''missing authorization metadata'')
        else let raw = TrimSpace (vals ! 0);
                 raw = (if length raw \<ge> 7 \<and> EqualFold (take 7 raw) ''Bearer ''
                        then TrimSpace (drop 7 raw) else raw)
             in if raw = '''' then Inl (Unauthenticated, ''empty bearer token'') else Inr raw)"

record user_token =
  UserToken :: string
  UTExpiresAt :: int
  UserId :: string
  UserName :: string

text \<open>The gate of every method: the bearer, then \<open>VerifyAuthn\<close>.\<close>

definition verified_bearer ::
  "jwt_lib \<Rightarrow> auth_config \<Rightarrow> int \<Rightarrow> string list option \<Rightarrow> (db, (rpc_err, arcLoreClaims) result) state" where
  "verified_bearer lib cfg now md = (case bearerFromContext md of
      Inl e \<Rightarrow> State_Monad.return (Inl e)
    | Inr raw \<Rightarrow> VerifyAuthn lib cfg now raw)"

definition ExchangeUserTokenForMultiresourceToken ::
  "jwt_lib \<Rightarrow> auth_config \<Rightarrow> string \<Rightarrow> int \<Rightarrow> int \<Rightarrow> int \<Rightarrow> string list option \<Rightarrow>
    (db, (rpc_err, user_token) result) state" where
  "ExchangeUserTokenForMultiresourceToken lib cfg kid t0 t1 t2 md = do {
     a \<leftarrow> verified_bearer lib cfg t0 md;
     case a of
       Inl e \<Rightarrow> State_Monad.return (Inl e)
     | Inr authn \<Rightarrow> do {
         let subject = Subject authn;
         let displayName = displayNameFor authn;
         m \<leftarrow> MintFor lib cfg kid t1 t2 subject displayName;
         State_Monad.return (case m of
             Inl UnknownSubject \<Rightarrow> Inl (PermissionDenied, ''unknown user '' @ Quote subject)
           | Inl _ \<Rightarrow> Inl (Internal, ''minting authz token for '' @ Quote subject)
           | Inr (authzJWT, _, expMs) \<Rightarrow> Inr \<lparr>UserToken = authzJWT, UTExpiresAt = expMs,
               UserId = subject, UserName = displayName\<rparr>) } }"

definition HealthCheck :: string where
  "HealthCheck = ''healthy''"

record user_info =
  UIUserId :: string
  UIDisplayName :: string

definition info_of :: "user \<Rightarrow> user_info" where
  "info_of u = \<lparr>UIUserId = Username u,
    UIDisplayName = (if TrimSpace (DisplayName u) = '''' then Username u else DisplayName u)\<rparr>"

fun resolve_infos :: "string list \<Rightarrow> (db, user_info list) state" where
  "resolve_infos [] = State_Monad.return []"
| "resolve_infos (i # ids) = do {
     r \<leftarrow> GetUser i;
     out \<leftarrow> resolve_infos ids;
     State_Monad.return (case r of Inl _ \<Rightarrow> out | Inr u \<Rightarrow> info_of u # out) }"

definition GetUserInfo ::
  "jwt_lib \<Rightarrow> auth_config \<Rightarrow> int \<Rightarrow> string list option \<Rightarrow> string list \<Rightarrow>
    (db, (rpc_err, user_info list) result) state" where
  "GetUserInfo lib cfg now md ids = do {
     a \<leftarrow> verified_bearer lib cfg now md;
     case a of
       Inl e \<Rightarrow> State_Monad.return (Inl e)
     | Inr _ \<Rightarrow> do {
         out \<leftarrow> resolve_infos ids;
         State_Monad.return (Inr out) } }"

definition GetUserId ::
  "jwt_lib \<Rightarrow> auth_config \<Rightarrow> int \<Rightarrow> string list option \<Rightarrow> string \<Rightarrow>
    (db, (rpc_err, user_info) result) state" where
  "GetUserId lib cfg now md displayName = do {
     a \<leftarrow> verified_bearer lib cfg now md;
     case a of
       Inl e \<Rightarrow> State_Monad.return (Inl e)
     | Inr _ \<Rightarrow> do {
         r \<leftarrow> FindByDisplayName displayName;
         State_Monad.return (case r of
             Inl e \<Rightarrow> Inl (Internal, ''display-name lookup: '' @ err_text e)
           | Inr None \<Rightarrow> Inr \<lparr>UIUserId = '''', UIDisplayName = ''''\<rparr>
           | Inr (Some u) \<Rightarrow> Inr (info_of u)) } }"

type_synonym resource_permission = "string \<times> string list"

text \<open>The lookup map and the wildcard permissions of \<open>CheckUserPermission\<close>.\<close>

definition by_id :: "resource_entry list \<Rightarrow> string \<Rightarrow> string list option" where
  "by_id entries = fold (\<lambda>e m. if re_ResourceID e = ''urc-*'' then m
     else m(re_ResourceID e \<mapsto> re_Permission e)) entries (\<lambda>_. None)"

definition wildcard_perms :: "resource_entry list \<Rightarrow> string list option" where
  "wildcard_perms entries = fold (\<lambda>e w. if re_ResourceID e = ''urc-*'' then Some (re_Permission e)
     else w) entries None"

fun partition_ids ::
  "(string \<Rightarrow> string list option) \<Rightarrow> string list option \<Rightarrow> string list \<Rightarrow>
    resource_permission list \<times> resource_permission list" where
  "partition_ids byID wild [] = ([], [])"
| "partition_ids byID wild (rid # rids) =
    (let (allowed, denied) = partition_ids byID wild rids
     in case byID rid of
          Some perms \<Rightarrow> ((rid, perms) # allowed, denied)
        | None \<Rightarrow> (case wild of
            Some perms \<Rightarrow> ((rid, perms) # allowed, denied)
          | None \<Rightarrow> (allowed, (rid, []) # denied)))"

definition CheckUserPermission ::
  "jwt_lib \<Rightarrow> auth_config \<Rightarrow> int \<Rightarrow> string list option \<Rightarrow> string option \<Rightarrow> string list \<Rightarrow>
    (db, (rpc_err, resource_permission list \<times> resource_permission list) result) state" where
  "CheckUserPermission lib cfg now md target rids = (case bearerFromContext md of
      Inl e \<Rightarrow> State_Monad.return (Inl e)
    | Inr raw \<Rightarrow> do {
        v \<leftarrow> VerifyAuthn lib cfg now (case target of
            None \<Rightarrow> raw
          | Some tok \<Rightarrow> if TrimSpace tok \<noteq> '''' then tok else raw);
        case v of
          Inl e \<Rightarrow> State_Monad.return (Inl e)
        | Inr claims \<Rightarrow> do {
            let subject = Subject claims;
            r \<leftarrow> effectiveResources subject;
            State_Monad.return (case r of
                Inl e \<Rightarrow> Inl (Internal, ''resolving resources for '' @ Quote subject @ '': '' @ err_text e)
              | Inr (entries, ok) \<Rightarrow>
                  Inr (if ok then partition_ids (by_id entries) (wildcard_perms entries) rids
                       else partition_ids (\<lambda>_. None) None rids)) } })"

definition LookupUserPermissions ::
  "jwt_lib \<Rightarrow> auth_config \<Rightarrow> int \<Rightarrow> string list option \<Rightarrow> string \<Rightarrow>
    (db, (rpc_err, resource_permission list) result) state" where
  "LookupUserPermissions lib cfg now md resourceFilter = do {
     a \<leftarrow> verified_bearer lib cfg now md;
     case a of
       Inl e \<Rightarrow> State_Monad.return (Inl e)
     | Inr authn \<Rightarrow> do {
         r \<leftarrow> effectiveResources (Subject authn);
         State_Monad.return (case r of
             Inl e \<Rightarrow> Inl (Internal, ''resolving resources for '' @ Quote (Subject authn) @ '': '' @ err_text e)
           | Inr (entries, ok) \<Rightarrow>
               if \<not> ok then Inr []
               else Inr (map (\<lambda>e. (re_ResourceID e, re_Permission e))
                 (filter (\<lambda>e. HasPrefix (re_ResourceID e) resourceFilter) entries))) } }"

text \<open>\<open>url.QueryEscape\<close>, percent-encoding of a query value.\<close>

definition upper_hex :: "nat \<Rightarrow> char" where
  "upper_hex d = (if d < 10 then char_of (48 + d) else char_of (55 + d))"

definition query_escape_char :: "char \<Rightarrow> string" where
  "query_escape_char c = (let n = of_char c :: nat in
     if 48 \<le> n \<and> n \<le> 57 \<or> 65 \<le> n \<and> n \<le> 90 \<or> 97 \<le> n \<and> n \<le> 122 \<or>
        c \<in> {CHR ''-'', CHR ''_'', CHR ''.'', CHR ''~''} then [c]
     else if c = CHR '' '' then ''+''
     else [CHR 0x25, upper_hex (n div 16), upper_hex (n mod 16)])"

definition QueryEscape :: "string \<Rightarrow> string" where
  "QueryEscape s = concat (map query_escape_char s)"

definition StartAuthSession ::
  "auth_config \<Rightarrow> byte list option \<Rightarrow> int \<Rightarrow> string \<Rightarrow>
    (session_store, (rpc_err, string \<times> string) result) state" where
  "StartAuthSession cfg rnd now cs =
    (if TrimSpace (cfg_WebBaseURL cfg) = ''''
     then State_Monad.return (Inl (FailedPrecondition, ''web_base_url is not configured''))
     else do {
       r \<leftarrow> Create rnd now cs;
       State_Monad.return (case r of
           Inl e \<Rightarrow> Inl (Internal, ''creating session: '' @ e)
         | Inr code \<Rightarrow> Inr (code, TrimRight (cfg_WebBaseURL cfg) ''/'' @ ''/login?session='' @ QueryEscape code)) })"

text \<open>A poll: \<open>None\<close> is the response without a token, on which the client keeps polling.\<close>

definition GetAuthSession ::
  "jwt_lib \<Rightarrow> int \<Rightarrow> int \<Rightarrow> string \<Rightarrow> string \<Rightarrow>
    (session_store, (rpc_err, user_token option) result) state" where
  "GetAuthSession lib t0 t1 code cs = do {
     r \<leftarrow> Take t0 code cs;
     State_Monad.return (case r of
         None \<Rightarrow> Inr None
       | Some (token, expMs) \<Rightarrow> (case tokenIdentity lib t1 token of
             Inl _ \<Rightarrow> Inl (Internal, ''reading minted token identity'')
           | Inr (subject, displayName) \<Rightarrow> Inr (Some \<lparr>UserToken = token, UTExpiresAt = expMs,
               UserId = subject, UserName = displayName\<rparr>))) }"

definition RefreshAuthSession :: "(rpc_err, unit) result" where
  "RefreshAuthSession = Inl (Unimplemented, ''RefreshAuthSession is not implemented'')"

section \<open>rebac.go\<close>

text \<open>\<open>normalizeResourceID\<close> of \<open>api.go\<close>.\<close>

definition normalizeResourceID :: "string \<Rightarrow> (string, string) result" where
  "normalizeResourceID inp =
    (let s = TrimPrefix (ToLower (TrimSpace inp)) ''urc-''
     in if length s \<noteq> 32
        then Inl ''repository id must be 32 hex chars (the value in the admin Repos ID column)''
        else if \<not> list_all is_hex_lower s then Inl ''repository id must be hexadecimal''
        else Inr (''urc-'' @ s))"

definition verifiedCaller ::
  "jwt_lib \<Rightarrow> auth_config \<Rightarrow> int \<Rightarrow> string list option \<Rightarrow> (db, (rpc_err, string) result) state" where
  "verifiedCaller lib cfg now md = do {
     a \<leftarrow> verified_bearer lib cfg now md;
     State_Monad.return (case a of Inl e \<Rightarrow> Inl e | Inr claims \<Rightarrow> Inr (Subject claims)) }"

definition rebac_CreateResource ::
  "jwt_lib \<Rightarrow> auth_config \<Rightarrow> int \<Rightarrow> int \<Rightarrow> string list option \<Rightarrow> string \<Rightarrow> string \<Rightarrow>
    (db, (rpc_err, unit) result) state" where
  "rebac_CreateResource lib cfg t0 now md resourceID name = do {
     c \<leftarrow> verifiedCaller lib cfg t0 md;
     case c of
       Inl e \<Rightarrow> State_Monad.return (Inl e)
     | Inr creator \<Rightarrow> (case normalizeResourceID resourceID of
         Inl e \<Rightarrow> State_Monad.return (Inl (InvalidArgument, ''invalid resource id: '' @ e))
       | Inr i \<Rightarrow> do {
           u \<leftarrow> UpsertResource now i name;
           case u of
             Inl e \<Rightarrow> State_Monad.return (Inl (Internal, ''registering resource: '' @ err_text e))
           | Inr _ \<Rightarrow> do {
               g \<leftarrow> GrantOwner creator i;
               State_Monad.return (case g of
                   Inl e \<Rightarrow> Inl (Internal, ''granting creator owner: '' @ err_text e)
                 | Inr _ \<Rightarrow> Inr ()) } }) }"

definition callerMayDeleteResource :: "string \<Rightarrow> string \<Rightarrow> (db, rpc_err option) state" where
  "callerMayDeleteResource caller resourceID = do {
     r \<leftarrow> GetUser caller;
     let ownerCheck = do {
       g \<leftarrow> GrantsFor caller;
       State_Monad.return (case g of
           Inl e \<Rightarrow> Some (Internal, ''loading grants for '' @ Quote caller @ '': '' @ err_text e)
         | Inr granted \<Rightarrow>
             if ''owner'' \<in> set (case map_of granted resourceID of None \<Rightarrow> [] | Some ps \<Rightarrow> ps)
             then None else Some (PermissionDenied, ''not authorized to delete resource'')) };
     case r of
       Inl e \<Rightarrow>
         if \<not> is_not_found e
         then State_Monad.return (Some (Internal, ''loading caller '' @ Quote caller @ '': '' @ err_text e))
         else ownerCheck
     | Inr u \<Rightarrow> if IsAdmin u then State_Monad.return None else ownerCheck }"

definition rebac_DeleteResource ::
  "jwt_lib \<Rightarrow> auth_config \<Rightarrow> int \<Rightarrow> string list option \<Rightarrow> string \<Rightarrow>
    (db, (rpc_err, unit) result) state" where
  "rebac_DeleteResource lib cfg t0 md resourceID = do {
     c \<leftarrow> verifiedCaller lib cfg t0 md;
     case c of
       Inl e \<Rightarrow> State_Monad.return (Inl e)
     | Inr caller \<Rightarrow> (case normalizeResourceID resourceID of
         Inl e \<Rightarrow> State_Monad.return (Inl (InvalidArgument, ''invalid resource id: '' @ e))
       | Inr i \<Rightarrow> do {
           m \<leftarrow> callerMayDeleteResource caller i;
           case m of
             Some e \<Rightarrow> State_Monad.return (Inl e)
           | None \<Rightarrow> do {
               x \<leftarrow> DeleteResource i;
               State_Monad.return (case x of
                   Inl e \<Rightarrow> Inl (Internal, ''deleting resource: '' @ err_text e)
                 | Inr _ \<Rightarrow> Inr ()) } }) }"

section \<open>Facts\<close>

context read_inv
begin

lemma bearer [keeps_rules]: "keeps P (verified_bearer lib cfg t md)"
  by (auto simp: verified_bearer_def intro!: keeps_rules)

lemma caller [keeps_rules]: "keeps P (verifiedCaller lib cfg t md)"
  by (auto simp: verifiedCaller_def intro!: keeps_rules)

lemma may_delete [keeps_rules]: "keeps P (callerMayDeleteResource c i)"
  by (auto simp: callerMayDeleteResource_def Let_def intro!: keeps_rules)

lemma exchange [keeps_rules]:
  "keeps P (ExchangeUserTokenForMultiresourceToken lib cfg kid t0 t1 t2 md)"
  by (auto simp: ExchangeUserTokenForMultiresourceToken_def Let_def intro!: keeps_rules)

lemma infos [keeps_rules]: "keeps P (resolve_infos ids)"
  by (induction ids) (auto intro!: keeps_rules)

lemma user_info [keeps_rules]: "keeps P (GetUserInfo lib cfg t md ids)"
  by (auto simp: GetUserInfo_def intro!: keeps_rules)

lemma user_id [keeps_rules]: "keeps P (GetUserId lib cfg t md n)"
  by (auto simp: GetUserId_def intro!: keeps_rules)

lemma check_permission [keeps_rules]: "keeps P (CheckUserPermission lib cfg t md target rids)"
  by (auto simp: CheckUserPermission_def Let_def intro!: keeps_rules)

lemma lookup_permissions [keeps_rules]: "keeps P (LookupUserPermissions lib cfg t md f)"
  by (auto simp: LookupUserPermissions_def intro!: keeps_rules)

end

context grow_inv
begin

lemma rebac_create [keeps_rules]: "keeps P (rebac_CreateResource lib cfg t0 t md i n)"
  by (auto simp: rebac_CreateResource_def intro!: keeps_rules)

lemma rebac_delete [keeps_rules]: "keeps P (rebac_DeleteResource lib cfg t0 md i)"
  by (auto simp: rebac_DeleteResource_def intro!: keeps_rules)

end

section \<open>The permission check\<close>

lemma partition_ids_filter:
  "partition_ids byID wild rids =
    (map (\<lambda>r. (r, case byID r of Some ps \<Rightarrow> ps | None \<Rightarrow> the wild))
       (filter (\<lambda>r. byID r \<noteq> None \<or> wild \<noteq> None) rids),
     map (\<lambda>r. (r, [])) (filter (\<lambda>r. byID r = None \<and> wild = None) rids))"
  by (induction rids) (auto split: option.split)

lemma by_id_spec:
  "by_id es i = (if i = ''urc-*'' then None
    else map_option re_Permission (List.find (\<lambda>e. re_ResourceID e = i) (rev es)))"
proof -
  have "fold (\<lambda>e m. if re_ResourceID e = ''urc-*'' then m else m(re_ResourceID e \<mapsto> re_Permission e))
      es (\<lambda>_. None) i = (if i = ''urc-*'' then None
      else map_option re_Permission (List.find (\<lambda>e. re_ResourceID e = i) (rev es)))"
    by (induction es rule: rev_induct) auto
  then show ?thesis by (simp add: by_id_def)
qed

lemma wildcard_perms_spec:
  "wildcard_perms es = map_option re_Permission (List.find (\<lambda>e. re_ResourceID e = ''urc-*'') (rev es))"
  unfolding wildcard_perms_def by (induction es rule: rev_induct) auto

lemma by_id_None: "by_id es i = None \<longleftrightarrow> i = ''urc-*'' \<or> i \<notin> re_ResourceID ` set es"
  by (auto simp: by_id_spec find_None_all)

lemma wildcard_None: "wildcard_perms es = None \<longleftrightarrow> ''urc-*'' \<notin> re_ResourceID ` set es"
  by (force simp: wildcard_perms_spec find_None_all)

lemma user_entries_ids:
  "re_ResourceID ` set (user_entries u d) =
    (if IsAdmin u then insert ''urc-*'' (ResourceID ` set (resources d))
     else {i. \<exists>g\<in>set (grants d). GUser g = Username u \<and> GResource g = i})"
proof (cases "IsAdmin u")
  case True
  then show ?thesis by (auto simp: user_entries_def wildcard_entry_def image_image)
next
  case False
  have "fst ` set (grants_map gs) = GResource ` set gs" for gs using grants_map_spec by blast
  with False show ?thesis
    by (auto simp: user_entries_def Let_def image_image select_grants_set)
qed

text \<open>Who may touch a resource: an administrator anything, any other user what a grant of his names
  (a grant on the wildcard id names everything).\<close>

definition may_access :: "db \<Rightarrow> string \<Rightarrow> string \<Rightarrow> bool" where
  "may_access d subject rid \<longleftrightarrow> (\<exists>u\<in>set (users d). Username u = normalizeUsername subject \<and>
    (IsAdmin u \<or> (\<exists>g\<in>set (grants d). GUser g = Username u \<and> GResource g \<in> {rid, ''urc-*''})))"

lemma access_entries:
  assumes "users_ok d" and "select_user (normalizeUsername s) d = Some u"
  shows "by_id (user_entries u d) rid \<noteq> None \<or> wildcard_perms (user_entries u d) \<noteq> None \<longleftrightarrow>
    may_access d s rid"
proof -
  have u: "u \<in> set (users d)" "Username u = normalizeUsername s"
    using select_user_Some [OF assms(2)] by auto
  have "v = u" if "v \<in> set (users d)" "Username v = normalizeUsername s" for v
    using select_user_in [OF assms(1) that(1)] that(2) assms(2) by simp
  with u have "may_access d s rid \<longleftrightarrow>
      IsAdmin u \<or> (\<exists>g\<in>set (grants d). GUser g = Username u \<and> GResource g \<in> {rid, ''urc-*''})"
    unfolding may_access_def by blast
  then show ?thesis
    by (auto simp: by_id_None wildcard_None user_entries_ids)
qed

text \<open>The permissions a user has on a resource: an administrator the full set on a registered resource and
  the set of the wildcard on any other id; any other user those granted to him on the resource, in
  order, or where there is none those granted on the wildcard.\<close>

definition granted_on :: "db \<Rightarrow> string \<Rightarrow> string \<Rightarrow> string list" where
  "granted_on d n i = sort (map GPermission (filter (\<lambda>g. GUser g = n \<and> GResource g = i) (grants d)))"

definition permissions_on :: "db \<Rightarrow> user \<Rightarrow> string \<Rightarrow> string list" where
  "permissions_on d u rid =
    (if IsAdmin u
     then (if rid \<noteq> ''urc-*'' \<and> rid \<in> ResourceID ` set (resources d) then full_permissions
           else [''read'', ''write'', ''migrate'', ''obliterate''])
     else if granted_on d (Username u) rid \<noteq> [] then granted_on d (Username u) rid
     else granted_on d (Username u) ''urc-*'')"

lemma select_grants_on:
  "map GPermission (filter (\<lambda>g. GResource g = i) (select_grants n d)) = granted_on d n i"
proof -
  have "mset (filter (\<lambda>g. GResource g = i) (select_grants n d)) =
      mset (filter (\<lambda>g. GUser g = n \<and> GResource g = i) (grants d))"
    by (simp only: select_grants_def mset_filter mset_sort filter_filter_mset)
  then have "mset (map GPermission (filter (\<lambda>g. GUser g = n \<and> GResource g = i) (grants d))) =
      mset (map GPermission (filter (\<lambda>g. GResource g = i) (select_grants n d)))"
    by (simp only: mset_map)
  from properties_for_sort [OF this [symmetric] sorted_permissions] show ?thesis
    by (simp add: granted_on_def)
qed

lemma find_entry:
  "List.find (\<lambda>e. re_ResourceID e = i) (map (\<lambda>i. \<lparr>re_ResourceID = i, re_Permission = f i\<rparr>) ids) =
    (if i \<in> set ids then Some \<lparr>re_ResourceID = i, re_Permission = f i\<rparr> else None)"
  by (induction ids) auto

lemma find_user_entry:
  "map_option re_Permission (List.find (\<lambda>e. re_ResourceID e = i) (rev (user_entries u d))) =
    (if IsAdmin u
     then if i = ''urc-*'' then Some (re_Permission wildcard_entry)
       else if i \<in> ResourceID ` set (resources d) then Some full_permissions else None
     else if granted_on d (Username u) i = [] then None else Some (granted_on d (Username u) i))"
proof (cases "IsAdmin u")
  case True
  have "rev (user_entries u d) = wildcard_entry #
      map (\<lambda>i. \<lparr>re_ResourceID = i, re_Permission = full_permissions\<rparr>)
        (rev (map ResourceID (sort_key ResourceID (resources d))))"
    using True by (simp add: user_entries_def rev_map comp_def)
  with True show ?thesis by (auto simp: wildcard_entry_def find_entry)
next
  case False
  let ?gs = "select_grants (Username u) d"
  have look: "map_of (grants_map ?gs) i = (if granted_on d (Username u) i = [] then None
      else Some (granted_on d (Username u) i))" for i
    using grants_map_spec [of ?gs] by (simp add: Let_def select_grants_on)
  then have mem: "i \<in> set (map fst (grants_map ?gs)) \<longleftrightarrow> granted_on d (Username u) i \<noteq> []" for i
    by (metis list.set_map map_of_eq_None_iff option.distinct(1))
  have "rev (user_entries u d) = map (\<lambda>i. \<lparr>re_ResourceID = i,
      re_Permission = (case map_of (grants_map ?gs) i of None \<Rightarrow> [] | Some ps \<Rightarrow> ps)\<rparr>)
      (rev (sort (map fst (grants_map ?gs))))"
    using False by (simp add: user_entries_def Let_def rev_map)
  with False show ?thesis by (simp only: find_entry set_rev set_sort mem look) simp
qed

lemma entries_permissions:
  assumes "by_id (user_entries u d) r \<noteq> None \<or> wildcard_perms (user_entries u d) \<noteq> None"
  shows "(case by_id (user_entries u d) r of Some ps \<Rightarrow> ps | None \<Rightarrow> the (wildcard_perms (user_entries u d))) =
    permissions_on d u r"
  using assms
  by (auto simp: by_id_spec wildcard_perms_spec find_user_entry permissions_on_def wildcard_entry_def split: if_splits)

section \<open>Properties\<close>

text \<open>C16: the permission check sorts the requested resources, in their order, into those the subject may access,
  each with exactly the permissions the tables give on it, and the rest, which get none, under any
  driver faults. The subject is that of the target token where the request names one, and of the bearer
  token otherwise; that token is verified and carries the current version of its user.\<close>

theorem check_permission_exact:
  assumes "fst (run_state (CheckUserPermission lib cfg now md target rids) d) = Inr (allowed, denied)"
    and "db_ok d"
  shows "\<exists>raw c u. bearerFromContext md = Inr raw \<and>
    verifyAuthnToken lib cfg now (case target of None \<Rightarrow> raw
      | Some tok \<Rightarrow> if TrimSpace tok \<noteq> '''' then tok else raw) = Inr c \<and>
    u \<in> set (users d) \<and> Username u = normalizeUsername (Subject c) \<and> TokenVersion u = ClTokenVersion c \<and>
    allowed = map (\<lambda>r. (r, permissions_on d u r)) (filter (may_access d (Subject c)) rids) \<and>
    denied = map (\<lambda>r. (r, [])) (filter (\<lambda>r. \<not> may_access d (Subject c) r) rids)"
proof -
  have uok: "users_ok d" using assms(2) by (simp add: db_ok_def)
  from assms(1) obtain raw where raw: "bearerFromContext md = Inr raw"
    by (auto simp: CheckUserPermission_def split: sum.splits)
  let ?tok = "case target of None \<Rightarrow> raw | Some tok \<Rightarrow> if TrimSpace tok \<noteq> '''' then tok else raw"
  let ?d1 = "snd (run_state (VerifyAuthn lib cfg now ?tok) d)"
  from assms(1) raw obtain c where v: "fst (run_state (VerifyAuthn lib cfg now ?tok) d) = Inr c"
    by (auto simp: CheckUserPermission_def split: sum.splits)
  from assms(1) raw v obtain es ok where e: "fst (run_state (effectiveResources (Subject c)) ?d1) = Inr (es, ok)"
    and out: "(allowed, denied) = (if ok then partition_ids (by_id es) (wildcard_perms es) rids
      else partition_ids (\<lambda>_. None) None rids)"
    by (auto simp: CheckUserPermission_def Let_def split: sum.splits)
  have same: "same_tables d ?d1" by (rule keepsD [OF unchanged.verify_authn]) simp
  note tabs = same_tablesD [OF same]
  have uok1: "users_ok ?d1" using uok by (simp add: users_ok_def tabs)
  obtain u where u: "select_user (normalizeUsername (Subject c)) d = Some u" "TokenVersion u = ClTokenVersion c"
    and vt: "verifyAuthnToken lib cfg now ?tok = Inr c"
    using VerifyAuthn_InrD [OF v] by blast
  have u1: "select_user (normalizeUsername (Subject c)) ?d1 = Some u"
    using u(1) by (simp add: same_tables_select [OF same])
  with effectiveResources_Inr [OF e uok1] have ok and es: "es = user_entries u ?d1"
    by (auto split: if_splits)
  have "may_access ?d1 (Subject c) r = may_access d (Subject c) r" "permissions_on ?d1 u r = permissions_on d u r" for r
    by (simp_all add: may_access_def permissions_on_def granted_on_def tabs)
  note at_d = this
  have acc: "by_id es r \<noteq> None \<or> wildcard_perms es \<noteq> None \<longleftrightarrow> may_access d (Subject c) r" for r
    using access_entries [OF uok1 u1] by (simp add: es at_d)
  have perms: "(case by_id es r of Some ps \<Rightarrow> ps | None \<Rightarrow> the (wildcard_perms es)) = permissions_on d u r"
    if "may_access d (Subject c) r" for r
    using entries_permissions [of u ?d1 r, folded es] that acc [of r] at_d(2) [of r] by metis
  have deny: "by_id es r = None \<and> wildcard_perms es = None \<longleftrightarrow> \<not> may_access d (Subject c) r" for r
    using acc [of r] by blast
  have "allowed = map (\<lambda>r. (r, permissions_on d u r)) (filter (may_access d (Subject c)) rids)"
    "denied = map (\<lambda>r. (r, [])) (filter (\<lambda>r. \<not> may_access d (Subject c) r) rids)"
    using out \<open>ok\<close> perms by (simp_all only: partition_ids_filter acc deny if_True prod.inject) simp_all
  with raw vt u select_user_Some [OF u(1)] show ?thesis by auto
qed

lemma demo_accept:
  "verifyAuthnToken (one_token_lib demo_claims) demo_cfg 5 ''token'' = Inr demo_claims"
  by (simp add: verifyAuthnToken_def one_token_lib_def authn_acceptable demo_cfg_def
      demo_claims_def TrimSpace_def is_space_def)

lemma demo_verify:
  "run_state (VerifyAuthn (one_token_lib demo_claims) demo_cfg 5 ''token'') demo_db =
    (Inr demo_claims, demo_db)"
  by (simp add: VerifyAuthn_calm demo_accept) (simp add: demo_claims_def demo_names demo_user_def)

lemma demo_bearer: "bearerFromContext (Some [''bearer token'']) = Inr ''token''"
  by code_simp

lemma demo_access:
  "may_access demo_db ''bob'' ''urc-1''" "\<not> may_access demo_db ''bob'' ''urc-2''"
  by (simp_all add: may_access_def demo_db_def demo_user_def demo_names)

theorem check_permission_exact_witness:
  "fst (run_state (CheckUserPermission (one_token_lib demo_claims) demo_cfg 5 (Some [''bearer token''])
      None [''urc-2'', ''urc-1'']) demo_db) = Inr ([(''urc-1'', [''read''])], [(''urc-2'', [])])"
proof -
  let ?run = "CheckUserPermission (one_token_lib demo_claims) demo_cfg 5 (Some [''bearer token''])
      None [''urc-2'', ''urc-1'']"
  have "\<exists>allowed denied. fst (run_state ?run demo_db) = Inr (allowed, denied)"
    by (simp add: CheckUserPermission_def demo_bearer demo_verify effectiveResources_calm Let_def
        split: option.split)
  then obtain allowed denied where run: "fst (run_state ?run demo_db) = Inr (allowed, denied)" by blast
  from check_permission_exact [OF run demo_ok] obtain c u where
    c: "verifyAuthnToken (one_token_lib demo_claims) demo_cfg 5 ''token'' = Inr c" and
    u: "u \<in> set (users demo_db)" "Username u = normalizeUsername (Subject c)" and
    out: "allowed = map (\<lambda>r. (r, permissions_on demo_db u r)) (filter (may_access demo_db (Subject c)) [''urc-2'', ''urc-1''])"
      "denied = map (\<lambda>r. (r, [])) (filter (\<lambda>r. \<not> may_access demo_db (Subject c) r) [''urc-2'', ''urc-1''])"
    by (auto simp: demo_bearer)
  from c have s: "Subject c = ''bob''" by (simp add: demo_accept) (auto simp: demo_claims_def)
  with u have "\<not> IsAdmin u" "Username u = ''bob''" by (auto simp: demo_db_def demo_user_def demo_names)
  then have "permissions_on demo_db u ''urc-1'' = [''read'']"
    by (simp add: permissions_on_def granted_on_def demo_db_def)
  with run out s show ?thesis by (simp add: demo_access)
qed

text \<open>A permission check that names a target token never looks at the caller's own token: any
  non-empty bearer, verified or not, gives the answer for the target.\<close>

theorem target_check_ignores_caller:
  assumes "bearerFromContext md = Inr raw" and "bearerFromContext md' = Inr raw'"
    and "TrimSpace tok \<noteq> ''''"
  shows "CheckUserPermission lib cfg now md (Some tok) rids =
    CheckUserPermission lib cfg now md' (Some tok) rids"
  using assms by (simp add: CheckUserPermission_def)

theorem target_check_ignores_caller_witness:
  "\<forall>(lib :: jwt_lib) (cfg :: auth_config) now rids.
   CheckUserPermission lib cfg now (Some [''forged'']) (Some ''token'') rids =
   CheckUserPermission lib cfg now (Some [''bearer token'']) (Some ''token'') rids"
proof (intro allI)
  fix lib :: jwt_lib and cfg :: auth_config and now rids
  show "CheckUserPermission lib cfg now (Some [''forged'']) (Some ''token'') rids =
      CheckUserPermission lib cfg now (Some [''bearer token'']) (Some ''token'') rids"
    by (rule target_check_ignores_caller [of _ "''forged''" _ "''token''"]) code_simp+
qed

text \<open>C17: the exchange mints only for the holder of an accepted token: what it returns names the
  subject of that token, which the store knows at the token's version, and the new token carries
  exactly this subject's current effective grants; its expiry is in milliseconds.\<close>

theorem exchange_authentic:
  assumes "fst (run_state (ExchangeUserTokenForMultiresourceToken lib cfg kid t0 t1 t2 md) d) = Inr ut"
    and "db_ok d" and "jwt_exact lib"
  shows "\<exists>raw c u sec c'. bearerFromContext md = Inr raw \<and> verifyAuthnToken lib cfg t0 raw = Inr c \<and>
    select_user (normalizeUsername (Subject c)) d = Some u \<and> TokenVersion u = ClTokenVersion c \<and>
    UserId ut = Subject c \<and> UTExpiresAt ut = sec * 1000 \<and>
    jwt_sign lib kid c' = Inr (UserToken ut) \<and> Subject c' = Subject c \<and> ExpiresAt c' = Some sec \<and>
    ClResources c' = user_entries u d \<and> ClTokenVersion c' = TokenVersion u"
proof -
  have uok: "users_ok d" using assms(2) by (simp add: db_ok_def)
  from assms(1) obtain c where v: "fst (run_state (verified_bearer lib cfg t0 md) d) = Inr c"
    by (auto simp: ExchangeUserTokenForMultiresourceToken_def split: sum.splits)
  let ?d1 = "snd (run_state (verified_bearer lib cfg t0 md) d)"
  have same: "same_tables d ?d1" by (rule keepsD [OF unchanged.bearer]) simp
  have uok1: "users_ok ?d1" using uok by (simp add: users_ok_def same_tablesD [OF same])
  from v obtain raw where raw: "bearerFromContext md = Inr raw"
    and va: "fst (run_state (VerifyAuthn lib cfg t0 raw) d) = Inr c"
    by (auto simp: verified_bearer_def split: sum.splits)
  from VerifyAuthn_InrD [OF va] obtain u where vt: "verifyAuthnToken lib cfg t0 raw = Inr c"
    and u: "select_user (normalizeUsername (Subject c)) d = Some u" "TokenVersion u = ClTokenVersion c"
    by blast
  from assms(1) v obtain tok sec ms where
    m: "fst (run_state (MintFor lib cfg kid t1 t2 (Subject c) (displayNameFor c)) ?d1) = Inr (tok, sec, ms)"
    and ut: "ut = \<lparr>UserToken = tok, UTExpiresAt = ms, UserId = Subject c, UserName = displayNameFor c\<rparr>"
    by (auto simp: ExchangeUserTokenForMultiresourceToken_def Let_def split: sum.splits mint_err.splits)
  have ent: "user_entries v ?d1 = user_entries v d" for v
    using same_tablesD [OF same] same_tables_select [OF same] by (simp add: user_entries_def Let_def)
  from MintFor_InrD [OF m uok1 assms(3)] same_tables_select(1) [OF same] u(1) obtain c' where
    "jwt_sign lib kid c' = Inr tok" "Subject c' = Subject c" "ExpiresAt c' = Some sec"
    "ClResources c' = user_entries u d" "ClTokenVersion c' = TokenVersion u" "ms = sec * 1000"
    by (auto simp: ent)
  with raw vt u ut show ?thesis by auto
qed

theorem exchange_authentic_witness:
  "\<exists>ut. fst (run_state (ExchangeUserTokenForMultiresourceToken (one_token_lib demo_claims) demo_cfg
      ''k'' 5 0 0 (Some [''bearer token''])) demo_db) = Inr ut \<and> UserId ut = ''bob''"
proof -
  have name: "displayNameFor demo_claims = ''bob''" and sub: "Subject demo_claims = ''bob''"
    by (simp_all add: displayNameFor_def demo_claims_def TrimSpace_def is_space_def)
  let ?run = "ExchangeUserTokenForMultiresourceToken (one_token_lib demo_claims) demo_cfg
      ''k'' 5 0 0 (Some [''bearer token''])"
  obtain ut where run: "fst (run_state ?run demo_db) = Inr ut"
    by (simp add: ExchangeUserTokenForMultiresourceToken_def verified_bearer_def demo_bearer
        demo_verify name sub demo_mint Let_def)
  from exchange_authentic [OF run demo_ok one_token_exact] demo_bearer
  have "UserId ut = ''bob''"
    by (auto simp: verifyAuthnToken_def one_token_lib_def demo_claims_def split: if_splits)
  with run show ?thesis by blast
qed

section \<open>The repository registry\<close>

lemma AddGrant_Inr:
  assumes "run_state (AddGrant n i p) d = (Inr (), d')" and "TrimSpace p \<in> set grant_permissions"
  shows "\<lparr>GUser = normalizeUsername n, GResource = TrimSpace i, GPermission = TrimSpace p\<rparr> \<in> set (grants d')
    \<and> set (grants d) \<subseteq> set (grants d') \<and> users d' = users d \<and> resources d' = resources d"
  using assms
  by (auto simp: AddGrant_def Let_def insert_grant_def split: option.splits if_splits)

lemma GrantOwner_Inr:
  assumes "run_state (GrantOwner n i) d = (Inr (), d')"
  shows "(\<forall>p\<in>{''owner'', ''read'', ''write''}.
      \<lparr>GUser = normalizeUsername n, GResource = TrimSpace i, GPermission = p\<rparr> \<in> set (grants d')) \<and>
    set (grants d) \<subseteq> set (grants d') \<and> users d' = users d \<and> resources d' = resources d"
proof -
  have p: "TrimSpace ''owner'' = ''owner''" "TrimSpace ''read'' = ''read''" "TrimSpace ''write'' = ''write''"
    "''owner'' \<in> set grant_permissions" "''read'' \<in> set grant_permissions"
    "''write'' \<in> set grant_permissions"
    by (simp_all add: TrimSpace_def is_space_def grant_permissions_def)
  obtain d1 where r1: "run_state (AddGrant n i ''owner'') d = (Inr (), d1)"
    using assms by (cases "run_state (AddGrant n i ''owner'') d") (auto simp: GrantOwner_def split: sum.splits)
  obtain d2 where r2: "run_state (AddGrant n i ''read'') d1 = (Inr (), d2)"
    using assms r1 by (cases "run_state (AddGrant n i ''read'') d1") (auto simp: GrantOwner_def split: sum.splits)
  have r3: "run_state (AddGrant n i ''write'') d2 = (Inr (), d')"
    using assms r1 r2 by (cases "run_state (AddGrant n i ''write'') d2") (auto simp: GrantOwner_def split: sum.splits)
  show ?thesis
    using AddGrant_Inr [OF r1] AddGrant_Inr [OF r2] AddGrant_Inr [OF r3] p by auto
qed

lemma normalizeResourceID_Inr:
  assumes "normalizeResourceID s = Inr i"
  shows "\<exists>h. i = ''urc-'' @ h \<and> length h = 32 \<and> list_all is_hex_lower h"
  using assms by (auto simp: normalizeResourceID_def Let_def split: if_splits)

lemma is_hex_lower_space: "is_hex_lower c \<Longrightarrow> \<not> is_space c"
  by (auto simp: is_hex_lower_def is_space_def Let_def)

lemma normalizeResourceID_trimmed:
  assumes "normalizeResourceID s = Inr i"
  shows "TrimSpace i = i \<and> i \<noteq> []"
proof -
  obtain h where i: "i = ''urc-'' @ h" and h: "\<forall>c\<in>set h. is_hex_lower c"
    using normalizeResourceID_Inr [OF assms] by (auto simp: list_all_iff)
  have "\<forall>c\<in>set ''urc-''. \<not> is_space c" by (simp add: is_space_def)
  moreover have "\<forall>c\<in>set h. \<not> is_space c" using h is_hex_lower_space by blast
  ultimately have "\<forall>c\<in>set i. \<not> is_space c" unfolding i set_append by blast
  then show ?thesis using TrimSpace_no_space [of i] by (simp add: i)
qed

lemma callerMay_None:
  assumes "fst (run_state (callerMayDeleteResource caller i) d) = None"
  shows "(\<exists>u\<in>set (users d). Username u = normalizeUsername caller \<and> IsAdmin u) \<or>
    \<lparr>GUser = normalizeUsername caller, GResource = i, GPermission = ''owner''\<rparr> \<in> set (grants d)"
proof (cases "\<exists>u. fst (run_state (GetUser caller) d) = Inr u \<and> IsAdmin u")
  case True
  then obtain u where "fst (run_state (GetUser caller) d) = Inr u" "IsAdmin u" by blast
  with GetUser_Inr [of caller d u] select_user_Some show ?thesis by blast
next
  case False
  let ?d1 = "snd (run_state (GetUser caller) d)"
  have same: "same_tables d ?d1" by (rule GetUser_same)
  from assms False obtain out where g: "fst (run_state (GrantsFor caller) ?d1) = Inr out"
    and own: "''owner'' \<in> set (case map_of out i of None \<Rightarrow> [] | Some ps \<Rightarrow> ps)"
    by (auto simp: callerMayDeleteResource_def Let_def split: sum.splits if_splits)
  let ?gs = "select_grants (normalizeUsername caller) d"
  from run_GrantsFor_Inr [OF g] own have "out = grants_map ?gs"
    by (auto simp: same_tables_select [OF same] split: if_splits)
  with own grants_map_spec [of ?gs] have "''owner'' \<in> set (map GPermission (filter (\<lambda>g. GResource g = i) ?gs))"
    by (auto simp: Let_def split: option.splits if_splits)
  then obtain g where "g \<in> set (grants d)" "GUser g = normalizeUsername caller" "GResource g = i"
    "GPermission g = ''owner''" by (auto simp: select_grants_set)
  moreover from this have "g = \<lparr>GUser = normalizeUsername caller, GResource = i, GPermission = ''owner''\<rparr>"
    by (intro grant_row.equality) simp_all
  ultimately show ?thesis by simp
qed

text \<open>C18: the registry deletes a resource only for an administrator or an owner of it, under any
  driver faults: unless the caller's token was accepted and the caller is one of the two, the tables
  are as before; on success the resource and its grants are gone and nothing else has changed.\<close>

theorem rebac_delete_authorised:
  assumes "run_state (rebac_DeleteResource lib cfg t0 md rid) d = (r, d')"
  shows "(same_tables d d' \<and> r \<noteq> Inr ()) \<or>
    (\<exists>raw c i. bearerFromContext md = Inr raw \<and> verifyAuthnToken lib cfg t0 raw = Inr c \<and>
      normalizeResourceID rid = Inr i \<and>
      ((\<exists>u\<in>set (users d). Username u = normalizeUsername (Subject c) \<and> IsAdmin u) \<or>
       \<lparr>GUser = normalizeUsername (Subject c), GResource = i, GPermission = ''owner''\<rparr> \<in> set (grants d)) \<and>
      r = Inr () \<and> users d' = users d \<and> config d' = config d \<and>
      resources d' = filter (\<lambda>q. ResourceID q \<noteq> i) (resources d) \<and>
      grants d' = filter (\<lambda>g. GResource g \<noteq> i) (grants d))"
proof -
  let ?d1 = "snd (run_state (verifiedCaller lib cfg t0 md) d)"
  have same1: "same_tables d ?d1" by (rule keepsD [OF unchanged.caller]) simp
  show ?thesis
  proof (cases "fst (run_state (verifiedCaller lib cfg t0 md) d)")
    case (Inl e)
    with assms same1 show ?thesis by (auto simp: rebac_DeleteResource_def)
  next
    case (Inr caller)
    then obtain raw c where raw: "bearerFromContext md = Inr raw"
      and "fst (run_state (VerifyAuthn lib cfg t0 raw) d) = Inr c" and caller: "caller = Subject c"
      by (auto simp: verifiedCaller_def verified_bearer_def split: sum.splits)
    then have v: "verifyAuthnToken lib cfg t0 raw = Inr c" using VerifyAuthn_InrD by blast
    show ?thesis
    proof (cases "normalizeResourceID rid")
      case (Inl e)
      with assms Inr same1 show ?thesis by (auto simp: rebac_DeleteResource_def)
    next
      case nid: (Inr i)
      let ?m = "callerMayDeleteResource caller i"
      let ?d2 = "snd (run_state ?m ?d1)"
      have "same_tables ?d1 ?d2" by (rule keepsD [OF unchanged.may_delete]) simp
      then have same2: "same_tables d ?d2" using same1 same_tables_trans by blast
      show ?thesis
      proof (cases "fst (run_state ?m ?d1)")
        case (Some e)
        with assms Inr nid same2 show ?thesis by (auto simp: rebac_DeleteResource_def)
      next
        case None
        note may = callerMay_None [OF None, unfolded same_tablesD [OF same1]]
        have tr: "TrimSpace i = i" "i \<noteq> []" using normalizeResourceID_trimmed [OF nid] by auto
        from assms Inr nid None have run: "(r, d') =
            (case fst (run_state (DeleteResource i) ?d2) of
               Inl e \<Rightarrow> Inl (Internal, ''deleting resource: '' @ err_text e) | Inr _ \<Rightarrow> Inr (),
             snd (run_state (DeleteResource i) ?d2))"
          by (simp add: rebac_DeleteResource_def)
        show ?thesis
        proof (cases "fault_of ?d2")
          case (Some m)
          with run tr same2 show ?thesis
            by (auto simp: DeleteResource_def)
        next
          case None
          with run tr same_tablesD [OF same2] raw v nid may caller show ?thesis
            by (simp add: DeleteResource_def delete_resource_def)
        qed
      qed
    qed
  qed
qed

text \<open>An administrator's token, and the id of a registered repository, for the witnesses.\<close>

definition ann_claims :: arcLoreClaims where
  "ann_claims = demo_claims\<lparr>Subject := ''ann'', ClName := ''ann''\<rparr>"

definition demo_id :: string where
  "demo_id = ''urc-00000000000000000000000000000001''"

lemma demo_normalize: "normalizeResourceID ''00000000000000000000000000000001'' = Inr demo_id"
  by code_simp

lemma ann_verified:
  "run_state (verifiedCaller (one_token_lib ann_claims) demo_cfg 5 (Some [''bearer token''])) demo_db =
    (Inr ''ann'', demo_db)"
proof -
  have "verifyAuthnToken (one_token_lib ann_claims) demo_cfg 5 ''token'' = Inr ann_claims"
    by (simp add: verifyAuthnToken_def one_token_lib_def authn_acceptable demo_cfg_def
        ann_claims_def demo_claims_def TrimSpace_def is_space_def)
  then show ?thesis
    by (simp add: verifiedCaller_def verified_bearer_def demo_bearer VerifyAuthn_calm ann_claims_def
        demo_claims_def demo_names demo_user_def)
qed

theorem rebac_delete_authorised_witness:
  "\<exists>d'. run_state (rebac_DeleteResource (one_token_lib ann_claims) demo_cfg 5 (Some [''bearer token''])
      ''00000000000000000000000000000001'') demo_db = (Inr (), d') \<and>
    grants d' = filter (\<lambda>g. GResource g \<noteq> demo_id) (grants demo_db)"
proof -
  let ?run = "rebac_DeleteResource (one_token_lib ann_claims) demo_cfg 5 (Some [''bearer token''])
      ''00000000000000000000000000000001''"
  have "TrimSpace demo_id = demo_id" "demo_id \<noteq> []"
    using normalizeResourceID_trimmed [OF demo_normalize] by auto
  moreover have "run_state (callerMayDeleteResource ''ann'' demo_id) demo_db = (None, demo_db)"
    by (simp add: callerMayDeleteResource_def GetUser_calm demo_names demo_user_def Let_def)
  ultimately obtain d' where run: "run_state ?run demo_db = (Inr (), d')"
    by (simp add: rebac_DeleteResource_def ann_verified demo_normalize DeleteResource_def
        delete_resource_def)
  from rebac_delete_authorised [OF run] demo_normalize
  have "grants d' = filter (\<lambda>g. GResource g \<noteq> demo_id) (grants demo_db)" by auto
  with run show ?thesis by blast
qed

lemma upsert_resource_row:
  assumes "upsert_resource i nm t d = Inr (d', r)"
  shows "users d' = users d \<and> grants d' = grants d \<and>
    (\<exists>q\<in>set (resources d'). ResourceID q = i \<and> ResName q = nm)"
proof (cases "List.find (\<lambda>r. ResourceID r = i) (resources d)")
  case None
  with assms show ?thesis by (auto simp: upsert_resource_def)
next
  case (Some q)
  then have "q \<in> set (resources d)" "ResourceID q = i" by (auto dest: find_Some_in)
  moreover from Some assms have "d' = d\<lparr>resources :=
      map (\<lambda>r. if ResourceID r = i then r\<lparr>ResName := nm\<rparr> else r) (resources d)\<rparr>"
    by (simp add: upsert_resource_def)
  ultimately show ?thesis
    by (intro conjI bexI [of _ "q\<lparr>ResName := nm\<rparr>"]) (auto simp: image_iff)
qed

text \<open>C19: a successful registration leaves the resource registered under its canonical id with the
  given name, and its verified caller with owner, read and write on it, whether the resource was
  new or already there (and then whoever registered it before).\<close>

theorem rebac_create_grants_caller:
  assumes "run_state (rebac_CreateResource lib cfg t0 now md rid name) d = (Inr (), d')"
  shows "\<exists>raw c i. bearerFromContext md = Inr raw \<and> verifyAuthnToken lib cfg t0 raw = Inr c \<and>
    normalizeResourceID rid = Inr i \<and>
    (\<exists>r\<in>set (resources d'). ResourceID r = i \<and> ResName r = name) \<and>
    (\<forall>p\<in>{''owner'', ''read'', ''write''}.
      \<lparr>GUser = normalizeUsername (Subject c), GResource = i, GPermission = p\<rparr> \<in> set (grants d')) \<and>
    users d' = users d \<and> set (grants d) \<subseteq> set (grants d')"
proof -
  let ?d1 = "snd (run_state (verifiedCaller lib cfg t0 md) d)"
  have same: "same_tables d ?d1" by (rule keepsD [OF unchanged.caller]) simp
  from assms obtain caller where cl: "fst (run_state (verifiedCaller lib cfg t0 md) d) = Inr caller"
    by (auto simp: rebac_CreateResource_def split: sum.splits)
  then obtain raw c where raw: "bearerFromContext md = Inr raw"
    and "fst (run_state (VerifyAuthn lib cfg t0 raw) d) = Inr c" and caller: "caller = Subject c"
    by (auto simp: verifiedCaller_def verified_bearer_def split: sum.splits)
  then have v: "verifyAuthnToken lib cfg t0 raw = Inr c" using VerifyAuthn_InrD by blast
  from assms cl obtain i where nid: "normalizeResourceID rid = Inr i"
    by (auto simp: rebac_CreateResource_def split: sum.splits)
  have tr: "TrimSpace i = i" "i \<noteq> []" using normalizeResourceID_trimmed [OF nid] by auto
  let ?d2 = "snd (run_state (UpsertResource now i name) ?d1)"
  from assms cl nid obtain b where up: "fst (run_state (UpsertResource now i name) ?d1) = Inr b"
    by (auto simp: rebac_CreateResource_def split: sum.splits)
  from assms cl nid up have own: "run_state (GrantOwner caller i) ?d2 = (Inr (), d')"
    by (cases "run_state (GrantOwner caller i) ?d2")
       (auto simp: rebac_CreateResource_def split: sum.splits)
  from up tr have "\<exists>t. upsert_resource i name now (popped ?d1) = Inr (?d2, t)"
    by (auto simp: UpsertResource_def split: option.splits sum.splits)
  then obtain t where "upsert_resource i name now (popped ?d1) = Inr (?d2, t)" by blast
  from upsert_resource_row [OF this] have "users ?d2 = users ?d1 \<and> grants ?d2 = grants ?d1 \<and>
      (\<exists>r\<in>set (resources ?d2). ResourceID r = i \<and> ResName r = name)"
    by simp
  with GrantOwner_Inr [OF own] same_tablesD [OF same] raw v nid caller tr show ?thesis by auto
qed

theorem rebac_create_grants_caller_witness:
  "\<exists>d'. run_state (rebac_CreateResource (one_token_lib ann_claims) demo_cfg 5 6 (Some [''bearer token''])
      ''00000000000000000000000000000001'' ''art'') demo_db = (Inr (), d') \<and>
    \<lparr>GUser = ''ann'', GResource = demo_id, GPermission = ''owner''\<rparr> \<in> set (grants d')"
proof -
  let ?run = "rebac_CreateResource (one_token_lib ann_claims) demo_cfg 5 6 (Some [''bearer token''])
      ''00000000000000000000000000000001'' ''art''"
  let ?d2 = "demo_db\<lparr>resources := resources demo_db @
      [\<lparr>ResourceID = demo_id, ResName = ''art'', ResCreated = 6\<rparr>]\<rparr>"
  have tr: "TrimSpace demo_id = demo_id" "demo_id \<noteq> []" "demo_id \<noteq> ''urc-1''"
    using normalizeResourceID_trimmed [OF demo_normalize] by (auto simp: demo_id_def)
  have up: "run_state (UpsertResource 6 demo_id ''art'') demo_db = (Inr False, ?d2)"
    using tr by (simp add: UpsertResource_def upsert_resource_def demo_db_def fault_of_def popped_def)
  have p: "TrimSpace ''owner'' = ''owner''" "TrimSpace ''read'' = ''read''" "TrimSpace ''write'' = ''write''"
    by (simp_all add: TrimSpace_def is_space_def)
  have "fst (run_state (GrantOwner ''ann'' demo_id) ?d2) = Inr ()"
    using tr p
    by (simp add: GrantOwner_def AddGrant_def Let_def insert_grant_def demo_names demo_db_def
        demo_user_def fault_of_def popped_def grant_permissions_def)
  then obtain d' where run: "run_state ?run demo_db = (Inr (), d')"
    by (cases "run_state (GrantOwner ''ann'' demo_id) ?d2")
       (simp add: rebac_CreateResource_def ann_verified demo_normalize up)
  from rebac_create_grants_caller [OF run] demo_normalize obtain raw c where
    "verifyAuthnToken (one_token_lib ann_claims) demo_cfg 5 raw = Inr c"
    "\<lparr>GUser = normalizeUsername (Subject c), GResource = demo_id, GPermission = ''owner''\<rparr> \<in> set (grants d')"
    by auto
  moreover from this(1) have "Subject c = ''ann''"
    by (auto simp: verifyAuthnToken_def one_token_lib_def ann_claims_def split: if_splits)
  ultimately show ?thesis using run by (simp add: demo_names)
qed

text \<open>\<open>LookupUserPermissions\<close> lists the current effective grants of the verified caller, those
  whose resource id starts with the filter, in order.\<close>

theorem lookup_permissions_exact:
  assumes "fst (run_state (LookupUserPermissions lib cfg now md f) d) = Inr out" and "db_ok d"
  shows "\<exists>raw c u. bearerFromContext md = Inr raw \<and> verifyAuthnToken lib cfg now raw = Inr c \<and>
    select_user (normalizeUsername (Subject c)) d = Some u \<and>
    out = map (\<lambda>e. (re_ResourceID e, re_Permission e))
      (filter (\<lambda>e. HasPrefix (re_ResourceID e) f) (user_entries u d))"
proof -
  have uok: "users_ok d" using assms(2) by (simp add: db_ok_def)
  let ?d1 = "snd (run_state (verified_bearer lib cfg now md) d)"
  have same: "same_tables d ?d1" by (rule keepsD [OF unchanged.bearer]) simp
  have uok1: "users_ok ?d1" using uok by (simp add: users_ok_def same_tablesD [OF same])
  from assms(1) obtain c where b: "fst (run_state (verified_bearer lib cfg now md) d) = Inr c"
    by (auto simp: LookupUserPermissions_def split: sum.splits)
  then obtain raw where raw: "bearerFromContext md = Inr raw"
    and v: "fst (run_state (VerifyAuthn lib cfg now raw) d) = Inr c"
    by (auto simp: verified_bearer_def split: sum.splits)
  from VerifyAuthn_InrD [OF v] obtain u where vt: "verifyAuthnToken lib cfg now raw = Inr c"
    and u: "select_user (normalizeUsername (Subject c)) d = Some u" by blast
  from assms(1) b obtain es ok where e: "fst (run_state (effectiveResources (Subject c)) ?d1) = Inr (es, ok)"
    and out: "out = (if \<not> ok then [] else map (\<lambda>e. (re_ResourceID e, re_Permission e))
      (filter (\<lambda>e. HasPrefix (re_ResourceID e) f) es))"
    by (auto simp: LookupUserPermissions_def split: sum.splits if_splits)
  have "select_user (normalizeUsername (Subject c)) ?d1 = Some u"
    using u by (simp add: same_tables_select [OF same])
  with effectiveResources_Inr [OF e uok1] have ok and "es = user_entries u ?d1"
    by (auto split: if_splits)
  moreover have "user_entries u ?d1 = user_entries u d"
    using same_tablesD [OF same] same_tables_select [OF same] by (simp add: user_entries_def Let_def)
  ultimately show ?thesis using raw vt u out by auto
qed

theorem lookup_permissions_exact_witness:
  "\<exists>out. fst (run_state (LookupUserPermissions (one_token_lib demo_claims) demo_cfg 5
      (Some [''bearer token'']) ''urc-'') demo_db) = Inr out \<and>
    out = map (\<lambda>e. (re_ResourceID e, re_Permission e))
      (filter (\<lambda>e. HasPrefix (re_ResourceID e) ''urc-'') (user_entries (demo_user ''bob'' False 0) demo_db))"
proof -
  obtain out where run: "fst (run_state (LookupUserPermissions (one_token_lib demo_claims) demo_cfg 5
      (Some [''bearer token'']) ''urc-'') demo_db) = Inr out"
    by (simp add: LookupUserPermissions_def verified_bearer_def demo_bearer demo_verify)
       (simp add: effectiveResources_calm demo_claims_def demo_names)
  obtain raw c u where "verifyAuthnToken (one_token_lib demo_claims) demo_cfg 5 raw = Inr c"
    and u: "select_user (normalizeUsername (Subject c)) demo_db = Some u"
    and out: "out = map (\<lambda>e. (re_ResourceID e, re_Permission e))
      (filter (\<lambda>e. HasPrefix (re_ResourceID e) ''urc-'') (user_entries u demo_db))"
    using lookup_permissions_exact [OF run demo_ok] by blast
  moreover from this(1) have "Subject c = ''bob''"
    by (auto simp: verifyAuthnToken_def one_token_lib_def demo_claims_def split: if_splits)
  with u have "u = demo_user ''bob'' False 0" by (simp add: demo_names)
  ultimately show ?thesis using run by blast
qed

end
