(* ===== verification/Rate_Limit.thy ===== *)
theory Rate_Limit
  imports Go_Strings "HOL-Library.AList" Complex_Main
begin

text \<open>
  The two token-bucket limiters: \<open>rateLimiter\<close> of \<open>src/arc-lore-auth/web.go\<close> and
  \<open>loginThrottle\<close> of \<open>src/ArcLoreWeb/internal/auth/throttle.go\<close>. They differ in when they
  forget a bucket; both meet the interface \<open>token_bucket\<close>, in which the bounds a client relies on
  are proved once. Times and the refill interval are nanoseconds; the token counts, floating point
  numbers in the code, are rational numbers here, without the rounding.
\<close>

section \<open>The interface\<close>

text \<open>
  \<open>level s k t\<close> is what the key \<open>k\<close> could spend at time \<open>t\<close>; \<open>ok s t\<close> says that the limiter \<open>s\<close>
  is in order and was last used no later than \<open>t\<close>.
\<close>

locale token_bucket =
  fixes spend :: "int \<Rightarrow> 'k \<Rightarrow> 's \<Rightarrow> bool \<times> 's"
    and level :: "'s \<Rightarrow> 'k \<Rightarrow> int \<Rightarrow> rat"
    and ok :: "'s \<Rightarrow> int \<Rightarrow> bool"
    and burst :: int and refill :: int
  assumes ok_refill: "ok s t \<Longrightarrow> 0 < refill \<and> 1 \<le> burst"
    and ok_later: "ok s t \<Longrightarrow> t \<le> t' \<Longrightarrow> ok s t'"
    and level_range: "ok s t \<Longrightarrow> 0 \<le> level s k t \<and> level s k t \<le> of_int burst"
    and level_later: "ok s t \<Longrightarrow> t \<le> t' \<Longrightarrow>
      level s k t' = min (of_int burst) (level s k t + of_int (t' - t) / of_int refill)"
    and spend_ok: "ok s t \<Longrightarrow> ok (snd (spend t k s)) t"
    and spend_result: "ok s t \<Longrightarrow> fst (spend t k s) \<longleftrightarrow> 1 \<le> level s k t"
    and spend_level: "ok s t \<Longrightarrow> level (snd (spend t k s)) k' t =
      (if k' = k \<and> 1 \<le> level s k t then level s k t - 1 else level s k' t)"
begin

text \<open>A sequence of requests, each at its time and of its key; the requests of \<open>k\<close> let through.\<close>

fun serve :: "'k \<Rightarrow> (int \<times> 'k) list \<Rightarrow> 's \<Rightarrow> nat" where
  "serve k [] s = 0"
| "serve k ((t, k') # reqs) s =
    (if k' = k \<and> fst (spend t k' s) then 1 else 0) + serve k reqs (snd (spend t k' s))"

fun served_state :: "(int \<times> 'k) list \<Rightarrow> 's \<Rightarrow> 's" where
  "served_state [] s = s"
| "served_state ((t, k) # reqs) s = served_state reqs (snd (spend t k s))"

fun in_order :: "int \<Rightarrow> (int \<times> 'k) list \<Rightarrow> int \<Rightarrow> bool" where
  "in_order t0 [] t1 = (t0 \<le> t1)"
| "in_order t0 ((t, k) # reqs) t1 = (t0 \<le> t \<and> in_order t reqs t1)"

lemma in_order_le: "in_order t0 reqs t1 \<Longrightarrow> t0 \<le> t1"
  by (induction t0 reqs t1 rule: in_order.induct) auto

lemma level_growth:
  "ok s t \<Longrightarrow> t \<le> t' \<Longrightarrow> level s k t' \<le> level s k t + of_int (t' - t) / of_int refill"
  unfolding level_later [of s t t' k] by (rule min.cobounded2)

lemma serve_potential:
  assumes "ok s t0" and "in_order t0 reqs t1"
  shows "of_nat (serve k reqs s) + level (served_state reqs s) k t1 \<le>
    level s k t0 + of_int (t1 - t0) / of_int refill \<and> ok (served_state reqs s) t1"
  using assms
proof (induction reqs arbitrary: s t0)
  case Nil
  then show ?case using level_growth ok_later by auto
next
  case (Cons r reqs)
  obtain t k' where r: "r = (t, k')" by (cases r)
  from Cons.prems have le: "t0 \<le> t" and ord: "in_order t reqs t1" by (simp_all add: r)
  have ok: "ok s t" using ok_later [OF Cons.prems(1) le] .
  let ?s = "snd (spend t k' s)"
  have pos: "0 < refill" using ok_refill [OF ok] by simp
  have "of_nat (serve k reqs ?s) + level (served_state reqs ?s) k t1 \<le>
      level ?s k t + of_int (t1 - t) / of_int refill" and okl: "ok (served_state reqs ?s) t1"
    using Cons.IH [OF spend_ok [OF ok] ord] by auto
  moreover have "level s k t \<le> level s k t0 + of_int (t - t0) / of_int refill"
    by (rule level_growth [OF Cons.prems(1) le])
  moreover have "of_int (t1 - t) / of_int refill + of_int (t - t0) / of_int refill =
      (of_int (t1 - t0) / of_int refill :: rat)"
    using pos by (simp add: field_simps)
  moreover have "(if k' = k \<and> fst (spend t k' s) then 1 else 0) + level ?s k t = level s k t"
    using spend_level [OF ok, of k' k] spend_result [OF ok, of k'] by auto
  moreover have "of_nat (serve k (r # reqs) s) =
      (if k' = k \<and> fst (spend t k' s) then 1 else 0) + (of_nat (serve k reqs ?s) :: rat)"
    by (auto simp: r)
  moreover have "served_state (r # reqs) s = served_state reqs ?s" by (simp add: r)
  ultimately show ?case by (simp only: okl) linarith
qed

lemma serve_bound:
  assumes "ok s t0" and "in_order t0 reqs t1"
  shows "of_nat (serve k reqs s) \<le> of_int burst + (of_int (t1 - t0) / of_int refill :: rat)"
proof -
  note pot = serve_potential [OF assms, of k]
  from pot have "0 \<le> level (served_state reqs s) k t1" using level_range by blast
  moreover have "level s k t0 \<le> of_int burst" using level_range [OF assms(1)] by simp
  ultimately show ?thesis using pot by linarith
qed

text \<open>Other keys do not matter, and a key that waits the refill interval is let through.\<close>

lemma serve_others:
  assumes "ok s t0" and "in_order t0 reqs t1" and "\<forall>r\<in>set reqs. snd r \<noteq> k"
  shows "level (served_state reqs s) k t1 = level s k t1"
  using assms
proof (induction reqs arbitrary: s t0)
  case (Cons r reqs)
  obtain t k' where r: "r = (t, k')" by (cases r)
  from Cons.prems have le: "t0 \<le> t" and ord: "in_order t reqs t1" and ne: "k' \<noteq> k"
    by (simp_all add: r)
  have ok: "ok s t" using ok_later [OF Cons.prems(1) le] .
  let ?s = "snd (spend t k' s)"
  have "level ?s k t = level s k t" using spend_level [OF ok, of k' k] ne by simp
  then have "level ?s k t1 = level s k t1"
    using level_later [OF spend_ok [OF ok] in_order_le [OF ord]] level_later [OF ok in_order_le [OF ord]]
    by metis
  with Cons.IH [OF spend_ok [OF ok] ord] Cons.prems(3) show ?case by (simp add: r)
qed simp

lemma wait_then_allowed:
  assumes "ok s t0" and "in_order t0 reqs t1" and "t0 + refill \<le> t1"
    and "\<forall>r\<in>set reqs. snd r \<noteq> k"
  shows "fst (spend t1 k (served_state reqs s))"
proof -
  have "ok (served_state reqs s) t1" using serve_potential [OF assms(1,2)] by simp
  then have "fst (spend t1 k (served_state reqs s)) \<longleftrightarrow> 1 \<le> level s k t1"
    using serve_others [OF assms(1,2,4)] by (simp add: spend_result)
  moreover have "1 \<le> level s k t1"
  proof -
    have pos: "0 < refill" "1 \<le> burst" using ok_refill [OF assms(1)] by auto
    have "(1 :: rat) \<le> of_int (t1 - t0) / of_int refill"
      using pos(1) assms(3) by (simp add: field_simps)
    moreover have "0 \<le> level s k t0" using level_range [OF assms(1)] by simp
    ultimately have "1 \<le> level s k t0 + of_int (t1 - t0) / of_int refill" by linarith
    moreover have le: "t0 \<le> t1" and "(1 :: rat) \<le> of_int burst" using pos assms(3) by simp_all
    ultimately show ?thesis
      unfolding level_later [OF assms(1) le, of k] by (simp only: min.bounded_iff)
  qed
  ultimately show ?thesis by simp
qed

end

section \<open>web.go: the limiter of the authentication server\<close>

record bucket =
  tokens :: rat
  last_use :: int

record rateLimiter =
  buckets :: "(string \<times> bucket) list"
  rl_burst :: int
  rl_refill :: int
  lastTrim :: int

definition newRateLimiter :: "int \<Rightarrow> int \<Rightarrow> int \<Rightarrow> rateLimiter" where
  "newRateLimiter now burst refill =
    \<lparr>buckets = [], rl_burst = burst, rl_refill = refill, lastTrim = now\<rparr>"

definition trimLocked :: "int \<Rightarrow> rateLimiter \<Rightarrow> rateLimiter" where
  "trimLocked now rl =
    (if now - lastTrim rl < 5 * nminute then rl
     else let idle = now - 10 * nminute;
              dead = map fst (filter (\<lambda>(key, b). last_use b < idle) (buckets rl))
          in rl\<lparr>lastTrim := now, buckets := fold AList.delete dead (buckets rl)\<rparr>)"

definition refilled :: "rateLimiter \<Rightarrow> bucket \<Rightarrow> int \<Rightarrow> rat" where
  "refilled rl b now = tokens b + of_int (now - last_use b) / of_int (rl_refill rl)"

definition allow :: "int \<Rightarrow> string \<Rightarrow> (rateLimiter, bool) state" where
  "allow now key = do {
     State_Monad.update (trimLocked now);
     rl \<leftarrow> State_Monad.get;
     let b = (case map_of (buckets rl) key of
           None \<Rightarrow> \<lparr>tokens = of_int (rl_burst rl), last_use = now\<rparr> | Some b \<Rightarrow> b);
     let t = min (refilled rl b now) (of_int (rl_burst rl));
     if t < 1 then do {
       State_Monad.update (\<lambda>rl. rl\<lparr>buckets :=
         AList.update key \<lparr>tokens = t, last_use = now\<rparr> (buckets rl)\<rparr>);
       State_Monad.return False }
     else do {
       State_Monad.update (\<lambda>rl. rl\<lparr>buckets :=
         AList.update key \<lparr>tokens = t - 1, last_use = now\<rparr> (buckets rl)\<rparr>);
       State_Monad.return True } }"

definition rlBurst :: int where "rlBurst = 8"
definition rlRefillEvery :: int where "rlRefillEvery = 6 * nsec"

section \<open>throttle.go: the login throttle of the web server\<close>

text \<open>The record has the fields of \<open>rateLimiter\<close>.\<close>

definition newLoginThrottle :: "int \<Rightarrow> int \<Rightarrow> int \<Rightarrow> rateLimiter" where
  "newLoginThrottle now burst refill =
    \<lparr>buckets = [], rl_burst = burst, rl_refill = refill, lastTrim = now\<rparr>"

definition maybeTrim :: "int \<Rightarrow> rateLimiter \<Rightarrow> rateLimiter" where
  "maybeTrim now t =
    (if length (buckets t) < 1024 \<and> now - lastTrim t < 10 * rl_refill t then t
     else t\<lparr>buckets := filter (\<lambda>(k, b). \<not> refilled t b now \<ge> of_int (rl_burst t)) (buckets t),
            lastTrim := now\<rparr>)"

definition throttle_allow :: "int \<Rightarrow> string \<Rightarrow> (rateLimiter, bool) state" where
  "throttle_allow now key = do {
     State_Monad.update (maybeTrim now);
     t \<leftarrow> State_Monad.get;
     let b = (case map_of (buckets t) key of
           None \<Rightarrow> \<lparr>tokens = of_int (rl_burst t), last_use = now\<rparr>
         | Some b \<Rightarrow> \<lparr>tokens = min (refilled t b now) (of_int (rl_burst t)), last_use = now\<rparr>);
     if tokens b < 1 then do {
       State_Monad.update (\<lambda>t. t\<lparr>buckets := AList.update key b (buckets t)\<rparr>);
       State_Monad.return False }
     else do {
       State_Monad.update (\<lambda>t. t\<lparr>buckets :=
         AList.update key (b\<lparr>tokens := tokens b - 1\<rparr>) (buckets t)\<rparr>);
       State_Monad.return True } }"

text \<open>\<open>net.SplitHostPort\<close> is a parameter: the host, or \<open>None\<close> for an error.\<close>

definition throttle_clientIP ::
  "(string \<Rightarrow> string option) \<Rightarrow> string \<Rightarrow> string \<Rightarrow> bool \<Rightarrow> string" where
  "throttle_clientIP splitHost remoteAddr xff trustXFF =
    (let first = TrimSpace (hd (split_on CHR '','' xff))
     in if trustXFF \<and> xff \<noteq> '''' \<and> first \<noteq> '''' then first
        else case splitHost remoteAddr of None \<Rightarrow> remoteAddr | Some host \<Rightarrow> host)"

definition clientIP :: "(string \<Rightarrow> string option) \<Rightarrow> string \<Rightarrow> string" where
  "clientIP splitHost remoteAddr =
    (case splitHost remoteAddr of None \<Rightarrow> remoteAddr | Some host \<Rightarrow> host)"

datatype 'a throttled = TooManyRequests | Passed 'a

definition throttle_Middleware ::
  "(string \<Rightarrow> string option) \<Rightarrow> bool \<Rightarrow> int \<Rightarrow> string \<Rightarrow> string \<Rightarrow> 'a \<Rightarrow>
    (rateLimiter, 'a throttled) state" where
  "throttle_Middleware splitHost trustXFF now remoteAddr xff next = do {
     ok \<leftarrow> throttle_allow now (throttle_clientIP splitHost remoteAddr xff trustXFF);
     State_Monad.return (if \<not> ok then TooManyRequests else Passed next) }"

section \<open>Both meet the interface\<close>

definition bucket_level :: "rateLimiter \<Rightarrow> string \<Rightarrow> int \<Rightarrow> rat" where
  "bucket_level rl k t = (case map_of (buckets rl) k of
      None \<Rightarrow> of_int (rl_burst rl)
    | Some b \<Rightarrow> min (of_int (rl_burst rl)) (refilled rl b t))"

definition limiter_ok :: "int \<Rightarrow> int \<Rightarrow> rateLimiter \<Rightarrow> int \<Rightarrow> bool" where
  "limiter_ok burst refill rl t \<longleftrightarrow> rl_burst rl = burst \<and> rl_refill rl = refill \<and>
    0 < refill \<and> 1 \<le> burst \<and> distinct (map fst (buckets rl)) \<and>
    (\<forall>k b. map_of (buckets rl) k = Some b \<longrightarrow>
      0 \<le> tokens b \<and> tokens b \<le> of_int burst \<and> last_use b \<le> t)"

text \<open>The first limiter forgets a bucket after ten idle minutes, in which it must have refilled.\<close>

definition web_ok :: "int \<Rightarrow> int \<Rightarrow> rateLimiter \<Rightarrow> int \<Rightarrow> bool" where
  "web_ok burst refill rl t \<longleftrightarrow> limiter_ok burst refill rl t \<and> burst * refill \<le> 10 * nminute"

lemma fold_delete_map_of:
  "map_of (fold AList.delete ks al) k = (if k \<in> set ks then None else map_of al k)"
  by (induction ks arbitrary: al) (auto simp: delete_conv')

lemma fold_delete_distinct:
  "distinct (map fst al) \<Longrightarrow> distinct (map fst (fold AList.delete ks al))"
  by (induction ks arbitrary: al) (auto simp: distinct_delete)

lemma distinct_map_of_filter:
  "distinct (map fst al) \<Longrightarrow> map_of (filter (\<lambda>(k, v). p k v) al) k =
    (case map_of al k of None \<Rightarrow> None | Some v \<Rightarrow> if p k v then Some v else None)"
  by (induction al) (force split: option.split)+

lemma bucket_level_frame:
  assumes "rl_burst rl' = rl_burst rl" and "rl_refill rl' = rl_refill rl"
    and "\<And>b. map_of (buckets rl) k = Some b \<Longrightarrow> map_of (buckets rl') k \<noteq> Some b \<Longrightarrow>
      map_of (buckets rl') k = None \<and> of_int (rl_burst rl) \<le> refilled rl b t"
    and "map_of (buckets rl) k = None \<Longrightarrow> map_of (buckets rl') k = None"
  shows "bucket_level rl' k t = bucket_level rl k t"
proof (cases "map_of (buckets rl) k")
  case None
  with assms show ?thesis by (simp add: bucket_level_def)
next
  case (Some b)
  with assms show ?thesis
    by (cases "map_of (buckets rl') k = Some b")
       (auto simp: bucket_level_def refilled_def min_def)
qed

text \<open>Neither trim changes what any key can spend.\<close>

lemma trimLocked_ok:
  assumes "web_ok burst refill rl t"
  shows "bucket_level (trimLocked t rl) k t = bucket_level rl k t"
    and "web_ok burst refill (trimLocked t rl) t"
proof -
  obtain gone where gone:
    "gone = map fst (filter (\<lambda>(key, b). last_use b < t - 10 * nminute) (buckets rl))" by simp
  let ?rl = "rl\<lparr>lastTrim := t, buckets := fold AList.delete gone (buckets rl)\<rparr>"
  have trim: "trimLocked t rl = (if t - lastTrim rl < 5 * nminute then rl else ?rl)"
    by (simp add: trimLocked_def Let_def gone)
  from assms have pos: "0 < refill" "1 \<le> burst" "burst * refill \<le> 10 * nminute"
    and eq: "rl_burst rl = burst" "rl_refill rl = refill"
    and dist: "distinct (map fst (buckets rl))"
    and b: "\<And>k b. map_of (buckets rl) k = Some b \<Longrightarrow>
      0 \<le> tokens b \<and> tokens b \<le> of_int burst \<and> last_use b \<le> t"
    by (auto simp: web_ok_def limiter_ok_def)
  note map = fold_delete_map_of [of gone "buckets rl"]
  have dead: "of_int burst \<le> refilled rl v t"
    if "map_of (buckets rl) k = Some v" "k \<in> set gone" for k v
  proof -
    from that(2) obtain w where "(k, w) \<in> set (buckets rl)" "last_use w < t - 10 * nminute"
      by (auto simp: gone)
    with that(1) dist have "10 * nminute < t - last_use v" by simp
    with pos(3) have "burst * refill \<le> t - last_use v" by simp
    then have "of_int (burst * refill) \<le> (of_int (t - last_use v) :: rat)" by (simp only: of_int_le_iff)
    then have "of_int burst \<le> (of_int (t - last_use v) / of_int refill :: rat)"
      using pos(1) by (simp add: field_simps)
    then show ?thesis using b [OF that(1)] by (simp add: refilled_def eq)
  qed
  have "bucket_level ?rl k t = bucket_level rl k t"
    by (rule bucket_level_frame) (auto simp: map dead eq split: if_splits)
  moreover have "web_ok burst refill ?rl t"
    using assms fold_delete_distinct [OF dist]
    by (auto simp: web_ok_def limiter_ok_def fold_delete_map_of split: if_splits)
  ultimately show "bucket_level (trimLocked t rl) k t = bucket_level rl k t"
    and "web_ok burst refill (trimLocked t rl) t"
    using assms by (simp_all add: trim)
qed

lemma maybeTrim_ok:
  assumes "limiter_ok burst refill rl t"
  shows "bucket_level (maybeTrim t rl) k t = bucket_level rl k t"
    and "limiter_ok burst refill (maybeTrim t rl) t"
proof -
  let ?rl = "rl\<lparr>buckets := filter (\<lambda>(k, b). \<not> refilled rl b t \<ge> of_int (rl_burst rl)) (buckets rl),
    lastTrim := t\<rparr>"
  have dist: "distinct (map fst (buckets rl))" using assms by (simp add: limiter_ok_def)
  note map = distinct_map_of_filter [OF dist, of "\<lambda>k b. refilled rl b t < of_int (rl_burst rl)"]
  have "bucket_level ?rl k t = bucket_level rl k t"
    by (rule bucket_level_frame) (auto simp: map not_le split: if_splits)
  moreover have "limiter_ok burst refill ?rl t"
    using assms by (auto simp: limiter_ok_def map distinct_map_filter_key split: if_splits option.splits)
  ultimately show "bucket_level (maybeTrim t rl) k t = bucket_level rl k t"
    and "limiter_ok burst refill (maybeTrim t rl) t"
    using assms by (simp_all add: maybeTrim_def)
qed

text \<open>The rest of \<open>allow\<close>, after the trim.\<close>

definition spend_from :: "int \<Rightarrow> string \<Rightarrow> rateLimiter \<Rightarrow> bool \<times> rateLimiter" where
  "spend_from now key rl = (let t = bucket_level rl key now in
     if t < 1 then (False, rl\<lparr>buckets := AList.update key \<lparr>tokens = t, last_use = now\<rparr> (buckets rl)\<rparr>)
     else (True, rl\<lparr>buckets := AList.update key \<lparr>tokens = t - 1, last_use = now\<rparr> (buckets rl)\<rparr>))"

lemma run_allow: "run_state (allow t k) rl = spend_from t k (trimLocked t rl)"
  by (auto simp: allow_def spend_from_def bucket_level_def refilled_def Let_def min.commute
      split: option.split)

lemma run_throttle_allow: "run_state (throttle_allow t k) rl = spend_from t k (maybeTrim t rl)"
  by (auto simp: throttle_allow_def spend_from_def bucket_level_def refilled_def Let_def min.commute
      split: option.split)

lemma bucket_level_range:
  assumes "limiter_ok burst refill rl t"
  shows "0 \<le> bucket_level rl k t \<and> bucket_level rl k t \<le> of_int burst"
proof (cases "map_of (buckets rl) k")
  case (Some b)
  with assms have "0 \<le> tokens b" "last_use b \<le> t" "0 < refill" "1 \<le> burst" "rl_burst rl = burst"
    "rl_refill rl = refill" by (auto simp: limiter_ok_def)
  then have "0 \<le> refilled rl b t" by (simp add: refilled_def)
  with Some \<open>1 \<le> burst\<close> \<open>rl_burst rl = burst\<close> show ?thesis by (simp add: bucket_level_def)
qed (use assms in \<open>simp add: bucket_level_def limiter_ok_def\<close>)

lemma bucket_level_later:
  assumes "limiter_ok burst refill rl t" and "t \<le> t'"
  shows "bucket_level rl k t' =
    min (of_int burst) (bucket_level rl k t + of_int (t' - t) / of_int refill)"
proof -
  from assms have pos: "0 < refill" and eq: "rl_burst rl = burst" "rl_refill rl = refill"
    by (auto simp: limiter_ok_def)
  have grow: "(0 :: rat) \<le> of_int (t' - t) / of_int refill" using pos assms(2) by simp
  show ?thesis
  proof (cases "map_of (buckets rl) k")
    case None
    with grow show ?thesis by (simp add: bucket_level_def eq min_absorb1)
  next
    case (Some b)
    have "refilled rl b t' = refilled rl b t + of_int (t' - t) / of_int refill"
      using pos by (simp add: refilled_def eq field_simps)
    with Some grow show ?thesis by (auto simp: bucket_level_def eq min_def)
  qed
qed

lemma spend_from_facts:
  assumes "limiter_ok burst refill rl t"
  shows "limiter_ok burst refill (snd (spend_from t k rl)) t"
    and "fst (spend_from t k rl) \<longleftrightarrow> 1 \<le> bucket_level rl k t"
    and "bucket_level (snd (spend_from t k rl)) k' t =
      (if k' = k \<and> 1 \<le> bucket_level rl k t then bucket_level rl k t - 1 else bucket_level rl k' t)"
proof -
  note range = bucket_level_range [OF assms, of k]
  have eq: "rl_burst rl = burst" using assms by (simp add: limiter_ok_def)
  show "limiter_ok burst refill (snd (spend_from t k rl)) t"
    using assms range
    by (auto simp: limiter_ok_def spend_from_def Let_def update_conv' distinct_update
        simp del: map_of_eq_Some_iff split: if_splits)
  show "fst (spend_from t k rl) \<longleftrightarrow> 1 \<le> bucket_level rl k t"
    by (simp add: spend_from_def Let_def)
  show "bucket_level (snd (spend_from t k rl)) k' t =
      (if k' = k \<and> 1 \<le> bucket_level rl k t then bucket_level rl k t - 1 else bucket_level rl k' t)"
  proof (cases "k' = k")
    case True
    with range eq show ?thesis
      by (auto simp: spend_from_def Let_def bucket_level_def [of _ k] refilled_def update_conv'
          simp del: map_of.simps)
  next
    case False
    then show ?thesis
      by (auto simp: spend_from_def Let_def bucket_level_def [of _ k'] refilled_def update_conv'
          split: option.split)
  qed
qed

interpretation web_limiter: token_bucket "\<lambda>t k s. run_state (allow t k) s" bucket_level
    "web_ok burst refill" burst refill for burst refill
proof unfold_locales
  fix s :: rateLimiter and t t' :: int and k k' :: string
  assume ok: "web_ok burst refill s t"
  then have lim: "limiter_ok burst refill s t" by (simp add: web_ok_def)
  note tr = trimLocked_ok [OF ok]
  from tr(2) have tlim: "limiter_ok burst refill (trimLocked t s) t" by (simp add: web_ok_def)
  show "0 < refill \<and> 1 \<le> burst" using lim by (simp add: limiter_ok_def)
  show "web_ok burst refill s t'" if "t \<le> t'" using ok that by (fastforce simp: web_ok_def limiter_ok_def)
  show "0 \<le> bucket_level s k t \<and> bucket_level s k t \<le> of_int burst" by (rule bucket_level_range [OF lim])
  show "bucket_level s k t' = min (of_int burst) (bucket_level s k t + of_int (t' - t) / of_int refill)"
    if "t \<le> t'" by (rule bucket_level_later [OF lim that])
  show "web_ok burst refill (snd (run_state (allow t k) s)) t"
    using spend_from_facts(1) [OF tlim] ok by (simp add: run_allow web_ok_def)
  show "fst (run_state (allow t k) s) \<longleftrightarrow> 1 \<le> bucket_level s k t"
    by (simp add: run_allow spend_from_facts(2) [OF tlim] tr(1))
  show "bucket_level (snd (run_state (allow t k) s)) k' t =
      (if k' = k \<and> 1 \<le> bucket_level s k t then bucket_level s k t - 1 else bucket_level s k' t)"
    by (simp add: run_allow spend_from_facts(3) [OF tlim] tr(1))
qed

interpretation login_throttle: token_bucket "\<lambda>t k s. run_state (throttle_allow t k) s" bucket_level
    "limiter_ok burst refill" burst refill for burst refill
proof unfold_locales
  fix s :: rateLimiter and t t' :: int and k k' :: string
  assume lim: "limiter_ok burst refill s t"
  note tr = maybeTrim_ok [OF lim]
  show "0 < refill \<and> 1 \<le> burst" using lim by (simp add: limiter_ok_def)
  show "limiter_ok burst refill s t'" if "t \<le> t'" using lim that by (fastforce simp: limiter_ok_def)
  show "0 \<le> bucket_level s k t \<and> bucket_level s k t \<le> of_int burst" by (rule bucket_level_range [OF lim])
  show "bucket_level s k t' = min (of_int burst) (bucket_level s k t + of_int (t' - t) / of_int refill)"
    if "t \<le> t'" by (rule bucket_level_later [OF lim that])
  show "limiter_ok burst refill (snd (run_state (throttle_allow t k) s)) t"
    by (simp add: run_throttle_allow spend_from_facts(1) [OF tr(2)])
  show "fst (run_state (throttle_allow t k) s) \<longleftrightarrow> 1 \<le> bucket_level s k t"
    by (simp add: run_throttle_allow spend_from_facts(2) [OF tr(2)] tr(1))
  show "bucket_level (snd (run_state (throttle_allow t k) s)) k' t =
      (if k' = k \<and> 1 \<le> bucket_level s k t then bucket_level s k t - 1 else bucket_level s k' t)"
    by (simp add: run_throttle_allow spend_from_facts(3) [OF tr(2)] tr(1))
qed

lemma newRateLimiter_ok:
  "0 < refill \<Longrightarrow> 1 \<le> burst \<Longrightarrow> burst * refill \<le> 10 * nminute \<Longrightarrow>
    web_ok burst refill (newRateLimiter now burst refill) t"
  by (simp add: web_ok_def limiter_ok_def newRateLimiter_def)

lemma newLoginThrottle_ok:
  "0 < refill \<Longrightarrow> 1 \<le> burst \<Longrightarrow> limiter_ok burst refill (newLoginThrottle now burst refill) t"
  by (simp add: limiter_ok_def newLoginThrottle_def)

section \<open>Properties\<close>

text \<open>The requests of a key that a limiter lets through, run one after the other.\<close>

fun granted :: "(int \<Rightarrow> string \<Rightarrow> (rateLimiter, bool) state) \<Rightarrow> string \<Rightarrow> (int \<times> string) list \<Rightarrow>
    rateLimiter \<Rightarrow> nat" where
  "granted f k [] rl = 0"
| "granted f k ((t, k') # reqs) rl =
    (let (r, rl') = run_state (f t k') rl in (if k' = k \<and> r then 1 else 0) + granted f k reqs rl')"

fun ordered :: "int \<Rightarrow> (int \<times> string) list \<Rightarrow> int \<Rightarrow> bool" where
  "ordered t0 [] t1 = (t0 \<le> t1)"
| "ordered t0 ((t, k) # reqs) t1 = (t0 \<le> t \<and> ordered t reqs t1)"

lemma granted_web: "granted allow k reqs rl = web_limiter.serve k reqs rl"
  by (induction reqs arbitrary: rl) (auto split: prod.split)

lemma granted_throttle: "granted throttle_allow k reqs rl = login_throttle.serve k reqs rl"
  by (induction reqs arbitrary: rl) (auto split: prod.split)

lemma ordered_web: "ordered t0 reqs t1 = web_limiter.in_order t0 reqs t1"
  by (induction t0 reqs t1 rule: ordered.induct) auto

lemma ordered_throttle: "ordered t0 reqs t1 = login_throttle.in_order t0 reqs t1"
  by (induction t0 reqs t1 rule: ordered.induct) auto

text \<open>C22: the login limiter of the authentication server: in any window of any sequence of requests
  by any clients, a client is let through at most eight times plus once for every six seconds of
  the window, whatever the limiter has forgotten in between.\<close>

theorem login_rate_bound:
  assumes "ordered t0 before ta" and "ordered ta during t1"
    and "rl = snd (fold (\<lambda>(t, k') (r, rl). run_state (allow t k') rl) before
      (True, newRateLimiter t0 rlBurst rlRefillEvery))"
  shows "of_nat (granted allow k during rl) \<le>
    8 + (of_int (t1 - ta) / of_int (6 * nsec) :: rat)"
proof -
  have new: "web_ok rlBurst rlRefillEvery (newRateLimiter t0 rlBurst rlRefillEvery) t0"
    by (rule newRateLimiter_ok) (simp_all add: rlBurst_def rlRefillEvery_def)
  have run: "snd (fold (\<lambda>(t, k') (r, rl). run_state (allow t k') rl) reqs (b, s)) =
      web_limiter.served_state reqs s" for reqs b s
    by (induction reqs arbitrary: b s) (auto, metis prod.collapse)
  have "web_ok rlBurst rlRefillEvery rl ta"
    using web_limiter.serve_potential [OF new, of before ta] assms(1)
    by (simp add: assms(3) run ordered_web)
  from web_limiter.serve_bound [OF this, of during t1 k] assms(2) show ?thesis
    by (simp add: granted_web ordered_web rlBurst_def rlRefillEvery_def)
qed

theorem login_rate_bound_witness:
  "of_nat (granted allow ''ip'' [(5, ''ip''), (6, ''other''), (7, ''ip'')]
     (newRateLimiter 0 rlBurst rlRefillEvery)) \<le> 8 + (of_int (9 - 5) / of_int (6 * nsec) :: rat)"
  by (rule login_rate_bound [of 0 "[]"]) simp_all

text \<open>The throttle of the web server, for any burst and refill interval: clients are bounded in
  the same way, its trim changes no outcome (what a key can spend is the same before and after),
  other clients do not use up a key's tokens, and a key that stays away for the refill interval is
  let through.\<close>

theorem login_throttle_fair:
  assumes "limiter_ok burst refill rl t0" and "ordered t0 reqs t1"
  shows "of_nat (granted throttle_allow k reqs rl) \<le>
      of_int burst + (of_int (t1 - t0) / of_int refill :: rat) \<and>
    bucket_level (maybeTrim t0 rl) k t0 = bucket_level rl k t0 \<and>
    (t0 + refill \<le> t1 \<and> (\<forall>r\<in>set reqs. snd r \<noteq> k) \<longrightarrow>
      fst (run_state (throttle_allow t1 k)
        (fold (\<lambda>(t, k') rl. snd (run_state (throttle_allow t k') rl)) reqs rl)))"
proof -
  have run: "fold (\<lambda>(t, k') rl. snd (run_state (throttle_allow t k') rl)) qs s =
      login_throttle.served_state qs s" for qs s
    by (induction qs arbitrary: s) auto
  show ?thesis
    using login_throttle.serve_bound [OF assms(1), of reqs t1 k]
      login_throttle.wait_then_allowed [OF assms(1), of reqs t1 k] maybeTrim_ok(1) [OF assms(1), of k]
      assms(2)
    by (simp add: granted_throttle ordered_throttle run)
qed

theorem login_throttle_fair_witness:
  "fst (run_state (throttle_allow (60 * nsec) ''a'')
     (fold (\<lambda>(t, k') rl. snd (run_state (throttle_allow t k') rl)) [(1, ''b''), (2, ''b'')]
       (newLoginThrottle 0 5 (2 * nsec))))"
proof -
  have ok: "limiter_ok 5 (2 * nsec) (newLoginThrottle 0 5 (2 * nsec)) 0"
    by (rule newLoginThrottle_ok) simp_all
  show ?thesis
    using login_throttle_fair [OF ok, of "[(1, ''b''), (2, ''b'')]" "60 * nsec" "''a''"] by simp
qed

end
