(* ===== verification/Admin_Gate.thy ===== *)
theory Admin_Gate
  imports Codec
begin

text \<open>
  The cookies of \<open>src/arc-lore-auth/web.go\<close>: the double-submit CSRF token and the signed,
  short-lived cookie of the unlocked admin pages. HMAC-SHA256 is a parameter \<open>hmac\<close> of key and
  message; a cookie or form value is a string, \<open>None\<close> where the request has no such cookie.
\<close>

section \<open>CSRF\<close>

definition csrfTokenLen :: nat where "csrfTokenLen = 16"

text \<open>The token of the page, and the cookie to set when a fresh one was drawn.\<close>

definition csrfToken :: "string option \<Rightarrow> byte list option \<Rightarrow> string \<times> string option" where
  "csrfToken cookie rnd = (case cookie of
      Some c \<Rightarrow> if c \<noteq> '''' then (c, None)
        else (case rnd of None \<Rightarrow> ('''', None)
              | Some raw \<Rightarrow> (b64_encode RawURL raw, Some (b64_encode RawURL raw)))
    | None \<Rightarrow> (case rnd of None \<Rightarrow> ('''', None)
              | Some raw \<Rightarrow> (b64_encode RawURL raw, Some (b64_encode RawURL raw))))"

definition checkCSRF :: "string option \<Rightarrow> string \<Rightarrow> bool" where
  "checkCSRF cookie field = (case cookie of
      None \<Rightarrow> False
    | Some c \<Rightarrow> if c = '''' then False else if field = '''' then False else c = field)"

section \<open>The admin gate\<close>

record adminGate =
  gate_key :: "byte list"

definition newAdminGate :: "byte list option \<Rightarrow> adminGate" where
  "newAdminGate rnd = (case rnd of None \<Rightarrow> \<lparr>gate_key = []\<rparr> | Some key \<Rightarrow> \<lparr>gate_key = key\<rparr>)"

definition adminCookieTTL :: int where "adminCookieTTL = 30 * nminute"

type_synonym hmac_sha256 = "byte list \<Rightarrow> string \<Rightarrow> byte list"

definition issue :: "hmac_sha256 \<Rightarrow> adminGate \<Rightarrow> int \<Rightarrow> string" where
  "issue hmac g now =
    (if length (gate_key g) = 0 then ''''
     else let msg = FormatInt (unix_of (now + adminCookieTTL));
              sig = b64_encode RawURL (hmac (gate_key g) msg)
          in msg @ ''.'' @ sig)"

definition valid :: "hmac_sha256 \<Rightarrow> adminGate \<Rightarrow> string \<Rightarrow> int \<Rightarrow> bool" where
  "valid hmac g val now =
    (if length (gate_key g) = 0 \<or> val = '''' then False
     else case LastIndexByte val CHR ''.'' of
       None \<Rightarrow> False
     | Some dot \<Rightarrow>
         if dot = 0 \<or> dot = length val - 1 then False
         else let msg = take dot val; sig = drop (dot + 1) val;
                  want = b64_encode RawURL (hmac (gate_key g) msg)
              in if sig \<noteq> want then False
                 else case ParseInt64 msg of None \<Rightarrow> False | Some e \<Rightarrow> unix_of now < e)"

definition adminUnlocked :: "hmac_sha256 \<Rightarrow> adminGate \<Rightarrow> string option \<Rightarrow> int \<Rightarrow> bool" where
  "adminUnlocked hmac g cookie now =
    (case cookie of None \<Rightarrow> False | Some v \<Rightarrow> valid hmac g v now)"

section \<open>Facts\<close>

lemma LastIndexByte_append: "b \<notin> set s \<Longrightarrow> LastIndexByte (w @ b # s) b = Some (length w)"
  using IndexByte_append [of b "rev s" "rev w"] by (simp add: LastIndexByte_def)

lemma LastIndexByte_Some:
  assumes "LastIndexByte v b = Some i"
  shows "i < length v \<and> v ! i = b"
proof -
  from assms obtain j where "IndexByte (rev v) b = Some j" "i = length v - 1 - j"
    by (auto simp: LastIndexByte_def)
  moreover from this have "j < length (rev v)" "rev v ! j = b" by (auto simp: IndexByte_Some)
  ultimately show ?thesis by (auto simp: rev_nth)
qed

lemma FormatInt_ne [simp]: "FormatInt i \<noteq> []"
  by (simp add: FormatInt_def)

lemma valid_split:
  assumes "CHR ''.'' \<notin> set sig" and "msg \<noteq> []" and "sig \<noteq> []" and "gate_key g \<noteq> []"
  shows "valid hmac g (msg @ ''.'' @ sig) now \<longleftrightarrow>
    sig = b64_encode RawURL (hmac (gate_key g) msg) \<and>
    (case ParseInt64 msg of None \<Rightarrow> False | Some e \<Rightarrow> unix_of now < e)"
proof -
  have "LastIndexByte (msg @ ''.'' @ sig) CHR ''.'' = Some (length msg)"
    using LastIndexByte_append [OF assms(1), of msg] by simp
  with assms show ?thesis by (simp add: valid_def Let_def)
qed

lemma b64_encode_ne: "b64_encode al bs = [] \<longleftrightarrow> bs = []"
proof -
  have "b64_groups as = [] \<longleftrightarrow> as = []" for as by (cases as rule: b64_groups.cases) simp_all
  then show ?thesis by (simp add: b64_encode_def)
qed

section \<open>Properties\<close>

text \<open>A cookie the gate issued opens it for exactly thirty minutes (in whole seconds), with no
  other cookie needed, and the gate of a process that could not draw a key opens for nothing. The
  MAC must be non-empty, and the expiry a 64-bit number of seconds.\<close>

theorem admin_cookie_roundtrip:
  assumes "gate_key g \<noteq> []" and "\<forall>k m. hmac k m \<noteq> []"
    and "- (2 ^ 63) \<le> unix_of (now + adminCookieTTL)" and "unix_of (now + adminCookieTTL) < 2 ^ 63"
  shows "(valid hmac g (issue hmac g now) now' \<longleftrightarrow> unix_of now' < unix_of (now + adminCookieTTL)) \<and>
    \<not> valid hmac (newAdminGate None) v now'"
proof -
  let ?e = "unix_of (now + adminCookieTTL)"
  let ?sig = "b64_encode RawURL (hmac (gate_key g) (FormatInt ?e))"
  have nd: "CHR ''.'' \<notin> set ?sig" by (rule b64_no_dot) (simp add: b64_alphabet_ok_def)
  have ne: "?sig \<noteq> []" using assms(2) by (simp add: b64_encode_ne)
  have "valid hmac g (FormatInt ?e @ ''.'' @ ?sig) now' \<longleftrightarrow> unix_of now' < ?e"
    using valid_split [OF nd FormatInt_ne ne assms(1), where hmac = hmac and now = now'] ParseInt64_FormatInt [OF assms(3,4)]
    by simp
  then show ?thesis
    using assms(1) by (simp add: issue_def Let_def valid_def newAdminGate_def)
qed

theorem admin_cookie_roundtrip_witness:
  "valid (\<lambda>k m. [7]) \<lparr>gate_key = [1]\<rparr> (issue (\<lambda>k m. [7]) \<lparr>gate_key = [1]\<rparr> 0) (1799 * nsec) \<and>
   \<not> valid (\<lambda>k m. [7]) \<lparr>gate_key = [1]\<rparr> (issue (\<lambda>k m. [7]) \<lparr>gate_key = [1]\<rparr> 0) (1800 * nsec)"
  using admin_cookie_roundtrip [of "\<lparr>gate_key = [1]\<rparr>" "\<lambda>k m. [7]" 0 "1799 * nsec"]
    admin_cookie_roundtrip [of "\<lparr>gate_key = [1]\<rparr>" "\<lambda>k m. [7]" 0 "1800 * nsec"]
  by (simp add: unix_of_def adminCookieTTL_def)

text \<open>What opens the gate was signed with its key: a value it accepts is an expiry in the future
  followed by the MAC of that very expiry.\<close>

theorem admin_cookie_authentic:
  assumes "valid hmac g v now"
  shows "\<exists>msg e. v = msg @ ''.'' @ b64_encode RawURL (hmac (gate_key g) msg) \<and>
    ParseInt64 msg = Some e \<and> unix_of now < e \<and> gate_key g \<noteq> []"
proof -
  from assms obtain dot e where dot: "LastIndexByte v CHR ''.'' = Some dot"
    and sig: "drop (dot + 1) v = b64_encode RawURL (hmac (gate_key g) (take dot v))"
    and e: "ParseInt64 (take dot v) = Some e" "unix_of now < e" "gate_key g \<noteq> []"
    by (auto simp: valid_def Let_def split: if_splits option.splits)
  have "v = take dot v @ CHR ''.'' # drop (dot + 1) v"
    using LastIndexByte_Some [OF dot] by (metis Suc_eq_plus1 id_take_nth_drop)
  then have "v = take dot v @ ''.'' @ b64_encode RawURL (hmac (gate_key g) (take dot v))"
    using sig by simp
  with e show ?thesis by blast
qed

theorem admin_cookie_authentic_witness:
  "\<exists>msg. issue (\<lambda>k m. [7]) \<lparr>gate_key = [1]\<rparr> 0 = msg @ ''.'' @ b64_encode RawURL [7]"
proof -
  have e: "unix_of (0 + adminCookieTTL) = 1800" by (simp add: unix_of_def adminCookieTTL_def)
  have nd: "CHR ''.'' \<notin> set (b64_encode RawURL [7])" by (rule b64_no_dot) (simp add: b64_alphabet_ok_def)
  have ne: "b64_encode RawURL [7] \<noteq> []" by (simp add: b64_encode_ne)
  have "ParseInt64 (FormatInt 1800) = Some 1800" by (rule ParseInt64_FormatInt) simp_all
  then have "valid (\<lambda>k m. [7]) \<lparr>gate_key = [1]\<rparr> (FormatInt 1800 @ ''.'' @ b64_encode RawURL [7]) 0"
    using valid_split [OF nd FormatInt_ne ne, where g = "\<lparr>gate_key = [1]\<rparr>" and hmac = "\<lambda>k m. [7]" and now = 0]
    by (simp add: unix_of_def)
  then have "valid (\<lambda>k m. [7]) \<lparr>gate_key = [1]\<rparr> (issue (\<lambda>k m. [7]) \<lparr>gate_key = [1]\<rparr> 0) 0"
    unfolding issue_def e Let_def by simp
  from admin_cookie_authentic [OF this] show ?thesis by auto
qed

text \<open>The double submit: a form that carries the token of its page back passes the check with the
  cookie the browser then holds, and one that carries anything else does not.\<close>

theorem csrf_double_submit:
  assumes "csrfToken cookie rnd = (tok, fresh)" and "tok \<noteq> ''''"
  shows "checkCSRF (case fresh of Some c \<Rightarrow> Some c | None \<Rightarrow> cookie) field \<longleftrightarrow> field = tok"
  using assms by (auto simp: csrfToken_def checkCSRF_def split: option.splits if_splits)

theorem csrf_double_submit_witness:
  "checkCSRF (Some (b64_encode RawURL [1, 2])) (b64_encode RawURL [1, 2])"
  using csrf_double_submit [of None "Some [1, 2]" "b64_encode RawURL [1, 2]"
      "Some (b64_encode RawURL [1, 2])" "b64_encode RawURL [1, 2]"]
  by (simp add: csrfToken_def b64_encode_ne)

end
