(* ===== verification/Api.thy ===== *)
theory Api
  imports Grpc Rate_Limit Admin_Gate
begin

text \<open>
  \<open>src/arc-lore-auth/api.go\<close>: the JSON management API. A handler is a computation on the state of
  the server (\<open>server.go\<close>): the store, the sessions and the three limiters. It answers with a
  status code and a body. Its request carries the peer address, the \<open>Authorization\<close> header, the
  randomness for one hash and the clock, read at successive points; a JSON body arrives decoded, or
  as \<open>None\<close> when it does not decode. The argon2 semaphore only bounds how many derivations run at
  once and leaves no trace here.
\<close>

section \<open>The server\<close>

record auth_server =
  as_db :: db
  as_sessions :: session_store
  loginRL :: rateLimiter
  adminRL :: rateLimiter
  pwChangeRL :: rateLimiter

record auth_env =
  env_lib :: jwt_lib
  env_cfg :: auth_config
  env_kid :: string
  env_idkey :: argon2_idkey
  env_hmac :: hmac_sha256
  env_gate :: adminGate
  env_split :: "string \<Rightarrow> string option"

record request =
  rq_remote :: string
  rq_auth :: string
  rq_salt :: "byte list option"
  rq_clock :: "nat \<Rightarrow> int"

definition on_db :: "(db, 'a) state \<Rightarrow> (auth_server, 'a) state" where
  "on_db m = zoom as_db (\<lambda>d s. s\<lparr>as_db := d\<rparr>) m"

definition on_sessions :: "(session_store, 'a) state \<Rightarrow> (auth_server, 'a) state" where
  "on_sessions m = zoom as_sessions (\<lambda>x s. s\<lparr>as_sessions := x\<rparr>) m"

definition on_loginRL :: "(rateLimiter, 'a) state \<Rightarrow> (auth_server, 'a) state" where
  "on_loginRL m = zoom loginRL (\<lambda>x s. s\<lparr>loginRL := x\<rparr>) m"

definition on_adminRL :: "(rateLimiter, 'a) state \<Rightarrow> (auth_server, 'a) state" where
  "on_adminRL m = zoom adminRL (\<lambda>x s. s\<lparr>adminRL := x\<rparr>) m"

definition on_pwChangeRL :: "(rateLimiter, 'a) state \<Rightarrow> (auth_server, 'a) state" where
  "on_pwChangeRL m = zoom pwChangeRL (\<lambda>x s. s\<lparr>pwChangeRL := x\<rparr>) m"

text \<open>\<open>attachWeb\<close> builds the limiters.\<close>

definition attachWeb :: "int \<Rightarrow> session_store \<Rightarrow> db \<Rightarrow> auth_server" where
  "attachWeb now ss d = \<lparr>as_db = d, as_sessions = ss,
    loginRL = newRateLimiter now rlBurst rlRefillEvery,
    adminRL = newRateLimiter now rlBurst rlRefillEvery,
    pwChangeRL = newRateLimiter now 5 (30 * nsec)\<rparr>"

section \<open>Requests and responses\<close>

record api_user =
  au_username :: string
  au_display_name :: string
  au_is_admin :: bool
  au_created :: int

definition userToResp :: "user \<Rightarrow> api_user" where
  "userToResp u = \<lparr>au_username = Username u, au_display_name = DisplayName u,
    au_is_admin = IsAdmin u, au_created = Created u\<rparr>"

record api_token =
  at_token :: string
  at_expires_at :: int
  at_user_id :: string
  at_name :: string
  at_is_admin :: bool

datatype body =
    ErrorBody string
  | StatusBody bool bool
  | TokenBody api_token
  | UserBody api_user
  | UsersBody "api_user list"
  | ResourceBody resource
  | ResourcesBody "resource list"
  | GrantsBody "(string \<times> string list) list"
  | GrantBody string string string string
  | OpenBody bool
  | NameBody string string
  | AdminBody string bool

type_synonym response = "nat \<times> body"

type_synonym handler = "(auth_server, response) state"

definition writeAPIError :: "nat \<Rightarrow> string \<Rightarrow> handler" where
  "writeAPIError code msg = State_Monad.return (code, ErrorBody msg)"

definition writeJSON :: "nat \<Rightarrow> body \<Rightarrow> handler" where
  "writeJSON code b = State_Monad.return (code, b)"

definition decodeJSON :: "'b option \<Rightarrow> ('b \<Rightarrow> handler) \<Rightarrow> handler" where
  "decodeJSON b next = (case b of
      None \<Rightarrow> writeAPIError 400 ''invalid JSON body''
    | Some req \<Rightarrow> next req)"

definition validPermissions :: "string list" where
  "validPermissions = [''read'', ''write'', ''owner'', ''admin'', ''obliterate'', ''migrate'']"

definition isValidPermission :: "string \<Rightarrow> bool" where
  "isValidPermission p \<longleftrightarrow> TrimSpace p \<in> set validPermissions"

definition bearerToken :: "string \<Rightarrow> string" where
  "bearerToken h =
    (if h = '''' then ''''
     else if length h \<ge> 7 \<and> EqualFold (take 7 h) ''bearer '' then TrimSpace (drop 7 h)
     else '''')"

section \<open>Authentication\<close>

definition requireAPIAuth :: "auth_env \<Rightarrow> request \<Rightarrow> (arcLoreClaims \<Rightarrow> handler) \<Rightarrow> handler" where
  "requireAPIAuth env rq next =
    (let bearer = bearerToken (rq_auth rq)
     in if bearer = '''' then writeAPIError 401 ''missing bearer token''
        else do {
          v \<leftarrow> on_db (VerifyAuthn (env_lib env) (env_cfg env) (rq_clock rq 0) bearer);
          case v of
            Inl _ \<Rightarrow> writeAPIError 401 ''invalid token''
          | Inr claims \<Rightarrow> next claims })"

definition requireAPIAdmin :: "auth_env \<Rightarrow> request \<Rightarrow> (arcLoreClaims \<Rightarrow> handler) \<Rightarrow> handler" where
  "requireAPIAdmin env rq next = requireAPIAuth env rq (\<lambda>claims. do {
     r \<leftarrow> on_db (GetUser (Subject claims));
     case r of
       Inl _ \<Rightarrow> writeAPIError 403 ''forbidden''
     | Inr u \<Rightarrow> if \<not> IsAdmin u then writeAPIError 403 ''forbidden'' else next claims })"

section \<open>Public endpoints\<close>

definition handleAPIStatus :: handler where
  "handleAPIStatus = do {
     h \<leftarrow> on_db HasUsers;
     case h of
       Inl _ \<Rightarrow> writeAPIError 500 ''internal error''
     | Inr hasUsers \<Rightarrow> do {
         r \<leftarrow> on_db RegistrationOpen;
         case r of
           Inl _ \<Rightarrow> writeAPIError 500 ''internal error''
         | Inr regOpen \<Rightarrow> writeJSON 200 (StatusBody hasUsers regOpen) } }"

text \<open>The row a failed lookup leaves behind is the zero \<open>User\<close>.\<close>

definition user_or_zero :: "(store_err, user) result \<Rightarrow> user" where
  "user_or_zero r = (case r of Inl _ \<Rightarrow> zero_user | Inr u \<Rightarrow> u)"

definition mintTokenResponse ::
  "auth_env \<Rightarrow> request \<Rightarrow> string \<Rightarrow> string \<Rightarrow> (auth_server, (string, api_token) result) state" where
  "mintTokenResponse env rq uname displayName = do {
     let name = (if displayName = '''' then uname else displayName);
     m \<leftarrow> on_db (MintFor (env_lib env) (env_cfg env) (env_kid env) (rq_clock rq 2) (rq_clock rq 3) uname name);
     case m of
       Inl _ \<Rightarrow> State_Monad.return (Inl ''could not mint token'')
     | Inr (token, expSec, _) \<Rightarrow> do {
         g \<leftarrow> on_db (GetUser uname);
         State_Monad.return (Inr \<lparr>at_token = token, at_expires_at = expSec, at_user_id = uname,
           at_name = name, at_is_admin = IsAdmin (user_or_zero g)\<rparr>) } }"

definition token_response :: "auth_env \<Rightarrow> request \<Rightarrow> nat \<Rightarrow> string \<Rightarrow> string \<Rightarrow> handler" where
  "token_response env rq code uname displayName = do {
     r \<leftarrow> mintTokenResponse env rq uname displayName;
     case r of
       Inl msg \<Rightarrow> writeAPIError 500 msg
     | Inr resp \<Rightarrow> writeJSON code (TokenBody resp) }"

record apiSetupReq =
  set_Username :: string
  set_Password :: string
  set_DisplayName :: string

record apiLoginReq =
  log_Username :: string
  log_Password :: string

definition handleAPISetup :: "auth_env \<Rightarrow> request \<Rightarrow> apiSetupReq option \<Rightarrow> handler" where
  "handleAPISetup env rq b = do {
     ok \<leftarrow> on_loginRL (allow (rq_clock rq 0) (clientIP (env_split env) (rq_remote rq)));
     if \<not> ok then writeAPIError 429 ''too many requests''
     else decodeJSON b (\<lambda>req. case validatePassword (set_Password req) of
         Some e \<Rightarrow> writeAPIError 400 e
       | None \<Rightarrow> (case HashPassword (env_idkey env) (rq_salt rq) (set_Password req) of
           Inl _ \<Rightarrow> writeAPIError 500 ''could not hash password''
         | Inr hash \<Rightarrow> do {
             c \<leftarrow> on_db (CreateFirstAdmin (unix_of (rq_clock rq 1)) (set_Username req)
               (set_DisplayName req) hash);
             case c of
               Inl e \<Rightarrow> writeAPIError 400 (err_text e)
             | Inr created \<Rightarrow>
                 if \<not> created then writeAPIError 409 ''setup already completed''
                 else token_response env rq 201 (normalizeUsername (set_Username req)) '''' })) }"

text \<open>The comparison of both logins: the dummy record stands in when there is no hash.\<close>

definition credentials_ok :: "argon2_idkey \<Rightarrow> (store_err, string) result \<Rightarrow> string \<Rightarrow> bool" where
  "credentials_ok idkey r pw =
    (let h = (case r of Inl _ \<Rightarrow> dummyArgon2Hash | Inr hash \<Rightarrow> hash);
         ok = VerifyPassword idkey h pw
     in (case r of Inl _ \<Rightarrow> False | Inr _ \<Rightarrow> True) \<and> ok)"

definition handleAPILogin :: "auth_env \<Rightarrow> request \<Rightarrow> apiLoginReq option \<Rightarrow> handler" where
  "handleAPILogin env rq b = do {
     ok \<leftarrow> on_loginRL (allow (rq_clock rq 0) (clientIP (env_split env) (rq_remote rq)));
     if \<not> ok then writeAPIError 429 ''too many requests''
     else decodeJSON b (\<lambda>req.
       if length (log_Password req) > 1024 then writeAPIError 400 ''password too long''
       else do {
         h \<leftarrow> on_db (VerifyHash (log_Username req));
         if \<not> credentials_ok (env_idkey env) h (log_Password req)
         then writeAPIError 401 ''invalid username or password''
         else do {
           let uname = normalizeUsername (log_Username req);
           g \<leftarrow> on_db (GetUser uname);
           token_response env rq 200 uname (DisplayName (user_or_zero g)) } }) }"

record apiRegisterReq =
  reg_Username :: string
  reg_Password :: string

definition isUsernameValidationErr :: "store_err \<Rightarrow> bool" where
  "isUsernameValidationErr e \<longleftrightarrow>
    Contains (err_text e) ''username must not be empty'' \<or> Contains (err_text e) ''invalid username''"

text \<open>The end of \<open>handleAPIRegister\<close>, on the result of \<open>AddUser\<close>.\<close>

definition register_answer ::
  "auth_env \<Rightarrow> request \<Rightarrow> string \<Rightarrow> (store_err, unit) result \<Rightarrow> handler" where
  "register_answer env rq uname a = (case a of
      Inl e \<Rightarrow>
        if is_user_exists e then writeAPIError 409 ''username already taken''
        else if isUsernameValidationErr e then writeAPIError 400 (err_text e)
        else writeAPIError 500 ''internal error''
    | Inr _ \<Rightarrow> token_response env rq 201 uname uname)"

definition handleAPIRegister :: "auth_env \<Rightarrow> request \<Rightarrow> apiRegisterReq option \<Rightarrow> handler" where
  "handleAPIRegister env rq b = do {
     ok \<leftarrow> on_loginRL (allow (rq_clock rq 0) (clientIP (env_split env) (rq_remote rq)));
     if \<not> ok then writeAPIError 429 ''too many requests''
     else decodeJSON b (\<lambda>req. do {
       r \<leftarrow> on_db RegistrationOpen;
       case r of
         Inl _ \<Rightarrow> writeAPIError 500 ''internal error''
       | Inr opn \<Rightarrow>
         if \<not> opn then writeAPIError 403 ''registration is closed''
         else let uname = normalizeUsername (reg_Username req)
           in if length uname < 3 \<or> length uname > 32
              then writeAPIError 400 ''username must be 3-32 characters''
              else case validatePassword (reg_Password req) of
                Some e \<Rightarrow> writeAPIError 400 e
              | None \<Rightarrow> (case HashPassword (env_idkey env) (rq_salt rq) (reg_Password req) of
                  Inl _ \<Rightarrow> writeAPIError 500 ''internal error''
                | Inr hash \<Rightarrow> do {
                    a \<leftarrow> on_db (AddUser (unix_of (rq_clock rq 1)) uname uname hash False);
                    register_answer env rq uname a }) }) }"

record apiMePasswordReq =
  me_Current :: string
  me_New :: string

definition handleAPIMePassword ::
  "auth_env \<Rightarrow> request \<Rightarrow> apiMePasswordReq option \<Rightarrow> arcLoreClaims \<Rightarrow> handler" where
  "handleAPIMePassword env rq b claims = decodeJSON b (\<lambda>req. do {
     ok \<leftarrow> on_pwChangeRL (allow (rq_clock rq 1) (Subject claims));
     if \<not> ok then writeAPIError 429 ''too many requests''
     else case validatePassword (me_New req) of
       Some e \<Rightarrow> writeAPIError 400 e
     | None \<Rightarrow> do {
         h \<leftarrow> on_db (VerifyHash (Subject claims));
         case h of
           Inl _ \<Rightarrow> writeAPIError 401 ''current password incorrect''
         | Inr hash \<Rightarrow>
             if \<not> VerifyPassword (env_idkey env) hash (me_Current req)
             then writeAPIError 401 ''current password incorrect''
             else if me_New req = me_Current req
             then writeAPIError 400 ''new password must differ from current''
             else case HashPassword (env_idkey env) (rq_salt rq) (me_New req) of
               Inl _ \<Rightarrow> writeAPIError 500 ''could not hash password''
             | Inr newHash \<Rightarrow> do {
                 s \<leftarrow> on_db (SetPassword (unix_of (rq_clock rq 2)) (Subject claims) newHash);
                 case s of
                   Inl _ \<Rightarrow> writeAPIError 500 ''internal error''
                 | Inr _ \<Rightarrow> writeJSON 200 (NameBody ''updated'' (Subject claims)) } } })"

section \<open>Administration\<close>

definition handleAPIRegistrationToggle :: "bool option \<Rightarrow> handler" where
  "handleAPIRegistrationToggle b = decodeJSON b (\<lambda>opn. do {
     r \<leftarrow> on_db (SetRegistrationOpen opn);
     case r of
       Inl _ \<Rightarrow> writeAPIError 500 ''internal error''
     | Inr _ \<Rightarrow> writeJSON 200 (OpenBody opn) })"

definition handleAPIUsersList :: handler where
  "handleAPIUsersList = do {
     r \<leftarrow> on_db ListUsers;
     case r of
       Inl _ \<Rightarrow> writeAPIError 500 ''internal error''
     | Inr us \<Rightarrow> writeJSON 200 (UsersBody (map userToResp us)) }"

record apiCreateUserReq =
  cu_Username :: string
  cu_Password :: string
  cu_DisplayName :: string
  cu_IsAdmin :: bool

definition handleAPIUsersCreate :: "auth_env \<Rightarrow> request \<Rightarrow> apiCreateUserReq option \<Rightarrow> handler" where
  "handleAPIUsersCreate env rq b = decodeJSON b (\<lambda>req. case validatePassword (cu_Password req) of
       Some e \<Rightarrow> writeAPIError 400 e
     | None \<Rightarrow> (case HashPassword (env_idkey env) (rq_salt rq) (cu_Password req) of
         Inl _ \<Rightarrow> writeAPIError 500 ''internal error''
       | Inr hash \<Rightarrow> do {
           a \<leftarrow> on_db (AddUser (unix_of (rq_clock rq 1)) (cu_Username req) (cu_DisplayName req) hash
             (cu_IsAdmin req));
           case a of
             Inl e \<Rightarrow>
               if is_user_exists e then writeAPIError 409 ''user already exists''
               else if isUsernameValidationErr e then writeAPIError 400 (err_text e)
               else writeAPIError 500 ''internal error''
           | Inr _ \<Rightarrow> do {
               g \<leftarrow> on_db (GetUser (cu_Username req));
               case g of
                 Inl _ \<Rightarrow> writeAPIError 500 ''internal error''
               | Inr u \<Rightarrow> writeJSON 201 (UserBody (userToResp u)) } }))"

text \<open>The guard of a deletion and of a demotion: a refusal, or \<open>None\<close> to go on.\<close>

definition last_admin_guard :: "string \<Rightarrow> string \<Rightarrow> (auth_server, response option) state" where
  "last_admin_guard msg name = do {
     g \<leftarrow> on_db (GetUser name);
     case g of
       Inl e \<Rightarrow> State_Monad.return (Some (if is_not_found e then (404, ErrorBody ''user not found'')
           else (500, ErrorBody ''internal error'')))
     | Inr u \<Rightarrow>
         if IsAdmin u then do {
           c \<leftarrow> on_db CountAdmins;
           State_Monad.return (case c of
               Inl _ \<Rightarrow> Some (500, ErrorBody ''internal error'')
             | Inr n \<Rightarrow> if n \<le> 1 then Some (409, ErrorBody msg) else None) }
         else State_Monad.return None }"

definition delete_user_commit :: "string \<Rightarrow> handler" where
  "delete_user_commit name = do {
     r \<leftarrow> on_db (DeleteUser name);
     case r of
       Inl e \<Rightarrow> if is_not_found e then writeAPIError 404 ''user not found''
                else writeAPIError 500 ''internal error''
     | Inr _ \<Rightarrow> writeJSON 200 (NameBody ''deleted'' (normalizeUsername name)) }"

definition handleAPIUsersDelete :: "string \<Rightarrow> handler" where
  "handleAPIUsersDelete name = do {
     g \<leftarrow> last_admin_guard ''cannot delete the last admin'' name;
     case g of
       Some resp \<Rightarrow> State_Monad.return resp
     | None \<Rightarrow> delete_user_commit name }"

definition handleAPIUsersSetPassword ::
  "auth_env \<Rightarrow> request \<Rightarrow> string \<Rightarrow> string option \<Rightarrow> handler" where
  "handleAPIUsersSetPassword env rq name b = decodeJSON b (\<lambda>pw. case validatePassword pw of
       Some e \<Rightarrow> writeAPIError 400 e
     | None \<Rightarrow> (case HashPassword (env_idkey env) (rq_salt rq) pw of
         Inl _ \<Rightarrow> writeAPIError 500 ''internal error''
       | Inr hash \<Rightarrow> do {
           r \<leftarrow> on_db (SetPassword (unix_of (rq_clock rq 1)) name hash);
           case r of
             Inl e \<Rightarrow> if is_not_found e then writeAPIError 404 ''user not found''
                      else writeAPIError 500 ''internal error''
           | Inr _ \<Rightarrow> writeJSON 200 (NameBody ''updated'' (normalizeUsername name)) }))"

definition set_admin_commit :: "request \<Rightarrow> string \<Rightarrow> bool \<Rightarrow> handler" where
  "set_admin_commit rq name adm = do {
     r \<leftarrow> on_db (SetAdmin (unix_of (rq_clock rq 1)) name adm);
     case r of
       Inl e \<Rightarrow> if is_not_found e then writeAPIError 404 ''user not found''
                else writeAPIError 500 ''internal error''
     | Inr _ \<Rightarrow> writeJSON 200 (AdminBody (normalizeUsername name) adm) }"

definition handleAPIUsersSetAdmin :: "request \<Rightarrow> string \<Rightarrow> bool option \<Rightarrow> handler" where
  "handleAPIUsersSetAdmin rq name b = decodeJSON b (\<lambda>adm.
     if \<not> adm then do {
       g \<leftarrow> last_admin_guard ''cannot demote the last admin'' name;
       case g of
         Some resp \<Rightarrow> State_Monad.return resp
       | None \<Rightarrow> set_admin_commit rq name adm }
     else set_admin_commit rq name adm)"

definition handleAPIResources :: handler where
  "handleAPIResources = do {
     r \<leftarrow> on_db ListResources;
     case r of
       Inl _ \<Rightarrow> writeAPIError 500 ''internal error''
     | Inr rs \<Rightarrow> writeJSON 200 (ResourcesBody rs) }"

definition handleAPIResourceCreate ::
  "request \<Rightarrow> (string \<times> string) option \<Rightarrow> arcLoreClaims \<Rightarrow> handler" where
  "handleAPIResourceCreate rq b claims = decodeJSON b (\<lambda>(rid, name).
     case normalizeResourceID rid of
       Inl e \<Rightarrow> writeAPIError 400 e
     | Inr i \<Rightarrow> do {
         u \<leftarrow> on_db (UpsertResource (unix_of (rq_clock rq 1)) i (TrimSpace name));
         case u of
           Inl _ \<Rightarrow> writeAPIError 500 ''internal error''
         | Inr _ \<Rightarrow> do {
             g \<leftarrow> on_db (GrantOwner (Subject claims) i);
             case g of
               Inl _ \<Rightarrow> writeAPIError 500 ''internal error''
             | Inr _ \<Rightarrow> writeJSON 201 (ResourceBody
                 \<lparr>ResourceID = i, ResName = TrimSpace name, ResCreated = 0\<rparr>) } })"

definition handleAPIResourceDelete :: "string option \<Rightarrow> handler" where
  "handleAPIResourceDelete b = decodeJSON b (\<lambda>rid. case normalizeResourceID rid of
       Inl e \<Rightarrow> writeAPIError 400 e
     | Inr i \<Rightarrow> do {
         r \<leftarrow> on_db (DeleteResource i);
         case r of
           Inl _ \<Rightarrow> writeAPIError 500 ''internal error''
         | Inr _ \<Rightarrow> writeJSON 200 (NameBody ''removed'' i) })"

definition handleAPIUserGrants :: "string \<Rightarrow> handler" where
  "handleAPIUserGrants name = do {
     r \<leftarrow> on_db (GrantsFor name);
     case r of
       Inl _ \<Rightarrow> writeAPIError 500 ''internal error''
     | Inr gs \<Rightarrow> writeJSON 200 (GrantsBody gs) }"

record apiGrantReq =
  gr_Username :: string
  gr_ResourceID :: string
  gr_Permission :: string

definition handleAPIGrantAdd :: "apiGrantReq option \<Rightarrow> handler" where
  "handleAPIGrantAdd b = decodeJSON b (\<lambda>req.
     if \<not> isValidPermission (gr_Permission req) then writeAPIError 400 ''invalid permission''
     else do {
       g \<leftarrow> on_db (GetUser (gr_Username req));
       case g of
         Inl e \<Rightarrow> if is_not_found e then writeAPIError 404 ''user not found''
                  else writeAPIError 500 ''internal error''
       | Inr _ \<Rightarrow> do {
           l \<leftarrow> on_db ListResources;
           case l of
             Inl _ \<Rightarrow> writeAPIError 500 ''internal error''
           | Inr rs \<Rightarrow>
               let wantID = TrimSpace (gr_ResourceID req)
               in if wantID \<notin> ResourceID ` set rs then writeAPIError 404 ''resource not found''
                  else do {
                    a \<leftarrow> on_db (AddGrant (gr_Username req) (gr_ResourceID req) (gr_Permission req));
                    case a of
                      Inl _ \<Rightarrow> writeAPIError 500 ''internal error''
                    | Inr _ \<Rightarrow> writeJSON 201 (GrantBody ''granted'' (normalizeUsername (gr_Username req))
                        wantID (TrimSpace (gr_Permission req))) } } })"

definition handleAPIGrantRemove :: "apiGrantReq option \<Rightarrow> handler" where
  "handleAPIGrantRemove b = decodeJSON b (\<lambda>req.
     if \<not> isValidPermission (gr_Permission req) then writeAPIError 400 ''invalid permission''
     else do {
       r \<leftarrow> on_db (RemoveGrant (gr_Username req) (gr_ResourceID req) (gr_Permission req));
       case r of
         Inl _ \<Rightarrow> writeAPIError 500 ''internal error''
       | Inr _ \<Rightarrow> writeJSON 200 (GrantBody ''removed'' (normalizeUsername (gr_Username req))
           (TrimSpace (gr_ResourceID req)) (TrimSpace (gr_Permission req))) })"

section \<open>The routes\<close>

datatype api_call =
    GetStatus
  | PostSetup "apiSetupReq option"
  | PostLogin "apiLoginReq option"
  | PostRegister "apiRegisterReq option"
  | PostMePassword "apiMePasswordReq option"
  | PostRegistration "bool option"
  | GetUsers
  | PostUsers "apiCreateUserReq option"
  | DeleteUsers string
  | PostUserPassword string "string option"
  | PostUserAdmin string "bool option"
  | GetResources
  | PostResources "(string \<times> string) option"
  | DeleteResources "string option"
  | GetUserGrants string
  | PostGrants "apiGrantReq option"
  | DeleteGrants "apiGrantReq option"

fun registerAPIRoutes :: "auth_env \<Rightarrow> request \<Rightarrow> api_call \<Rightarrow> handler" where
  "registerAPIRoutes env rq GetStatus = handleAPIStatus"
| "registerAPIRoutes env rq (PostSetup b) = handleAPISetup env rq b"
| "registerAPIRoutes env rq (PostLogin b) = handleAPILogin env rq b"
| "registerAPIRoutes env rq (PostRegister b) = handleAPIRegister env rq b"
| "registerAPIRoutes env rq (PostMePassword b) = requireAPIAuth env rq (handleAPIMePassword env rq b)"
| "registerAPIRoutes env rq (PostRegistration b) =
    requireAPIAdmin env rq (\<lambda>_. handleAPIRegistrationToggle b)"
| "registerAPIRoutes env rq GetUsers = requireAPIAdmin env rq (\<lambda>_. handleAPIUsersList)"
| "registerAPIRoutes env rq (PostUsers b) = requireAPIAdmin env rq (\<lambda>_. handleAPIUsersCreate env rq b)"
| "registerAPIRoutes env rq (DeleteUsers n) = requireAPIAdmin env rq (\<lambda>_. handleAPIUsersDelete n)"
| "registerAPIRoutes env rq (PostUserPassword n b) =
    requireAPIAdmin env rq (\<lambda>_. handleAPIUsersSetPassword env rq n b)"
| "registerAPIRoutes env rq (PostUserAdmin n b) =
    requireAPIAdmin env rq (\<lambda>_. handleAPIUsersSetAdmin rq n b)"
| "registerAPIRoutes env rq GetResources = requireAPIAdmin env rq (\<lambda>_. handleAPIResources)"
| "registerAPIRoutes env rq (PostResources b) = requireAPIAdmin env rq (handleAPIResourceCreate rq b)"
| "registerAPIRoutes env rq (DeleteResources b) =
    requireAPIAdmin env rq (\<lambda>_. handleAPIResourceDelete b)"
| "registerAPIRoutes env rq (GetUserGrants n) = requireAPIAdmin env rq (\<lambda>_. handleAPIUserGrants n)"
| "registerAPIRoutes env rq (PostGrants b) = requireAPIAdmin env rq (\<lambda>_. handleAPIGrantAdd b)"
| "registerAPIRoutes env rq (DeleteGrants b) = requireAPIAdmin env rq (\<lambda>_. handleAPIGrantRemove b)"

section \<open>What the handlers keep\<close>

definition on_tables :: "(db \<Rightarrow> bool) \<Rightarrow> auth_server \<Rightarrow> bool" where
  "on_tables P s \<longleftrightarrow> P (as_db s)"

lemma keeps_on_db [keeps_rules]: "keeps P m \<Longrightarrow> keeps (on_tables P) (on_db m)"
  unfolding on_db_def by (rule keeps_zoom) (auto simp: on_tables_def)

lemma keeps_on_others [keeps_rules]:
  "keeps (on_tables P) (on_sessions n)" "keeps (on_tables P) (on_loginRL m)"
  "keeps (on_tables P) (on_adminRL m)" "keeps (on_tables P) (on_pwChangeRL m)"
  unfolding on_sessions_def on_loginRL_def on_adminRL_def on_pwChangeRL_def
  by (rule keepsI, simp add: on_tables_def)+

lemma keeps_write [keeps_rules]: "keeps P (writeAPIError c m)" "keeps P (writeJSON c b)"
  by (simp_all add: writeAPIError_def writeJSON_def keeps_rules)

lemma keeps_decode [keeps_rules]: "(\<And>r. keeps P (nx r)) \<Longrightarrow> keeps P (decodeJSON b nx)"
  by (auto simp: decodeJSON_def intro!: keeps_rules)

context read_inv
begin

lemma api_auth [keeps_rules]:
  "(\<And>c. keeps (on_tables P) (nx c)) \<Longrightarrow> keeps (on_tables P) (requireAPIAuth env rq nx)"
  unfolding requireAPIAuth_def Let_def by (intro keeps_rules)

lemma api_admin [keeps_rules]:
  "(\<And>c. keeps (on_tables P) (nx c)) \<Longrightarrow> keeps (on_tables P) (requireAPIAdmin env rq nx)"
  unfolding requireAPIAdmin_def by (intro keeps_rules)

lemma api_token [keeps_rules]: "keeps (on_tables P) (token_response env rq c n dn)"
  unfolding token_response_def mintTokenResponse_def Let_def by (intro keeps_rules)

lemma api_login [keeps_rules]: "keeps (on_tables P) (handleAPILogin env rq b)"
  unfolding handleAPILogin_def Let_def by (intro keeps_rules)

lemma api_guard [keeps_rules]: "keeps (on_tables P) (last_admin_guard msg n)"
  unfolding last_admin_guard_def by (intro keeps_rules)

lemma api_reads [keeps_rules]:
  "keeps (on_tables P) handleAPIStatus" "keeps (on_tables P) handleAPIUsersList"
  "keeps (on_tables P) handleAPIResources" "keeps (on_tables P) (handleAPIUserGrants n)"
  unfolding handleAPIStatus_def handleAPIUsersList_def handleAPIResources_def handleAPIUserGrants_def
  by (intro keeps_rules)+

end

context grow_inv
begin

lemma api_setup [keeps_rules]: "keeps (on_tables P) (handleAPISetup env rq b)"
  unfolding handleAPISetup_def by (intro keeps_rules)

lemma api_register [keeps_rules]: "keeps (on_tables P) (handleAPIRegister env rq b)"
  unfolding handleAPIRegister_def register_answer_def Let_def by (intro keeps_rules)

lemma api_passwords [keeps_rules]:
  "keeps (on_tables P) (handleAPIMePassword env rq pb c)"
  "keeps (on_tables P) (handleAPIUsersSetPassword env rq n sb)"
  unfolding handleAPIMePassword_def handleAPIUsersSetPassword_def by (intro keeps_rules)+

lemma api_users_create [keeps_rules]: "keeps (on_tables P) (handleAPIUsersCreate env rq b)"
  unfolding handleAPIUsersCreate_def by (intro keeps_rules)

lemma api_toggle [keeps_rules]: "keeps (on_tables P) (handleAPIRegistrationToggle b)"
  unfolding handleAPIRegistrationToggle_def by (intro keeps_rules)

lemma api_resources [keeps_rules]:
  "keeps (on_tables P) (handleAPIResourceCreate rq rb c)"
  "keeps (on_tables P) (handleAPIResourceDelete sb)"
  unfolding handleAPIResourceCreate_def handleAPIResourceDelete_def by (intro keeps_rules)+

lemma api_grants [keeps_rules]:
  "keeps (on_tables P) (handleAPIGrantAdd b)" "keeps (on_tables P) (handleAPIGrantRemove b)"
  unfolding handleAPIGrantAdd_def handleAPIGrantRemove_def Let_def by (intro keeps_rules)+

text \<open>A property that the two guarded handlers keep is kept by every request.\<close>

lemma api_request:
  assumes "\<And>n. keeps (on_tables P) (handleAPIUsersDelete n)"
    and "\<And>rq n. keeps (on_tables P) (do {
      g \<leftarrow> last_admin_guard ''cannot demote the last admin'' n;
      case g of Some resp \<Rightarrow> State_Monad.return resp | None \<Rightarrow> set_admin_commit rq n False })"
  shows "keeps (on_tables P) (registerAPIRoutes env rq c)"
proof -
  have up: "keeps (on_tables P) (set_admin_commit rq n True)" for n
    unfolding set_admin_commit_def by (intro keeps_rules)
  have "keeps (on_tables P) (handleAPIUsersSetAdmin rq n b)" for n b
    unfolding handleAPIUsersSetAdmin_def using assms(2) up
    by (intro keeps_decode) (auto split: if_splits)
  with assms(1) show ?thesis
    by (cases c) (auto intro!: keeps_rules)
qed

end

context table_inv
begin

lemma api_any: "keeps (on_tables P) (registerAPIRoutes env rq c)"
proof (rule api_request)
  show "keeps (on_tables P) (handleAPIUsersDelete n)" for n
    unfolding handleAPIUsersDelete_def delete_user_commit_def by (intro keeps_rules)
qed (unfold set_admin_commit_def, intro keeps_rules)

end

section \<open>The last administrator\<close>

lemma run_on_db [simp]:
  "run_state (on_db m) s =
    (fst (run_state m (as_db s)), s\<lparr>as_db := snd (run_state m (as_db s))\<rparr>)"
  by (simp add: on_db_def)

lemma CountAdmins_Inr:
  "fst (run_state CountAdmins d) = Inr n \<Longrightarrow> n = length (filter IsAdmin (users d))"
  by (auto simp: CountAdmins_def split: option.splits)

text \<open>What the guard saw when it lets the caller go on.\<close>

lemma last_admin_guard_None:
  assumes "fst (run_state (last_admin_guard msg n) s) = None"
  shows "\<exists>u. select_user (normalizeUsername n) (as_db s) = Some u \<and>
    (IsAdmin u \<longrightarrow> 1 < length (filter IsAdmin (users (as_db s))))"
proof -
  note same = same_tablesD [OF GetUser_same [of "as_db s" n]]
  from assms obtain u where g: "fst (run_state (GetUser n) (as_db s)) = Inr u"
    by (auto simp: last_admin_guard_def split: sum.splits)
  moreover from g assms have "1 < length (filter IsAdmin (users (as_db s)))" if "IsAdmin u"
    using that CountAdmins_Inr [of "snd (run_state (GetUser n) (as_db s))"] same
    by (auto simp: last_admin_guard_def split: sum.splits if_splits)
  ultimately show ?thesis using GetUser_Inr(1) by blast
qed

lemma last_admin_guard_same:
  "same_tables (as_db s) (as_db (snd (run_state (last_admin_guard msg n) s)))"
  using keepsD [OF unchanged.api_guard, of "as_db s" s] by (simp add: on_tables_def)

text \<open>Then an administrator other than that user remains.\<close>

lemma other_admin:
  assumes "users_ok d" and "select_user n d = Some u" and "has_admin d"
    and "IsAdmin u \<longrightarrow> 1 < length (filter IsAdmin (users d))"
  shows "\<exists>v\<in>set (users d). IsAdmin v \<and> Username v \<noteq> n"
proof (rule ccontr)
  assume "\<not> ?thesis"
  then have all: "Username v = n" if "v \<in> set (filter IsAdmin (users d))" for v using that by auto
  have dist: "distinct (map Username (filter IsAdmin (users d)))"
    using assms(1) by (simp add: users_ok_def distinct_map_filter_key)
  have "length (filter IsAdmin (users d)) = card (set (map Username (filter IsAdmin (users d))))"
    using distinct_card [OF dist] by simp
  also have "\<dots> \<le> card {n}" by (rule card_mono) (use all in auto)
  finally have le: "length (filter IsAdmin (users d)) \<le> 1" by simp
  from assms(3) obtain v where v: "v \<in> set (users d)" "IsAdmin v" by (auto simp: has_admin_def)
  then have "select_user n d = Some v" using all select_user_in [OF assms(1)] by auto
  with assms(2,4) v le show False by simp
qed

lemma DeleteUser_users:
  "users (snd (run_state (DeleteUser n) d)) = users d \<or>
   users (snd (run_state (DeleteUser n) d)) = filter (\<lambda>u. Username u \<noteq> normalizeUsername n) (users d)"
  by (auto simp: DeleteUser_def validateUsername_Inr delete_user_def run_need_row
      split: sum.split option.split)

lemma SetAdmin_users:
  "users (snd (run_state (SetAdmin t n a) d)) = users d \<or>
   users (snd (run_state (SetAdmin t n a) d)) =
     map (\<lambda>u. if Username u = normalizeUsername n then admin_change t a u else u) (users d)"
  by (auto simp: SetAdmin_def validateUsername_Inr update_user_def run_need_row admin_change_def
      split: sum.split option.split)

lemma commit_runs:
  "as_db (snd (run_state (delete_user_commit n) s)) = snd (run_state (DeleteUser n) (as_db s))"
  "as_db (snd (run_state (set_admin_commit rq n a) s)) =
    snd (run_state (SetAdmin (unix_of (rq_clock rq 1)) n a) (as_db s))"
  by (auto simp: delete_user_commit_def set_admin_commit_def writeAPIError_def writeJSON_def
      split: sum.split)

lemma kept_admin:
  assumes "v \<in> set us" and "IsAdmin v" and "Username v \<noteq> n"
    and "us' = us \<or> us' = filter (\<lambda>u. Username u \<noteq> n) us \<or>
      us' = map (\<lambda>u. if Username u = n then f u else u) us"
  shows "\<exists>v\<in>set us'. IsAdmin v"
  using assms by (force intro: rev_image_eqI)

lemma guarded_commit:
  assumes "governed (as_db s)" and "keeps db_ok m"
    and "\<And>d. users (snd (run_state m d)) = users d \<or>
      users (snd (run_state m d)) = filter (\<lambda>u. Username u \<noteq> normalizeUsername n) (users d) \<or>
      users (snd (run_state m d)) = map (\<lambda>u. if Username u = normalizeUsername n then f u else u) (users d)"
    and "fst (run_state (last_admin_guard msg n) s) = None"
  shows "governed (snd (run_state m (as_db (snd (run_state (last_admin_guard msg n) s)))))"
proof -
  let ?d = "as_db (snd (run_state (last_admin_guard msg n) s))"
  note same = last_admin_guard_same [of s msg n]
  have ok: "db_ok (as_db s)" and ad: "has_admin (as_db s)" using assms(1) by (auto simp: governed_def)
  have "db_ok ?d"
    using keepsD [OF store_ok.api_guard, of s msg n] ok by (simp add: on_tables_def)
  then have "db_ok (snd (run_state m ?d))" by (rule keepsD [OF assms(2)])
  moreover obtain u where u: "select_user (normalizeUsername n) (as_db s) = Some u"
    "IsAdmin u \<longrightarrow> 1 < length (filter IsAdmin (users (as_db s)))"
    using last_admin_guard_None [OF assms(4)] by auto
  obtain v where "v \<in> set (users (as_db s))" "IsAdmin v" "Username v \<noteq> normalizeUsername n"
    using other_admin [OF _ u(1) ad u(2)] ok by (auto simp: db_ok_def)
  then have "has_admin (snd (run_state m ?d))"
    unfolding has_admin_def using assms(3) [of ?d] same_tablesD(1) [OF same]
    by (intro kept_admin) auto
  ultimately show ?thesis by (simp add: governed_def)
qed

lemma guarded_handlers:
  "keeps (on_tables governed) (handleAPIUsersDelete n)"
  "keeps (on_tables governed) (do {
      g \<leftarrow> last_admin_guard ''cannot demote the last admin'' n;
      case g of Some resp \<Rightarrow> State_Monad.return resp | None \<Rightarrow> set_admin_commit rq n False })"
proof -
  show "keeps (on_tables governed) (handleAPIUsersDelete n)"
  proof (rule keepsI)
    fix s assume s: "on_tables governed s"
    let ?g = "last_admin_guard ''cannot delete the last admin'' n"
    show "on_tables governed (snd (run_state (handleAPIUsersDelete n) s))"
    proof (cases "fst (run_state ?g s)")
      case None
      then have "governed (snd (run_state (DeleteUser n) (as_db (snd (run_state ?g s)))))"
        using s DeleteUser_users [of n]
        by (intro guarded_commit [where f = id] store_ok.remove_user) (auto simp: on_tables_def)
      with None show ?thesis by (simp add: handleAPIUsersDelete_def on_tables_def commit_runs)
    next
      case (Some r)
      with keepsD [OF governed.api_guard s] show ?thesis by (simp add: handleAPIUsersDelete_def)
    qed
  qed
  show "keeps (on_tables governed) (do {
      g \<leftarrow> last_admin_guard ''cannot demote the last admin'' n;
      case g of Some resp \<Rightarrow> State_Monad.return resp | None \<Rightarrow> set_admin_commit rq n False })"
    (is "keeps _ ?m")
  proof (rule keepsI)
    fix s assume s: "on_tables governed s"
    let ?g = "last_admin_guard ''cannot demote the last admin'' n"
    show "on_tables governed (snd (run_state ?m s))"
    proof (cases "fst (run_state ?g s)")
      case None
      then have "governed (snd (run_state (SetAdmin (unix_of (rq_clock rq 1)) n False)
          (as_db (snd (run_state ?g s)))))"
        using s SetAdmin_users [of "unix_of (rq_clock rq 1)" n False]
        by (intro guarded_commit [where f = "admin_change (unix_of (rq_clock rq 1)) False"]
            store_ok.set_admin) (auto simp: on_tables_def)
      with None show ?thesis by (simp add: on_tables_def commit_runs)
    next
      case (Some r)
      with keepsD [OF governed.api_guard s] show ?thesis by simp
    qed
  qed
qed

lemma api_governed: "keeps (on_tables governed) (registerAPIRoutes env rq c)"
  by (rule governed.api_request [OF guarded_handlers])

text \<open>C24: the guard of the last administrator is not atomic. With two administrators left, when two
  deletions interleave so that both guards run before either row is removed, both are answered 200
  and no administrator remains.\<close>

theorem last_admin_race:
  assumes "calm (as_db s)" and "db_ok (as_db s)"
    and "filter IsAdmin (users (as_db s)) = [u, v]"
  shows "let (g1, s1) = run_state (last_admin_guard ''cannot delete the last admin'' (Username u)) s;
      (g2, s2) = run_state (last_admin_guard ''cannot delete the last admin'' (Username v)) s1;
      (r1, s3) = run_state (delete_user_commit (Username u)) s2;
      (r2, s4) = run_state (delete_user_commit (Username v)) s3
    in g1 = None \<and> g2 = None \<and> fst r1 = 200 \<and> fst r2 = 200 \<and> \<not> has_admin (as_db s4)"
proof -
  let ?d = "as_db s"
  have uok: "users_ok ?d" using assms(2) by (simp add: db_ok_def)
  have in_uv: "w \<in> set (users ?d) \<and> IsAdmin w \<longleftrightarrow> w = u \<or> w = v" for w
    using arg_cong [OF assms(3), of set] by auto
  have sel: "select_user (Username u) ?d = Some u" "select_user (Username v) ?d = Some v"
    using in_uv select_user_in [OF uok] by blast+
  have pat: "usernamePattern (Username u)" "usernamePattern (Username v)"
    using in_uv uok by (auto simp: users_ok_def user_row_ok_def)
  note norm = normalizeUsername_pattern [OF pat(1)] normalizeUsername_pattern [OF pat(2)]
  note val = validateUsername_normal [OF pat(1)] validateUsername_normal [OF pat(2)]
  have "distinct (map Username [u, v])"
    using uok distinct_map_filter_key [of Username "users ?d" IsAdmin]
    by (simp add: users_ok_def assms(3))
  then have ne: "Username u \<noteq> Username v" by simp
  have guard: "run_state (last_admin_guard m (Username w)) s = (None, s)" if "w = u \<or> w = v" for w m
    using that assms sel norm uok in_uv
    by (auto simp: last_admin_guard_def GetUser_calm CountAdmins_def)
  have del: "run_state (DeleteUser (Username w)) d = (Inr (),
      d\<lparr>users := filter (\<lambda>x. Username x \<noteq> Username w) (users d),
        grants := filter (\<lambda>g. GUser g \<noteq> Username w) (grants d)\<rparr>)"
    if "w = u \<or> w = v" "calm d" "w \<in> set (users d)" for w d
    using that val by (auto simp: DeleteUser_def delete_user_def run_need_row filter_empty_conv)
  let ?d1 = "snd (run_state (DeleteUser (Username u)) ?d)"
  have u: "u \<in> set (users ?d)" and v: "v \<in> set (users ?d)" using in_uv by blast+
  have c1: "calm ?d1" "v \<in> set (users ?d1)"
    using del [of u ?d] assms(1) u v ne by simp_all
  let ?d2 = "snd (run_state (DeleteUser (Username v)) ?d1)"
  have "users ?d2 = filter (\<lambda>x. Username x \<noteq> Username u \<and> Username x \<noteq> Username v) (users ?d)"
    using del [of u ?d] del [OF _ c1] assms(1) u by simp
  then have "\<not> has_admin ?d2" using in_uv by (fastforce simp: has_admin_def)
  then show ?thesis
    using guard [of u] guard [of v] del [of u ?d] del [OF _ c1] assms(1) u
    by (simp add: delete_user_commit_def writeJSON_def)
qed

text \<open>A server for the witnesses.\<close>

definition demo_server :: "db \<Rightarrow> auth_server" where
  "demo_server d = attachWeb 0 (NewSessionStore 600) d"

lemma demo_server_db [simp]: "as_db (demo_server d) = d"
  by (simp add: demo_server_def attachWeb_def)

definition two_admins :: db where
  "two_admins = demo_db\<lparr>users := [demo_user ''ann'' True 0, demo_user ''bob'' True 0]\<rparr>"

lemma two_admins_ok: "calm two_admins" "db_ok two_admins"
  "filter IsAdmin (users two_admins) = [demo_user ''ann'' True 0, demo_user ''bob'' True 0]"
proof -
  show "db_ok two_admins"
    by (rule db_ok_cong [OF demo_ok])
       (insert demo_users_ok, auto simp: two_admins_def demo_db_def demo_user_def users_ok_def user_row_ok_def)
qed (simp_all add: two_admins_def demo_db_def calm_def demo_user_def)

theorem last_admin_race_witness:
  "let (g1, s1) = run_state (last_admin_guard ''cannot delete the last admin'' ''ann'') (demo_server two_admins);
      (g2, s2) = run_state (last_admin_guard ''cannot delete the last admin'' ''bob'') s1;
      (r1, s3) = run_state (delete_user_commit ''ann'') s2;
      (r2, s4) = run_state (delete_user_commit ''bob'') s3
    in g1 = None \<and> g2 = None \<and> fst r1 = 200 \<and> fst r2 = 200 \<and> \<not> has_admin (as_db s4)"
  using last_admin_race [of "demo_server two_admins" "demo_user ''ann'' True 0" "demo_user ''bob'' True 0"]
    two_admins_ok by (simp add: demo_user_def)

section \<open>Who may do what\<close>

text \<open>The caller a request authenticates: a non-empty bearer token that verifies, of a subject whose
  stored token version is that of the token.\<close>

definition caller_of :: "auth_env \<Rightarrow> request \<Rightarrow> db \<Rightarrow> arcLoreClaims \<Rightarrow> user \<Rightarrow> bool" where
  "caller_of env rq d c u \<longleftrightarrow> bearerToken (rq_auth rq) \<noteq> [] \<and>
    verifyAuthnToken (env_lib env) (env_cfg env) (rq_clock rq 0) (bearerToken (rq_auth rq)) = Inr c \<and>
    select_user (normalizeUsername (Subject c)) d = Some u \<and> TokenVersion u = ClTokenVersion c"

lemma requireAPIAuth_run:
  "(\<exists>m s1. run_state (requireAPIAuth env rq nx) s = ((401, ErrorBody m), s1) \<and>
      same_tables (as_db s) (as_db s1)) \<or>
   (\<exists>c u s1. caller_of env rq (as_db s) c u \<and> same_tables (as_db s) (as_db s1) \<and>
      run_state (requireAPIAuth env rq nx) s = run_state (nx c) s1)"
proof (cases "bearerToken (rq_auth rq) = []")
  case True
  then show ?thesis by (simp add: requireAPIAuth_def writeAPIError_def)
next
  case False
  let ?v = "VerifyAuthn (env_lib env) (env_cfg env) (rq_clock rq 0) (bearerToken (rq_auth rq))"
  let ?s1 = "s\<lparr>as_db := snd (run_state ?v (as_db s))\<rparr>"
  have same: "same_tables (as_db s) (as_db ?s1)"
    using keepsD [OF unchanged.verify_authn same_tables_refl] by simp
  show ?thesis
  proof (cases "fst (run_state ?v (as_db s))")
    case (Inl e)
    with False same show ?thesis by (simp add: requireAPIAuth_def writeAPIError_def)
  next
    case (Inr c)
    from VerifyAuthn_InrD [OF this] False obtain u where "caller_of env rq (as_db s) c u"
      by (auto simp: caller_of_def)
    moreover have "run_state (requireAPIAuth env rq nx) s = run_state (nx c) ?s1"
      using False Inr by (simp add: requireAPIAuth_def)
    ultimately show ?thesis using same by blast
  qed
qed

lemma requireAPIAdmin_run:
  "(\<exists>code m s1. run_state (requireAPIAdmin env rq nx) s = ((code, ErrorBody m), s1) \<and>
      code \<in> {401, 403} \<and> same_tables (as_db s) (as_db s1)) \<or>
   (\<exists>c u s1. caller_of env rq (as_db s) c u \<and> IsAdmin u \<and> same_tables (as_db s) (as_db s1) \<and>
      run_state (requireAPIAdmin env rq nx) s = run_state (nx c) s1)"
proof -
  let ?nx = "\<lambda>claims. do {
     r \<leftarrow> on_db (GetUser (Subject claims));
     case r of
       Inl _ \<Rightarrow> writeAPIError 403 ''forbidden''
     | Inr u \<Rightarrow> if \<not> IsAdmin u then writeAPIError 403 ''forbidden'' else nx claims }"
  have un: "requireAPIAdmin env rq nx = requireAPIAuth env rq ?nx"
    by (simp add: requireAPIAdmin_def)
  consider (no) m s1 where "run_state (requireAPIAuth env rq ?nx) s = ((401, ErrorBody m), s1)"
      "same_tables (as_db s) (as_db s1)"
    | (yes) c u s1 where "caller_of env rq (as_db s) c u" "same_tables (as_db s) (as_db s1)"
      "run_state (requireAPIAuth env rq ?nx) s = run_state (?nx c) s1"
    using requireAPIAuth_run [of env rq ?nx s] by blast
  then show ?thesis
  proof cases
    case no
    then show ?thesis unfolding un by auto
  next
    case yes
    note run = yes(3) [folded un]
    let ?g = "GetUser (Subject c)"
    let ?s2 = "s1\<lparr>as_db := snd (run_state ?g (as_db s1))\<rparr>"
    have same: "same_tables (as_db s) (as_db ?s2)"
      using same_tables_trans [OF yes(2) GetUser_same] by simp
    show ?thesis
    proof (cases "fst (run_state ?g (as_db s1))")
      case (Inl e)
      then have "run_state (requireAPIAdmin env rq nx) s = ((403, ErrorBody ''forbidden''), ?s2)"
        unfolding run by (simp add: writeAPIError_def)
      with same show ?thesis by blast
    next
      case (Inr w)
      then have w: "w = u"
        using GetUser_Inr(1) [OF Inr] yes(1) same_tables_select(1) [OF yes(2)]
        by (simp add: caller_of_def)
      show ?thesis
      proof (cases "IsAdmin u")
        case True
        then have "run_state (requireAPIAdmin env rq nx) s = run_state (nx c) ?s2"
          unfolding run using Inr w by simp
        with True yes(1) same show ?thesis by blast
      next
        case False
        then have "run_state (requireAPIAdmin env rq nx) s = ((403, ErrorBody ''forbidden''), ?s2)"
          unfolding run using Inr w by (simp add: writeAPIError_def)
        with same show ?thesis by blast
      qed
    qed
  qed
qed

definition admin_route :: "api_call \<Rightarrow> bool" where
  "admin_route c = (case c of GetStatus \<Rightarrow> False | PostSetup _ \<Rightarrow> False | PostLogin _ \<Rightarrow> False
    | PostRegister _ \<Rightarrow> False | PostMePassword _ \<Rightarrow> False | _ \<Rightarrow> True)"

text \<open>C3: the administration endpoints act for administrators only. Unless the caller presents a
  verified token of a stored user who is an administrator now and whose token has not been
  revoked, the answer is 401 or 403 and every table is as before, however the driver fails.\<close>

theorem api_admin_only:
  assumes "admin_route c"
  shows "let ((code, b), s') = run_state (registerAPIRoutes env rq c) s in
    (code \<in> {401, 403} \<and> same_tables (as_db s) (as_db s')) \<or>
    (\<exists>cl u. caller_of env rq (as_db s) cl u \<and> IsAdmin u)"
proof -
  from assms obtain nx where "registerAPIRoutes env rq c = requireAPIAdmin env rq nx"
    by (cases c) (simp_all add: admin_route_def)
  with requireAPIAdmin_run [of env rq nx s] show ?thesis
    by (auto split: prod.split)
qed

definition demo_env :: "arcLoreClaims \<Rightarrow> auth_env" where
  "demo_env c = \<lparr>env_lib = one_token_lib c, env_cfg = demo_cfg, env_kid = ''k'',
    env_idkey = toy_idkey, env_hmac = (\<lambda>k m. []), env_gate = newAdminGate None,
    env_split = (\<lambda>h. None)\<rparr>"

definition demo_request :: "string \<Rightarrow> request" where
  "demo_request auth = \<lparr>rq_remote = ''peer'', rq_auth = auth, rq_salt = Some [1, 2, 3],
    rq_clock = (\<lambda>n. 0)\<rparr>"

theorem api_admin_only_witness:
  "\<exists>code b s'. run_state (registerAPIRoutes (demo_env demo_claims) (demo_request ''Bearer token'')
      (DeleteUsers ''ann'')) (demo_server demo_db) = ((code, b), s') \<and> code \<in> {401, 403} \<and>
    same_tables demo_db (as_db s')"
proof -
  let ?env = "demo_env demo_claims" and ?rq = "demo_request ''Bearer token''"
  have b: "bearerToken ''Bearer token'' = ''token''" by code_simp
  have "verifyAuthnToken (one_token_lib demo_claims) demo_cfg 0 ''token'' = Inr demo_claims"
    by (simp add: verifyAuthnToken_def one_token_lib_def authn_acceptable demo_cfg_def
        demo_claims_def TrimSpace_def is_space_def)
  then have "\<not> IsAdmin u" if "caller_of ?env ?rq demo_db c u" for c u
    using that
    by (auto simp: caller_of_def demo_env_def demo_request_def b demo_claims_def demo_names demo_user_def)
  then show ?thesis
    using api_admin_only [of "DeleteUsers ''ann''" ?env ?rq "demo_server demo_db"]
    by (auto simp: admin_route_def split: prod.splits)
qed

section \<open>Logging in\<close>

lemma run_on_limiters [simp]:
  "run_state (on_loginRL m) s =
    (fst (run_state m (loginRL s)), s\<lparr>loginRL := snd (run_state m (loginRL s))\<rparr>)"
  "run_state (on_pwChangeRL m) s =
    (fst (run_state m (pwChangeRL s)), s\<lparr>pwChangeRL := snd (run_state m (pwChangeRL s))\<rparr>)"
  by (simp_all add: on_loginRL_def on_pwChangeRL_def)

lemma VerifyHash_Inr:
  assumes "fst (run_state (VerifyHash n) d) = Inr h"
  shows "\<exists>u. select_user (normalizeUsername n) d = Some u \<and> Argon2id u = h"
  using assms by (auto simp: VerifyHash_def Let_def split: if_splits option.splits)

lemma VerifyHash_same: "same_tables d (snd (run_state (VerifyHash n) d))"
  by (rule keepsD [OF unchanged.verify_hash]) simp

lemma credentials_ok_iff:
  "credentials_ok idkey r pw \<longleftrightarrow> (\<exists>h. r = Inr h \<and> VerifyPassword idkey h pw)"
  by (simp add: credentials_ok_def Let_def split: sum.split)

text \<open>What a minted token body says.\<close>

definition token_body_for :: "auth_env \<Rightarrow> user \<Rightarrow> db \<Rightarrow> api_token \<Rightarrow> bool" where
  "token_body_for env u d t \<longleftrightarrow> at_user_id t = Username u \<and> (at_is_admin t \<longrightarrow> IsAdmin u) \<and>
    (\<exists>c. jwt_sign (env_lib env) (env_kid env) c = Inr (at_token t) \<and> Subject c = Username u \<and>
      ClResources c = user_entries u d \<and> ClTokenVersion c = TokenVersion u \<and>
      ExpiresAt c = Some (at_expires_at t))"

lemma same_user_entries: "same_tables a b \<Longrightarrow> user_entries u b = user_entries u a"
  by (simp add: user_entries_def same_tablesD same_tables_select)

lemma users_ok_same: "same_tables a b \<Longrightarrow> users_ok b = users_ok a"
  by (simp add: users_ok_def same_tablesD)

lemma token_response_run:
  assumes "run_state (token_response env rq ok n dn) s = ((code, b), s')"
    and "jwt_exact (env_lib env)" and "users_ok (as_db s)" and "normalizeUsername n = n"
  shows "same_tables (as_db s) (as_db s')"
    and "code = 500 \<or> code = ok \<and> (\<exists>u t. b = TokenBody t \<and> select_user n (as_db s) = Some u \<and>
      token_body_for env u (as_db s) t)"
proof -
  show "same_tables (as_db s) (as_db s')"
    using keepsD [OF unchanged.api_token, of "as_db s" s env rq ok n dn] assms(1)
    by (simp add: on_tables_def)
  let ?name = "if dn = '''' then n else dn"
  let ?m = "MintFor (env_lib env) (env_cfg env) (env_kid env) (rq_clock rq 2) (rq_clock rq 3) n ?name"
  show "code = 500 \<or> code = ok \<and> (\<exists>u t. b = TokenBody t \<and> select_user n (as_db s) = Some u \<and>
      token_body_for env u (as_db s) t)"
  proof (cases "fst (run_state ?m (as_db s))")
    case (Inl e)
    with assms(1) show ?thesis
      by (simp add: token_response_def mintTokenResponse_def Let_def writeAPIError_def)
  next
    case (Inr r)
    obtain tok sec ms where r: "r = (tok, sec, ms)" by (cases r)
    obtain u c where u: "select_user n (as_db s) = Some u" and
      c: "jwt_sign (env_lib env) (env_kid env) c = Inr tok" "Subject c = n" "ExpiresAt c = Some sec"
        "ClResources c = user_entries u (as_db s)" "ClTokenVersion c = TokenVersion u"
      using MintFor_InrD [OF Inr [unfolded r] assms(3,2)] assms(4) by auto
    have "Username u = n" using select_user_Some [OF u] by simp
    moreover have "IsAdmin (user_or_zero (fst (run_state (GetUser n) d'))) \<longrightarrow> IsAdmin u"
      if "same_tables (as_db s) d'" for d'
    proof (cases "fst (run_state (GetUser n) d')")
      case (Inr v)
      from GetUser_Inr(1) [OF this] u same_tables_select(1) [OF that] assms(4) have "v = u" by simp
      with Inr show ?thesis by (simp add: user_or_zero_def)
    qed (simp add: user_or_zero_def zero_user_def)
    moreover have "same_tables (as_db s) (snd (run_state ?m (as_db s)))"
      by (rule keepsD [OF unchanged.mint_for]) simp
    ultimately have "code = ok \<and> (\<exists>t. b = TokenBody t \<and> at_token t = tok \<and> at_expires_at t = sec \<and>
        at_user_id t = n \<and> (at_is_admin t \<longrightarrow> IsAdmin u))"
      using assms(1) Inr
      by (auto simp: token_response_def mintTokenResponse_def Let_def writeJSON_def r)
    moreover note \<open>Username u = n\<close>
    ultimately show ?thesis using u c by (auto simp: token_body_for_def)
  qed
qed

lemma handleAPILogin_200:
  assumes "jwt_exact (env_lib env)" and "db_ok (as_db s)"
    and "run_state (handleAPILogin env rq b) s = ((code, body), s')" and "code = 200"
  shows "same_tables (as_db s) (as_db s') \<and>
    fst (run_state (allow (rq_clock rq 0) (clientIP (env_split env) (rq_remote rq))) (loginRL s)) \<and>
    (\<exists>req u t. b = Some req \<and> select_user (normalizeUsername (log_Username req)) (as_db s) = Some u \<and>
      length (log_Password req) \<le> 1024 \<and> VerifyPassword (env_idkey env) (Argon2id u) (log_Password req) \<and>
      body = TokenBody t \<and> token_body_for env u (as_db s) t)"
proof -
  let ?al = "allow (rq_clock rq 0) (clientIP (env_split env) (rq_remote rq))"
  let ?s1 = "snd (run_state (on_loginRL ?al) s)"
  note run = assms(3) [unfolded assms(4)]
  have al: "fst (run_state ?al (loginRL s))"
    using run by (auto simp: handleAPILogin_def writeAPIError_def split: if_splits)
  with run obtain req where b: "b = Some req"
    by (cases b) (auto simp: handleAPILogin_def writeAPIError_def decodeJSON_def)
  let ?n = "normalizeUsername (log_Username req)"
  let ?vh = "VerifyHash (log_Username req)"
  let ?d2 = "snd (run_state ?vh (as_db s))"
  from run al b have len: "length (log_Password req) \<le> 1024"
    by (auto simp: handleAPILogin_def writeAPIError_def decodeJSON_def split: if_splits)
  from run al b len have "credentials_ok (env_idkey env) (fst (run_state ?vh (as_db s))) (log_Password req)"
    by (auto simp: handleAPILogin_def writeAPIError_def decodeJSON_def not_less split: if_splits)
  then obtain h where h: "fst (run_state ?vh (as_db s)) = Inr h"
    "VerifyPassword (env_idkey env) h (log_Password req)"
    by (auto simp: credentials_ok_iff)
  obtain u where u: "select_user ?n (as_db s) = Some u" "Argon2id u = h"
    using VerifyHash_Inr [OF h(1)] by auto
  let ?g = "GetUser ?n"
  let ?s3 = "?s1\<lparr>as_db := snd (run_state ?g ?d2)\<rparr>"
  have same: "same_tables (as_db s) (as_db ?s3)"
    using same_tables_trans [OF VerifyHash_same GetUser_same] by simp
  have "run_state (token_response env rq 200 ?n (DisplayName (user_or_zero (fst (run_state ?g ?d2))))) ?s3 =
      ((200, body), s')"
    using run al b len h by (simp add: handleAPILogin_def decodeJSON_def credentials_ok_iff Let_def)
  note tok = token_response_run [OF this assms(1)]
  have "users_ok (as_db ?s3)"
    using users_ok_same [OF same] assms(2) by (simp add: db_ok_def)
  then obtain u' t where t: "body = TokenBody t" "select_user ?n (as_db ?s3) = Some u'"
    "token_body_for env u' (as_db ?s3) t"
    and s': "same_tables (as_db ?s3) (as_db s')"
    using tok by auto
  have "u' = u" using t(2) u(1) same_tables_select(1) [OF same] by simp
  with t same_user_entries [OF same] have "token_body_for env u (as_db s) t"
    by (simp add: token_body_for_def)
  with al b u h len t same_tables_trans [OF same s'] show ?thesis by auto
qed

text \<open>C11: \<open>handleAPILogin\<close> hands out a token only to a caller within the rate limit whose password,
  of at most 1024 bytes, the stored record of that user accepts; the token is signed, is for that
  user, carries the current grants and version of the user and the reported expiry, is called an
  administrator's only when the user is one; and a login changes no table.\<close>

theorem api_login_authentic:
  assumes "jwt_exact (env_lib env)" and "db_ok (as_db s)"
    and "run_state (handleAPILogin env rq b) s = ((code, body), s')" and "code = 200"
  shows "same_tables (as_db s) (as_db s') \<and>
    fst (run_state (allow (rq_clock rq 0) (clientIP (env_split env) (rq_remote rq))) (loginRL s)) \<and>
    (\<exists>req u t. b = Some req \<and> select_user (normalizeUsername (log_Username req)) (as_db s) = Some u \<and>
      length (log_Password req) \<le> 1024 \<and> VerifyPassword (env_idkey env) (Argon2id u) (log_Password req) \<and>
      body = TokenBody t \<and> token_body_for env u (as_db s) t)"
  by (rule handleAPILogin_200 [OF assms])

text \<open>The demonstration database in which \<open>bob\<close> has a given password record, and the claims of a
  login there.\<close>

definition login_db :: "string \<Rightarrow> db" where
  "login_db h = demo_db\<lparr>users := [demo_user ''ann'' True 0, (demo_user ''bob'' False 0)\<lparr>Argon2id := h\<rparr>]\<rparr>"

lemma login_db_simps [simp]:
  "calm (login_db h)" "db_ok (login_db h)" "users_ok (login_db h)"
  "select_user ''bob'' (login_db h) = Some ((demo_user ''bob'' False 0)\<lparr>Argon2id := h\<rparr>)"
proof -
  show "db_ok (login_db h)"
    by (rule db_ok_cong [OF demo_ok])
       (insert demo_users_ok, auto simp: login_db_def demo_db_def demo_user_def users_ok_def user_row_ok_def)
  then show "users_ok (login_db h)" by (simp add: db_ok_def)
qed (simp_all add: login_db_def demo_db_def calm_def select_user_def demo_user_def)

lemma login_entries [simp]:
  "user_entries ((demo_user ''bob'' False 0)\<lparr>Argon2id := h\<rparr>) (login_db h) =
    user_entries (demo_user ''bob'' False 0) demo_db"
  by (simp add: user_entries_def login_db_def demo_user_def select_grants_def)

lemma login_mint:
  "run_state (MintFor (one_token_lib demo_claims) demo_cfg ''k'' 0 0 ''bob'' ''bob'') (login_db h) =
    (Inr (''token'', 604800, 604800000), login_db h)"
proof -
  have ub: "Username ((demo_user ''bob'' False 0)\<lparr>Argon2id := h\<rparr>) = ''bob''"
    "TokenVersion ((demo_user ''bob'' False 0)\<lparr>Argon2id := h\<rparr>) = 0"
    by (simp_all add: demo_user_def)
  show ?thesis
    by (simp add: MintFor_def effectiveResources_calm GetUser_calm demo_names ub
        mintTokenWithResources_def demo_cfg_def ParseDuration_default unix_of_def one_token_lib_def
        demo_claims_def authzTokenExpiryUnix_def own_acceptable Let_def)
qed

lemma demo_limiter [simp]:
  "fst (run_state (allow 0 k) (loginRL (demo_server d)))"
  "fst (run_state (allow 0 k) (pwChangeRL (demo_server d)))"
  by (simp_all add: demo_server_def attachWeb_def newRateLimiter_def allow_def trimLocked_def
      refilled_def rlBurst_def rlRefillEvery_def)

lemma demo_env_simps [simp]:
  "env_lib (demo_env c) = one_token_lib c" "env_cfg (demo_env c) = demo_cfg"
  "env_kid (demo_env c) = ''k''" "env_idkey (demo_env c) = toy_idkey"
  "rq_clock (demo_request a) = (\<lambda>n. 0)" "rq_auth (demo_request a) = a"
  "rq_salt (demo_request a) = Some [1, 2, 3]"
  by (simp_all add: demo_env_def demo_request_def)

lemma toy_hash: "\<exists>h. HashPassword toy_idkey (Some [1, 2, 3]) pw = Inr h"
  by (simp add: HashPassword_def Let_def)

lemma toy_verify:
  assumes "HashPassword toy_idkey (Some [1, 2, 3]) pw = Inr h"
  shows "VerifyPassword toy_idkey h pw' \<longleftrightarrow> (pw = ''right'' \<longleftrightarrow> pw' = ''right'')"
proof -
  have "VerifyPassword toy_idkey h pw' \<longleftrightarrow>
      replicate 32 (if pw' = ''right'' then 1 else 2 :: byte) =
      replicate 32 (if pw = ''right'' then 1 else 2)"
    using VerifyPassword_HashPassword [OF assms]
    by (simp add: toy_idkey_def argon2idKeyLen_def)
  moreover have "replicate 32 (2 :: byte) \<noteq> replicate 32 1" by simp
  ultimately show ?thesis by auto
qed

theorem api_login_authentic_witness:
  "\<exists>h body s'. run_state (handleAPILogin (demo_env demo_claims) (demo_request '''')
      (Some \<lparr>log_Username = ''bob'', log_Password = ''right''\<rparr>)) (demo_server (login_db h)) =
     ((200, body), s') \<and> (\<exists>t. body = TokenBody t \<and> at_user_id t = ''bob'')"
proof -
  obtain h where h: "HashPassword toy_idkey (Some [1, 2, 3]) ''right'' = Inr h"
    using toy_hash by blast
  let ?b = "Some \<lparr>log_Username = ''bob'', log_Password = ''right''\<rparr>"
  let ?run = "run_state (handleAPILogin (demo_env demo_claims) (demo_request '''') ?b) (demo_server (login_db h))"
  have ub: "DisplayName ((demo_user ''bob'' False 0)\<lparr>Argon2id := h\<rparr>) = ''bob''"
    by (simp add: demo_user_def)
  have "fst (fst ?run) = 200"
    using toy_verify [OF h]
    by (simp add: handleAPILogin_def decodeJSON_def VerifyHash_def Let_def demo_names
        credentials_ok_iff GetUser_calm user_or_zero_def ub token_response_def
        mintTokenResponse_def login_mint writeJSON_def demo_user_def)
  then obtain body s' where run: "?run = ((200, body), s')" by (metis prod.collapse)
  then obtain t where t: "body = TokenBody t"
    "token_body_for (demo_env demo_claims) ((demo_user ''bob'' False 0)\<lparr>Argon2id := h\<rparr>) (login_db h) t"
    using api_login_authentic [OF _ _ run refl] by (auto simp: one_token_exact demo_names)
  then have "at_user_id t = ''bob''" by (simp add: token_body_for_def demo_user_def)
  with run t(1) show ?thesis by blast
qed

section \<open>The public endpoints\<close>

lemma token_response_abs:
  "abs_db (as_db (snd (run_state (token_response env rq ok n dn) s))) = abs_db (as_db s)"
  using keepsD [OF unchanged.api_token, of "as_db s" s env rq ok n dn]
  by (simp add: on_tables_def same_tables_select(3))

lemma register_answer_abs:
  "abs_db (as_db (snd (run_state (register_answer env rq n a) s))) = abs_db (as_db s)"
  by (simp add: register_answer_def token_response_abs writeAPIError_def split: sum.split)

lemma for_valid_normal:
  assumes "f (normalizeUsername n) = g (normalizeUsername n)"
  shows "for_valid (normalizeUsername n) f = for_valid n g"
proof (rule ext)
  fix a
  have "validateUsername n = Inr m \<Longrightarrow> m = normalizeUsername n" for m
    by (simp add: validateUsername_Inr)
  with assms show "for_valid (normalizeUsername n) f a = for_valid n g a"
    by (auto simp: for_valid_def validateUsername_norm split: sum.split)
qed

lemma refines_effect:
  assumes "refines m f"
  shows "abs_db (snd (run_state m d)) = abs_db d \<or> abs_db (snd (run_state m d)) = f (abs_db d)"
  using assms by (simp add: refines_def Let_def)

lemma RegistrationOpen_run:
  "abs_db (snd (run_state RegistrationOpen d)) = abs_db d"
  "fst (run_state RegistrationOpen d) = Inr True \<Longrightarrow>
    d_config (abs_db d) ''registration_open'' = Some ''true''"
  by (auto simp: RegistrationOpen_def GetConfig_def abs_db_def select_user_def select_config_def
      select_resource_def split: option.splits if_splits)

lemma handleAPIRegister_effect:
  assumes "run_state (handleAPIRegister env rq b) s = (resp, s')"
  shows "abs_db (as_db s') = abs_db (as_db s) \<or>
    (\<exists>req h. b = Some req \<and> d_config (abs_db (as_db s)) ''registration_open'' = Some ''true'' \<and>
      HashPassword (env_idkey env) (rq_salt rq) (reg_Password req) = Inr h \<and>
      validatePassword (reg_Password req) = None \<and>
      abs_db (as_db s') = for_valid (reg_Username req)
        (\<lambda>n. d_create (new_user n n h False (unix_of (rq_clock rq 1)) (unix_of (rq_clock rq 1))))
        (abs_db (as_db s)))"
proof -
  let ?al = "allow (rq_clock rq 0) (clientIP (env_split env) (rq_remote rq))"
  show ?thesis
  proof (cases "fst (run_state ?al (loginRL s))")
    case False
    with assms show ?thesis by (auto simp: handleAPIRegister_def writeAPIError_def)
  next
    case al: True
    show ?thesis
    proof (cases b)
      case None
      with al assms show ?thesis by (auto simp: handleAPIRegister_def writeAPIError_def decodeJSON_def)
    next
      case (Some req)
      let ?d1 = "snd (run_state RegistrationOpen (as_db s))"
      let ?n = "normalizeUsername (reg_Username req)"
      show ?thesis
      proof (cases "fst (run_state RegistrationOpen (as_db s)) = Inr True \<and> \<not> (length ?n < 3 \<or> length ?n > 32)
          \<and> validatePassword (reg_Password req) = None
          \<and> (\<exists>h. HashPassword (env_idkey env) (rq_salt rq) (reg_Password req) = Inr h)")
        case False
        with al Some assms RegistrationOpen_run(1) [of "as_db s"] show ?thesis
          by (auto simp: handleAPIRegister_def writeAPIError_def decodeJSON_def Let_def
              split: sum.splits if_splits option.splits)
      next
        case True
        then obtain h where h: "HashPassword (env_idkey env) (rq_salt rq) (reg_Password req) = Inr h" by auto
        let ?now = "unix_of (rq_clock rq 1)"
        let ?add = "AddUser ?now ?n ?n h False"
        have "abs_db (as_db s') = abs_db (snd (run_state ?add ?d1))"
          using True h al Some assms
          by (auto simp: handleAPIRegister_def decodeJSON_def Let_def register_answer_abs
              dest!: arg_cong [of _ _ "\<lambda>x. abs_db (as_db (snd x))"])
        moreover have "abs_db (snd (run_state ?add ?d1)) = abs_db ?d1 \<or>
            abs_db (snd (run_state ?add ?d1)) =
              for_valid ?n (\<lambda>m. d_create (new_user m ?n h False ?now ?now)) (abs_db ?d1)"
          by (rule refines_effect [OF refines_AddUser])
        moreover have "for_valid ?n (\<lambda>m. d_create (new_user m ?n h False ?now ?now)) =
            for_valid (reg_Username req) (\<lambda>m. d_create (new_user m m h False ?now ?now))"
          by (rule for_valid_normal) simp
        ultimately have "abs_db (as_db s') = abs_db (as_db s) \<or> abs_db (as_db s') =
            for_valid (reg_Username req) (\<lambda>m. d_create (new_user m m h False ?now ?now)) (abs_db (as_db s))"
          by (simp only: RegistrationOpen_run(1))
        moreover have "d_config (abs_db (as_db s)) ''registration_open'' = Some ''true''"
          using True by (blast intro: RegistrationOpen_run(2))
        ultimately show ?thesis using True h Some by blast
      qed
    qed
  qed
qed

lemma handleAPISetup_effect:
  assumes "run_state (handleAPISetup env rq b) s = (resp, s')"
  shows "abs_db (as_db s') = abs_db (as_db s) \<or>
    (\<exists>req h. b = Some req \<and> d_user (abs_db (as_db s)) = Map.empty \<and>
      HashPassword (env_idkey env) (rq_salt rq) (set_Password req) = Inr h \<and>
      validatePassword (set_Password req) = None \<and>
      abs_db (as_db s') = for_valid (set_Username req)
        (\<lambda>n. d_first_admin (new_user n (set_DisplayName req) h True (unix_of (rq_clock rq 1))
          (unix_of (rq_clock rq 1)))) (abs_db (as_db s)))"
proof -
  let ?al = "allow (rq_clock rq 0) (clientIP (env_split env) (rq_remote rq))"
  let ?now = "unix_of (rq_clock rq 1)"
  show ?thesis
  proof (cases "fst (run_state ?al (loginRL s)) \<and> (\<exists>req h. b = Some req \<and>
      validatePassword (set_Password req) = None \<and>
      HashPassword (env_idkey env) (rq_salt rq) (set_Password req) = Inr h)")
    case False
    with assms show ?thesis
      by (auto simp: handleAPISetup_def writeAPIError_def decodeJSON_def
          split: option.splits sum.splits if_splits)
  next
    case True
    then obtain req h where b: "b = Some req" and v: "validatePassword (set_Password req) = None"
      and h: "HashPassword (env_idkey env) (rq_salt rq) (set_Password req) = Inr h"
      and al: "fst (run_state ?al (loginRL s))" by auto
    let ?create = "CreateFirstAdmin ?now (set_Username req) (set_DisplayName req) h"
    obtain r d' where run: "run_state ?create (as_db s) = (r, d')" by fastforce
    have "abs_db (as_db s') = abs_db d'"
      using assms b v h al run
      by (cases r) (auto simp: handleAPISetup_def decodeJSON_def writeAPIError_def token_response_abs
          dest!: arg_cong [of _ _ "\<lambda>x. abs_db (as_db (snd x))"] split: if_splits)
    moreover from CreateFirstAdmin_outcome [OF run] have "abs_db d' = abs_db (as_db s) \<or>
        first_admin_done ?now (set_Username req) (set_DisplayName req) h (as_db s) d'" by auto
    moreover note first_admin_abs
    moreover have "d_user (abs_db (as_db s)) = Map.empty"
      if "first_admin_done ?now (set_Username req) (set_DisplayName req) h (as_db s) d'"
      using that by (simp add: first_admin_done_def users_empty_abs)
    ultimately show ?thesis using b v h by metis
  qed
qed

text \<open>C12: what a caller without an accepted token can change, on any endpoint, and what any caller can
  change on the four endpoints that ask for none, under any driver faults: nothing, or one of two
  things. \<open>/api/register\<close>, while registration is open, adds an account that did not exist, without
  the administrator flag, at version zero, with a hash of a valid password. \<open>/api/setup\<close>, while
  there is no user at all, adds the first administrator and closes registration. All the other endpoints,
  the change of one's own password among them, answer a caller without an accepted token 401.\<close>

theorem api_public_effect:
  assumes "(\<exists>cl u. caller_of env rq (as_db s) cl u) \<Longrightarrow> \<not> admin_route c \<and> (\<forall>b. c \<noteq> PostMePassword b)"
  shows "let ((code, body), s') = run_state (registerAPIRoutes env rq c) s;
      a = abs_db (as_db s); a' = abs_db (as_db s'); now = unix_of (rq_clock rq 1)
    in (admin_route c \<or> (\<exists>b. c = PostMePassword b) \<longrightarrow> code = 401 \<and> a' = a) \<and>
      (a' = a \<or>
      (\<exists>req h. c = PostRegister (Some req) \<and> d_config a ''registration_open'' = Some ''true'' \<and>
        HashPassword (env_idkey env) (rq_salt rq) (reg_Password req) = Inr h \<and>
        validatePassword (reg_Password req) = None \<and>
        a' = for_valid (reg_Username req) (\<lambda>n. d_create (new_user n n h False now now)) a) \<or>
      (\<exists>req h. c = PostSetup (Some req) \<and> d_user a = Map.empty \<and>
        HashPassword (env_idkey env) (rq_salt rq) (set_Password req) = Inr h \<and>
        validatePassword (set_Password req) = None \<and>
        a' = for_valid (set_Username req)
          (\<lambda>n. d_first_admin (new_user n (set_DisplayName req) h True now now)) a))"
proof -
  obtain code body s' where run: "run_state (registerAPIRoutes env rq c) s = ((code, body), s')"
    by (metis prod.collapse)
  have quiet: "abs_db (as_db s') = abs_db (as_db s)"
    if "keeps (on_tables (same_tables (as_db s))) (registerAPIRoutes env rq c)"
    using keepsD [OF that, of s] run by (simp add: on_tables_def same_tables_select(3))
  show ?thesis
  proof (cases "admin_route c \<or> (\<exists>b. c = PostMePassword b)")
    case True
    then obtain nx where "registerAPIRoutes env rq c = requireAPIAuth env rq nx"
      by (cases c) (auto simp: admin_route_def requireAPIAdmin_def)
    with requireAPIAuth_run [of env rq nx s] assms True run
    have "code = 401" "same_tables (as_db s) (as_db s')" by auto
    with True run show ?thesis by (simp add: Let_def same_tables_select(3))
  next
    case public: False
    then show ?thesis
    proof (cases c)
      case GetStatus
      with quiet unchanged.api_reads(1) public show ?thesis
        by (simp add: run [unfolded GetStatus, simplified] Let_def)
    next
      case (PostLogin b)
      with quiet unchanged.api_login public show ?thesis
        by (simp add: run [unfolded PostLogin, simplified] Let_def)
    next
      case (PostSetup b)
      with run handleAPISetup_effect [of env rq b s "(code, body)" s'] public show ?thesis
        by (auto simp: Let_def admin_route_def)
    next
      case (PostRegister b)
      with run handleAPIRegister_effect [of env rq b s "(code, body)" s'] public show ?thesis
        by (auto simp: Let_def admin_route_def)
    qed (auto simp: admin_route_def)
  qed
qed

definition open_db :: db where
  "open_db = demo_db\<lparr>config := [(''registration_open'', ''true'')]\<rparr>"

text \<open>Without a token: a registration that succeeds, and a change of a password that does not.\<close>

theorem api_public_effect_witness:
  "(\<exists>h. d_user (abs_db (as_db (snd (run_state (registerAPIRoutes (demo_env demo_claims) (demo_request '''')
      (PostRegister (Some \<lparr>reg_Username = ''eve'', reg_Password = ''a longer password''\<rparr>)))
      (demo_server open_db))))) ''eve'' = Some (new_user ''eve'' ''eve'' h False 0 0)) \<and>
   fst (fst (run_state (registerAPIRoutes (demo_env demo_claims) (demo_request '''')
      (PostMePassword (Some \<lparr>me_Current = ''right'', me_New = ''a longer password''\<rparr>)))
      (demo_server open_db))) = 401"
proof -
  let ?env = "demo_env demo_claims" and ?rq = "demo_request ''''" and ?s = "demo_server open_db"
  let ?reg = "PostRegister (Some \<lparr>reg_Username = ''eve'', reg_Password = ''a longer password''\<rparr>)"
  let ?me = "PostMePassword (Some \<lparr>me_Current = ''right'', me_New = ''a longer password''\<rparr>)"
  obtain h where h: "HashPassword toy_idkey (Some [1, 2, 3]) ''a longer password'' = Inr h"
    using toy_hash by blast
  have tok: "bearerToken '''' = ''''" by code_simp
  have none: "\<not> caller_of ?env ?rq d cl u" for d cl u
    by (simp add: caller_of_def tok)
  have norm: "normalizeUsername ''eve'' = ''eve''" "validateUsername ''eve'' = Inr ''eve''"
    by code_simp+
  have calm: "calm open_db" by (simp add: open_db_def demo_db_def calm_def)
  have reg: "run_state RegistrationOpen open_db = (Inr True, open_db)"
    by (simp add: RegistrationOpen_def GetConfig_def open_db_def demo_db_def select_config_def
        fault_of_def popped_def)
  have new: "d_user (abs_db open_db) ''eve'' = None"
    by (simp add: abs_db_def open_db_def demo_db_def select_user_def demo_user_def)
  have "abs_db (snd (run_state (AddUser 0 ''eve'' ''eve'' h False) open_db)) \<noteq> abs_db open_db"
  proof -
    have "abs_db (snd (run_state (AddUser 0 ''eve'' ''eve'' h False) open_db)) =
        spec_call (CallAddUser 0 ''eve'' ''eve'' h False) (abs_db open_db)"
      using store_map_run [OF calm, of "[CallAddUser 0 ''eve'' ''eve'' h False]"] by (simp add: ignore_def)
    then have "d_user (abs_db (snd (run_state (AddUser 0 ''eve'' ''eve'' h False) open_db))) ''eve'' \<noteq> None"
      by (simp add: for_valid_def norm d_create_def d_add_user_def new new_user_def)
    with new show ?thesis by metis
  qed
  then have "abs_db (as_db (snd (run_state (registerAPIRoutes ?env ?rq ?reg) ?s))) \<noteq> abs_db open_db"
    by (simp add: handleAPIRegister_def decodeJSON_def reg norm validatePassword_def h Let_def
        register_answer_abs unix_of_def)
  with api_public_effect [of ?env ?rq ?s ?reg] none obtain h' where
    "abs_db (as_db (snd (run_state (registerAPIRoutes ?env ?rq ?reg) ?s))) =
      for_valid ''eve'' (\<lambda>n. d_create (new_user n n h' False 0 0)) (abs_db open_db)"
    by (auto simp: Let_def admin_route_def unix_of_def split: prod.splits)
  then have "d_user (abs_db (as_db (snd (run_state (registerAPIRoutes ?env ?rq ?reg) ?s)))) ''eve'' =
      Some (new_user ''eve'' ''eve'' h' False 0 0)"
    by (simp add: for_valid_def norm d_create_def d_add_user_def new new_user_def)
  moreover have "fst (fst (run_state (registerAPIRoutes ?env ?rq ?me) ?s)) = 401"
    using api_public_effect [of ?env ?rq ?s ?me] none by (auto simp: Let_def split: prod.splits)
  ultimately show ?thesis by blast
qed

section \<open>Changing one's own password\<close>

lemma handleAPIMePassword_200:
  assumes "run_state (handleAPIMePassword env rq b c) s = ((200, body), s')"
  shows "\<exists>req h d0. b = Some req \<and> same_tables (as_db s) d0 \<and>
    (\<exists>u. select_user (normalizeUsername (Subject c)) (as_db s) = Some u \<and>
      VerifyPassword (env_idkey env) (Argon2id u) (me_Current req)) \<and>
    HashPassword (env_idkey env) (rq_salt rq) (me_New req) = Inr h \<and> me_New req \<noteq> me_Current req \<and>
    run_state (SetPassword (unix_of (rq_clock rq 2)) (Subject c) h) d0 = (Inr (), as_db s')"
proof -
  obtain req where b: "b = Some req"
    using assms by (cases b) (auto simp: handleAPIMePassword_def writeAPIError_def decodeJSON_def)
  let ?vh = "VerifyHash (Subject c)"
  let ?d0 = "snd (run_state ?vh (as_db s))"
  have "\<exists>h nh. fst (run_state ?vh (as_db s)) = Inr h \<and>
      VerifyPassword (env_idkey env) h (me_Current req) \<and>
      HashPassword (env_idkey env) (rq_salt rq) (me_New req) = Inr nh \<and> me_New req \<noteq> me_Current req \<and>
      run_state (SetPassword (unix_of (rq_clock rq 2)) (Subject c) nh) ?d0 = (Inr (), as_db s')"
    using assms unfolding b
    by (auto simp: handleAPIMePassword_def writeAPIError_def writeJSON_def decodeJSON_def prod_eq_iff
        split: if_splits option.splits sum.splits)
  with b VerifyHash_same [of "as_db s" "Subject c"] VerifyHash_Inr [of "Subject c" "as_db s"]
  show ?thesis by blast
qed

text \<open>C13: a change of one's own password demands the current one, and revokes the caller's own token
  with every other: once it is answered 200, the bearer token that authorised it is refused at any
  time. (The comment of the handler says the current session stays valid.)\<close>

theorem api_own_password_change:
  assumes "jwt_fixed (env_lib env)"
    and "run_state (registerAPIRoutes env rq (PostMePassword b)) s = ((200, body), s')"
  shows "\<exists>c u req. caller_of env rq (as_db s) c u \<and> b = Some req \<and>
    VerifyPassword (env_idkey env) (Argon2id u) (me_Current req) \<and> me_New req \<noteq> me_Current req \<and>
    (\<forall>t. \<exists>e. fst (run_state (VerifyAuthn (env_lib env) (env_cfg env) t (bearerToken (rq_auth rq)))
       (as_db s')) = Inl (Unauthenticated, e))"
proof -
  obtain c u s1 where c: "caller_of env rq (as_db s) c u" "same_tables (as_db s) (as_db s1)"
    and run: "run_state (handleAPIMePassword env rq b c) s1 = ((200, body), s')"
    using requireAPIAuth_run [of env rq "handleAPIMePassword env rq b" s] assms(2) by auto
  let ?n = "normalizeUsername (Subject c)"
  obtain req h d0 w where ch: "b = Some req" "same_tables (as_db s1) d0"
    "select_user ?n (as_db s1) = Some w" "VerifyPassword (env_idkey env) (Argon2id w) (me_Current req)"
    "me_New req \<noteq> me_Current req"
    and set: "run_state (SetPassword (unix_of (rq_clock rq 2)) (Subject c) h) d0 = (Inr (), as_db s')"
    using handleAPIMePassword_200 [OF run] by blast
  have same: "same_tables (as_db s) d0" by (rule same_tables_trans [OF c(2) ch(2)])
  have w: "w = u" and u: "select_user ?n d0 = Some u" "TokenVersion u = ClTokenVersion c"
    using c(1) ch(3) same_tables_select(1) [OF c(2)] same_tables_select(1) [OF same]
    by (auto simp: caller_of_def)
  from change_bumps_version [OF disjI1 [OF set]] u
  have "version_of ?n (abs_db (as_db s')) \<noteq> Some (ClTokenVersion c)"
    by (auto simp: version_of_def abs_db_def)
  with moved_version_refused [OF assms(1)] c(1) have
    "\<forall>t. \<exists>e. fst (run_state (VerifyAuthn (env_lib env) (env_cfg env) t (bearerToken (rq_auth rq)))
       (as_db s')) = Inl (Unauthenticated, e)"
    unfolding caller_of_def by blast
  with c(1) ch w show ?thesis by blast
qed

theorem api_own_password_change_witness:
  "\<exists>h body s'. run_state (registerAPIRoutes (demo_env demo_claims) (demo_request ''Bearer token'')
      (PostMePassword (Some \<lparr>me_Current = ''right'', me_New = ''a longer password''\<rparr>)))
      (demo_server (login_db h)) = ((200, body), s') \<and>
    (\<exists>e. fst (run_state (VerifyAuthn (one_token_lib demo_claims) demo_cfg 1 ''token'') (as_db s')) =
       Inl (Unauthenticated, e))"
proof -
  obtain h where h: "HashPassword toy_idkey (Some [1, 2, 3]) ''right'' = Inr h"
    using toy_hash by blast
  obtain h2 where h2: "HashPassword toy_idkey (Some [1, 2, 3]) ''a longer password'' = Inr h2"
    using toy_hash by blast
  let ?env = "demo_env demo_claims" and ?rq = "demo_request ''Bearer token''"
  let ?b = "Some \<lparr>me_Current = ''right'', me_New = ''a longer password''\<rparr>"
  let ?run = "run_state (registerAPIRoutes ?env ?rq (PostMePassword ?b)) (demo_server (login_db h))"
  have tok: "bearerToken ''Bearer token'' = ''token''" by code_simp
  have ver: "verifyAuthnToken (one_token_lib demo_claims) demo_cfg 0 ''token'' = Inr demo_claims"
    by (simp add: verifyAuthnToken_def one_token_lib_def authn_acceptable demo_cfg_def
        demo_claims_def TrimSpace_def is_space_def)
  have subj: "Subject demo_claims = ''bob''" "ClTokenVersion demo_claims = 0"
    by (simp_all add: demo_claims_def)
  have val: "validateUsername ''bob'' = Inr ''bob''" by (simp add: validateUsername_Inr demo_names)
  have auth: "run_state (VerifyAuthn (one_token_lib demo_claims) demo_cfg 0 ''token'') (login_db h) =
      (Inr demo_claims, login_db h)"
    by (simp add: VerifyAuthn_calm ver subj demo_names) (simp add: demo_user_def)
  have "fst (run_state (SetPassword 0 ''bob'' h2) (login_db h)) = Inr ()"
    by (simp add: SetPassword_def val update_user_def run_need_row login_db_def demo_db_def
        demo_user_def fault_of_def popped_def)
  then have "fst (fst ?run) = 200"
    using toy_verify [OF h] h2
    by (simp add: requireAPIAuth_def tok auth handleAPIMePassword_def decodeJSON_def subj
        VerifyHash_def demo_names validatePassword_def unix_of_def writeJSON_def Let_def)
  then obtain body s' where run: "?run = ((200, body), s')" by (metis prod.collapse)
  have "\<forall>t. \<exists>e. fst (run_state (VerifyAuthn (one_token_lib demo_claims) demo_cfg t ''token'') (as_db s')) =
      Inl (Unauthenticated, e)"
    using api_own_password_change [OF _ run] by (auto simp: one_token_fixed tok)
  with run show ?thesis by blast
qed

section \<open>Grants through the API\<close>

lemma AddGrant_Inr_abs:
  assumes "run_state (AddGrant n i p) d = (Inr (), d')" and "TrimSpace p \<in> set grant_permissions"
  shows "abs_db d' = (abs_db d)\<lparr>d_grants :=
    insert (normalizeUsername n, TrimSpace i, TrimSpace p) (d_grants (abs_db d))\<rparr>"
proof -
  let ?g = "\<lparr>GUser = normalizeUsername n, GResource = TrimSpace i, GPermission = TrimSpace p\<rparr>"
  from assms have ins: "insert_grant ?g (popped d) = Inr (d', ())"
    by (auto simp: AddGrant_def Let_def split: if_splits option.splits sum.splits)
  show ?thesis using insert_grant_abs [OF ins] assms(2) by (simp add: grant_triple_def)
qed

text \<open>\<open>POST /api/grants\<close> answers 201 only for an existing user, a registered resource and a
  permission of the list, and then the grant is stored and nothing else has changed.\<close>

theorem api_grant_add:
  assumes "run_state (handleAPIGrantAdd b) s = ((201, body), s')"
  shows "\<exists>req u r. b = Some req \<and>
    select_user (normalizeUsername (gr_Username req)) (as_db s) = Some u \<and>
    select_resource (TrimSpace (gr_ResourceID req)) (as_db s) = Some r \<and>
    TrimSpace (gr_Permission req) \<in> set validPermissions \<and>
    abs_db (as_db s') = (abs_db (as_db s))\<lparr>d_grants := insert (normalizeUsername (gr_Username req),
      TrimSpace (gr_ResourceID req), TrimSpace (gr_Permission req)) (d_grants (abs_db (as_db s)))\<rparr>"
proof -
  obtain req where b: "b = Some req"
    using assms by (cases b) (auto simp: handleAPIGrantAdd_def writeAPIError_def decodeJSON_def)
  let ?g = "GetUser (gr_Username req)"
  let ?d1 = "snd (run_state ?g (as_db s))"
  let ?d2 = "snd (run_state ListResources ?d1)"
  let ?add = "AddGrant (gr_Username req) (gr_ResourceID req) (gr_Permission req)"
  have perm: "TrimSpace (gr_Permission req) \<in> set validPermissions"
    using assms b by (auto simp: handleAPIGrantAdd_def writeAPIError_def decodeJSON_def
        isValidPermission_def split: if_splits)
  obtain u where g: "fst (run_state ?g (as_db s)) = Inr u"
    using assms b by (auto simp: handleAPIGrantAdd_def writeAPIError_def decodeJSON_def
        split: if_splits sum.splits)
  obtain rs where rs: "fst (run_state ListResources ?d1) = Inr rs"
    using assms b g by (auto simp: handleAPIGrantAdd_def writeAPIError_def decodeJSON_def
        split: if_splits sum.splits)
  have mem: "TrimSpace (gr_ResourceID req) \<in> ResourceID ` set rs"
    using assms b g rs by (auto simp: handleAPIGrantAdd_def writeAPIError_def decodeJSON_def Let_def
        split: if_splits sum.splits)
  have add: "run_state ?add ?d2 = (Inr (), as_db s')"
    using assms b g rs mem by (auto simp: handleAPIGrantAdd_def writeAPIError_def decodeJSON_def
        writeJSON_def Let_def prod_eq_iff split: if_splits sum.splits)
  have s1: "same_tables (as_db s) ?d1" by (rule GetUser_same)
  have s2: "same_tables (as_db s) ?d2"
    using same_tables_trans [OF s1 keepsD [OF unchanged.list_resources same_tables_refl]] .
  have u: "select_user (normalizeUsername (gr_Username req)) (as_db s) = Some u"
    by (rule GetUser_Inr(1) [OF g])
  have "TrimSpace (gr_ResourceID req) \<in> ResourceID ` set (resources (as_db s))"
    using mem run_ListResources_Inr [OF rs] same_tablesD(2) [OF s1] by simp
  then obtain r where r: "select_resource (TrimSpace (gr_ResourceID req)) (as_db s) = Some r"
    using select_resource_None [of "TrimSpace (gr_ResourceID req)" "as_db s"] by (cases "select_resource (TrimSpace (gr_ResourceID req)) (as_db s)") auto
  have "validPermissions = grant_permissions"
    by (simp add: validPermissions_def grant_permissions_def)
  with AddGrant_Inr_abs [OF add] perm same_tables_select(3) [OF s2] b u r show ?thesis by auto
qed

theorem api_grant_add_witness:
  "\<exists>body s'. run_state (handleAPIGrantAdd (Some \<lparr>gr_Username = ''bob'', gr_ResourceID = ''urc-1'',
      gr_Permission = ''write''\<rparr>)) (demo_server demo_db) = ((201, body), s') \<and>
    (''bob'', ''urc-1'', ''write'') \<in> d_grants (abs_db (as_db s'))"
proof -
  let ?b = "Some \<lparr>gr_Username = ''bob'', gr_ResourceID = ''urc-1'', gr_Permission = ''write''\<rparr>"
  let ?run = "run_state (handleAPIGrantAdd ?b) (demo_server demo_db)"
  have t: "TrimSpace ''urc-1'' = ''urc-1''" "TrimSpace ''write'' = ''write''" by code_simp+
  have "ResourceID ` set (resources demo_db) = {''urc-1''}" by (simp add: demo_db_def)
  moreover have "fst (run_state (AddGrant ''bob'' ''urc-1'' ''write'') demo_db) = Inr ()"
    by (simp add: AddGrant_def t demo_names insert_grant_def Let_def)
       (simp add: demo_db_def demo_user_def grant_permissions_def)
  ultimately have "fst (fst ?run) = 201"
    by (simp add: handleAPIGrantAdd_def decodeJSON_def isValidPermission_def t validPermissions_def
        GetUser_calm demo_names ListResources_def writeJSON_def Let_def)
  then obtain body s' where run: "?run = ((201, body), s')" by (metis prod.collapse)
  from api_grant_add [OF this] have "(''bob'', ''urc-1'', ''write'') \<in> d_grants (abs_db (as_db s'))"
    by (auto simp: t demo_names)
  with run show ?thesis by blast
qed

end
