(* ===== verification/Web.thy ===== *)
theory Web
  imports Api
begin

text \<open>
  The browser pages of \<open>src/arc-lore-auth/web.go\<close>: the interactive login that completes a
  session, and the user administration behind the shared secret. A request carries the form as it
  parses (\<open>None\<close> where \<open>ParseForm\<close> fails; an absent field reads as the empty string), its two
  cookies, the randomness it may use and the clock. A response is a status, a page and the cookies
  it sets; a page is what its template is given, without the constant text.
\<close>

section \<open>Requests and pages\<close>

datatype http_method = MethodGet | MethodPost | MethodOther

record web_request =
  wr_method :: http_method
  wr_remote :: string
  wr_session :: string
  wr_form :: "(string \<Rightarrow> string) option"
  wr_csrf :: "string option"
  wr_admin :: "string option"
  wr_rnd :: "byte list option"
  wr_salt :: "byte list option"
  wr_clock :: "nat \<Rightarrow> int"

record adminUserRow =
  row_Username :: string
  row_DisplayName :: string
  row_CreatedStr :: string
  row_UpdatedStr :: string

datatype page =
    HttpError string
  | LoginPage string string string
  | LoginDone string
  | LoginBad
  | AdminDisabled
  | AdminUnlock string string
  | AdminPage string "adminUserRow list" string string
  | SeeOther string

record web_response =
  ws_status :: nat
  ws_page :: page
  ws_csrf :: "string option"
  ws_admin :: "string option"

type_synonym web_handler = "(auth_server, web_response) state"

definition http_error :: "string \<Rightarrow> nat \<Rightarrow> web_response" where
  "http_error msg code = \<lparr>ws_status = code, ws_page = HttpError msg, ws_csrf = None, ws_admin = None\<rparr>"

definition too_many_requests :: string where
  "too_many_requests = ''too many requests '' @ em_dash @ '' slow down''"

definition renderHTML :: "nat \<Rightarrow> page \<Rightarrow> string option \<Rightarrow> web_response" where
  "renderHTML status pg setCsrf = \<lparr>ws_status = status, ws_page = pg, ws_csrf = setCsrf, ws_admin = None\<rparr>"

section \<open>The table of users\<close>

text \<open>\<open>time.Unix(sec, 0).UTC().Format("2006-01-02 15:04 UTC")\<close>: the civil date of a day number
  counted from 1970-01-01, and zero-padded decimals.\<close>

definition civil_of_days :: "int \<Rightarrow> int \<times> int \<times> int" where
  "civil_of_days n =
    (let z = n + 719468;
         era = z div 146097; doe = z mod 146097;
         yoe = (doe - doe div 1460 + doe div 36524 - doe div 146096) div 365;
         doy = doe - (365 * yoe + yoe div 4 - yoe div 100);
         mp = (5 * doy + 2) div 153;
         d = doy - (153 * mp + 2) div 5 + 1;
         m = (if mp < 10 then mp + 3 else mp - 9);
         y = yoe + era * 400 + (if m \<le> 2 then 1 else 0)
     in (y, m, d))"

definition pad_int :: "nat \<Rightarrow> int \<Rightarrow> string" where
  "pad_int w n = (let ds = dec_nat (nat \<bar>n\<bar>)
     in (if n < 0 then ''-'' else '''') @ replicate (w - length ds) CHR ''0'' @ ds)"

definition unixToStr :: "int \<Rightarrow> string" where
  "unixToStr sec =
    (if sec = 0 then ''''
     else let (y, m, d) = civil_of_days (sec div 86400); rest = sec mod 86400
       in pad_int 4 y @ ''-'' @ pad_int 2 m @ ''-'' @ pad_int 2 d @ '' '' @
          pad_int 2 (rest div 3600) @ '':'' @ pad_int 2 (rest mod 3600 div 60) @ '' UTC'')"

definition toAdminRows :: "user list \<Rightarrow> adminUserRow list" where
  "toAdminRows us = map (\<lambda>u. \<lparr>row_Username = Username u, row_DisplayName = DisplayName u,
     row_CreatedStr = unixToStr (Created u), row_UpdatedStr = unixToStr (Updated u)\<rparr>) us"

section \<open>/login\<close>

definition renderLoginBad :: web_response where
  "renderLoginBad = renderHTML 200 LoginBad None"

definition renderLoginError :: "web_request \<Rightarrow> string \<Rightarrow> web_response" where
  "renderLoginError r code = (let (csrf, setc) = csrfToken (wr_csrf r) (wr_rnd r)
     in renderHTML 401 (LoginPage code csrf ''Invalid username or password.'') setc)"

definition pending :: "authSession option \<Rightarrow> bool" where
  "pending g = (case g of None \<Rightarrow> False | Some sess \<Rightarrow> ses_status sess = sessionPending)"

definition handleLoginGet :: "web_request \<Rightarrow> web_handler" where
  "handleLoginGet r = do {
     let code = TrimSpace (wr_session r);
     g \<leftarrow> on_sessions (Get (wr_clock r 0) code);
     State_Monad.return
       (if \<not> pending g then renderLoginBad
        else let (csrf, setc) = csrfToken (wr_csrf r) (wr_rnd r)
          in renderHTML 200 (LoginPage code csrf '''') setc) }"

definition handleLoginPost :: "auth_env \<Rightarrow> web_request \<Rightarrow> web_handler" where
  "handleLoginPost env r = do {
     ok \<leftarrow> on_loginRL (allow (wr_clock r 0) (clientIP (env_split env) (wr_remote r)));
     if \<not> ok then State_Monad.return (http_error too_many_requests 429)
     else case wr_form r of
       None \<Rightarrow> State_Monad.return (http_error ''bad form'' 400)
     | Some form \<Rightarrow> do {
         let code = TrimSpace (form ''session'');
         let username = form ''username'';
         let password = form ''password'';
         g \<leftarrow> on_sessions (Get (wr_clock r 1) code);
         if \<not> pending g then State_Monad.return renderLoginBad
         else do {
           let csrfOK = checkCSRF (wr_csrf r) (form ''csrf'');
           h \<leftarrow> on_db (VerifyHash username);
           let credsOK = credentials_ok (env_idkey env) h password;
           if \<not> csrfOK \<or> \<not> credsOK then State_Monad.return (renderLoginError r code)
           else do {
             let uname = normalizeUsername username;
             m \<leftarrow> on_db (MintFor (env_lib env) (env_cfg env) (env_kid env)
               (wr_clock r 2) (wr_clock r 3) uname uname);
             case m of
               Inl _ \<Rightarrow> State_Monad.return (http_error ''internal error minting token'' 500)
             | Inr (token, _, expMs) \<Rightarrow> do {
                 c \<leftarrow> on_sessions (Complete (wr_clock r 4) code uname token expMs);
                 State_Monad.return (case c of
                     Inl _ \<Rightarrow> renderLoginBad
                   | Inr _ \<Rightarrow> renderHTML 200 (LoginDone uname) None) } } } } }"

definition handleLogin :: "auth_env \<Rightarrow> web_request \<Rightarrow> web_handler" where
  "handleLogin env r = (case wr_method r of
      MethodGet \<Rightarrow> handleLoginGet r
    | MethodPost \<Rightarrow> handleLoginPost env r
    | MethodOther \<Rightarrow> State_Monad.return (http_error ''method not allowed'' 405))"

section \<open>/admin\<close>

definition adminDisabled :: web_response where
  "adminDisabled = renderHTML 503 AdminDisabled None"

definition renderAdminUnlock :: "web_request \<Rightarrow> string \<Rightarrow> web_response" where
  "renderAdminUnlock r errMsg = (let (csrf, setc) = csrfToken (wr_csrf r) (wr_rnd r);
       status = (if errMsg \<noteq> '''' then 401 else 200)
     in renderHTML status (AdminUnlock csrf errMsg) setc)"

text \<open>\<open>None\<close> lets the caller proceed, \<open>Some\<close> is the page already written.\<close>

definition requireAdmin :: "auth_env \<Rightarrow> web_request \<Rightarrow> web_response option" where
  "requireAdmin env r =
    (if cfg_AdminSecret (env_cfg env) = '''' then Some adminDisabled
     else if \<not> adminUnlocked (env_hmac env) (env_gate env) (wr_admin r) (wr_clock r 0)
     then Some (renderAdminUnlock r '''')
     else None)"

definition renderAdmin :: "web_request \<Rightarrow> string \<Rightarrow> string \<Rightarrow> web_handler" where
  "renderAdmin r okMsg errMsg = do {
     let (csrf, setc) = csrfToken (wr_csrf r) (wr_rnd r);
     l \<leftarrow> on_db ListUsers;
     let (us, errMsg) = (case l of
         Inl e \<Rightarrow> ([], if errMsg = '''' then ''Could not load users: '' @ err_text e else errMsg)
       | Inr us \<Rightarrow> (us, errMsg));
     State_Monad.return (renderHTML (if errMsg \<noteq> '''' then 400 else 200)
       (AdminPage csrf (toAdminRows us) okMsg errMsg) setc) }"

definition handleAdmin :: "auth_env \<Rightarrow> web_request \<Rightarrow> web_handler" where
  "handleAdmin env r =
    (if wr_method r \<noteq> MethodGet then State_Monad.return (http_error ''method not allowed'' 405)
     else case requireAdmin env r of
       Some resp \<Rightarrow> State_Monad.return resp
     | None \<Rightarrow> renderAdmin r '''' '''')"

text \<open>The two forms of the admin secret: a password record, or the plain secret.\<close>

definition secret_ok :: "argon2_idkey \<Rightarrow> string \<Rightarrow> string \<Rightarrow> bool" where
  "secret_ok idkey secret provided =
    (if HasPrefix secret ''$argon2id$'' then VerifyPassword idkey secret provided
     else provided = secret)"

definition handleAdminUnlock :: "auth_env \<Rightarrow> web_request \<Rightarrow> web_handler" where
  "handleAdminUnlock env r =
    (let secret = cfg_AdminSecret (env_cfg env) in
     if wr_method r \<noteq> MethodPost then State_Monad.return (http_error ''method not allowed'' 405)
     else if secret = '''' then State_Monad.return adminDisabled
     else do {
       ok \<leftarrow> on_adminRL (allow (wr_clock r 0) (clientIP (env_split env) (wr_remote r)));
       if \<not> ok then State_Monad.return (http_error too_many_requests 429)
       else State_Monad.return (case wr_form r of
           None \<Rightarrow> http_error ''bad form'' 400
         | Some form \<Rightarrow>
             if \<not> checkCSRF (wr_csrf r) (form ''csrf'')
             then renderAdminUnlock r (''Session expired '' @ em_dash @ '' try again.'')
             else if \<not> secret_ok (env_idkey env) secret (form ''secret'')
             then renderAdminUnlock r ''Incorrect admin secret.''
             else \<lparr>ws_status = 303, ws_page = SeeOther ''/admin'', ws_csrf = None,
               ws_admin = Some (issue (env_hmac env) (env_gate env) (wr_clock r 1))\<rparr>) })"

text \<open>The preamble of the three mutating posts: the form to act on, or the response.\<close>

definition adminMutationGuard ::
  "auth_env \<Rightarrow> web_request \<Rightarrow> (auth_server, web_response + (string \<Rightarrow> string)) state" where
  "adminMutationGuard env r =
    (if wr_method r \<noteq> MethodPost
     then State_Monad.return (Inl (http_error ''method not allowed'' 405))
     else case requireAdmin env r of
       Some resp \<Rightarrow> State_Monad.return (Inl resp)
     | None \<Rightarrow> do {
         ok \<leftarrow> on_adminRL (allow (wr_clock r 1) (clientIP (env_split env) (wr_remote r)));
         if \<not> ok then State_Monad.return (Inl (http_error too_many_requests 429))
         else case wr_form r of
           None \<Rightarrow> State_Monad.return (Inl (http_error ''bad form'' 400))
         | Some form \<Rightarrow>
             if \<not> checkCSRF (wr_csrf r) (form ''csrf'') then do {
               resp \<leftarrow> renderAdmin r '''' 
                 (''Session expired '' @ em_dash @ '' reload /admin and try again.'');
               State_Monad.return (Inl resp) }
             else State_Monad.return (Inr form) })"

definition adminErrMsg :: "string \<Rightarrow> store_err \<Rightarrow> string" where
  "adminErrMsg action e =
    (if is_user_exists e then ''Cannot '' @ action @ '': user already exists.''
     else if is_not_found e then ''Cannot '' @ action @ '': user not found.''
     else ''Cannot '' @ action @ '': '' @ err_text e)"

text \<open>What each of the three posts does once the guard lets its form through.\<close>

definition create_body :: "auth_env \<Rightarrow> web_request \<Rightarrow> (string \<Rightarrow> string) \<Rightarrow> web_handler" where
  "create_body env r form =
    (let username = form ''username''; displayName = form ''display_name'';
         password = form ''password''
     in case validatePassword (TrimSpace password) of
       Some e \<Rightarrow> renderAdmin r '''' e
     | None \<Rightarrow> (case HashPassword (env_idkey env) (wr_salt r) password of
         Inl m \<Rightarrow> renderAdmin r '''' (''Cannot create user: '' @ m)
       | Inr hash \<Rightarrow> do {
           a \<leftarrow> on_db (AddUser (unix_of (wr_clock r 2)) username displayName hash False);
           case a of
             Inl e \<Rightarrow> renderAdmin r '''' (adminErrMsg ''create user'' e)
           | Inr _ \<Rightarrow> renderAdmin r (''Created user '' @ normalizeUsername username @ ''.'') '''' }))"

definition handleAdminUserCreate :: "auth_env \<Rightarrow> web_request \<Rightarrow> web_handler" where
  "handleAdminUserCreate env r = do {
     gd \<leftarrow> adminMutationGuard env r;
     case gd of
       Inl resp \<Rightarrow> State_Monad.return resp
     | Inr form \<Rightarrow> create_body env r form }"

definition set_password_body :: "auth_env \<Rightarrow> web_request \<Rightarrow> (string \<Rightarrow> string) \<Rightarrow> web_handler" where
  "set_password_body env r form =
    (let username = form ''username''; password = form ''password''
     in case validatePassword (TrimSpace password) of
       Some e \<Rightarrow> renderAdmin r '''' e
     | None \<Rightarrow> (case HashPassword (env_idkey env) (wr_salt r) password of
         Inl m \<Rightarrow> renderAdmin r '''' (''Cannot set password: '' @ m)
       | Inr hash \<Rightarrow> do {
           a \<leftarrow> on_db (SetPassword (unix_of (wr_clock r 2)) username hash);
           case a of
             Inl e \<Rightarrow> renderAdmin r '''' (adminErrMsg ''set password'' e)
           | Inr _ \<Rightarrow> renderAdmin r (''Updated password for '' @ normalizeUsername username @ ''.'')
               '''' }))"

definition handleAdminUserSetPassword :: "auth_env \<Rightarrow> web_request \<Rightarrow> web_handler" where
  "handleAdminUserSetPassword env r = do {
     gd \<leftarrow> adminMutationGuard env r;
     case gd of
       Inl resp \<Rightarrow> State_Monad.return resp
     | Inr form \<Rightarrow> set_password_body env r form }"

text \<open>The guard of the last administrator, with the message of a refusal.\<close>

definition web_last_admin_guard :: "string \<Rightarrow> (auth_server, string option) state" where
  "web_last_admin_guard username = do {
     g \<leftarrow> on_db (GetUser username);
     case g of
       Inl e \<Rightarrow> State_Monad.return (Some (adminErrMsg ''delete user''
         (if is_not_found e then ErrUserNotFound None else e)))
     | Inr u \<Rightarrow>
         if IsAdmin u then do {
           c \<leftarrow> on_db CountAdmins;
           State_Monad.return (case c of
               Inl e \<Rightarrow> Some (adminErrMsg ''delete user'' e)
             | Inr n \<Rightarrow> if n \<le> 1 then Some ''Cannot delete user: cannot delete the last admin.''
                 else None) }
         else State_Monad.return None }"

definition delete_body :: "web_request \<Rightarrow> (string \<Rightarrow> string) \<Rightarrow> web_handler" where
  "delete_body r form =  do {
         let username = form ''username'';
         refusal \<leftarrow> web_last_admin_guard username;
         case refusal of
           Some msg \<Rightarrow> renderAdmin r '''' msg
         | None \<Rightarrow> do {
             d \<leftarrow> on_db (DeleteUser username);
             case d of
               Inl e \<Rightarrow> renderAdmin r '''' (adminErrMsg ''delete user'' e)
             | Inr _ \<Rightarrow> renderAdmin r (''Deleted user '' @ normalizeUsername username @ ''.'') '''' } }"

definition handleAdminUserDelete :: "auth_env \<Rightarrow> web_request \<Rightarrow> web_handler" where
  "handleAdminUserDelete env r = do {
     gd \<leftarrow> adminMutationGuard env r;
     case gd of
       Inl resp \<Rightarrow> State_Monad.return resp
     | Inr form \<Rightarrow> delete_body r form }"

datatype web_call = WebLogin | WebAdmin | WebUnlock | WebUserCreate | WebUserSetPassword | WebUserDelete

fun web_serve :: "auth_env \<Rightarrow> web_request \<Rightarrow> web_call \<Rightarrow> web_handler" where
  "web_serve env r WebLogin = handleLogin env r"
| "web_serve env r WebAdmin = handleAdmin env r"
| "web_serve env r WebUnlock = handleAdminUnlock env r"
| "web_serve env r WebUserCreate = handleAdminUserCreate env r"
| "web_serve env r WebUserSetPassword = handleAdminUserSetPassword env r"
| "web_serve env r WebUserDelete = handleAdminUserDelete env r"

section \<open>What the pages keep\<close>

context read_inv
begin

lemma web_render [keeps_rules]: "keeps (on_tables P) (renderAdmin r a b)"
  unfolding renderAdmin_def Let_def by (auto intro!: keeps_rules)

lemma web_login [keeps_rules]: "keeps (on_tables P) (handleLogin env r)"
  unfolding handleLogin_def handleLoginGet_def handleLoginPost_def Let_def
  by (cases "wr_method r") (auto intro!: keeps_rules)

lemma web_admin [keeps_rules]: "keeps (on_tables P) (handleAdmin env r)"
  unfolding handleAdmin_def by (intro keeps_rules)

lemma web_unlock [keeps_rules]: "keeps (on_tables P) (handleAdminUnlock env r)"
  unfolding handleAdminUnlock_def Let_def by (intro keeps_rules)

lemma web_guard [keeps_rules]: "keeps (on_tables P) (adminMutationGuard env r)"
  unfolding adminMutationGuard_def by (intro keeps_rules)

lemma web_delete_guard [keeps_rules]: "keeps (on_tables P) (web_last_admin_guard n)"
  unfolding web_last_admin_guard_def by (intro keeps_rules)

end

context grow_inv
begin

lemma web_create [keeps_rules]: "keeps (on_tables P) (handleAdminUserCreate env r)"
  unfolding handleAdminUserCreate_def create_body_def Let_def by (intro keeps_rules)

lemma web_set_password [keeps_rules]: "keeps (on_tables P) (handleAdminUserSetPassword env r)"
  unfolding handleAdminUserSetPassword_def set_password_body_def Let_def by (intro keeps_rules)

lemma web_request:
  assumes "\<And>r. keeps (on_tables P) (handleAdminUserDelete env r)"
  shows "keeps (on_tables P) (web_serve env r c)"
  by (cases c) (auto intro!: keeps_rules assms)

end

lemma web_guard_None:
  assumes "fst (run_state (web_last_admin_guard n) s) = None"
  shows "fst (run_state (last_admin_guard msg n) s) = None \<and>
    snd (run_state (last_admin_guard msg n) s) = snd (run_state (web_last_admin_guard n) s)"
  using assms
  by (auto simp: web_last_admin_guard_def last_admin_guard_def split: sum.splits if_splits)

lemma web_delete_keeps: "keeps (on_tables governed) (handleAdminUserDelete env r)"
proof -
  have body: "keeps (on_tables governed) (delete_body r form)" for form
  proof (rule keepsI)
    fix s assume s: "on_tables governed s"
    obtain n where n: "n = form ''username''" by simp
    let ?g = "web_last_admin_guard n"
    note render = keepsD [OF governed.web_render, unfolded on_tables_def]
    show "on_tables governed (snd (run_state (delete_body r form) s))"
    proof (cases "fst (run_state ?g s)")
      case None
      note g = web_guard_None [OF None, of "''cannot delete the last admin''"]
      have "governed (snd (run_state (DeleteUser n)
          (as_db (snd (run_state (last_admin_guard ''cannot delete the last admin'' n) s)))))"
        using s DeleteUser_users [of n] g
        by (intro guarded_commit [where f = id] store_ok.remove_user) (auto simp: on_tables_def)
      then have "governed (snd (run_state (DeleteUser n) (as_db (snd (run_state ?g s)))))"
        using g by simp
      with None show ?thesis by (auto simp: delete_body_def Let_def n on_tables_def intro!: render split: sum.split)
    next
      case (Some m)
      with keepsD [OF governed.web_delete_guard s, of n] show ?thesis
        by (auto simp: delete_body_def Let_def n on_tables_def intro!: render)
    qed
  qed
  show ?thesis
    unfolding handleAdminUserDelete_def
    by (intro keeps_bind governed.web_guard keeps_case_sum keeps_return body)
qed

lemma web_governed: "keeps (on_tables governed) (web_serve env r c)"
  by (rule governed.web_request) (rule web_delete_keeps)

section \<open>The interactive login\<close>

lemma run_on_sessions [simp]:
  "run_state (on_sessions m) s =
    (fst (run_state m (as_sessions s)), s\<lparr>as_sessions := snd (run_state m (as_sessions s))\<rparr>)"
  by (simp add: on_sessions_def)

lemma Get_sessions:
  "map_of (sessions (snd (run_state (Get now code) st))) c \<in> {None, map_of (sessions st) c}"
  "fst (run_state (Get now code) st) = Some x \<Longrightarrow>
    map_of (sessions st) code = Some x \<and> snd (run_state (Get now code) st) = st"
  by (auto simp: Get_def split: option.split_asm option.split if_split_asm)

lemma Complete_sessions:
  "fst (run_state (Complete now code u tok e) st) = Inl m \<Longrightarrow>
    map_of (sessions (snd (run_state (Complete now code u tok e) st))) c \<in> {None, map_of (sessions st) c}"
  "fst (run_state (Complete now code u tok e) st) = Inr () \<Longrightarrow>
    \<exists>x. map_of (sessions st) code = Some x \<and> ses_status x = sessionPending \<and> \<not> expired st x now \<and>
      map_of (sessions (snd (run_state (Complete now code u tok e) st))) = (map_of (sessions st))(code \<mapsto>
        x\<lparr>ses_status := sessionComplete, ses_username := u, mintedToken := tok, expiresAtMs := e\<rparr>)"
  by (auto simp: Complete_def split: option.split_asm option.split if_split_asm)

text \<open>A session only disappears, or a login has completed it.\<close>

definition login_completed :: "auth_env \<Rightarrow> web_request \<Rightarrow> auth_server \<Rightarrow> auth_server \<Rightarrow> bool" where
  "login_completed env r s s' \<longleftrightarrow> (\<exists>form u x tok c expSec.
     wr_form r = Some form \<and> checkCSRF (wr_csrf r) (form ''csrf'') \<and>
     select_user (normalizeUsername (form ''username'')) (as_db s) = Some u \<and>
     VerifyPassword (env_idkey env) (Argon2id u) (form ''password'') \<and>
     jwt_sign (env_lib env) (env_kid env) c = Inr tok \<and> Subject c = Username u \<and>
     ClResources c = user_entries u (as_db s) \<and> ClTokenVersion c = TokenVersion u \<and>
     ExpiresAt c = Some expSec \<and>
     map_of (sessions (as_sessions s)) (TrimSpace (form ''session'')) = Some x \<and>
     ses_status x = sessionPending \<and> \<not> expired (as_sessions s) x (wr_clock r 4) \<and>
     map_of (sessions (as_sessions s')) = (map_of (sessions (as_sessions s)))(TrimSpace (form ''session'') \<mapsto>
       x\<lparr>ses_status := sessionComplete, ses_username := Username u, mintedToken := tok,
         expiresAtMs := expSec * 1000\<rparr>))"

definition is_done :: "page \<Rightarrow> bool" where
  "is_done pg = (case pg of LoginDone _ \<Rightarrow> True | _ \<Rightarrow> False)"

lemma not_done [simp]:
  "\<not> is_done (ws_page renderLoginBad)" "\<not> is_done (ws_page (renderLoginError r code))"
  "\<not> is_done (ws_page (http_error m c))"
  by (simp_all add: is_done_def renderLoginBad_def renderLoginError_def renderHTML_def http_error_def
      split: prod.split)

lemma handleLoginPost_effect:
  assumes "jwt_exact (env_lib env)" and "users_ok (as_db s)"
    and "run_state (handleLoginPost env r) s = (resp, s')"
  shows "(\<forall>code. map_of (sessions (as_sessions s')) code \<in> {None, map_of (sessions (as_sessions s)) code}) \<and>
      \<not> is_done (ws_page resp) \<or>
    login_completed env r s s'"
proof -
  let ?al = "allow (wr_clock r 0) (clientIP (env_split env) (wr_remote r))"
  show ?thesis
  proof (cases "fst (run_state ?al (loginRL s)) \<and> (\<exists>form. wr_form r = Some form)")
    case False
    with assms(3) show ?thesis by (cases "wr_form r") (auto simp: handleLoginPost_def split: if_splits)
  next
    case True
    then obtain form where al: "fst (run_state ?al (loginRL s))" and f: "wr_form r = Some form" by auto
    let ?code = "TrimSpace (form ''session'')" and ?n = "normalizeUsername (form ''username'')"
    let ?get = "Get (wr_clock r 1) ?code"
    let ?vh = "VerifyHash (form ''username'')"
    let ?creds = "credentials_ok (env_idkey env) (fst (run_state ?vh (as_db s))) (form ''password'')"
    show ?thesis
    proof (cases "pending (fst (run_state ?get (as_sessions s)))")
      case False
      with assms(3) al f have "as_sessions s' = snd (run_state ?get (as_sessions s))"
        and "\<not> is_done (ws_page resp)"
        by (auto simp: handleLoginPost_def Let_def)
      then show ?thesis by (simp only: Get_sessions(1)) blast
    next
      case pend: True
      then obtain x where g: "fst (run_state ?get (as_sessions s)) = Some x"
        by (auto simp: pending_def split: option.splits)
      note st = Get_sessions(2) [OF g]
      show ?thesis
      proof (cases "checkCSRF (wr_csrf r) (form ''csrf'') \<and> ?creds")
        case False
        with assms(3) al f pend st show ?thesis by (auto simp: handleLoginPost_def Let_def)
      next
        case ok: True
        let ?d = "snd (run_state ?vh (as_db s))"
        let ?m = "MintFor (env_lib env) (env_cfg env) (env_kid env) (wr_clock r 2) (wr_clock r 3) ?n ?n"
        show ?thesis
        proof (cases "fst (run_state ?m ?d)")
          case (Inl e)
          with assms(3) al f pend st ok show ?thesis by (auto simp: handleLoginPost_def Let_def)
        next
          case (Inr t)
          obtain tok sec ms where t: "t = (tok, sec, ms)" by (cases t)
          let ?c = "Complete (wr_clock r 4) ?code ?n tok ms"
          have s': "as_sessions s' = snd (run_state ?c (as_sessions s))"
            using assms(3) al f pend st ok Inr t by (auto simp: handleLoginPost_def Let_def)
          have same: "same_tables (as_db s) ?d" by (rule VerifyHash_same)
          have "users_ok ?d" using users_ok_same [OF same] assms(2) by simp
          from MintFor_InrD [OF Inr [unfolded t] this assms(1)] obtain u c where
            u: "select_user ?n (as_db s) = Some u" and
            c: "jwt_sign (env_lib env) (env_kid env) c = Inr tok" "Subject c = ?n" "ExpiresAt c = Some sec"
              "ClResources c = user_entries u (as_db s)" "ClTokenVersion c = TokenVersion u" "ms = sec * 1000"
            using same_tables_select(1) [OF same] same_user_entries [OF same] by auto
          have pw: "VerifyPassword (env_idkey env) (Argon2id u) (form ''password'')"
            using ok u VerifyHash_Inr [of "form ''username''" "as_db s"] by (auto simp: credentials_ok_iff)
          have key: "Username u = ?n" using select_user_Some [OF u] by simp
          show ?thesis
          proof (cases "fst (run_state ?c (as_sessions s))")
            case e: (Inl m)
            have "\<not> is_done (ws_page resp)"
              using assms(3) al f pend st ok Inr t e by (auto simp: handleLoginPost_def Let_def)
            with Complete_sessions(1) [OF e] s' show ?thesis by auto
          next
            case (Inr v)
            with Complete_sessions(2) [of "wr_clock r 4" ?code ?n tok ms "as_sessions s"] s' f ok u pw c key
            show ?thesis by (fastforce simp: login_completed_def)
          qed
        qed
      qed
    qed
  qed
qed

text \<open>The admin pages do not touch the sessions.\<close>

lemma on_db_sessions: "keeps (\<lambda>t. as_sessions t = x) (on_db m)"
  by (rule keepsI) simp

lemma on_adminRL_sessions: "keeps (\<lambda>t. as_sessions t = x) (on_adminRL m)"
  unfolding on_adminRL_def by (rule keepsI) simp

lemma render_sessions: "keeps (\<lambda>t. as_sessions t = x) (renderAdmin r a b)"
  unfolding renderAdmin_def Let_def by (auto intro!: keeps_rules on_db_sessions)

lemma guard_sessions: "keeps (\<lambda>t. as_sessions t = x) (adminMutationGuard env r)"
  unfolding adminMutationGuard_def by (intro keeps_rules on_adminRL_sessions render_sessions)

lemma admin_pages_sessions:
  assumes "c \<noteq> WebLogin"
  shows "keeps (\<lambda>t. as_sessions t = x) (web_serve env r c)"
proof -
  note rules = keeps_rules on_db_sessions on_adminRL_sessions render_sessions guard_sessions
  have "keeps (\<lambda>t. as_sessions t = x) (handleAdmin env r)"
    unfolding handleAdmin_def by (intro rules)
  moreover have "keeps (\<lambda>t. as_sessions t = x) (handleAdminUnlock env r)"
    unfolding handleAdminUnlock_def Let_def by (intro rules)
  moreover have "keeps (\<lambda>t. as_sessions t = x) (handleAdminUserCreate env r)"
    unfolding handleAdminUserCreate_def create_body_def Let_def by (intro rules)
  moreover have "keeps (\<lambda>t. as_sessions t = x) (handleAdminUserSetPassword env r)"
    unfolding handleAdminUserSetPassword_def set_password_body_def Let_def by (intro rules)
  moreover have "keeps (\<lambda>t. as_sessions t = x) (handleAdminUserDelete env r)"
    unfolding handleAdminUserDelete_def delete_body_def web_last_admin_guard_def Let_def by (intro rules)
  ultimately show ?thesis using assms by (cases c) simp_all
qed

text \<open>C14: the browser pages complete an interactive session only for a caller who holds the
  CSRF cookie and the password of a stored user, while the session is pending and not expired; it is
  completed with a signed token for that user that carries the current grants and version, and its
  expiry in milliseconds. Every other request leaves each session as it is or evicts it.\<close>

theorem web_login_authentic:
  assumes "jwt_exact (env_lib env)" and "db_ok (as_db s)"
    and "run_state (web_serve env r c) s = (resp, s')"
  shows "(\<forall>code. map_of (sessions (as_sessions s')) code \<in> {None, map_of (sessions (as_sessions s)) code}) \<or>
    (c = WebLogin \<and> wr_method r = MethodPost \<and> login_completed env r s s')"
proof (cases "c = WebLogin")
  case True
  show ?thesis
  proof (cases "wr_method r")
    case MethodGet
    with True assms(3) have
      "as_sessions s' = snd (run_state (Get (wr_clock r 0) (TrimSpace (wr_session r))) (as_sessions s))"
      by (auto simp: handleLogin_def handleLoginGet_def Let_def)
    then show ?thesis by (simp only: Get_sessions(1)) blast
  next
    case MethodPost
    with True assms handleLoginPost_effect [of env s r resp s'] show ?thesis
      by (auto simp: handleLogin_def db_ok_def)
  qed (use True assms(3) in \<open>simp add: handleLogin_def\<close>)
next
  case False
  have "keeps (\<lambda>t. as_sessions t = as_sessions s) (web_serve env r c)"
    by (rule admin_pages_sessions [OF False])
  from keepsD [OF this refl] assms(3) show ?thesis by simp
qed

definition demo_form :: "string \<Rightarrow> string" where
  "demo_form k = (if k = ''session'' then ''AA'' else if k = ''csrf'' then ''x''
    else if k = ''username'' then ''bob'' else if k = ''password'' then ''right'' else '''')"

definition demo_web :: "(string \<Rightarrow> string) \<Rightarrow> string option \<Rightarrow> web_request" where
  "demo_web form admin = \<lparr>wr_method = MethodPost, wr_remote = ''peer'', wr_session = '''',
    wr_form = Some form, wr_csrf = Some ''x'', wr_admin = admin, wr_rnd = None,
    wr_salt = Some [1, 2, 3], wr_clock = (\<lambda>n. 0)\<rparr>"

definition open_session :: "auth_server \<Rightarrow> auth_server" where
  "open_session s = s\<lparr>as_sessions := put_session ''AA'' \<lparr>clientState = ''cs'',
    ses_status = sessionPending, ses_username = '''', mintedToken = '''', expiresAtMs = 0,
    ses_created = 0\<rparr> (as_sessions s)\<rparr>"

lemma demo_login_run:
  assumes "HashPassword toy_idkey (Some [1, 2, 3]) ''right'' = Inr h"
  shows "ws_page (fst (run_state (handleLoginPost (demo_env demo_claims) (demo_web demo_form None))
      (open_session (demo_server (login_db h))))) = LoginDone ''bob''"
    and "map_of (sessions (as_sessions (snd (run_state (handleLoginPost (demo_env demo_claims)
      (demo_web demo_form None)) (open_session (demo_server (login_db h))))))) ''AA'' =
      Some \<lparr>clientState = ''cs'', ses_status = sessionComplete, ses_username = ''bob'',
        mintedToken = ''token'', expiresAtMs = 604800000, ses_created = 0\<rparr>"
proof -
  have t: "TrimSpace ''AA'' = ''AA''" by code_simp
  note eval = handleLoginPost_def demo_web_def demo_form_def open_session_def t
        demo_server_def attachWeb_def newRateLimiter_def allow_def trimLocked_def refilled_def
        rlBurst_def rlRefillEvery_def Get_def expired_def NewSessionStore_def pending_def
        checkCSRF_def VerifyHash_def demo_names credentials_ok_iff login_mint Complete_def Let_def
  show "ws_page (fst (run_state (handleLoginPost (demo_env demo_claims) (demo_web demo_form None))
      (open_session (demo_server (login_db h))))) = LoginDone ''bob''"
    using toy_verify [OF assms] by (simp add: eval renderHTML_def)
  show "map_of (sessions (as_sessions (snd (run_state (handleLoginPost (demo_env demo_claims)
      (demo_web demo_form None)) (open_session (demo_server (login_db h))))))) ''AA'' =
      Some \<lparr>clientState = ''cs'', ses_status = sessionComplete, ses_username = ''bob'',
        mintedToken = ''token'', expiresAtMs = 604800000, ses_created = 0\<rparr>"
    using toy_verify [OF assms] by (simp add: eval)
qed

theorem web_login_authentic_witness:
  "\<exists>h. login_completed (demo_env demo_claims) (demo_web demo_form None)
    (open_session (demo_server (login_db h)))
    (snd (run_state (web_serve (demo_env demo_claims) (demo_web demo_form None) WebLogin)
      (open_session (demo_server (login_db h)))))"
proof -
  obtain h where h: "HashPassword toy_idkey (Some [1, 2, 3]) ''right'' = Inr h"
    using toy_hash by blast
  let ?s = "open_session (demo_server (login_db h))"
  let ?run = "run_state (web_serve (demo_env demo_claims) (demo_web demo_form None) WebLogin) ?s"
  have "?run = run_state (handleLoginPost (demo_env demo_claims) (demo_web demo_form None)) ?s"
    by (simp add: handleLogin_def demo_web_def)
  with demo_login_run(2) [OF h] have "map_of (sessions (as_sessions (snd ?run))) ''AA'' \<notin>
      {None, map_of (sessions (as_sessions ?s)) ''AA''}" by (simp add: open_session_def)
  moreover have "jwt_exact (env_lib (demo_env demo_claims))" "db_ok (as_db ?s)"
    by (simp_all add: one_token_exact open_session_def)
  from web_login_authentic [OF this prod.collapse [symmetric]]
  have "(\<forall>code. map_of (sessions (as_sessions (snd ?run))) code \<in> {None, map_of (sessions (as_sessions ?s)) code}) \<or>
      login_completed (demo_env demo_claims) (demo_web demo_form None) ?s (snd ?run)" by blast
  ultimately show ?thesis by blast
qed

section \<open>The admin pages\<close>

lemma run_on_adminRL [simp]:
  "run_state (on_adminRL m) s =
    (fst (run_state m (adminRL s)), s\<lparr>adminRL := snd (run_state m (adminRL s))\<rparr>)"
  by (simp add: on_adminRL_def)

definition admin_allowed :: "auth_env \<Rightarrow> web_request \<Rightarrow> auth_server \<Rightarrow> (string \<Rightarrow> string) \<Rightarrow> bool" where
  "admin_allowed env r s form \<longleftrightarrow> wr_method r = MethodPost \<and> cfg_AdminSecret (env_cfg env) \<noteq> '''' \<and>
    adminUnlocked (env_hmac env) (env_gate env) (wr_admin r) (wr_clock r 0) \<and>
    fst (run_state (allow (wr_clock r 1) (clientIP (env_split env) (wr_remote r))) (adminRL s)) \<and>
    wr_form r = Some form \<and> checkCSRF (wr_csrf r) (form ''csrf'')"

lemma guard_Inr:
  assumes "fst (run_state (adminMutationGuard env r) s) = Inr form"
  shows "admin_allowed env r s form" and "as_db (snd (run_state (adminMutationGuard env r) s)) = as_db s"
  using assms
  by (auto simp: adminMutationGuard_def requireAdmin_def admin_allowed_def
      split: if_splits option.splits)

lemma render_abs: "abs_db (as_db (snd (run_state (renderAdmin r a b) s))) = abs_db (as_db s)"
  using keepsD [OF unchanged.web_render, of "as_db s" s r a b]
  by (simp add: on_tables_def same_tables_select(3))

text \<open>The one call of the store an admin post can have made.\<close>

definition admin_effect :: "auth_env \<Rightarrow> web_request \<Rightarrow> (string \<Rightarrow> string) \<Rightarrow> web_call \<Rightarrow> store_call \<Rightarrow> bool" where
  "admin_effect env r form c call \<longleftrightarrow>
    (c = WebUserCreate \<and> (\<exists>h. HashPassword (env_idkey env) (wr_salt r) (form ''password'') = Inr h \<and>
      validatePassword (TrimSpace (form ''password'')) = None \<and>
      call = CallAddUser (unix_of (wr_clock r 2)) (form ''username'') (form ''display_name'') h False)) \<or>
    (c = WebUserSetPassword \<and> (\<exists>h. HashPassword (env_idkey env) (wr_salt r) (form ''password'') = Inr h \<and>
      validatePassword (TrimSpace (form ''password'')) = None \<and>
      call = CallSetPassword (unix_of (wr_clock r 2)) (form ''username'') h)) \<or>
    (c = WebUserDelete \<and> call = CallDeleteUser (form ''username''))"

lemma after_call:
  assumes "refines m (spec_call call)" and "\<And>a. abs_db (as_db (snd (run_state (k a) t))) = abs_db (as_db t)"
    and "as_db t = snd (run_state m d)"
  shows "abs_db (as_db (snd (run_state (k a) t))) = abs_db d \<or>
    abs_db (as_db (snd (run_state (k a) t))) = spec_call call (abs_db d)"
  using refines_effect [OF assms(1), of d] assms(2,3) by simp

lemma page_after_call:
  assumes "refines m (spec_call call)"
  shows "abs_db (as_db (snd (run_state (do {
      a \<leftarrow> on_db m;
      case a of Inl e \<Rightarrow> renderAdmin r '''' (f e) | Inr _ \<Rightarrow> renderAdmin r g '''' }) s))) = abs_db (as_db s) \<or>
    abs_db (as_db (snd (run_state (do {
      a \<leftarrow> on_db m;
      case a of Inl e \<Rightarrow> renderAdmin r '''' (f e) | Inr _ \<Rightarrow> renderAdmin r g '''' }) s))) =
      spec_call call (abs_db (as_db s))"
  using refines_effect [OF assms, of "as_db s"]
  by (cases "fst (run_state m (as_db s))") (simp_all add: render_abs)

text \<open>C15: the admin pages change the tables only for a post with the secret configured, an unexpired
  unlock cookie, a free slot of the rate limit and the CSRF token; and then by nothing or by exactly
  the one call of the form: a new account that is never an administrator, a new password, or
  the removal of an account.\<close>

theorem web_admin_guarded:
  "let a = abs_db (as_db s); a' = abs_db (as_db (snd (run_state (web_serve env r c) s)))
   in a' = a \<or> (\<exists>form call. admin_allowed env r s form \<and> admin_effect env r form c call \<and>
     a' = spec_call call a)"
proof -
  let ?s' = "snd (run_state (web_serve env r c) s)"
  have quiet: "abs_db (as_db ?s') = abs_db (as_db s)"
    if "keeps (on_tables (same_tables (as_db s))) (web_serve env r c)"
    using keepsD [OF that, of s] by (simp add: on_tables_def same_tables_select(3))
  let ?g = "adminMutationGuard env r"
  have refused: "abs_db (as_db (snd (run_state ?g s))) = abs_db (as_db s)"
    using keepsD [OF unchanged.web_guard, of "as_db s" s env r]
    by (simp add: on_tables_def same_tables_select(3))
  have guarded: ?thesis
    if post: "web_serve env r c = do { gd \<leftarrow> ?g; case gd of Inl resp \<Rightarrow> State_Monad.return resp
         | Inr form \<Rightarrow> body form }"
      and body: "\<And>form t. abs_db (as_db (snd (run_state (body form) t))) = abs_db (as_db t) \<or>
        (\<exists>call. admin_effect env r form c call \<and>
          abs_db (as_db (snd (run_state (body form) t))) = spec_call call (abs_db (as_db t)))" for body
  proof (cases "fst (run_state ?g s)")
    case (Inl resp)
    with refused post show ?thesis by simp
  next
    case (Inr form)
    with guard_Inr [OF Inr] post body [of form "snd (run_state ?g s)"] show ?thesis by (auto simp: Let_def)
  qed
  show ?thesis
  proof (cases c)
    case WebUserCreate
    show ?thesis
    proof (rule guarded [of "create_body env r"])
      show "web_serve env r c = do { gd \<leftarrow> ?g; case gd of Inl resp \<Rightarrow> State_Monad.return resp
          | Inr form \<Rightarrow> create_body env r form }"
        by (simp add: WebUserCreate handleAdminUserCreate_def create_body_def [abs_def])
      fix form t
      show "abs_db (as_db (snd (run_state (create_body env r form) t))) = abs_db (as_db t) \<or>
        (\<exists>call. admin_effect env r form c call \<and>
          abs_db (as_db (snd (run_state (create_body env r form) t))) = spec_call call (abs_db (as_db t)))"
      proof (cases "validatePassword (TrimSpace (form ''password'')) = None \<and>
          (\<exists>h. HashPassword (env_idkey env) (wr_salt r) (form ''password'') = Inr h)")
        case False
        then show ?thesis by (auto simp: create_body_def Let_def render_abs split: option.split sum.split)
      next
        case True
        then obtain h where v: "validatePassword (TrimSpace (form ''password'')) = None"
          and h: "HashPassword (env_idkey env) (wr_salt r) (form ''password'') = Inr h" by auto
        let ?call = "CallAddUser (unix_of (wr_clock r 2)) (form ''username'') (form ''display_name'') h False"
        have "admin_effect env r form c ?call"
          using v h by (simp add: admin_effect_def WebUserCreate)
        moreover have "refines (AddUser (unix_of (wr_clock r 2)) (form ''username'')
            (form ''display_name'') h False) (spec_call ?call)"
          by (simp add: refines_AddUser)
        note page_after_call [OF this, of r _ "''Created user '' @ normalizeUsername (form ''username'') @ ''.''" t]
        ultimately show ?thesis unfolding create_body_def Let_def v h option.case sum.case by blast
      qed
    qed
  next
    case WebUserSetPassword
    show ?thesis
    proof (rule guarded [of "set_password_body env r"])
      show "web_serve env r c = do { gd \<leftarrow> ?g; case gd of Inl resp \<Rightarrow> State_Monad.return resp
          | Inr form \<Rightarrow> set_password_body env r form }"
        by (simp add: WebUserSetPassword handleAdminUserSetPassword_def set_password_body_def [abs_def])
      fix form t
      show "abs_db (as_db (snd (run_state (set_password_body env r form) t))) = abs_db (as_db t) \<or>
        (\<exists>call. admin_effect env r form c call \<and>
          abs_db (as_db (snd (run_state (set_password_body env r form) t))) = spec_call call (abs_db (as_db t)))"
      proof (cases "validatePassword (TrimSpace (form ''password'')) = None \<and>
          (\<exists>h. HashPassword (env_idkey env) (wr_salt r) (form ''password'') = Inr h)")
        case False
        then show ?thesis by (auto simp: set_password_body_def Let_def render_abs split: option.split sum.split)
      next
        case True
        then obtain h where v: "validatePassword (TrimSpace (form ''password'')) = None"
          and h: "HashPassword (env_idkey env) (wr_salt r) (form ''password'') = Inr h" by auto
        let ?call = "CallSetPassword (unix_of (wr_clock r 2)) (form ''username'') h"
        have "admin_effect env r form c ?call"
          using v h by (simp add: admin_effect_def WebUserSetPassword)
        moreover have "refines (SetPassword (unix_of (wr_clock r 2)) (form ''username'') h) (spec_call ?call)"
          by (simp add: refines_SetPassword)
        note page_after_call [OF this, of r _
          "''Updated password for '' @ normalizeUsername (form ''username'') @ ''.''" t]
        ultimately show ?thesis unfolding set_password_body_def Let_def v h option.case sum.case by blast
      qed
    qed
  next
    case WebUserDelete
    show ?thesis
    proof (rule guarded [of "delete_body r"])
      show "web_serve env r c = do { gd \<leftarrow> ?g; case gd of Inl resp \<Rightarrow> State_Monad.return resp
          | Inr form \<Rightarrow> delete_body r form }"
        by (simp add: WebUserDelete handleAdminUserDelete_def delete_body_def [abs_def])
      fix form t
      let ?lg = "web_last_admin_guard (form ''username'')"
      let ?t = "snd (run_state ?lg t)"
      have same: "abs_db (as_db ?t) = abs_db (as_db t)"
        using keepsD [OF unchanged.web_delete_guard, of "as_db t" t]
        by (simp add: on_tables_def same_tables_select(3))
      have eff: "admin_effect env r form c (CallDeleteUser (form ''username''))"
        by (simp add: admin_effect_def WebUserDelete)
      have "refines (DeleteUser (form ''username'')) (spec_call (CallDeleteUser (form ''username'')))"
        by (simp add: refines_DeleteUser)
      note page = page_after_call [OF this, of r "adminErrMsg ''delete user''"
        "''Deleted user '' @ normalizeUsername (form ''username'') @ ''.''" ?t, unfolded same]
      show "abs_db (as_db (snd (run_state (delete_body r form) t))) = abs_db (as_db t) \<or>
        (\<exists>call. admin_effect env r form c call \<and>
          abs_db (as_db (snd (run_state (delete_body r form) t))) = spec_call call (abs_db (as_db t)))"
      proof (cases "fst (run_state ?lg t)")
        case None
        then have "run_state (delete_body r form) t = run_state (do {
            a \<leftarrow> on_db (DeleteUser (form ''username''));
            case a of Inl e \<Rightarrow> renderAdmin r '''' (adminErrMsg ''delete user'' e)
            | Inr _ \<Rightarrow> renderAdmin r (''Deleted user '' @ normalizeUsername (form ''username'') @ ''.'') '''' }) ?t"
          by (simp add: delete_body_def Let_def split: sum.split)
        with eff page show ?thesis by metis
      qed (simp add: delete_body_def Let_def render_abs same)
    qed
  qed (use quiet unchanged.web_login unchanged.web_admin unchanged.web_unlock in \<open>simp_all add: Let_def\<close>)
qed

text \<open>Only one page sets the unlock cookie.\<close>

definition cookieless :: "web_handler \<Rightarrow> bool" where
  "cookieless m \<longleftrightarrow> (\<forall>s. ws_admin (fst (run_state m s)) = None)"

lemma no_admin_cookie [simp]:
  "ws_admin (renderHTML a b c) = None" "ws_admin (http_error m n) = None"
  "ws_admin renderLoginBad = None" "ws_admin (renderLoginError r code) = None"
  "ws_admin (renderAdminUnlock r msg) = None" "ws_admin adminDisabled = None"
  by (simp_all add: renderHTML_def http_error_def renderLoginBad_def renderLoginError_def
      renderAdminUnlock_def adminDisabled_def Let_def split: prod.split)

lemma requireAdmin_cookie: "requireAdmin env r = Some resp \<Longrightarrow> ws_admin resp = None"
  by (auto simp: requireAdmin_def split: if_splits)

lemma render_cookie [simp]: "ws_admin (fst (run_state (renderAdmin r a b) s)) = None"
  by (simp add: renderAdmin_def Let_def split: prod.split)

lemma guard_cookie: "fst (run_state (adminMutationGuard env r) s) = Inl resp \<Longrightarrow> ws_admin resp = None"
  by (auto simp: adminMutationGuard_def dest: requireAdmin_cookie split: if_splits option.splits)

lemma no_cookie_elsewhere:
  assumes "c \<noteq> WebUnlock"
  shows "ws_admin (fst (run_state (web_serve env r c) s)) = None"
proof -
  have bodies: "ws_admin (fst (run_state (create_body env r form) t)) = None"
    "ws_admin (fst (run_state (set_password_body env r form) t)) = None"
    "ws_admin (fst (run_state (delete_body r form) t)) = None" for form t
    by (simp_all add: create_body_def set_password_body_def delete_body_def Let_def
        split: option.split sum.split)
  have "ws_admin (fst (run_state (handleLogin env r) s)) = None"
    by (simp add: handleLogin_def handleLoginGet_def handleLoginPost_def Let_def
        split: http_method.split option.split sum.split prod.split)
  moreover have "ws_admin (fst (run_state (handleAdmin env r) s)) = None"
    by (auto simp: handleAdmin_def dest: requireAdmin_cookie split: option.split)
  ultimately show ?thesis
    using assms bodies
    by (cases c) (auto simp: handleAdminUserCreate_def handleAdminUserSetPassword_def
        handleAdminUserDelete_def dest: guard_cookie split: sum.split)
qed

text \<open>The unlock cookie is set by the unlock form alone, and only when the secret is configured,
  the rate limit and the CSRF token let the post through, and the secret given is the configured one:
  accepted by it where it is a password record, equal to it where it is plain.\<close>

theorem admin_unlock_needs_secret:
  assumes "ws_admin (fst (run_state (web_serve env r c) s)) = Some v"
  shows "c = WebUnlock \<and> wr_method r = MethodPost \<and> cfg_AdminSecret (env_cfg env) \<noteq> '''' \<and>
    fst (run_state (allow (wr_clock r 0) (clientIP (env_split env) (wr_remote r))) (adminRL s)) \<and>
    v = issue (env_hmac env) (env_gate env) (wr_clock r 1) \<and>
    (\<exists>form. wr_form r = Some form \<and> checkCSRF (wr_csrf r) (form ''csrf'') \<and>
      (if HasPrefix (cfg_AdminSecret (env_cfg env)) ''$argon2id$''
       then VerifyPassword (env_idkey env) (cfg_AdminSecret (env_cfg env)) (form ''secret'')
       else form ''secret'' = cfg_AdminSecret (env_cfg env)))"
proof (cases "c = WebUnlock")
  case True
  with assms show ?thesis
    by (auto simp: handleAdminUnlock_def secret_ok_def adminDisabled_def no_admin_cookie Let_def
        split: if_splits option.splits)
next
  case False
  with no_cookie_elsewhere [of c env r s] assms show ?thesis by simp
qed

theorem admin_unlock_needs_secret_witness:
  "ws_admin (fst (run_state (web_serve
      ((demo_env demo_claims)\<lparr>env_cfg := demo_cfg\<lparr>cfg_AdminSecret := ''sesame''\<rparr>\<rparr>)
      (demo_web (\<lambda>k. if k = ''csrf'' then ''x'' else ''sesame'') None) WebUnlock)
      (demo_server demo_db))) = Some '''' \<and> ''sesame'' = cfg_AdminSecret (demo_cfg\<lparr>cfg_AdminSecret := ''sesame''\<rparr>)"
proof -
  let ?env = "(demo_env demo_claims)\<lparr>env_cfg := demo_cfg\<lparr>cfg_AdminSecret := ''sesame''\<rparr>\<rparr>"
  let ?r = "demo_web (\<lambda>k. if k = ''csrf'' then ''x'' else ''sesame'') None"
  have "\<not> HasPrefix ''sesame'' ''$argon2id$''" by code_simp
  then have run: "ws_admin (fst (run_state (web_serve ?env ?r WebUnlock) (demo_server demo_db))) = Some ''''"
    by (simp add: handleAdminUnlock_def demo_web_def demo_server_def attachWeb_def newRateLimiter_def
        allow_def trimLocked_def refilled_def rlBurst_def rlRefillEvery_def checkCSRF_def secret_ok_def
        issue_def demo_env_def newAdminGate_def Let_def)
  from admin_unlock_needs_secret [OF this] run show ?thesis by simp
qed

end
