(* ===== verification/Daemon.thy ===== *)
theory Daemon
  imports Web
begin

text \<open>
  How the authentication server is configured, started and administered from the command line:
  \<open>src/arc-lore-auth/config.go\<close> (the defaults, the optional file, the one-shot import of the
  retired users file), the checks of \<open>runDaemon\<close> and \<open>serveWeb\<close> in \<open>main.go\<close>, and the
  subcommands of \<open>cli.go\<close>. The file system, the TOML and JSON decoders and the terminal are
  arguments: what \<open>Stat\<close>, \<open>ReadFile\<close>, the decoder or the prompt answered. Flags come parsed.
\<close>

section \<open>config.go\<close>

record daemon_config = auth_config +
  cfg_ListenAddr :: string
  cfg_GRPCListenAddr :: string
  cfg_TLSCertPath :: string
  cfg_TLSKeyPath :: string
  cfg_TLSSAN :: string
  cfg_KeyPath :: string
  cfg_DBPath :: string
  cfg_WebListenAddr :: string
  cfg_WebTLSCertPath :: string
  cfg_WebTLSKeyPath :: string
  cfg_AllowedUsers :: "string list"

text \<open>\<open>keyPath\<close> is the key file under the user's home directory.\<close>

definition defaultConfig :: "string \<Rightarrow> daemon_config" where
  "defaultConfig keyPath = \<lparr>cfg_Issuer = ''arc-lore-auth'', cfg_Audience = '''', cfg_Env = ''local'',
    cfg_IDP = ''arc-lore-auth'', cfg_AdminSecret = '''', cfg_WebBaseURL = '''', cfg_SessionTTL = 600,
    cfg_TokenTTL = ''168h'', cfg_UsersFile = ''./arc-lore-users.json'', cfg_DefaultResources = [],
    cfg_ListenAddr = ''127.0.0.1:8080'', cfg_GRPCListenAddr = ''0.0.0.0:8443'',
    cfg_TLSCertPath = ''./arc-lore-auth-tls.crt'', cfg_TLSKeyPath = ''./arc-lore-auth-tls.key'',
    cfg_TLSSAN = '''', cfg_KeyPath = keyPath, cfg_DBPath = ''./arc-lore.db'',
    cfg_WebListenAddr = ''0.0.0.0:8080'', cfg_WebTLSCertPath = '''', cfg_WebTLSKeyPath = '''',
    cfg_AllowedUsers = []\<rparr>"

text \<open>\<open>exists\<close> is whether \<open>Stat\<close> does not report a missing file; \<open>decode\<close> is the TOML decoder,
  which fills the defaults it is given.\<close>

definition loadConfig ::
  "string \<Rightarrow> (daemon_config \<Rightarrow> (string, daemon_config) result) \<Rightarrow> string \<Rightarrow> bool \<Rightarrow>
    (string, daemon_config) result" where
  "loadConfig keyPath decode path exists =
    (let cfg = defaultConfig keyPath in
     if path = '''' then Inr cfg
     else if \<not> exists then Inr cfg
     else case decode cfg of
       Inl e \<Rightarrow> Inl (''parsing config '' @ path @ '': '' @ e)
     | Inr cfg' \<Rightarrow> Inr cfg')"

record legacy_user =
  lu_Username :: string
  lu_DisplayName :: string
  lu_Argon2id :: string
  lu_Created :: int
  lu_Updated :: int

text \<open>What \<open>Stat\<close> answered, and for a file that is there what reading it and decoding it gave.\<close>

datatype legacy_file =
    FileMissing
  | StatFailed string
  | FilePresent "(string, (string, legacy_user list) result) result"

text \<open>The loop over the rows; \<open>imported\<close> counts the rows stored so far.\<close>

fun import_rows :: "nat \<Rightarrow> legacy_user list \<Rightarrow> (db, (string, nat) result) state" where
  "import_rows imported [] = State_Monad.return (Inr imported)"
| "import_rows imported (u # rest) =
    (let uname = normalizeUsername (lu_Username u) in
     if uname = '''' then import_rows imported rest
     else do {
       let isAdmin = (imported = 0);
       r \<leftarrow> ImportLegacyUser uname (lu_DisplayName u) (lu_Argon2id u) (lu_Created u) (lu_Updated u) isAdmin;
       case r of
         Inl e \<Rightarrow> State_Monad.return (Inl (''importing user '' @ uname @ '': '' @ err_text e))
       | Inr _ \<Rightarrow> import_rows (imported + 1) rest })"

definition importLegacyUsersFile :: "string \<Rightarrow> legacy_file \<Rightarrow> (db, (string, unit) result) state" where
  "importLegacyUsersFile usersFile file =
    (if usersFile = '''' then State_Monad.return (Inr ())
     else case file of
       FileMissing \<Rightarrow> State_Monad.return (Inr ())
     | StatFailed e \<Rightarrow> State_Monad.return (Inl (''stat '' @ usersFile @ '': '' @ e))
     | FilePresent content \<Rightarrow> do {
         h \<leftarrow> HasUsers;
         case h of
           Inl e \<Rightarrow> State_Monad.return (Inl (err_text e))
         | Inr True \<Rightarrow> State_Monad.return (Inr ())
         | Inr False \<Rightarrow> (case content of
             Inl e \<Rightarrow> State_Monad.return (Inl (''reading '' @ usersFile @ '': '' @ e))
           | Inr (Inl e) \<Rightarrow> State_Monad.return (Inl (''parsing '' @ usersFile @ '': '' @ e))
           | Inr (Inr rows) \<Rightarrow> do {
               r \<leftarrow> import_rows 0 rows;
               State_Monad.return (case r of Inl e \<Rightarrow> Inl e | Inr _ \<Rightarrow> Inr ()) }) })"

section \<open>main.go\<close>

text \<open>The overrides of the flags, and the checks before any key is loaded: the configuration to run
  with, or the message of the exit.\<close>

definition daemon_settings ::
  "(string, daemon_config) result \<Rightarrow> string \<Rightarrow> string \<Rightarrow> (string, daemon_config) result" where
  "daemon_settings loaded listenOverride audienceOverride = (case loaded of
      Inl e \<Rightarrow> Inl (''arc-lore-auth: config: '' @ e)
    | Inr cfg \<Rightarrow>
        let cfg = (if listenOverride \<noteq> '''' then cfg\<lparr>cfg_WebListenAddr := listenOverride\<rparr> else cfg);
            cfg = (if audienceOverride \<noteq> '''' then cfg\<lparr>cfg_Audience := audienceOverride\<rparr> else cfg)
        in if cfg_Audience cfg = '''' then Inl ''arc-lore-auth: audience is required''
           else if cfg_Audience cfg = cfg_Issuer cfg then Inl ''arc-lore-auth: audience must not equal issuer''
           else Inr cfg)"

datatype listener = ListenTLS string string string | ListenPlain string

definition serveWeb :: "daemon_config \<Rightarrow> (string, listener) result" where
  "serveWeb cfg =
    (let certSet = cfg_WebTLSCertPath cfg \<noteq> ''''; keySet = cfg_WebTLSKeyPath cfg \<noteq> ''''
     in if certSet \<and> keySet
        then Inr (ListenTLS (cfg_WebListenAddr cfg) (cfg_WebTLSCertPath cfg) (cfg_WebTLSKeyPath cfg))
        else if certSet \<noteq> keySet
        then Inl ''web TLS cert/key are half-present: supply BOTH web_tls_cert_path and web_tls_key_path, or neither''
        else Inr (ListenPlain (cfg_WebListenAddr cfg)))"

text \<open>The part of \<open>runDaemon\<close> that reaches the store: the import, then the shared session store and
  the server over both. \<open>now\<close> is when the limiters are built.\<close>

definition runDaemon ::
  "int \<Rightarrow> (string, daemon_config) result \<Rightarrow> string \<Rightarrow> string \<Rightarrow> (string, db) result \<Rightarrow> legacy_file \<Rightarrow>
    (string, daemon_config \<times> auth_server) result" where
  "runDaemon now loaded listenOverride audienceOverride opened file =
    (case daemon_settings loaded listenOverride audienceOverride of
       Inl e \<Rightarrow> Inl e
     | Inr cfg \<Rightarrow> (case opened of
         Inl e \<Rightarrow> Inl (''arc-lore-auth: db: '' @ e)
       | Inr d \<Rightarrow> (case run_state (importLegacyUsersFile (cfg_UsersFile cfg) file) d of
           (Inl e, _) \<Rightarrow> Inl (''arc-lore-auth: legacy user import: '' @ e)
         | (Inr _, d') \<Rightarrow> Inr (cfg, attachWeb now (NewSessionStore (cfg_SessionTTL cfg * nsec)) d'))))"

section \<open>cli.go\<close>

text \<open>How a subcommand ends: exit status 1 with a message, or its output. \<open>opened\<close> is what
  \<open>OpenStore\<close> answered for the database that is the state.\<close>

datatype cli_result = CliExit string | CliMintFailed mint_err | CliOut string | CliWritten string string

type_synonym cli = "(db, cli_result) state"

definition cli_exit :: "string \<Rightarrow> cli" where
  "cli_exit m = State_Monad.return (CliExit m)"

definition runUserAddCmd ::
  "(string, daemon_config) result \<Rightarrow> (string, string) result \<Rightarrow> (string, unit) result \<Rightarrow>
    argon2_idkey \<Rightarrow> byte list option \<Rightarrow> int \<Rightarrow> string \<Rightarrow> string list \<Rightarrow> cli" where
  "runUserAddCmd loaded prompted opened idkey salt now displayName rest = (case rest of
      [username] \<Rightarrow> (case loaded of
          Inl e \<Rightarrow> cli_exit (''useradd: config: '' @ e)
        | Inr cfg \<Rightarrow> (case prompted of
            Inl e \<Rightarrow> cli_exit (''useradd: '' @ e)
          | Inr pw \<Rightarrow> (case opened of
              Inl e \<Rightarrow> cli_exit (''useradd: opening db: '' @ e)
            | Inr _ \<Rightarrow> (case HashPassword idkey salt pw of
                Inl e \<Rightarrow> cli_exit (''useradd: hashing password: '' @ e)
              | Inr hash \<Rightarrow> do {
                  a \<leftarrow> AddUser now username displayName hash False;
                  case a of
                    Inl e \<Rightarrow> cli_exit (''useradd: '' @ err_text e)
                  | Inr _ \<Rightarrow> State_Monad.return (CliOut (''created user '' @
                      Quote (normalizeUsername username) @ '' in '' @ cfg_DBPath cfg)) }))))
    | _ \<Rightarrow> cli_exit ''useradd: usage: arc-lore-auth useradd [--display-name <name>] <username>'')"

definition runUserDelCmd ::
  "(string, daemon_config) result \<Rightarrow> (string, unit) result \<Rightarrow> string list \<Rightarrow> cli" where
  "runUserDelCmd loaded opened rest = (case rest of
      [username] \<Rightarrow> (case loaded of
          Inl e \<Rightarrow> cli_exit (''userdel: config: '' @ e)
        | Inr cfg \<Rightarrow> (case opened of
            Inl e \<Rightarrow> cli_exit (''userdel: opening db: '' @ e)
          | Inr _ \<Rightarrow> do {
              a \<leftarrow> DeleteUser username;
              case a of
                Inl e \<Rightarrow> cli_exit (''userdel: '' @ err_text e)
              | Inr _ \<Rightarrow> State_Monad.return (CliOut (''deleted user '' @
                  Quote (normalizeUsername username) @ '' from '' @ cfg_DBPath cfg)) }))
    | _ \<Rightarrow> cli_exit ''userdel: usage: arc-lore-auth userdel <username>'')"

definition runSetPwCmd ::
  "(string, daemon_config) result \<Rightarrow> (string, string) result \<Rightarrow> (string, unit) result \<Rightarrow>
    argon2_idkey \<Rightarrow> byte list option \<Rightarrow> int \<Rightarrow> string list \<Rightarrow> cli" where
  "runSetPwCmd loaded prompted opened idkey salt now rest = (case rest of
      [username] \<Rightarrow> (case loaded of
          Inl e \<Rightarrow> cli_exit (''setpw: config: '' @ e)
        | Inr cfg \<Rightarrow> (case prompted of
            Inl e \<Rightarrow> cli_exit (''setpw: '' @ e)
          | Inr pw \<Rightarrow> (case opened of
              Inl e \<Rightarrow> cli_exit (''setpw: opening db: '' @ e)
            | Inr _ \<Rightarrow> (case HashPassword idkey salt pw of
                Inl e \<Rightarrow> cli_exit (''setpw: hashing password: '' @ e)
              | Inr hash \<Rightarrow> do {
                  a \<leftarrow> SetPassword now username hash;
                  case a of
                    Inl e \<Rightarrow> cli_exit (''setpw: '' @ err_text e)
                  | Inr _ \<Rightarrow> State_Monad.return (CliOut (''updated password for '' @
                      Quote (normalizeUsername username) @ '' in '' @ cfg_DBPath cfg)) }))))
    | _ \<Rightarrow> cli_exit ''setpw: usage: arc-lore-auth setpw <username>'')"

text \<open>\<open>readLine\<close> is what \<open>ReadString\<close> got from standard input, with whether it failed.\<close>

definition runHashSecretCmd ::
  "argon2_idkey \<Rightarrow> byte list option \<Rightarrow> string \<times> bool \<Rightarrow> string list \<Rightarrow> cli_result" where
  "runHashSecretCmd idkey salt readLine args =
    (let secret = (case args of
           a # _ \<Rightarrow> Inr a
         | [] \<Rightarrow> if snd readLine \<and> fst readLine = '''' then Inl ''hash-secret: reading secret from stdin''
             else Inr (TrimRight (fst readLine) [CHR 0x0D, CHR 0x0A]))
     in case secret of
       Inl e \<Rightarrow> CliExit e
     | Inr s \<Rightarrow>
         if s = '''' then CliExit ''hash-secret: secret must not be empty''
         else case HashPassword idkey salt s of
           Inl e \<Rightarrow> CliExit (''hash-secret: hashing secret: '' @ e)
         | Inr hash \<Rightarrow> CliOut hash)"

definition runMintCmd ::
  "jwt_lib \<Rightarrow> (string, daemon_config) result \<Rightarrow> (string, string) result \<Rightarrow> (string, unit) result \<Rightarrow>
    int \<Rightarrow> string \<Rightarrow> string \<Rightarrow> string \<Rightarrow> string \<Rightarrow> cli_result" where
  "runMintCmd lib loaded kid written now audienceOverride user out aud =
    (if user = '''' then CliExit ''mint: --user is required''
     else case loaded of
       Inl e \<Rightarrow> CliExit (''mint: config: '' @ e)
     | Inr cfg \<Rightarrow>
         let audienceOverride = (if aud \<noteq> '''' then aud else audienceOverride);
             cfg = (if audienceOverride \<noteq> '''' then cfg\<lparr>cfg_Audience := audienceOverride\<rparr> else cfg)
         in if cfg_Audience cfg = ''''
            then CliExit ''mint: audience is required (set in config.toml or via -audience flag)''
            else case kid of
              Inl e \<Rightarrow> CliExit (''mint: '' @ e)
            | Inr k \<Rightarrow> (case mintToken lib (auth_config.truncate cfg) now k user of
                Inl e \<Rightarrow> CliMintFailed e
              | Inr token \<Rightarrow>
                  if out \<noteq> '''' then (case written of
                      Inl e \<Rightarrow> CliExit (''mint: writing output file: '' @ e)
                    | Inr _ \<Rightarrow> CliWritten out token)
                  else CliOut token))"

section \<open>Facts\<close>

lemma ImportLegacyUser_Inr:
  assumes "run_state (ImportLegacyUser n dn h c t a) d = (Inr (), d')"
  shows "users d' = users d @ [new_user (normalizeUsername n) dn h a c t] \<and>
    usernamePattern (normalizeUsername n) \<and> resources d' = resources d \<and> grants d' = grants d \<and>
    config d' = config d"
proof -
  obtain norm where v: "validateUsername n = Inr norm"
    using assms by (cases "validateUsername n") (auto simp: ImportLegacyUser_def)
  then have "norm = normalizeUsername n \<and> usernamePattern norm" unfolding validateUsername_Inr .
  with assms show ?thesis
    unfolding ImportLegacyUser_def new_user_def [symmetric] v sum.case run_exec_insert_user
    by (auto simp: insert_user_def split: option.splits if_splits)
qed

text \<open>The rows the loop keeps, and the accounts it makes of them.\<close>

definition kept_rows :: "legacy_user list \<Rightarrow> legacy_user list" where
  "kept_rows rows = filter (\<lambda>u. normalizeUsername (lu_Username u) \<noteq> '''') rows"

definition legacy_account :: "bool \<Rightarrow> legacy_user \<Rightarrow> user" where
  "legacy_account adm u = new_user (normalizeUsername (lu_Username u)) (lu_DisplayName u) (lu_Argon2id u)
    adm (lu_Created u) (lu_Updated u)"

fun legacy_accounts :: "legacy_user list \<Rightarrow> user list" where
  "legacy_accounts [] = []"
| "legacy_accounts (u # us) = legacy_account True u # map (legacy_account False) us"

lemma import_rows_Inr:
  assumes "run_state (import_rows k rows) d = (Inr n, d')"
  shows "users d' = users d @ (if k = 0 then legacy_accounts (kept_rows rows)
      else map (legacy_account False) (kept_rows rows)) \<and>
    resources d' = resources d \<and> grants d' = grants d \<and> config d' = config d"
  using assms
proof (induction rows arbitrary: k d)
  case (Cons u rows)
  let ?n = "normalizeUsername (lu_Username u)"
  show ?case
  proof (cases "?n = []")
    case True
    with Cons show ?thesis by (simp add: kept_rows_def)
  next
    case False
    let ?im = "ImportLegacyUser ?n (lu_DisplayName u) (lu_Argon2id u) (lu_Created u) (lu_Updated u) (k = 0)"
    obtain d1 where im: "run_state ?im d = (Inr (), d1)"
      and rest: "run_state (import_rows (k + 1) rows) d1 = (Inr n, d')"
      using Cons.prems False
      by (cases "run_state ?im d") (auto simp: Let_def split: sum.splits)
    from ImportLegacyUser_Inr [OF im] Cons.IH [OF rest] False show ?thesis
      by (auto simp: kept_rows_def legacy_account_def)
  qed
qed (simp add: kept_rows_def)

lemma HasUsers_run:
  "fst (run_state HasUsers d) = Inr b \<Longrightarrow> b \<longleftrightarrow> users d \<noteq> []"
  "same_tables d (snd (run_state HasUsers d))"
proof -
  show "same_tables d (snd (run_state HasUsers d))"
    by (rule keepsD [OF unchanged.has_users]) simp
qed (auto simp: HasUsers_def split: option.splits)

text \<open>C25: a successful start imports the legacy users file at most once and exactly: with users in
  the store it changes no table, and into an empty one it puts one account per row with a
  name, in order, with the stored hash and times and version zero, the first an administrator and
  no other; nothing else changes.\<close>

theorem legacy_import_exact:
  assumes "run_state (importLegacyUsersFile path (FilePresent (Inr (Inr rows)))) d = (Inr (), d')"
    and "path \<noteq> ''''"
  shows "users d' = (if users d = [] then legacy_accounts (kept_rows rows) else users d) \<and>
    resources d' = resources d \<and> grants d' = grants d \<and> config d' = config d"
proof -
  let ?d1 = "snd (run_state HasUsers d)"
  note same = same_tablesD [OF HasUsers_run(2) [of d]]
  obtain b where h: "fst (run_state HasUsers d) = Inr b"
    using assms by (auto simp: importLegacyUsersFile_def split: sum.splits)
  show ?thesis
  proof (cases b)
    case True
    with assms h have "d' = ?d1" by (simp add: importLegacyUsersFile_def)
    with HasUsers_run(1) [OF h] True same show ?thesis by simp
  next
    case False
    with assms h obtain n where "run_state (import_rows 0 rows) ?d1 = (Inr n, d')"
      by (cases "run_state (import_rows 0 rows) ?d1")
         (auto simp: importLegacyUsersFile_def split: sum.splits)
    from import_rows_Inr [OF this] HasUsers_run(1) [OF h] False same show ?thesis by simp
  qed
qed

definition legacy_row :: "string \<Rightarrow> legacy_user" where
  "legacy_row n = \<lparr>lu_Username = n, lu_DisplayName = '''', lu_Argon2id = ''h'', lu_Created = 3,
    lu_Updated = 4\<rparr>"

lemma legacy_names:
  "validateUsername ''ann'' = Inr ''ann''" "validateUsername ''bob'' = Inr ''bob''"
  "\<exists>e. validateUsername ''a b'' = Inl e" "normalizeUsername ''a b'' = ''a b''" "TrimSpace [] = []"
proof -
  show "\<exists>e. validateUsername ''a b'' = Inl e"
  proof (cases "validateUsername ''a b''")
    case (Inr n)
    then have "usernamePattern (normalizeUsername ''a b'')" by (auto simp: validateUsername_Inr)
    moreover have "\<not> usernamePattern (normalizeUsername ''a b'')" by code_simp
    ultimately show ?thesis by blast
  qed blast
qed (simp_all add: validateUsername_Inr demo_names, code_simp+)

theorem legacy_import_exact_witness:
  "map IsAdmin (users (snd (run_state (importLegacyUsersFile ''u.json''
      (FilePresent (Inr (Inr [legacy_row '' '', legacy_row ''ann'', legacy_row ''bob''])))) (empty_db [])))) =
    [True, False]"
proof -
  let ?im = "importLegacyUsersFile ''u.json''
      (FilePresent (Inr (Inr [legacy_row '' '', legacy_row ''ann'', legacy_row ''bob''])))"
  have sp: "normalizeUsername '' '' = ''''" by code_simp
  have cal: "calm (empty_db [])" by (simp add: calm_def empty_db_def)
  have "fst (run_state ?im (empty_db [])) = Inr ()"
    by (simp add: importLegacyUsersFile_def HasUsers_def cal Let_def legacy_row_def sp demo_names
        ImportLegacyUser_def legacy_names run_exec_insert_user insert_user_def)
       (simp add: empty_db_def fault_of_def popped_def run_exec_insert_user insert_user_def)
  then obtain d' where run: "run_state ?im (empty_db []) = (Inr (), d')" by (metis prod.collapse)
  from legacy_import_exact [OF this] show ?thesis
    by (simp add: run) (simp add: empty_db_def kept_rows_def legacy_row_def sp demo_names
        legacy_account_def new_user_def)
qed

text \<open>An import that fails half-way is not repeated. When a row in the middle has an invalid name
  the first start fails after the rows before it were stored; the next start finds users, succeeds,
  and the rows from there on are never imported.\<close>

theorem legacy_import_not_resumed:
  assumes "calm d" and "users d = []" and "path \<noteq> ''''"
    and "validateUsername (lu_Username u) = Inr n"
    and "validateUsername (lu_Username bad) = Inl e" and "normalizeUsername (lu_Username bad) \<noteq> ''''"
  shows "let file = FilePresent (Inr (Inr (u # bad # rest)));
      (r1, d1) = run_state (importLegacyUsersFile path file) d;
      (r2, d2) = run_state (importLegacyUsersFile path file) d1
    in (\<exists>m. r1 = Inl m) \<and> r2 = Inr () \<and> users d2 = [legacy_account True u]"
proof -
  let ?file = "FilePresent (Inr (Inr (u # bad # rest)))"
  let ?d1 = "d\<lparr>users := [legacy_account True u]\<rparr>"
  have n: "n = normalizeUsername (lu_Username u)" "n \<noteq> []"
    using assms(4) usernamePattern_ne by (auto simp: validateUsername_Inr)
  have v: "validateUsername n = Inr n" using assms(4) by (simp add: validateUsername_norm n(1))
  have bad: "validateUsername (normalizeUsername (lu_Username bad)) = Inl e"
    using assms(5) by (simp add: validateUsername_norm)
  have "run_state (ImportLegacyUser n (lu_DisplayName u) (lu_Argon2id u) (lu_Created u) (lu_Updated u) True) d
      = (Inr (), ?d1)"
    using assms(1,2) unfolding ImportLegacyUser_def new_user_def [symmetric] v sum.case run_exec_insert_user
    by (simp add: insert_user_def legacy_account_def n(1))
  then have "run_state (importLegacyUsersFile path ?file) d =
      (Inl (''importing user '' @ normalizeUsername (lu_Username bad) @ '': '' @ err_text e), ?d1)"
    using assms(1,2,3,6) n bad
    by (simp add: importLegacyUsersFile_def HasUsers_def Let_def ImportLegacyUser_def [of "normalizeUsername (lu_Username bad)"])
  moreover have "run_state (importLegacyUsersFile path ?file) ?d1 = (Inr (), ?d1)"
    using assms(1,3) by (simp add: importLegacyUsersFile_def HasUsers_def)
  ultimately show ?thesis by simp
qed

theorem legacy_import_not_resumed_witness:
  "let file = FilePresent (Inr (Inr [legacy_row ''ann'', legacy_row ''a b'', legacy_row ''bob'']));
      (r1, d1) = run_state (importLegacyUsersFile ''u.json'' file) (empty_db []);
      (r2, d2) = run_state (importLegacyUsersFile ''u.json'' file) d1
    in (\<exists>m. r1 = Inl m) \<and> r2 = Inr () \<and> map Username (users d2) = [''ann'']"
proof -
  obtain e where e: "validateUsername ''a b'' = Inl e" using legacy_names by blast
  have row: "lu_Username (legacy_row n) = n" for n by (simp add: legacy_row_def)
  have "calm (empty_db [])" "users (empty_db []) = []" by (simp_all add: calm_def empty_db_def)
  from legacy_import_not_resumed [OF this, of "''u.json''" "legacy_row ''ann''" "''ann''" "legacy_row ''a b''" e
      "[legacy_row ''bob'']"]
  show ?thesis
    by (simp add: row legacy_names e demo_names legacy_account_def new_user_def Let_def split_def)
qed

section \<open>The daemon\<close>

lemma import_rows_keeps: "keeps db_ok (import_rows k rows)"
  by (induction k rows rule: import_rows.induct)
     (auto simp: Let_def intro!: keeps_rules store_ok.import_legacy)

text \<open>A daemon that starts has an audience and an issuer that differ, serves on a store with
  well-formed tables, and has no login session yet.\<close>

theorem daemon_starts_well_formed:
  assumes "runDaemon now loaded listen audience (Inr d) file = Inr (cfg, s)" and "db_ok d"
  shows "cfg_Audience cfg \<noteq> '''' \<and> cfg_Audience cfg \<noteq> cfg_Issuer cfg \<and> db_ok (as_db s) \<and>
    sessions (as_sessions s) = [] \<and> 0 < ses_ttl (as_sessions s)"
proof -
  have "keeps db_ok (importLegacyUsersFile p file)" for p
    unfolding importLegacyUsersFile_def
    by (cases "file") (auto intro!: keeps_rules import_rows_keeps store_ok.has_users split: bool.split sum.split)
  from keepsD [OF this assms(2)] assms(1) show ?thesis
    by (auto simp: runDaemon_def daemon_settings_def attachWeb_def NewSessionStore_def Let_def
        split: sum.splits if_splits prod.splits)
       (metis snd_conv)+
qed

theorem daemon_starts_well_formed_witness:
  "\<exists>cfg s. runDaemon 0 (Inr (defaultConfig ''key'')) '''' ''lore.lan'' (Inr demo_db) FileMissing = Inr (cfg, s) \<and>
    cfg_Audience cfg \<noteq> cfg_Issuer cfg \<and> db_ok (as_db s)"
proof -
  obtain cfg s where run: "runDaemon 0 (Inr (defaultConfig ''key'')) '''' ''lore.lan'' (Inr demo_db) FileMissing =
      Inr (cfg, s)"
    by (simp add: runDaemon_def daemon_settings_def defaultConfig_def importLegacyUsersFile_def Let_def)
  from daemon_starts_well_formed [OF this demo_ok] run show ?thesis by blast
qed

end
