(* ===== verification/Server.thy ===== *)
theory Server
  imports Daemon
begin

text \<open>
  The whole authentication server: the gRPC methods, the JSON API and the pages over one state, run
  in any sequence of complete requests and sweeps of the session store. What such a run keeps, and
  the interactive login from \<open>StartAuthSession\<close> over the login page to \<open>GetAuthSession\<close>.
\<close>

section \<open>One server\<close>

datatype grpc_call =
    CallExchange int int int "string list option"
  | CallUserInfo int "string list option" "string list"
  | CallUserId int "string list option" string
  | CallCheck int "string list option" "string option" "string list"
  | CallLookup int "string list option" string
  | CallStart "byte list option" int string
  | CallPoll int int string string
  | CallCreate int int "string list option" string string
  | CallDelete int "string list option" string

fun grpc_serve :: "auth_env \<Rightarrow> grpc_call \<Rightarrow> (auth_server, unit) state" where
  "grpc_serve env (CallExchange t0 t1 t2 md) = ignore (on_db
    (ExchangeUserTokenForMultiresourceToken (env_lib env) (env_cfg env) (env_kid env) t0 t1 t2 md))"
| "grpc_serve env (CallUserInfo t md ids) = ignore (on_db (GetUserInfo (env_lib env) (env_cfg env) t md ids))"
| "grpc_serve env (CallUserId t md n) = ignore (on_db (GetUserId (env_lib env) (env_cfg env) t md n))"
| "grpc_serve env (CallCheck t md target rids) =
    ignore (on_db (CheckUserPermission (env_lib env) (env_cfg env) t md target rids))"
| "grpc_serve env (CallLookup t md f) =
    ignore (on_db (LookupUserPermissions (env_lib env) (env_cfg env) t md f))"
| "grpc_serve env (CallStart rnd t cs) = ignore (on_sessions (StartAuthSession (env_cfg env) rnd t cs))"
| "grpc_serve env (CallPoll t0 t1 code cs) = ignore (on_sessions (GetAuthSession (env_lib env) t0 t1 code cs))"
| "grpc_serve env (CallCreate t0 t md i n) =
    ignore (on_db (rebac_CreateResource (env_lib env) (env_cfg env) t0 t md i n))"
| "grpc_serve env (CallDelete t md i) =
    ignore (on_db (rebac_DeleteResource (env_lib env) (env_cfg env) t md i))"

datatype server_event =
    ApiCall request api_call
  | WebCall web_request web_call
  | GrpcCall grpc_call
  | Sweep int

fun server_step :: "auth_env \<Rightarrow> server_event \<Rightarrow> (auth_server, unit) state" where
  "server_step env (ApiCall rq c) = ignore (registerAPIRoutes env rq c)"
| "server_step env (WebCall r c) = ignore (web_serve env r c)"
| "server_step env (GrpcCall c) = grpc_serve env c"
| "server_step env (Sweep t) = ignore (on_sessions (sweepExpired t))"

fun run_server :: "auth_env \<Rightarrow> server_event list \<Rightarrow> auth_server \<Rightarrow> auth_server" where
  "run_server env [] s = s"
| "run_server env (e # es) s = run_server env es (snd (run_state (server_step env e) s))"

section \<open>What a run keeps\<close>

lemma grpc_governed: "keeps (on_tables governed) (grpc_serve env c)"
  by (cases c) (auto intro!: keeps_rules)

lemma server_step_governed: "keeps (on_tables governed) (server_step env e)"
  by (cases e) (auto intro!: keeps_rules api_governed web_governed grpc_governed)

text \<open>C2: complete requests in any order, over gRPC, the JSON API and the pages, keep the tables
  well-formed and never remove the last administrator, whatever they ask, whoever asks, and however
  the driver fails in between.\<close>

theorem server_keeps_an_admin:
  assumes "db_ok (as_db s)" and "has_admin (as_db s)"
  shows "db_ok (as_db (run_server env es s)) \<and> has_admin (as_db (run_server env es s))"
proof -
  have "on_tables governed s \<Longrightarrow> on_tables governed (run_server env es s)"
    by (induction es arbitrary: s) (auto intro: keepsD [OF server_step_governed])
  with assms show ?thesis by (simp add: on_tables_def governed_def)
qed

theorem server_keeps_an_admin_witness:
  "\<forall>env es. db_ok (as_db (run_server env es (demo_server demo_db))) \<and>
    has_admin (as_db (run_server env es (demo_server demo_db)))"
proof -
  have "has_admin demo_db" by (simp add: has_admin_def demo_db_def demo_user_def)
  then show ?thesis using server_keeps_an_admin [of "demo_server demo_db"] by simp
qed

section \<open>The interactive login\<close>

lemma Complete_ttl: "ses_ttl (snd (run_state (Complete t code u tok e) st)) = ses_ttl st"
  by (simp add: Complete_def split: option.split)

lemma Get_ttl: "ses_ttl (snd (run_state (Get t code) st)) = ses_ttl st"
  by (simp add: Get_def split: option.split)

lemma ttl_keeps:
  "keeps (\<lambda>t. ses_ttl (as_sessions t) = k) (on_db m)"
  "keeps (\<lambda>t. ses_ttl (as_sessions t) = k) (on_loginRL l)"
  "keeps (\<lambda>t. ses_ttl (as_sessions t) = k) (on_sessions (Get t code))"
  "keeps (\<lambda>t. ses_ttl (as_sessions t) = k) (on_sessions (Complete t code u tok e))"
  by (simp_all add: keeps_def Get_ttl Complete_ttl)

lemma login_ttl: "keeps (\<lambda>t. ses_ttl (as_sessions t) = k) (handleLoginPost env r)"
  unfolding handleLoginPost_def Let_def by (intro keeps_rules ttl_keeps)

text \<open>C1: the interactive login, from end to end. An editor starts a session; the browser posts the
  login form of that session and sees the success page. Then the form had the password of a stored
  user, and polls within the lifetime of the session and of the token deliver to the holder of the
  client state, once, the token signed for that user with the grants of the moment, under their
  name and with its expiry in milliseconds; without the client state a poll delivers nothing.\<close>

theorem interactive_login_delivers:
  assumes "jwt_exact (env_lib env)" and "db_ok (as_db s)"
    and "run_state (on_sessions (StartAuthSession cfg rnd t0 cs)) s = (Inr (code, url), s1)"
    and "run_state (handleLoginPost env r) s1 = (resp, s2)" and "ws_page resp = LoginDone n"
    and "wr_form r = Some form" and "TrimSpace (form ''session'') = code"
    and "t2 - t0 \<le> ses_ttl (as_sessions s)"
  shows "\<exists>u c tok sec. select_user (normalizeUsername (form ''username'')) (as_db s) = Some u \<and>
    VerifyPassword (env_idkey env) (Argon2id u) (form ''password'') \<and>
    jwt_sign (env_lib env) (env_kid env) c = Inr tok \<and> Subject c = Username u \<and>
    ClResources c = user_entries u (as_db s) \<and> ExpiresAt c = Some sec \<and>
    (t3 < sec * nsec \<longrightarrow> (\<exists>s3. run_state (GetAuthSession (env_lib env) t2 t3 code cs) (as_sessions s2) =
        (Inr (Some \<lparr>UserToken = tok, UTExpiresAt = sec * 1000, UserId = Username u,
           UserName = displayNameFor c\<rparr>), s3) \<and>
      (\<forall>t t' cs'. fst (run_state (GetAuthSession (env_lib env) t t' code cs') s3) = Inr None))) \<and>
    (\<forall>t t' cs'. cs' \<noteq> cs \<longrightarrow>
      fst (run_state (GetAuthSession (env_lib env) t t' code cs') (as_sessions s2)) = Inr None)"
proof -
  let ?new = "\<lparr>clientState = cs, ses_status = sessionPending, ses_username = '''', mintedToken = '''',
    expiresAtMs = 0, ses_created = t0\<rparr>"
  from assms(3) have s1: "s1 = s\<lparr>as_sessions := put_session code ?new (as_sessions s)\<rparr>"
    by (auto simp: StartAuthSession_def Create_def split: if_splits sum.splits)
  have "users_ok (as_db s1)" using assms(2) by (simp add: s1 db_ok_def)
  from handleLoginPost_effect [OF assms(1) this assms(4)] assms(5)
  have "login_completed env r s1 s2" by (simp add: is_done_def)
  then obtain u x tok c sec where u: "select_user (normalizeUsername (form ''username'')) (as_db s) = Some u"
    and pw: "VerifyPassword (env_idkey env) (Argon2id u) (form ''password'')"
    and c: "jwt_sign (env_lib env) (env_kid env) c = Inr tok" "Subject c = Username u"
      "ClResources c = user_entries u (as_db s)" "ExpiresAt c = Some sec"
    and x: "map_of (sessions (as_sessions s1)) code = Some x"
    and fin: "map_of (sessions (as_sessions s2)) = (map_of (sessions (as_sessions s1)))(code \<mapsto>
       x\<lparr>ses_status := sessionComplete, ses_username := Username u, mintedToken := tok,
         expiresAtMs := sec * 1000\<rparr>)"
    using assms(6,7) by (auto simp: login_completed_def s1)
  have x': "x = ?new" using x by (simp add: s1)
  have ttl: "ses_ttl (as_sessions s2) = ses_ttl (as_sessions s)"
    using keepsD [OF login_ttl, of s1 "ses_ttl (as_sessions s)" env r] assms(4) by (simp add: s1)
  have "TrimSpace (Username u) \<noteq> []"
    using select_user_Some [OF u] assms(2) usernamePattern_ne [of "Username u"]
      normalizeUsername_pattern [of "Username u"]
    by (auto simp: db_ok_def users_ok_def user_row_ok_def normalizeUsername_def ToLower_def)
  then have ident: "t3 < sec * nsec \<Longrightarrow> tokenIdentity (env_lib env) t3 tok = Inr (Username u, displayNameFor c)"
    using jwt_exactD(1) [OF assms(1) c(1), of own_opts t3] c(2,4)
    by (simp add: tokenIdentity_def own_acceptable)
  have "map_of (sessions (as_sessions s2)) code = Some \<lparr>clientState = cs, ses_status = sessionComplete,
      ses_username = Username u, mintedToken = tok, expiresAtMs = sec * 1000, ses_created = t0\<rparr>"
    by (simp add: fin x')
  then have "run_state (GetAuthSession (env_lib env) t2 t3 code cs) (as_sessions s2) =
      (Inr (Some \<lparr>UserToken = tok, UTExpiresAt = sec * 1000, UserId = Username u,
         UserName = displayNameFor c\<rparr>), drop_session code (as_sessions s2))" if "t3 < sec * nsec"
    using ident [OF that] assms(8) ttl by (simp add: GetAuthSession_def run_Take expired_def)
  moreover have "fst (run_state (GetAuthSession (env_lib env) t t' code cs')
      (drop_session code (as_sessions s2))) = Inr None" for t t' cs'
    by (simp add: GetAuthSession_def run_Take)
  moreover have "fst (run_state (GetAuthSession (env_lib env) t t' code cs') (as_sessions s2)) = Inr None"
    if "cs' \<noteq> cs" for t t' cs'
    using that by (simp add: GetAuthSession_def run_Take fin x')
  ultimately show ?thesis using u pw c by blast
qed

theorem interactive_login_delivers_witness:
  "\<exists>h s1 resp s2 ut. run_state (on_sessions (StartAuthSession
       (demo_cfg\<lparr>cfg_WebBaseURL := ''http://h''\<rparr>) (Some [0]) 0 ''cs'')) (demo_server (login_db h)) =
       (Inr (''AA'', ''http://h/login?session=AA''), s1) \<and>
     run_state (handleLoginPost (demo_env demo_claims) (demo_web demo_form None)) s1 = (resp, s2) \<and>
     fst (run_state (GetAuthSession (one_token_lib demo_claims) 5 5 ''AA'' ''cs'') (as_sessions s2)) =
       Inr (Some ut) \<and> UserId ut = ''bob''"
proof -
  obtain h where h: "HashPassword toy_idkey (Some [1, 2, 3]) ''right'' = Inr h"
    using toy_hash by blast
  let ?s = "demo_server (login_db h)" and ?env = "demo_env demo_claims"
  let ?post = "run_state (handleLoginPost ?env (demo_web demo_form None)) (open_session ?s)"
  have code: "newSessionCode (Some [0]) = Inr ''AA''" "TrimSpace ''AA'' = ''AA''"
    "TrimSpace ''http://h'' = ''http://h''"
    "TrimRight ''http://h'' ''/'' @ ''/login?session='' @ QueryEscape ''AA'' = ''http://h/login?session=AA''"
    by code_simp+
  have start: "run_state (on_sessions (StartAuthSession (demo_cfg\<lparr>cfg_WebBaseURL := ''http://h''\<rparr>)
      (Some [0]) 0 ''cs'')) ?s = (Inr (''AA'', ''http://h/login?session=AA''), open_session ?s)"
    using code(4) by (simp add: StartAuthSession_def Create_def code(1,3) open_session_def)
  obtain resp s2 where post: "?post = (resp, s2)" by fastforce
  have page: "ws_page resp = LoginDone ''bob''" using demo_login_run(1) [OF h] post by simp
  have ok: "jwt_exact (env_lib ?env)" "db_ok (as_db ?s)" by (simp_all add: one_token_exact)
  have ttl: "5 - 0 \<le> ses_ttl (as_sessions ?s)"
    by (simp add: demo_server_def attachWeb_def NewSessionStore_def)
  have form: "wr_form (demo_web demo_form None) = Some demo_form" "TrimSpace (demo_form ''session'') = ''AA''"
    by (simp_all add: demo_web_def demo_form_def code)
  show ?thesis
    using interactive_login_delivers [OF ok start post page form ttl, of 5]
    unfolding demo_env_simps
  proof (elim exE conjE)
    fix u c tok sec
    assume c: "jwt_sign (one_token_lib demo_claims) ''k'' c = Inr tok"
      "Subject c = Username u" "ExpiresAt c = Some sec"
      and poll: "5 < sec * nsec \<longrightarrow> (\<exists>s3. run_state (GetAuthSession (one_token_lib demo_claims) 5 5
          ''AA'' ''cs'') (as_sessions s2) = (Inr (Some \<lparr>UserToken = tok, UTExpiresAt = sec * 1000,
            UserId = Username u, UserName = displayNameFor c\<rparr>), s3) \<and>
        (\<forall>t t' cs'. fst (run_state (GetAuthSession (one_token_lib demo_claims) t t' ''AA'' cs') s3) = Inr None))"
    from c(1) have "c = demo_claims" by (auto simp: one_token_lib_def split: if_splits)
    with c have sec: "sec = 604800" and u: "Username u = ''bob''" by (auto simp: demo_claims_def)
    from poll obtain s3 where "run_state (GetAuthSession (one_token_lib demo_claims) 5 5 ''AA'' ''cs'')
        (as_sessions s2) = (Inr (Some \<lparr>UserToken = tok, UTExpiresAt = sec * 1000,
          UserId = Username u, UserName = displayNameFor c\<rparr>), s3)"
      by (auto simp: sec)
    then have "fst (run_state (GetAuthSession (one_token_lib demo_claims) 5 5 ''AA'' ''cs'') (as_sessions s2)) =
        Inr (Some \<lparr>UserToken = tok, UTExpiresAt = sec * 1000, UserId = Username u, UserName = displayNameFor c\<rparr>)"
      by simp
    with start post u show ?thesis
      by (intro exI conjI) (assumption | simp)+
  qed
qed

end
