(* ===== verification/Lore_Encoding.thy ===== *)
theory Lore_Encoding
  imports Codec
begin

text \<open>
  \<open>src/ArcLoreWeb/internal/lore/encoding.go\<close>: the textual forms of repository and branch
  ids (16 bytes, 32 hexadecimal characters) and of content addresses (a 32-byte hash, a dash and
  a 16-byte context, 97 characters). Byte slices are byte lists; the nil pointer of
  \<open>AddressString\<close> and \<open>AddressBytes\<close> is \<open>None\<close>; the \<open>[16]byte\<close> of an id is a
  list of length 16, zeroed where \<open>ParseID\<close> returns it beside an error.
\<close>

section \<open>Definitions\<close>

datatype enc_err =
    BadIdLength nat
  | BadIdHex string
  | NilAddress
  | BadHashLength nat
  | BadContextLength nat
  | BadAddressLength nat
  | BadSeparator int
  | BadHashHex
  | BadContextHex

definition idBytes :: nat where "idBytes = 16"
definition idHexLen :: nat where "idHexLen = idBytes * 2"
definition hashBytes :: nat where "hashBytes = 32"
definition hashHexLen :: nat where "hashHexLen = hashBytes * 2"
definition ctxBytes :: nat where "ctxBytes = 16"
definition ctxHexLen :: nat where "ctxHexLen = ctxBytes * 2"
definition addrStrLen :: nat where "addrStrLen = hashHexLen + 1 + ctxHexLen"

lemmas enc_sizes = idBytes_def idHexLen_def hashBytes_def hashHexLen_def ctxBytes_def
  ctxHexLen_def addrStrLen_def

record address =
  Hash :: "byte list"
  Context :: "byte list"

definition IDToHex :: "byte list \<Rightarrow> string" where
  "IDToHex ident = hex_encode ident"

definition ParseID :: "string \<Rightarrow> (enc_err, byte list) result" where
  "ParseID s =
    (if length s \<noteq> idHexLen then Inl (BadIdLength (length s))
     else case hex_decode s of
         None \<Rightarrow> Inl (BadIdHex s)
       | Some raw \<Rightarrow> Inr raw)"

definition AddressString :: "address option \<Rightarrow> (enc_err, string) result" where
  "AddressString addr = (case addr of
      None \<Rightarrow> Inl NilAddress
    | Some a \<Rightarrow>
        if length (Hash a) \<noteq> hashBytes then Inl (BadHashLength (length (Hash a)))
        else if length (Context a) \<noteq> ctxBytes then Inl (BadContextLength (length (Context a)))
        else Inr (hex_encode (Hash a) @ ''-'' @ hex_encode (Context a)))"

definition ParseAddress :: "string \<Rightarrow> (enc_err, address) result" where
  "ParseAddress s =
    (if length s \<noteq> addrStrLen then Inl (BadAddressLength (length s))
     else case IndexByte s CHR ''-'' of
         None \<Rightarrow> Inl (BadSeparator (- 1))
       | Some sep \<Rightarrow>
           if sep \<noteq> hashHexLen then Inl (BadSeparator (int sep))
           else case hex_decode (take sep s) of
               None \<Rightarrow> Inl BadHashHex
             | Some h \<Rightarrow> (case hex_decode (drop (sep + 1) s) of
                   None \<Rightarrow> Inl BadContextHex
                 | Some c \<Rightarrow> Inr \<lparr>Hash = h, Context = c\<rparr>))"

definition AddressBytes :: "address option \<Rightarrow> (enc_err, byte list) result" where
  "AddressBytes addr = (case addr of
      None \<Rightarrow> Inl NilAddress
    | Some a \<Rightarrow>
        if length (Hash a) \<noteq> hashBytes then Inl (BadHashLength (length (Hash a)))
        else if length (Context a) \<noteq> ctxBytes then Inl (BadContextLength (length (Context a)))
        else Inr (Hash a @ Context a))"

section \<open>Well-formed ids and addresses\<close>

definition id_ok :: "byte list \<Rightarrow> bool" where
  "id_ok i \<longleftrightarrow> length i = idBytes"

definition address_ok :: "address \<Rightarrow> bool" where
  "address_ok a \<longleftrightarrow> length (Hash a) = hashBytes \<and> length (Context a) = ctxBytes"

definition dec_id :: "string \<Rightarrow> byte list option" where
  "dec_id s = (case ParseID s of Inl _ \<Rightarrow> None | Inr i \<Rightarrow> Some i)"

definition enc_address :: "address \<Rightarrow> string" where
  "enc_address a = hex_encode (Hash a) @ ''-'' @ hex_encode (Context a)"

definition dec_address :: "string \<Rightarrow> address option" where
  "dec_address s = (case ParseAddress s of Inl _ \<Rightarrow> None | Inr a \<Rightarrow> Some a)"

lemma AddressString_ok: "address_ok a \<Longrightarrow> AddressString (Some a) = Inr (enc_address a)"
  by (simp add: AddressString_def address_ok_def enc_address_def)

lemma AddressString_Inr:
  "AddressString addr = Inr s \<longleftrightarrow> (\<exists>a. addr = Some a \<and> address_ok a \<and> s = enc_address a)"
  by (auto simp: AddressString_def address_ok_def enc_address_def split: option.splits)

lemma dash_not_hex: "CHR ''-'' \<notin> set (hex_encode bs)"
  using hex_encode_lower [of bs] by (auto simp: is_hex_lower_def Let_def)

lemma ParseID_hex: "id_ok i \<Longrightarrow> ParseID (IDToHex i) = Inr i"
  by (simp add: ParseID_def IDToHex_def id_ok_def enc_sizes)

lemma ParseID_Inr: "ParseID s = Inr i \<Longrightarrow> id_ok i \<and> IDToHex i = ToLower s"
  using length_hex_decode [of s i] hex_encode_decode [of s i]
  by (auto simp: ParseID_def IDToHex_def id_ok_def enc_sizes split: option.splits if_splits)

lemma ParseAddress_enc:
  assumes "address_ok a"
  shows "ParseAddress (enc_address a) = Inr a"
proof -
  from assms have h: "length (hex_encode (Hash a)) = hashHexLen"
    and c: "length (enc_address a) = addrStrLen"
    by (simp_all add: address_ok_def enc_address_def enc_sizes)
  have "IndexByte (enc_address a) CHR ''-'' = Some hashHexLen"
    using IndexByte_append [OF dash_not_hex, of "Hash a" "hex_encode (Context a)"] h
    by (simp add: enc_address_def)
  moreover have "take hashHexLen (enc_address a) = hex_encode (Hash a)"
    and "drop (hashHexLen + 1) (enc_address a) = hex_encode (Context a)"
    using h by (simp_all add: enc_address_def)
  ultimately show ?thesis using c by (simp add: ParseAddress_def)
qed

lemma ParseAddress_Inr:
  assumes "ParseAddress s = Inr a"
  shows "address_ok a \<and> enc_address a = ToLower s"
proof -
  let ?i = "hashHexLen"
  from assms have len: "length s = addrStrLen" and sep: "s ! ?i = CHR ''-''"
    and h: "hex_decode (take ?i s) = Some (Hash a)"
    and c: "hex_decode (drop (?i + 1) s) = Some (Context a)"
    by (auto simp: ParseAddress_def IndexByte_Some split: if_splits option.splits)
  have "?i < length s" using len by (simp add: enc_sizes)
  then have s: "s = take ?i s @ CHR ''-'' # drop (?i + 1) s"
    using sep by (metis Suc_eq_plus1 id_take_nth_drop)
  have "enc_address a = ToLower (take ?i s) @ ''-'' @ ToLower (drop (?i + 1) s)"
    using hex_encode_decode [OF h] hex_encode_decode [OF c] by (simp add: enc_address_def)
  also have "\<dots> = ToLower s"
    by (subst (3) s) (simp add: ToLower_def lower_char_def)
  finally have "enc_address a = ToLower s" .
  moreover have "address_ok a"
    using length_hex_decode [OF h] length_hex_decode [OF c] len
    by (simp add: address_ok_def enc_sizes)
  ultimately show ?thesis by simp
qed

interpretation lore_id: text_codec IDToHex dec_id id_ok
  by unfold_locales (simp add: dec_id_def ParseID_hex)

interpretation lore_address: text_codec enc_address dec_address address_ok
  by unfold_locales (simp add: dec_address_def ParseAddress_enc)

section \<open>Properties\<close>

text \<open>Printing an id and reading it back is the identity on 16-byte ids, and a text
  that is read as an id differs from its printed form by at most the case of its letters.\<close>

theorem id_roundtrip:
  "(id_ok i \<longrightarrow> ParseID (IDToHex i) = Inr i) \<and>
   (ParseID s = Inr j \<longrightarrow> id_ok j \<and> IDToHex j = ToLower s)"
  using ParseID_hex ParseID_Inr by blast

theorem id_roundtrip_witness:
  "ParseID (IDToHex (replicate 16 0)) = Inr (replicate 16 0) \<and>
   IDToHex (replicate 16 0) = ToLower (IDToHex (replicate 16 0))"
  using id_roundtrip [of "replicate 16 0" "IDToHex (replicate 16 0)" "replicate 16 0"]
  by (simp add: id_ok_def enc_sizes)

text \<open>An address that prints reads back as itself, and a text that reads as an address prints as
  that text in lower case, the canonical string.\<close>

theorem address_roundtrip:
  "(AddressString addr = Inr s \<longrightarrow> (\<exists>a. addr = Some a \<and> ParseAddress s = Inr a)) \<and>
   (ParseAddress t = Inr a \<longrightarrow> AddressString (Some a) = Inr (ToLower t))"
  using ParseAddress_enc ParseAddress_Inr AddressString_ok by (auto simp: AddressString_Inr)

theorem address_roundtrip_witness:
  "\<exists>s. AddressString (Some \<lparr>Hash = replicate 32 1, Context = replicate 16 2\<rparr>) = Inr s \<and>
    ParseAddress s = Inr \<lparr>Hash = replicate 32 1, Context = replicate 16 2\<rparr>"
proof -
  let ?a = "\<lparr>Hash = replicate 32 1, Context = replicate 16 2\<rparr>"
  have "address_ok ?a" by (simp add: address_ok_def enc_sizes)
  then have "AddressString (Some ?a) = Inr (enc_address ?a)" by (simp add: AddressString_Inr)
  with address_roundtrip [of "Some ?a" "enc_address ?a"] show ?thesis by simp
qed

end
