(* ===== verification/Authz_Cache.thy ===== *)
theory Authz_Cache
  imports Lore_Encoding "HOL-Library.AList"
begin

text \<open>
  \<open>src/ArcLoreWeb/internal/lore/exchange.go\<close>: how the web client trades the identity token of its
  user for an authorization token and caches the result. The state is the part of \<open>Client\<close> that
  \<open>authMu\<close> and \<open>authzMu\<close> guard; what the environment service, the dial and the exchange RPC answer
  are arguments. An error of the transport comes with the answers of \<open>errors.As\<close> for the three
  certificate errors and its gRPC status (\<open>ge_is_status\<close> for the second result of
  \<open>status.FromError\<close>). Debug logging is left out.
\<close>

section \<open>Errors\<close>

datatype status_code =
    StUnavailable | StPermissionDenied | StUnauthenticated | StNotFound | StInvalidArgument
  | StFailedPrecondition | StAlreadyExists | StOther

record go_err =
  ge_text :: string
  ge_cert_verify :: bool
  ge_unknown_authority :: bool
  ge_cert_invalid :: bool
  ge_code :: status_code
  ge_is_status :: bool
  ge_message :: string

text \<open>The sentinels of \<open>write.go\<close>, with the text they are wrapped around, are among the errors of the
  client.\<close>

datatype repo_sentinel =
  ErrRepoPermissionDenied | ErrRepoInvalidArgument | ErrRepoAlreadyExists | ErrRepoNotFound

datatype lore_err =
    ErrAuthServerUnreachable go_err
  | ErrAuthDenied go_err
  | PlainErr go_err
  | LoreMsg string
  | LoreCtx string lore_err
  | RepoErr repo_sentinel string

definition ClassifyExchangeErr :: "go_err \<Rightarrow> lore_err" where
  "ClassifyExchangeErr err =
    (if ge_cert_verify err then ErrAuthServerUnreachable err
     else if ge_unknown_authority err then ErrAuthServerUnreachable err
     else if ge_cert_invalid err then ErrAuthServerUnreachable err
     else case ge_code err of
       StUnavailable \<Rightarrow> ErrAuthServerUnreachable err
     | StPermissionDenied \<Rightarrow> ErrAuthDenied err
     | StUnauthenticated \<Rightarrow> ErrAuthDenied err
     | _ \<Rightarrow> PlainErr err)"

section \<open>The client\<close>

record authzEntry =
  ae_token :: string
  ae_expMs :: int

record auth_client =
  cl_authClient :: "string option"
  cl_authURL :: string
  cl_authURLOverride :: string
  cl_authzCache :: "(string \<times> authzEntry) list"

definition expirySkewMs :: int where "expirySkewMs = 60 * 1000"

definition WildcardResource :: string where "WildcardResource = ''urc-*''"

definition authURLToTarget :: "string \<Rightarrow> (string, string) result" where
  "authURLToTarget authURL =
    (let trimmed = TrimSpace authURL
     in if trimmed = '''' then Inl ''lore: empty auth url''
        else let (_, after, found) = Cut trimmed ''://'';
                 hostPort = (if found then after else trimmed)
             in if hostPort = '''' then Inl (''lore: auth url '' @ Quote authURL @ '' has no host'')
                else if \<not> Contains hostPort '':'' \<or> HasSuffix hostPort '']''
                then Inr (hostPort @ '':443'') else Inr hostPort)"

text \<open>\<open>discovered\<close> is what \<open>GetEnvironment\<close> answers when it is asked.\<close>

definition resolveAuthURL ::
  "(lore_err, string) result \<Rightarrow> (auth_client, (lore_err, string) result) state" where
  "resolveAuthURL discovered = do {
     c \<leftarrow> State_Monad.get;
     if cl_authURLOverride c \<noteq> '''' then State_Monad.return (Inr (cl_authURLOverride c))
     else if cl_authURL c \<noteq> '''' then State_Monad.return (Inr (cl_authURL c))
     else case discovered of
       Inl e \<Rightarrow> State_Monad.return (Inl e)
     | Inr url \<Rightarrow>
         if url = '''' then State_Monad.return (Inl (LoreMsg ''lore: server published no auth url''))
         else do {
           State_Monad.update (\<lambda>c. c\<lparr>cl_authURL := url\<rparr>);
           State_Monad.return (Inr url) } }"

text \<open>The second look under the lock: a connection stored meanwhile wins. A connection is named by
  its target.\<close>

definition store_auth_client :: "string \<Rightarrow> (auth_client, string) state" where
  "store_auth_client target = do {
     c \<leftarrow> State_Monad.get;
     case cl_authClient c of
       Some existing \<Rightarrow> State_Monad.return existing
     | None \<Rightarrow> do {
         State_Monad.update (\<lambda>c. c\<lparr>cl_authClient := Some target\<rparr>);
         State_Monad.return target } }"

definition authClientForURL ::
  "(lore_err, string) result \<Rightarrow> (string \<Rightarrow> (go_err, unit) result) \<Rightarrow>
    (auth_client, (lore_err, string) result) state" where
  "authClientForURL discovered dial = do {
     u \<leftarrow> resolveAuthURL discovered;
     case u of
       Inl e \<Rightarrow> State_Monad.return (Inl e)
     | Inr authURL \<Rightarrow> do {
         c \<leftarrow> State_Monad.get;
         case cl_authClient c of
           Some existing \<Rightarrow> State_Monad.return (Inr existing)
         | None \<Rightarrow> (case authURLToTarget authURL of
             Inl m \<Rightarrow> State_Monad.return (Inl (LoreMsg m))
           | Inr target \<Rightarrow> (case dial target of
               Inl e \<Rightarrow> State_Monad.return (Inl (LoreCtx (''lore: dial auth '' @ Quote target) (PlainErr e)))
             | Inr _ \<Rightarrow> do {
                 cl \<leftarrow> store_auth_client target;
                 State_Monad.return (Inr cl) })) } }"

text \<open>\<open>rpc\<close> is the exchange RPC on a connection, with the value of the \<open>authorization\<close> header and the
  resource: an error, a response without a token, or the token and its expiry.\<close>

type_synonym exchange_rpc = "string \<Rightarrow> string \<Rightarrow> string \<Rightarrow> (go_err, (string \<times> int) option) result"

definition ExchangeResource ::
  "(lore_err, string) result \<Rightarrow> (string \<Rightarrow> (go_err, unit) result) \<Rightarrow> exchange_rpc \<Rightarrow> string \<Rightarrow> string \<Rightarrow>
    (auth_client, (lore_err, string \<times> int) result) state" where
  "ExchangeResource discovered dial rpc identityToken rsc = do {
     a \<leftarrow> authClientForURL discovered dial;
     State_Monad.return (case a of
         Inl e \<Rightarrow> Inl e
       | Inr conn \<Rightarrow> (case rpc conn (''Bearer '' @ identityToken) rsc of
           Inl e \<Rightarrow> Inl (LoreCtx (''lore: ExchangeUserTokenForMultiresourceToken(resource='' @ rsc @ '')'')
               (ClassifyExchangeErr e))
         | Inr None \<Rightarrow> Inl (LoreMsg (''lore: exchange for resource '' @ rsc @ '' returned no token''))
         | Inr (Some (token, expMs)) \<Rightarrow>
             if token = '''' then Inl (LoreMsg (''lore: exchange for resource '' @ rsc @ '' returned no token''))
             else Inr (token, expMs))) }"

section \<open>The cache\<close>

definition cache_key :: "string \<Rightarrow> string \<Rightarrow> string" where
  "cache_key identityToken rsc = identityToken @ [CHR 0x00] @ rsc"

text \<open>The two critical sections of \<open>ResourceAuthzToken\<close>, with the test in between.\<close>

definition cached_token :: "int \<Rightarrow> string \<Rightarrow> auth_client \<Rightarrow> string option" where
  "cached_token nowMs key c = (case map_of (cl_authzCache c) key of
      None \<Rightarrow> None
    | Some e \<Rightarrow> if nowMs < ae_expMs e - expirySkewMs then Some (ae_token e) else None)"

definition store_token :: "int \<Rightarrow> string \<Rightarrow> authzEntry \<Rightarrow> auth_client \<Rightarrow> auth_client" where
  "store_token nowMs key entry c = c\<lparr>cl_authzCache :=
    AList.update key entry (filter (\<lambda>(k, e). \<not> ae_expMs e < nowMs) (cl_authzCache c))\<rparr>"

type_synonym exchange_fn = "string \<Rightarrow> string \<Rightarrow> (auth_client, (lore_err, string \<times> int) result) state"

definition ResourceAuthzToken ::
  "int \<Rightarrow> exchange_fn \<Rightarrow> string \<Rightarrow> string \<Rightarrow> (auth_client, (lore_err, string) result) state" where
  "ResourceAuthzToken nowMs exchangeFn identityToken rsc =
    (if identityToken = '''' then State_Monad.return (Inr '''')
     else do {
       let key = cache_key identityToken rsc;
       c \<leftarrow> State_Monad.get;
       case cached_token nowMs key c of
         Some tok \<Rightarrow> State_Monad.return (Inr tok)
       | None \<Rightarrow> do {
           r \<leftarrow> exchangeFn identityToken rsc;
           case r of
             Inl e \<Rightarrow> State_Monad.return (Inl e)
           | Inr (token, expMs) \<Rightarrow> do {
               State_Monad.update (store_token nowMs key \<lparr>ae_token = token, ae_expMs = expMs\<rparr>);
               State_Monad.return (Inr token) } } })"

definition AuthzToken ::
  "int \<Rightarrow> exchange_fn \<Rightarrow> string \<Rightarrow> byte list \<Rightarrow> (auth_client, (lore_err, string) result) state" where
  "AuthzToken nowMs exchangeFn identityToken repoID =
    ResourceAuthzToken nowMs exchangeFn identityToken (''urc-'' @ IDToHex repoID)"

definition SetAuthURL :: "string \<Rightarrow> (auth_client, unit) state" where
  "SetAuthURL url = State_Monad.update (\<lambda>c. c\<lparr>cl_authURLOverride := url\<rparr>)"

section \<open>Traces\<close>

text \<open>Any interleaving of concurrent requests: exchanges answered for an identity and a resource, and
  their results stored, at any later time and in any order. Other state may change at will.\<close>

datatype authz_event = Exchanged string string string int

inductive authz_trace :: "authz_event list \<Rightarrow> auth_client \<Rightarrow> bool" where
  trace_start: "cl_authzCache c = [] \<Longrightarrow> authz_trace [] c"
| trace_exchange: "authz_trace h c \<Longrightarrow> authz_trace (h @ [Exchanged i r tok e]) c"
| trace_store: "authz_trace h c \<Longrightarrow> Exchanged i r tok e \<in> set h \<Longrightarrow>
    authz_trace h (store_token now (cache_key i r) \<lparr>ae_token = tok, ae_expMs = e\<rparr> c)"
| trace_other: "authz_trace h c \<Longrightarrow> cl_authzCache c' = cl_authzCache c \<Longrightarrow> authz_trace h c'"

inductive_cases authz_trace_NilE: "authz_trace [] c"

lemma cache_key_inj:
  assumes "cache_key i r = cache_key j q" and "CHR 0x00 \<notin> set r" and "CHR 0x00 \<notin> set q"
  shows "i = j \<and> r = q"
proof -
  have "takeWhile (\<lambda>c. c \<noteq> CHR 0x00) (rev r @ CHR 0x00 # w) = rev r" if "CHR 0x00 \<notin> set r" for r w
    using that by (subst takeWhile_append2) auto
  moreover from assms(1) have "rev r @ CHR 0x00 # rev i = rev q @ CHR 0x00 # rev j"
    unfolding cache_key_def by (metis append.assoc append_Cons append_Nil rev.simps(2) rev_append)
  ultimately have "rev r = rev q" using assms(2,3) by metis
  with assms(1) show ?thesis by (simp add: cache_key_def)
qed

lemma map_of_filter_sub:
  "distinct (map fst xs) \<Longrightarrow> map_of (filter p xs) k = Some v \<Longrightarrow> map_of xs k = Some v"
  by (induction xs) (auto split: if_splits dest: map_of_SomeD intro!: map_of_is_SomeI, force)

lemma store_token_lookup:
  assumes "distinct (map fst (cl_authzCache c))"
    and "map_of (cl_authzCache (store_token now key en c)) k = Some v"
  shows "k = key \<and> v = en \<or> map_of (cl_authzCache c) k = Some v"
  using assms map_of_filter_sub [OF assms(1)]
  by (auto simp: store_token_def update_conv' split: if_splits)

lemma store_token_distinct:
  "distinct (map fst (cl_authzCache c)) \<Longrightarrow> distinct (map fst (cl_authzCache (store_token now key en c)))"
  by (simp add: store_token_def distinct_update distinct_map_filter_key)

lemma trace_origin:
  assumes "authz_trace h c"
  shows "distinct (map fst (cl_authzCache c)) \<and> (\<forall>k v. map_of (cl_authzCache c) k = Some v \<longrightarrow>
    (\<exists>i r. k = cache_key i r \<and> Exchanged i r (ae_token v) (ae_expMs v) \<in> set h))"
  using assms
proof (induction rule: authz_trace.induct)
  case (trace_store h c i r tok e now)
  then show ?case
    using store_token_lookup [of c now "cache_key i r" "\<lparr>ae_token = tok, ae_expMs = e\<rparr>"]
    by (fastforce simp: store_token_distinct)
qed fastforce+

lemma update_set: "x \<in> set (AList.update a b xs) \<Longrightarrow> x = (a, b) \<or> x \<in> set xs"
  by (induction xs) (auto split: if_splits)

text \<open>C28: the cache never hands one identity the grants of another, nor a token about to lapse. After
  any interleaving of requests, what \<open>ResourceAuthzToken\<close> returns for an identity and a resource is
  empty for the empty identity, or was obtained by an exchange for this very identity and resource
  and is good for more than a minute, or is the result of the exchange it makes now; then
  every other entry left is not expired. Resources have no zero byte.\<close>

theorem authz_cache_isolated:
  assumes "authz_trace h c" and "\<forall>i r tok e. Exchanged i r tok e \<in> set h \<longrightarrow> CHR 0x00 \<notin> set r"
    and "CHR 0x00 \<notin> set rsc"
    and "run_state (ResourceAuthzToken now exchangeFn ident rsc) c = (Inr t, c')"
  shows "(ident = '''' \<and> t = '''' \<and> c' = c) \<or>
    (\<exists>e. Exchanged ident rsc t e \<in> set h \<and> now < e - 60000 \<and> c' = c) \<or>
    (\<exists>e c1. run_state (exchangeFn ident rsc) c = (Inr (t, e), c1) \<and>
      c' = store_token now (cache_key ident rsc) \<lparr>ae_token = t, ae_expMs = e\<rparr> c1 \<and>
      (\<forall>(k, en)\<in>set (cl_authzCache c'). k = cache_key ident rsc \<or> now \<le> ae_expMs en))"
proof (cases "ident = ''''")
  case True
  with assms(4) show ?thesis by (simp add: ResourceAuthzToken_def)
next
  case False
  let ?key = "cache_key ident rsc"
  show ?thesis
  proof (cases "cached_token now ?key c")
    case (Some tok)
    with False assms(4) have t: "t = tok" "c' = c" by (simp_all add: ResourceAuthzToken_def Let_def)
    from Some obtain v where v: "map_of (cl_authzCache c) ?key = Some v"
      "now < ae_expMs v - expirySkewMs" "tok = ae_token v"
      by (auto simp: cached_token_def split: option.splits if_splits)
    from trace_origin [OF assms(1)] v(1) obtain i r where "?key = cache_key i r"
      "Exchanged i r (ae_token v) (ae_expMs v) \<in> set h" by blast
    with cache_key_inj [of ident rsc i r] assms(2,3) v t show ?thesis
      by (auto simp: expirySkewMs_def)
  next
    case None
    with False assms(4) obtain e c1 where x: "run_state (exchangeFn ident rsc) c = (Inr (t, e), c1)"
      and c': "c' = store_token now ?key \<lparr>ae_token = t, ae_expMs = e\<rparr> c1"
      by (cases "run_state (exchangeFn ident rsc) c")
         (auto simp: ResourceAuthzToken_def Let_def split: sum.splits)
    have "k = ?key \<or> now \<le> ae_expMs en" if "(k, en) \<in> set (cl_authzCache c')" for k en
      using that update_set [of "(k, en)"] by (fastforce simp: c' store_token_def not_less)
    with x c' show ?thesis by blast
  qed
qed

theorem authz_cache_isolated_witness:
  "\<exists>c. authz_trace [Exchanged ''id'' ''urc-*'' ''tok'' 100000] c \<and>
    (\<forall>t c'. run_state (ResourceAuthzToken 5 (\<lambda>i r. State_Monad.return (Inl (LoreMsg ''down''))) ''id'' ''urc-*'') c =
       (Inr t, c') \<longrightarrow> t = ''tok'')"
proof -
  let ?h = "[Exchanged ''id'' ''urc-*'' ''tok'' 100000]"
  let ?start = "\<lparr>cl_authClient = None, cl_authURL = '''', cl_authURLOverride = '''', cl_authzCache = []\<rparr>"
  let ?c = "store_token 0 (cache_key ''id'' ''urc-*'') \<lparr>ae_token = ''tok'', ae_expMs = 100000\<rparr> ?start"
  let ?ex = "\<lambda>i r. State_Monad.return (Inl (LoreMsg ''down'')) :: (auth_client, (lore_err, string \<times> int) result) state"
  have "authz_trace ([] @ ?h) ?start" by (rule trace_exchange) (rule trace_start, simp)
  then have "authz_trace ?h ?start" by simp
  then have tr: "authz_trace ?h ?c" by (rule trace_store) simp
  have "t = ''tok''" if "run_state (ResourceAuthzToken 5 ?ex ''id'' ''urc-*'') ?c = (Inr t, c')" for t c'
    using authz_cache_isolated [OF tr _ _ that] by auto
  with tr show ?thesis by blast
qed

end
