(* ===== verification/Go_Http.thy ===== *)
theory Go_Http
  imports Codec
begin

text \<open>
  What the web client takes from \<open>net/url\<close>, \<open>net/http\<close> and \<open>io\<close>: the escaping of path segments
  and query values, the texts of the status codes, and readers, a sequence that ends in the end of
  the file or in an error.
\<close>

section \<open>net/url\<close>

definition upper_hex_digit :: "nat \<Rightarrow> char" where
  "upper_hex_digit d = (if d < 10 then char_of (48 + d) else char_of (55 + d))"

definition url_unreserved :: "char \<Rightarrow> bool" where
  "url_unreserved c = (let n = of_char c :: nat in
     48 \<le> n \<and> n \<le> 57 \<or> 65 \<le> n \<and> n \<le> 90 \<or> 97 \<le> n \<and> n \<le> 122 \<or> c \<in> set ''-_.~'')"

definition path_safe :: "char \<Rightarrow> bool" where
  "path_safe c \<longleftrightarrow> url_unreserved c \<or> c \<in> set ''$&+=:@''"

definition pct :: "char \<Rightarrow> string" where
  "pct c = [CHR ''%'', upper_hex_digit (of_char c div 16), upper_hex_digit (of_char c mod 16)]"

definition PathEscape :: "string \<Rightarrow> string" where
  "PathEscape s = concat (map (\<lambda>c. if path_safe c then [c] else pct c) s)"

definition QueryEscape :: "string \<Rightarrow> string" where
  "QueryEscape s = concat (map (\<lambda>c. if url_unreserved c then [c]
     else if c = CHR '' '' then ''+'' else pct c) s)"

text \<open>The two decoders share their loop; in a query a plus is a space.\<close>

fun url_unescape :: "bool \<Rightarrow> string \<Rightarrow> string option" where
  "url_unescape q [] = Some []"
| "url_unescape q (c # s) =
    (if c = CHR ''%'' then (case s of
        a # b # r \<Rightarrow> (case (hex_val a, hex_val b) of
            (Some h, Some l) \<Rightarrow> map_option (Cons (char_of (16 * h + l))) (url_unescape q r)
          | _ \<Rightarrow> None)
      | _ \<Rightarrow> None)
     else map_option (Cons (if q \<and> c = CHR ''+'' then CHR '' '' else c)) (url_unescape q s))"

definition PathUnescape :: "string \<Rightarrow> string option" where
  "PathUnescape s = url_unescape False s"

definition QueryUnescape :: "string \<Rightarrow> string option" where
  "QueryUnescape s = url_unescape True s"

lemma of_char_256: "(of_char c :: nat) < 256"
  using of_char_mod_256 [of c, where 'a = nat] by (metis mod_less_divisor zero_less_numeral)

lemma hex_val_upper [simp]: "d < 16 \<Longrightarrow> hex_val (upper_hex_digit d) = Some d"
  by (auto simp: hex_val_def upper_hex_digit_def Let_def)

lemma of_char_nibbles: "(of_char c :: nat) div 16 < 16" "(of_char c :: nat) mod 16 < 16"
  using of_char_256 [of c] by (simp_all add: less_mult_imp_div_less)

lemma url_unescape_pct [simp]: "url_unescape q (pct c @ s) = map_option (Cons c) (url_unescape q s)"
  by (simp add: pct_def of_char_nibbles)

lemma url_unreserved_plain: "url_unreserved c \<Longrightarrow> c \<noteq> CHR ''%'' \<and> c \<noteq> CHR ''+''"
  by (auto simp: url_unreserved_def Let_def)

lemma path_safe_plain: "path_safe c \<Longrightarrow> c \<noteq> CHR ''%''"
  by (auto simp: path_safe_def dest: url_unreserved_plain)

lemma PathUnescape_Escape: "PathUnescape (PathEscape s) = Some s"
  unfolding PathUnescape_def PathEscape_def
  by (induction s) (auto dest: path_safe_plain)

lemma QueryUnescape_Escape: "QueryUnescape (QueryEscape s) = Some s"
  unfolding QueryUnescape_def QueryEscape_def
  by (induction s) (auto dest: url_unreserved_plain)

interpretation path_text: text_codec PathEscape PathUnescape "\<lambda>_. True"
  by unfold_locales (simp add: PathUnescape_Escape)

interpretation query_text: text_codec QueryEscape QueryUnescape "\<lambda>_. True"
  by unfold_locales (simp add: QueryUnescape_Escape)

lemma upper_hex_digit_set:
  assumes "d < 16" shows "upper_hex_digit d \<notin> {CHR ''/'', CHR ''?''}"
proof -
  have "\<forall>d\<in>set [0..<16]. upper_hex_digit d \<notin> {CHR ''/'', CHR ''?''}" by code_simp
  with assms show ?thesis by simp
qed

lemma pct_chars: "x \<in> set (pct c) \<Longrightarrow> x \<noteq> CHR ''/'' \<and> x \<noteq> CHR ''?''"
  using upper_hex_digit_set [OF of_char_nibbles(1) [of c]] upper_hex_digit_set [OF of_char_nibbles(2) [of c]]
  by (auto simp: pct_def)

lemma path_safe_chars: "path_safe c \<Longrightarrow> c \<noteq> CHR ''/'' \<and> c \<noteq> CHR ''?''"
  by (auto simp: path_safe_def url_unreserved_def Let_def)

text \<open>An escaped segment stays one segment.\<close>

lemma PathEscape_segment:
  "CHR ''/'' \<notin> set (PathEscape s)" "CHR ''?'' \<notin> set (PathEscape s)"
  unfolding PathEscape_def by (auto split: if_splits dest: pct_chars path_safe_chars)

lemma PathEscape_Nil_iff [simp]: "PathEscape s = [] \<longleftrightarrow> s = []"
  by (cases s) (auto simp: PathEscape_def pct_def)

lemma PathEscape_eq_iff: "PathEscape s = PathEscape t \<longleftrightarrow> s = t"
  by (rule path_text.enc_inj) simp_all

lemma PathEscape_safe: "list_all path_safe s \<Longrightarrow> PathEscape s = s"
  unfolding PathEscape_def by (induction s) simp_all

section \<open>net/http\<close>

definition StatusText :: "nat \<Rightarrow> string" where
  "StatusText code = (case map_of [
     (100, ''Continue''), (101, ''Switching Protocols''), (102, ''Processing''), (103, ''Early Hints''),
     (200, ''OK''), (201, ''Created''), (202, ''Accepted''), (203, ''Non-Authoritative Information''),
     (204, ''No Content''), (205, ''Reset Content''), (206, ''Partial Content''), (207, ''Multi-Status''),
     (208, ''Already Reported''), (226, ''IM Used''),
     (300, ''Multiple Choices''), (301, ''Moved Permanently''), (302, ''Found''), (303, ''See Other''),
     (304, ''Not Modified''), (305, ''Use Proxy''), (307, ''Temporary Redirect''),
     (308, ''Permanent Redirect''),
     (400, ''Bad Request''), (401, ''Unauthorized''), (402, ''Payment Required''), (403, ''Forbidden''),
     (404, ''Not Found''), (405, ''Method Not Allowed''), (406, ''Not Acceptable''),
     (407, ''Proxy Authentication Required''), (408, ''Request Timeout''), (409, ''Conflict''),
     (410, ''Gone''), (411, ''Length Required''), (412, ''Precondition Failed''),
     (413, ''Request Entity Too Large''), (414, ''Request URI Too Long''),
     (415, ''Unsupported Media Type''), (416, ''Requested Range Not Satisfiable''),
     (417, ''Expectation Failed''), (418, [CHR ''I'', CHR 0x27] @ ''m a teapot''), (421, ''Misdirected Request''),
     (422, ''Unprocessable Entity''), (423, ''Locked''), (424, ''Failed Dependency''),
     (425, ''Too Early''), (426, ''Upgrade Required''), (428, ''Precondition Required''),
     (429, ''Too Many Requests''), (431, ''Request Header Fields Too Large''),
     (451, ''Unavailable For Legal Reasons''),
     (500, ''Internal Server Error''), (501, ''Not Implemented''), (502, ''Bad Gateway''),
     (503, ''Service Unavailable''), (504, ''Gateway Timeout''), (505, ''HTTP Version Not Supported''),
     (506, ''Variant Also Negotiates''), (507, ''Insufficient Storage''), (508, ''Loop Detected''),
     (510, ''Not Extended''), (511, ''Network Authentication Required'')] code of
     Some t \<Rightarrow> t | None \<Rightarrow> '''')"

section \<open>Readers\<close>

text \<open>A body as its reader delivers it: completely, or up to an error.\<close>

datatype 'a reader = Whole "'a list" | Broken "'a list"

text \<open>\<open>io.ReadAll\<close> of \<open>io.LimitReader(r, n)\<close>, which does not touch \<open>r\<close> beyond \<open>n\<close>; on an error the
  callers drop what was read.\<close>

fun read_limited :: "nat \<Rightarrow> 'a reader \<Rightarrow> 'a list option" where
  "read_limited n (Whole s) = Some (take n s)"
| "read_limited n (Broken s) = (if n \<le> length s then Some (take n s) else None)"

lemma read_limited_length: "read_limited n r = Some s \<Longrightarrow> length s \<le> n"
  by (cases r) (auto split: if_splits)

end
