(* ===== verification/Lore_Client.thy ===== *)
theory Lore_Client
  imports Authz_Cache Go_Http
begin

text \<open>
  The typed client of the Lore services in \<open>src/ArcLoreWeb/internal/lore\<close>: \<open>client.go\<close>,
  \<open>stream.go\<close>, \<open>context.go\<close>, \<open>interceptor.go\<close>, \<open>write.go\<close>, \<open>blob.go\<close>, \<open>login.go\<close> and
  \<open>environment.go\<close>. The remote procedures and the HTTP client are arguments, computations on the
  state \<open>'s\<close> of the far end that get the outgoing metadata with the request; a deadline that passes
  is an error they answer with. A server stream is the messages it delivers and how it ends.
\<close>

section \<open>Messages\<close>

record repository =
  rp_Id :: "byte list"
  rp_Name :: string
  rp_Description :: string
  rp_DefaultBranchId :: "byte list"
  rp_DefaultBranchName :: string
  rp_Creator :: string

record branch =
  br_Id :: "byte list"
  br_Name :: string

record revision_identifier =
  rid_BranchId :: "byte list"
  rid_Number :: u64

record revision_parent =
  par_Signature :: "byte list"
  par_Identifier :: "revision_identifier option"

record revision =
  rev_Identifier :: "revision_identifier option"
  rev_CommitMessage :: string
  rev_Timestamp :: u64
  rev_CreatedBy :: string
  rev_CommittedBy :: string
  rev_ParentSelf :: "revision_parent option"
  rev_ParentOther :: "revision_parent option"

datatype node_type = NodeDirectory | NodeFile | NodeLink | NodeUnknown int

record tree_node =
  tn_Path :: string
  tn_NodeType :: node_type
  tn_Address :: "address option"

datatype action = ActKeep | ActAdd | ActDelete | ActMove | ActCopy | ActUnknown int

record diff_change =
  dc_Path :: string
  dc_PathFrom :: string
  dc_Action :: action
  dc_NodeType :: node_type
  dc_ContentFrom :: "byte list"
  dc_ContentTo :: "byte list"

record lock_resource =
  lr_Branch :: "byte list"
  lr_Hash :: "byte list"
  lr_Description :: string

text \<open>The time of a lock is in seconds since the epoch.\<close>

record lore_lock =
  lk_Resource :: "lock_resource option"
  lk_Owner :: string
  lk_LockedAt :: int

text \<open>The getters of a generated message answer the zero value on the nil pointer.\<close>

definition zero_repository :: repository where
  "zero_repository = \<lparr>rp_Id = [], rp_Name = '''', rp_Description = '''', rp_DefaultBranchId = [],
     rp_DefaultBranchName = '''', rp_Creator = ''''\<rparr>"

definition repo_of :: "repository option \<Rightarrow> repository" where
  "repo_of r = (case r of None \<Rightarrow> zero_repository | Some x \<Rightarrow> x)"

definition branch_of :: "branch option \<Rightarrow> branch" where
  "branch_of b = (case b of None \<Rightarrow> \<lparr>br_Id = [], br_Name = ''''\<rparr> | Some x \<Rightarrow> x)"

definition revision_of :: "revision option \<Rightarrow> revision" where
  "revision_of r = (case r of
      None \<Rightarrow> \<lparr>rev_Identifier = None, rev_CommitMessage = '''', rev_Timestamp = 0, rev_CreatedBy = '''',
        rev_CommittedBy = '''', rev_ParentSelf = None, rev_ParentOther = None\<rparr>
    | Some x \<Rightarrow> x)"

definition parent_signature :: "revision_parent option \<Rightarrow> byte list" where
  "parent_signature p = (case p of None \<Rightarrow> [] | Some x \<Rightarrow> par_Signature x)"

definition parent_identifier :: "revision_parent option \<Rightarrow> revision_identifier option" where
  "parent_identifier p = Option.bind p par_Identifier"

section \<open>context.go, interceptor.go\<close>

record callAuth =
  ca_token :: string
  ca_repoID :: "byte list"

type_synonym lore_ctx = "callAuth option"

definition WithLoreCall :: "string \<Rightarrow> byte list \<Rightarrow> lore_ctx" where
  "WithLoreCall token repoID = Some \<lparr>ca_token = token, ca_repoID = repoID\<rparr>"

type_synonym metadata = "(string \<times> string) list"

definition raw_string :: "byte list \<Rightarrow> string" where
  "raw_string bs = map (\<lambda>b. char_of (unat b)) bs"

definition zeroRepo :: "byte list" where
  "zeroRepo = replicate 16 0"

text \<open>The metadata both interceptors put on a call; no other is set on the way.\<close>

definition authOutgoingContext :: "lore_ctx \<Rightarrow> metadata" where
  "authOutgoingContext ctx = (case ctx of
      None \<Rightarrow> []
    | Some a \<Rightarrow>
        (if ca_token a \<noteq> '''' then [(''authorization'', ''Bearer '' @ ca_token a)] else []) @
        (if ca_repoID a \<noteq> zeroRepo
         then [(''lore-partition-bin'', raw_string (ca_repoID a)),
               (''urc-repository-id-bin'', raw_string (ca_repoID a))]
         else []))"

section \<open>Errors\<close>

text \<open>An error of the client as \<open>status.Code\<close> sees it, through the wrapping.\<close>

fun lore_status :: "lore_err \<Rightarrow> status_code" where
  "lore_status (ErrAuthServerUnreachable e) = ge_code e"
| "lore_status (ErrAuthDenied e) = ge_code e"
| "lore_status (PlainErr e) = ge_code e"
| "lore_status (LoreMsg _) = StOther"
| "lore_status (LoreCtx _ e) = lore_status e"
| "lore_status (RepoErr _ _) = StOther"

fun sentinel_text :: "repo_sentinel \<Rightarrow> string" where
  "sentinel_text ErrRepoPermissionDenied = ''lore: permission denied creating repository''"
| "sentinel_text ErrRepoInvalidArgument = ''lore: invalid repository argument''"
| "sentinel_text ErrRepoAlreadyExists = ''lore: repository already exists''"
| "sentinel_text ErrRepoNotFound = ''lore: repository not found''"

fun lore_text :: "lore_err \<Rightarrow> string" where
  "lore_text (ErrAuthServerUnreachable e) =
    ''auth server unreachable or its TLS certificate is not trusted: '' @ ge_text e"
| "lore_text (ErrAuthDenied e) = ''not authorized: token exchange was denied: '' @ ge_text e"
| "lore_text (PlainErr e) = ge_text e"
| "lore_text (LoreMsg m) = m"
| "lore_text (LoreCtx c e) = c @ '': '' @ lore_text e"
| "lore_text (RepoErr k m) = sentinel_text k @ '': '' @ m"

fun is_unreachable :: "lore_err \<Rightarrow> bool" where
  "is_unreachable (ErrAuthServerUnreachable _) = True"
| "is_unreachable (LoreCtx _ e) = is_unreachable e"
| "is_unreachable _ = False"

fun is_repo_not_found :: "lore_err \<Rightarrow> bool" where
  "is_repo_not_found (RepoErr k _) = (k = ErrRepoNotFound)"
| "is_repo_not_found (LoreCtx _ e) = is_repo_not_found e"
| "is_repo_not_found _ = False"

section \<open>The far end\<close>

text \<open>\<open>RevisionAtTip\<close> is the identifier with the number 0.\<close>

datatype revision_query =
    BySignature "byte list"
  | ByIdentifier revision_identifier

datatype 'h tree_msg = TreeHeader 'h | TreeNodeMsg tree_node | TreeNoPayload

datatype 'h diff_msg = DiffHeader 'h | DiffChangeMsg diff_change | DiffConflictMsg | DiffNoPayload

type_synonym 'm rpc_stream = "(go_err, 'm list \<times> go_err option) result"

record create_request =
  cr_Id :: "byte list"
  cr_Name :: string
  cr_Description :: string
  cr_DefaultBranchId :: "byte list"
  cr_DefaultBranchName :: string
  cr_Creator :: string

record content_response =
  ct_Status :: nat
  ct_StatusLine :: string
  ct_ContentType :: string
  ct_Length :: int
  ct_Body :: "byte reader"

text \<open>The header of a stream is of a type \<open>'h\<close>, which the client only passes on.\<close>

record ('s, 'h) lore_rpc =
  rpc_RepositoryList :: "metadata \<Rightarrow> ('s, repository option rpc_stream) state"
  rpc_RepositoryGet :: "metadata \<Rightarrow> string \<Rightarrow> ('s, (go_err, repository option) result) state"
  rpc_BranchGet :: "metadata \<Rightarrow> string \<Rightarrow> ('s, (go_err, branch option) result) state"
  rpc_BranchList :: "metadata \<Rightarrow> ('s, branch option rpc_stream) state"
  rpc_RevisionList :: "metadata \<Rightarrow> revision_query \<Rightarrow>
    ('s, (go_err, byte list list \<times> byte list \<times> byte list) result) state"
  rpc_RevisionInfo :: "metadata \<Rightarrow> revision_query \<Rightarrow> ('s, (go_err, revision option) result) state"
  rpc_RevisionTree :: "metadata \<Rightarrow> revision_identifier \<Rightarrow> string option \<Rightarrow> nat option \<Rightarrow>
    ('s, 'h tree_msg rpc_stream) state"
  rpc_RevisionDiff :: "metadata \<Rightarrow> byte list \<Rightarrow> byte list \<Rightarrow> ('s, 'h diff_msg rpc_stream) state"
  rpc_LockQuery :: "metadata \<Rightarrow> byte list \<Rightarrow> ('s, (go_err, lore_lock list) result) state"
  rpc_Unlock :: "metadata \<Rightarrow> lock_resource list \<Rightarrow> ('s, (go_err, unit) result) state"
  rpc_RepositoryCreate :: "metadata \<Rightarrow> create_request \<Rightarrow> ('s, (go_err, unit) result) state"
  rpc_RepositoryDelete :: "metadata \<Rightarrow> byte list \<Rightarrow> ('s, (go_err, unit) result) state"
  rpc_EnvironmentGet :: "metadata \<Rightarrow> ('s, (go_err, string) result) state"
  http_Get :: "string \<Rightarrow> string option \<Rightarrow> ('s, (string, content_response) result) state"

section \<open>client.go, stream.go\<close>

definition splitScheme :: "string \<Rightarrow> string \<times> bool" where
  "splitScheme addr = (case Index addr ''://'' of
      None \<Rightarrow> (addr, False)
    | Some i \<Rightarrow> (drop (i + 3) addr, HasSuffix (take i addr) ''s''))"

text \<open>What \<open>Dial\<close> sets up: the target and whether it is dialled with TLS, and the base of the content
  endpoint. The connection itself is lazy.\<close>

record dialled =
  dl_target :: string
  dl_tls :: bool
  dl_httpBase :: string

definition Dial :: "string \<Rightarrow> string \<Rightarrow> (string, unit) result \<Rightarrow> (string, dialled) result" where
  "Dial grpcAddr httpBaseURL conn = (let (target, useTLS) = splitScheme grpcAddr in
     case conn of
       Inl e \<Rightarrow> Inl (''lore: dial '' @ Quote target @ '': '' @ e)
     | Inr _ \<Rightarrow> Inr \<lparr>dl_target = target, dl_tls = useTLS, dl_httpBase = TrimRight httpBaseURL ''/''\<rparr>)"

definition GRPCHost :: "dialled \<Rightarrow> string" where
  "GRPCHost c = dl_target c"

definition maxRepositoryRows :: nat where "maxRepositoryRows = 500"
definition maxBranchRows :: nat where "maxBranchRows = 1000"

text \<open>The drain of a list stream: nil messages are skipped, and it stops at the bound.\<close>

fun drain_rows :: "nat \<Rightarrow> string \<Rightarrow> 'm list \<Rightarrow> 'm option list \<Rightarrow> go_err option \<Rightarrow> 'm list \<times> lore_err option" where
  "drain_rows cap op out [] fin = (case fin of
      None \<Rightarrow> (out, None)
    | Some e \<Rightarrow> (out, Some (LoreCtx (''lore: '' @ op @ '' recv'') (PlainErr e))))"
| "drain_rows cap op out (None # ms) fin = drain_rows cap op out ms fin"
| "drain_rows cap op out (Some m # ms) fin =
    (if length out + 1 \<ge> cap then (out @ [m], None) else drain_rows cap op (out @ [m]) ms fin)"

definition ListRepositories_rpc :: "('s, 'h) lore_rpc \<Rightarrow> lore_ctx \<Rightarrow> ('s, repository list \<times> lore_err option) state" where
  "ListRepositories_rpc rpc ctx = do {
     r \<leftarrow> rpc_RepositoryList rpc (authOutgoingContext ctx);
     State_Monad.return (case r of
         Inl e \<Rightarrow> ([], Some (LoreCtx ''lore: RepositoryList'' (PlainErr e)))
       | Inr (ms, fin) \<Rightarrow> drain_rows maxRepositoryRows ''RepositoryList'' [] ms fin) }"

definition ListBranches :: "('s, 'h) lore_rpc \<Rightarrow> lore_ctx \<Rightarrow> ('s, branch list \<times> lore_err option) state" where
  "ListBranches rpc ctx = do {
     r \<leftarrow> rpc_BranchList rpc (authOutgoingContext ctx);
     State_Monad.return (case r of
         Inl e \<Rightarrow> ([], Some (LoreCtx ''lore: BranchList'' (PlainErr e)))
       | Inr (ms, fin) \<Rightarrow> drain_rows maxBranchRows ''BranchList'' [] ms fin) }"

definition GetRepositoryByName :: "('s, 'h) lore_rpc \<Rightarrow> lore_ctx \<Rightarrow> string \<Rightarrow>
    ('s, (lore_err, repository option) result) state" where
  "GetRepositoryByName rpc ctx name = do {
     r \<leftarrow> rpc_RepositoryGet rpc (authOutgoingContext ctx) name;
     State_Monad.return (map_sum (\<lambda>e. LoreCtx (''lore: RepositoryGet(name='' @ Quote name @ '')'') (PlainErr e))
       id r) }"

definition GetBranchByName :: "('s, 'h) lore_rpc \<Rightarrow> lore_ctx \<Rightarrow> string \<Rightarrow>
    ('s, (lore_err, branch option) result) state" where
  "GetBranchByName rpc ctx name = do {
     r \<leftarrow> rpc_BranchGet rpc (authOutgoingContext ctx) name;
     State_Monad.return (map_sum (\<lambda>e. LoreCtx (''lore: BranchGet(name='' @ Quote name @ '')'') (PlainErr e))
       id r) }"

definition ListRevisions :: "('s, 'h) lore_rpc \<Rightarrow> lore_ctx \<Rightarrow> byte list \<Rightarrow> byte list option \<Rightarrow>
    ('s, (lore_err, byte list list \<times> byte list \<times> byte list) result) state" where
  "ListRevisions rpc ctx branchID cursor = do {
     r \<leftarrow> rpc_RevisionList rpc (authOutgoingContext ctx) (case cursor of
         None \<Rightarrow> ByIdentifier \<lparr>rid_BranchId = branchID, rid_Number = 0\<rparr>
       | Some c \<Rightarrow> BySignature c);
     State_Monad.return (map_sum (\<lambda>e. LoreCtx ''lore: RevisionList'' (PlainErr e)) id r) }"

definition revisionInfo :: "('s, 'h) lore_rpc \<Rightarrow> lore_ctx \<Rightarrow> revision_query \<Rightarrow>
    ('s, (lore_err, revision option) result) state" where
  "revisionInfo rpc ctx q = do {
     r \<leftarrow> rpc_RevisionInfo rpc (authOutgoingContext ctx) q;
     State_Monad.return (map_sum (\<lambda>e. LoreCtx ''lore: RevisionInfo'' (PlainErr e)) id r) }"

definition RevisionInfoBySignature :: "('s, 'h) lore_rpc \<Rightarrow> lore_ctx \<Rightarrow> byte list \<Rightarrow>
    ('s, (lore_err, revision option) result) state" where
  "RevisionInfoBySignature rpc ctx sig = revisionInfo rpc ctx (BySignature sig)"

definition RevisionInfoByIdentifier :: "('s, 'h) lore_rpc \<Rightarrow> lore_ctx \<Rightarrow> byte list \<Rightarrow> u64 \<Rightarrow>
    ('s, (lore_err, revision option) result) state" where
  "RevisionInfoByIdentifier rpc ctx branchID n =
    revisionInfo rpc ctx (ByIdentifier \<lparr>rid_BranchId = branchID, rid_Number = n\<rparr>)"

text \<open>The drains of the two revision streams. \<open>first\<close> as in the code: a header may only come first.\<close>

fun drain_tree :: "bool \<Rightarrow> 'h option \<Rightarrow> tree_node list \<Rightarrow> 'h tree_msg list \<Rightarrow> go_err option \<Rightarrow>
    'h option \<times> tree_node list \<times> lore_err option" where
  "drain_tree first header nodes [] fin = (header, nodes, map_option PlainErr fin)"
| "drain_tree first header nodes (TreeHeader h # ms) fin =
    (if \<not> first then (header, nodes, Some (LoreMsg ''lore: RevisionTree header out of order''))
     else drain_tree False (Some h) nodes ms fin)"
| "drain_tree first header nodes (TreeNodeMsg n # ms) fin = drain_tree False header (nodes @ [n]) ms fin"
| "drain_tree first header nodes (TreeNoPayload # ms) fin =
    (header, nodes, Some (LoreMsg ''lore: RevisionTree unexpected payload <nil>''))"

definition drainRevisionTree :: "'h tree_msg list \<times> go_err option \<Rightarrow>
    'h option \<times> tree_node list \<times> lore_err option" where
  "drainRevisionTree st = drain_tree True None [] (fst st) (snd st)"

text \<open>An entry is a change, or \<open>None\<close> for a conflict.\<close>

fun drain_diff :: "bool \<Rightarrow> 'h option \<Rightarrow> diff_change option list \<Rightarrow> 'h diff_msg list \<Rightarrow> go_err option \<Rightarrow>
    'h option \<times> diff_change option list \<times> lore_err option" where
  "drain_diff first header es [] fin = (header, es, map_option PlainErr fin)"
| "drain_diff first header es (DiffHeader h # ms) fin =
    (if \<not> first then (header, es, Some (LoreMsg ''lore: RevisionDiff header out of order''))
     else drain_diff False (Some h) es ms fin)"
| "drain_diff first header es (DiffChangeMsg c # ms) fin = drain_diff False header (es @ [Some c]) ms fin"
| "drain_diff first header es (DiffConflictMsg # ms) fin = drain_diff False header (es @ [None]) ms fin"
| "drain_diff first header es (DiffNoPayload # ms) fin =
    (header, es, Some (LoreMsg ''lore: RevisionDiff unexpected payload <nil>''))"

definition drainRevisionDiff :: "'h diff_msg list \<times> go_err option \<Rightarrow>
    'h option \<times> diff_change option list \<times> lore_err option" where
  "drainRevisionDiff st = drain_diff True None [] (fst st) (snd st)"

definition RevisionTree :: "('s, 'h) lore_rpc \<Rightarrow> lore_ctx \<Rightarrow> byte list \<Rightarrow> u64 \<Rightarrow> string \<Rightarrow> nat \<Rightarrow>
    ('s, 'h option \<times> tree_node list \<times> lore_err option) state" where
  "RevisionTree rpc ctx branchID n pathPrefix maxDepth = do {
     r \<leftarrow> rpc_RevisionTree rpc (authOutgoingContext ctx) \<lparr>rid_BranchId = branchID, rid_Number = n\<rparr>
       (if pathPrefix \<noteq> '''' then Some pathPrefix else None)
       (if maxDepth \<noteq> 0 then Some maxDepth else None);
     State_Monad.return (case r of
         Inl e \<Rightarrow> (None, [], Some (LoreCtx ''lore: RevisionTree'' (PlainErr e)))
       | Inr st \<Rightarrow> (case drainRevisionTree st of (h, ns, err) \<Rightarrow>
           (h, ns, map_option (LoreCtx ''lore: RevisionTree drain'') err))) }"

definition RevisionDiff :: "('s, 'h) lore_rpc \<Rightarrow> lore_ctx \<Rightarrow> byte list \<Rightarrow> byte list \<Rightarrow>
    ('s, 'h option \<times> diff_change option list \<times> lore_err option) state" where
  "RevisionDiff rpc ctx sigFrom sigTo = do {
     r \<leftarrow> rpc_RevisionDiff rpc (authOutgoingContext ctx) sigFrom sigTo;
     State_Monad.return (case r of
         Inl e \<Rightarrow> (None, [], Some (LoreCtx ''lore: RevisionDiff'' (PlainErr e)))
       | Inr st \<Rightarrow> (case drainRevisionDiff st of (h, es, err) \<Rightarrow>
           (h, es, map_option (LoreCtx ''lore: RevisionDiff drain'') err))) }"

definition QueryLocks :: "('s, 'h) lore_rpc \<Rightarrow> lore_ctx \<Rightarrow> byte list \<Rightarrow>
    ('s, (lore_err, lore_lock list) result) state" where
  "QueryLocks rpc ctx branchID = do {
     r \<leftarrow> rpc_LockQuery rpc (authOutgoingContext ctx) branchID;
     State_Monad.return (map_sum (\<lambda>e. LoreCtx ''lore: lock Query'' (PlainErr e)) id r) }"

section \<open>environment.go, login.go\<close>

definition GetEnvironment :: "('s, 'h) lore_rpc \<Rightarrow> lore_ctx \<Rightarrow> ('s, (lore_err, string) result) state" where
  "GetEnvironment rpc ctx = do {
     r \<leftarrow> rpc_EnvironmentGet rpc (authOutgoingContext ctx);
     State_Monad.return (map_sum (\<lambda>e. LoreCtx ''lore: EnvironmentGet'' (PlainErr e)) id r) }"

definition randomClientState :: "(string, byte list) result \<Rightarrow> (lore_err, string) result" where
  "randomClientState rnd = (case rnd of
      Inl e \<Rightarrow> Inl (LoreMsg (''lore: client_state generation: '' @ e))
    | Inr buf \<Rightarrow> Inr (hex_encode buf))"

text \<open>\<open>start\<close> and \<open>poll\<close> are the procedures of the auth connection; a poll without a token is still
  pending.\<close>

definition StartAuthSession_client ::
  "(lore_err, string) result \<Rightarrow> (string \<Rightarrow> (go_err, unit) result) \<Rightarrow> (string, byte list) result \<Rightarrow>
    (string \<Rightarrow> string \<Rightarrow> (go_err, string \<times> string) result) \<Rightarrow>
    (auth_client, (lore_err, string \<times> string \<times> string) result) state" where
  "StartAuthSession_client discovered dial rnd start = do {
     a \<leftarrow> authClientForURL discovered dial;
     State_Monad.return (case a of
         Inl e \<Rightarrow> Inl e
       | Inr conn \<Rightarrow> (case randomClientState rnd of
           Inl e \<Rightarrow> Inl e
         | Inr clientState \<Rightarrow> (case start conn clientState of
             Inl e \<Rightarrow> Inl (LoreCtx ''lore: StartAuthSession'' (PlainErr e))
           | Inr (code, url) \<Rightarrow> Inr (code, url, clientState)))) }"

record polled_token =
  pt_token :: string
  pt_userID :: string
  pt_userName :: string
  pt_expiresMs :: int

definition PollAuthSession ::
  "(lore_err, string) result \<Rightarrow> (string \<Rightarrow> (go_err, unit) result) \<Rightarrow>
    (string \<Rightarrow> string \<Rightarrow> string \<Rightarrow> (go_err, polled_token option) result) \<Rightarrow> string \<Rightarrow> string \<Rightarrow>
    (auth_client, (lore_err, polled_token option) result) state" where
  "PollAuthSession discovered dial poll sessionCode clientState = do {
     a \<leftarrow> authClientForURL discovered dial;
     State_Monad.return (case a of
         Inl e \<Rightarrow> Inl e
       | Inr conn \<Rightarrow> (case poll conn sessionCode clientState of
           Inl e \<Rightarrow> Inl (LoreCtx ''lore: GetAuthSession'' (PlainErr e))
         | Inr None \<Rightarrow> Inr None
         | Inr (Some t) \<Rightarrow> if pt_token t = '''' then Inr None else Inr (Some t))) }"

section \<open>write.go\<close>

definition mapRepoCreateError :: "go_err \<Rightarrow> lore_err" where
  "mapRepoCreateError err =
    (if \<not> ge_is_status err then LoreCtx ''lore: RepositoryCreate'' (PlainErr err)
     else case ge_code err of
       StPermissionDenied \<Rightarrow> RepoErr ErrRepoPermissionDenied (ge_message err)
     | StUnauthenticated \<Rightarrow> RepoErr ErrRepoPermissionDenied (ge_message err)
     | StInvalidArgument \<Rightarrow> RepoErr ErrRepoInvalidArgument (ge_message err)
     | StFailedPrecondition \<Rightarrow> RepoErr ErrRepoInvalidArgument (ge_message err)
     | StAlreadyExists \<Rightarrow> RepoErr ErrRepoAlreadyExists (ge_message err)
     | _ \<Rightarrow> LoreCtx ''lore: RepositoryCreate'' (PlainErr err))"

definition mapRepoDeleteError :: "go_err \<Rightarrow> lore_err" where
  "mapRepoDeleteError err =
    (if \<not> ge_is_status err then LoreCtx ''lore: RepositoryDelete'' (PlainErr err)
     else case ge_code err of
       StNotFound \<Rightarrow> RepoErr ErrRepoNotFound (ge_text err)
     | StPermissionDenied \<Rightarrow> LoreMsg ''lore: not authorized to delete this repository''
     | StUnauthenticated \<Rightarrow> LoreMsg ''lore: not authorized to delete this repository''
     | _ \<Rightarrow> LoreCtx ''lore: RepositoryDelete'' (PlainErr err))"

record RepositoryCreateInput =
  in_Name :: string
  in_Description :: string
  in_DefaultBranchName :: string
  in_Creator :: string

text \<open>The two UUIDs are drawn in this order.\<close>

definition RepositoryCreate ::
  "('s, 'h) lore_rpc \<Rightarrow> (string, byte list) result \<Rightarrow> (string, byte list) result \<Rightarrow> string \<Rightarrow>
    RepositoryCreateInput \<Rightarrow> ('s, (lore_err, byte list) result) state" where
  "RepositoryCreate rpc repoUUID branchUUID token inp = (case repoUUID of
      Inl e \<Rightarrow> State_Monad.return (Inl (LoreMsg (''lore: generate repository id: '' @ e)))
    | Inr repoID \<Rightarrow> (case branchUUID of
        Inl e \<Rightarrow> State_Monad.return (Inl (LoreMsg (''lore: generate default branch id: '' @ e)))
      | Inr branchID \<Rightarrow> do {
          r \<leftarrow> rpc_RepositoryCreate rpc (authOutgoingContext (WithLoreCall token repoID))
            \<lparr>cr_Id = repoID, cr_Name = in_Name inp, cr_Description = in_Description inp,
             cr_DefaultBranchId = branchID,
             cr_DefaultBranchName =
               (if in_DefaultBranchName inp = '''' then ''main'' else in_DefaultBranchName inp),
             cr_Creator = in_Creator inp\<rparr>;
          State_Monad.return (case r of Inl e \<Rightarrow> Inl (mapRepoCreateError e) | Inr _ \<Rightarrow> Inr repoID) }))"

definition RepositoryDelete :: "('s, 'h) lore_rpc \<Rightarrow> string \<Rightarrow> byte list \<Rightarrow> ('s, lore_err option) state" where
  "RepositoryDelete rpc token repoID = do {
     r \<leftarrow> rpc_RepositoryDelete rpc (authOutgoingContext (WithLoreCall token zeroRepo)) repoID;
     State_Monad.return (case r of Inl e \<Rightarrow> Some (mapRepoDeleteError e) | Inr _ \<Rightarrow> None) }"

definition Unlock :: "('s, 'h) lore_rpc \<Rightarrow> string \<Rightarrow> byte list \<Rightarrow> lock_resource list \<Rightarrow>
    ('s, lore_err option) state" where
  "Unlock rpc token repoID ls = do {
     r \<leftarrow> rpc_Unlock rpc (authOutgoingContext (WithLoreCall token repoID)) ls;
     State_Monad.return (case r of
         Inl e \<Rightarrow> Some (LoreCtx ''lore: lock Unlock'' (PlainErr e)) | Inr _ \<Rightarrow> None) }"

section \<open>blob.go\<close>

definition MaxHighlightBytes :: nat where "MaxHighlightBytes = 2 ^ 20"

text \<open>The texts of the errors \<open>AddressString\<close> returns.\<close>

definition enc_err_text :: "enc_err \<Rightarrow> string" where
  "enc_err_text e = (case e of
      NilAddress \<Rightarrow> ''lore: nil address''
    | BadHashLength n \<Rightarrow> ''lore: address hash must be 32 bytes, got '' @ dec_nat n
    | BadContextLength n \<Rightarrow> ''lore: address context must be 16 bytes, got '' @ dec_nat n
    | _ \<Rightarrow> '''')"

definition FetchContent ::
  "('s, 'h) lore_rpc \<Rightarrow> string \<Rightarrow> lore_ctx \<Rightarrow> byte list \<Rightarrow> address option \<Rightarrow>
    ('s, (lore_err, content_response) result) state" where
  "FetchContent rpc httpBase ctx repoID addr = (case AddressString addr of
      Inl e \<Rightarrow> State_Monad.return (Inl (LoreMsg (enc_err_text e)))
    | Inr addrStr \<Rightarrow> do {
        r \<leftarrow> http_Get rpc (httpBase @ ''/v1/repository/'' @ IDToHex repoID @ ''/content/'' @ addrStr @ ''/'')
          (case ctx of
             None \<Rightarrow> None
           | Some a \<Rightarrow> if ca_token a \<noteq> '''' then Some (''Bearer '' @ ca_token a) else None);
        State_Monad.return (case r of
            Inl e \<Rightarrow> Inl (LoreMsg (''lore: fetch content: '' @ e))
          | Inr resp \<Rightarrow>
              if ct_Status resp \<noteq> 200
              then Inl (LoreMsg (''lore: content endpoint returned '' @ ct_StatusLine resp))
              else Inr resp) })"

definition FetchContentBytes ::
  "('s, 'h) lore_rpc \<Rightarrow> string \<Rightarrow> lore_ctx \<Rightarrow> byte list \<Rightarrow> address option \<Rightarrow> nat \<Rightarrow>
    ('s, (lore_err, byte list \<times> bool) result) state" where
  "FetchContentBytes rpc httpBase ctx repoID addr cap =
    (if (case addr of None \<Rightarrow> True | Some a \<Rightarrow> length (Hash a) = 0 \<and> length (Context a) = 0)
     then State_Monad.return (Inr ([], False))
     else do {
       r \<leftarrow> FetchContent rpc httpBase ctx repoID addr;
       State_Monad.return (case r of
           Inl e \<Rightarrow> Inl e
         | Inr resp \<Rightarrow> (case read_limited (cap + 1) (ct_Body resp) of
             None \<Rightarrow> Inl (LoreMsg ''lore: read content bytes'')
           | Some rd \<Rightarrow> if length rd > cap then Inr (take cap rd, True) else Inr (rd, False))) })"

section \<open>Properties\<close>

lemma drain_rows_exact:
  "length out < cap \<Longrightarrow> drain_rows cap op out ms fin =
    (let rows = List.map_filter id ms in
     if length out + length rows \<ge> cap then (out @ take (cap - length out) rows, None)
     else (out @ rows, map_option (\<lambda>e. LoreCtx (''lore: '' @ op @ '' recv'') (PlainErr e)) fin))"
proof (induction cap op out ms fin rule: drain_rows.induct)
  case (3 cap op out m ms fin)
  show ?case
  proof (cases "length out + 1 \<ge> cap")
    case True
    with 3(2) have "cap - length out = 1" by simp
    with True show ?thesis by (simp add: map_filter_simps)
  next
    case False
    then have "cap - length out = Suc (cap - length (out @ [m]))" by simp
    with 3(1) False show ?thesis by (auto simp: map_filter_simps Let_def)
  qed
qed (auto simp: map_filter_simps split: option.split)

lemma drain_tree_rest:
  "drain_tree False h ns ms fin = (h', ns', None) \<longleftrightarrow>
    fin = None \<and> h' = h \<and> (\<exists>xs. ms = map TreeNodeMsg xs \<and> ns' = ns @ xs)"
  by (induction False h ns ms fin arbitrary: ns' rule: drain_tree.induct)
    (auto simp: Cons_eq_map_conv)

lemma drain_diff_rest:
  "drain_diff False h es ms fin = (h', es', None) \<longleftrightarrow>
    fin = None \<and> h' = h \<and> (\<exists>xs. es' = es @ xs \<and>
      ms = map (\<lambda>e. case e of Some c \<Rightarrow> DiffChangeMsg c | None \<Rightarrow> DiffConflictMsg) xs)"
  by (induction False h es ms fin arbitrary: es' rule: drain_diff.induct)
    (auto simp: Cons_eq_map_conv split: option.splits)

text \<open>The streams are drained exactly. A revision tree or diff is returned without an error just
  when the stream ended, at most its first message was a header, and every other carried an
  element; then all elements are there, in order. The lists skip the empty messages, keep the order,
  and stop without an error at their bound.\<close>

theorem streams_drained_exactly:
  "(drainRevisionTree (ms, fin) = (h, ns, None) \<longleftrightarrow> fin = None \<and>
     ms = (case h of None \<Rightarrow> [] | Some x \<Rightarrow> [TreeHeader x]) @ map TreeNodeMsg ns) \<and>
   (drainRevisionDiff (ds, fin) = (h, es, None) \<longleftrightarrow> fin = None \<and>
     ds = (case h of None \<Rightarrow> [] | Some x \<Rightarrow> [DiffHeader x]) @
       map (\<lambda>e. case e of Some c \<Rightarrow> DiffChangeMsg c | None \<Rightarrow> DiffConflictMsg) es) \<and>
   run_state (ListRepositories_rpc rpc ctx) s =
     (case run_state (rpc_RepositoryList rpc (authOutgoingContext ctx)) s of
        (Inl e, s') \<Rightarrow> (([], Some (LoreCtx ''lore: RepositoryList'' (PlainErr e))), s')
      | (Inr (rs, end), s') \<Rightarrow> (let rows = List.map_filter id rs in
          (if length rows \<ge> 500 then (take 500 rows, None)
           else (rows, map_option (\<lambda>e. LoreCtx ''lore: RepositoryList recv'' (PlainErr e)) end), s')))"
proof -
  have "drainRevisionTree (ms, fin) = (h, ns, None) \<longleftrightarrow> fin = None \<and>
     ms = (case h of None \<Rightarrow> [] | Some x \<Rightarrow> [TreeHeader x]) @ map TreeNodeMsg ns"
    by (cases "(True, None :: 'a option, [] :: tree_node list, ms, fin)" rule: drain_tree.cases)
      (auto simp: drainRevisionTree_def drain_tree_rest Cons_eq_map_conv split: option.splits)
  moreover have "drainRevisionDiff (ds, fin) = (h, es, None) \<longleftrightarrow> fin = None \<and>
     ds = (case h of None \<Rightarrow> [] | Some x \<Rightarrow> [DiffHeader x]) @
       map (\<lambda>e. case e of Some c \<Rightarrow> DiffChangeMsg c | None \<Rightarrow> DiffConflictMsg) es"
    by (cases "(True, None :: 'a option, [] :: diff_change option list, ds, fin)" rule: drain_diff.cases)
      (auto simp: drainRevisionDiff_def drain_diff_rest Cons_eq_map_conv split: option.splits)
  ultimately show ?thesis
    by (auto simp: ListRepositories_rpc_def drain_rows_exact maxRepositoryRows_def Let_def
        split: prod.split sum.split)
qed

text \<open>A small far end for the witnesses: a repository \<open>demo\<close> of one file, in a world without state.\<close>

definition demo_repo :: repository where
  "demo_repo = \<lparr>rp_Id = replicate 16 1, rp_Name = ''demo'', rp_Description = '''',
     rp_DefaultBranchId = replicate 16 2, rp_DefaultBranchName = ''main'', rp_Creator = ''root''\<rparr>"

definition demo_address :: address where
  "demo_address = \<lparr>Hash = replicate 32 7, Context = replicate 16 8\<rparr>"

definition demo_rpc :: "(unit, unit) lore_rpc" where
  "demo_rpc = \<lparr>
     rpc_RepositoryList = \<lambda>_. State_Monad.return (Inr ([Some demo_repo, None], None)),
     rpc_RepositoryGet = \<lambda>_ _. State_Monad.return (Inr (Some demo_repo)),
     rpc_BranchGet = \<lambda>_ n. State_Monad.return (Inr (Some \<lparr>br_Id = replicate 16 2, br_Name = n\<rparr>)),
     rpc_BranchList = \<lambda>_. State_Monad.return (Inr ([], None)),
     rpc_RevisionList = \<lambda>_ _. State_Monad.return (Inr ([[1], [2], [1]], [], [])),
     rpc_RevisionInfo = \<lambda>_ _. State_Monad.return (Inr None),
     rpc_RevisionTree = \<lambda>_ _ _ _. State_Monad.return (Inr ([TreeNodeMsg
       \<lparr>tn_Path = ''a.txt'', tn_NodeType = NodeFile, tn_Address = Some demo_address\<rparr>], None)),
     rpc_RevisionDiff = \<lambda>_ _ _. State_Monad.return (Inr ([], None)),
     rpc_LockQuery = \<lambda>_ _. State_Monad.return (Inr []),
     rpc_Unlock = \<lambda>_ _. State_Monad.return (Inr ()),
     rpc_RepositoryCreate = \<lambda>_ _. State_Monad.return (Inr ()),
     rpc_RepositoryDelete = \<lambda>_ _. State_Monad.return (Inr ()),
     rpc_EnvironmentGet = \<lambda>_. State_Monad.return (Inr ''ucs-auth://auth''),
     http_Get = \<lambda>_ _. State_Monad.return (Inr \<lparr>ct_Status = 200, ct_StatusLine = ''200 OK'',
       ct_ContentType = ''text/html'', ct_Length = 3, ct_Body = Whole [65, 66, 67]\<rparr>)\<rparr>"


text \<open>File contents are fetched within their bound. What \<open>FetchContentBytes\<close> returns is at most
  \<open>cap\<close> bytes. It made no request for a missing address; otherwise it asked the content endpoint for
  this repository and address, with the bearer token of the call if there is one, got status 200,
  and returns the first \<open>cap\<close> bytes of the body, flagged just when the body is longer.\<close>

theorem content_bytes_bounded:
  assumes "run_state (FetchContentBytes rpc base ctx repoID addr cap) s = (Inr (bs, trunc), s')"
  shows "length bs \<le> cap \<and>
    (bs = [] \<and> \<not> trunc \<and> s' = s \<and> (case addr of None \<Rightarrow> True | Some a \<Rightarrow> Hash a = [] \<and> Context a = []) \<or>
     (\<exists>a resp c. addr = Some a \<and> address_ok a \<and>
       run_state (http_Get rpc (base @ ''/v1/repository/'' @ IDToHex repoID @ ''/content/'' @
           enc_address a @ ''/'')
         (case ctx of Some x \<Rightarrow> if ca_token x = '''' then None else Some (''Bearer '' @ ca_token x)
          | None \<Rightarrow> None)) s = (Inr resp, s') \<and>
       ct_Status resp = 200 \<and> ct_Body resp \<in> {Whole c, Broken c} \<and>
       bs = take cap c \<and> (trunc \<longleftrightarrow> cap < length c)))"
proof (cases "case addr of None \<Rightarrow> True | Some a \<Rightarrow> length (Hash a) = 0 \<and> length (Context a) = 0")
  case True
  with assms show ?thesis by (auto simp: FetchContentBytes_def split: option.splits)
next
  case False
  then obtain a where a: "addr = Some a" by (auto split: option.splits)
  with False assms obtain resp rd where f: "run_state (FetchContent rpc base ctx repoID addr) s = (Inr resp, s')"
    and rd: "read_limited (cap + 1) (ct_Body resp) = Some rd"
    and out: "(bs, trunc) = (if length rd > cap then (take cap rd, True) else (rd, False))"
    by (cases "run_state (FetchContent rpc base ctx repoID addr) s")
      (auto simp: FetchContentBytes_def split: sum.splits option.splits if_splits)
  from f a have ok: "address_ok a"
    by (auto simp: FetchContent_def AddressString_def address_ok_def split: sum.splits if_splits)
  have "run_state (http_Get rpc (base @ ''/v1/repository/'' @ IDToHex repoID @ ''/content/'' @
           enc_address a @ ''/'')
         (case ctx of Some x \<Rightarrow> if ca_token x = '''' then None else Some (''Bearer '' @ ca_token x)
          | None \<Rightarrow> None)) s = (Inr resp, s') \<and> ct_Status resp = 200"
    using f ok
    by (auto simp: FetchContent_def a AddressString_ok split: sum.splits if_splits option.splits
        intro!: prod_eqI)
  moreover from rd out obtain c where "ct_Body resp \<in> {Whole c, Broken c}" "bs = take cap c"
    "trunc \<longleftrightarrow> cap < length c"
    by (cases "ct_Body resp") (auto split: if_splits)
  ultimately show ?thesis using a ok by auto
qed

theorem content_bytes_bounded_witness:
  "\<exists>bs. run_state (FetchContentBytes demo_rpc ''http://lore'' (WithLoreCall ''tok'' zeroRepo) zeroRepo
      (Some demo_address) 2) () = (Inr (bs, True), ()) \<and> length bs \<le> 2"
proof -
  have "run_state (FetchContentBytes demo_rpc ''http://lore'' (WithLoreCall ''tok'' zeroRepo) zeroRepo
      (Some demo_address) 2) () = (Inr ([65, 66], True), ())"
    by (simp add: FetchContentBytes_def FetchContent_def demo_rpc_def demo_address_def AddressString_def
        enc_sizes)
  with content_bytes_bounded [OF this] show ?thesis by blast
qed

section \<open>The transport security of the gRPC connection\<close>

text \<open>\<open>grpcUsesTLS\<close> of \<open>cmd/arcloreweb/main.go\<close>.\<close>

definition grpcUsesTLS :: "string \<Rightarrow> bool" where
  "grpcUsesTLS grpcAddr = (case Cut grpcAddr ''://'' of (scheme, _, found) \<Rightarrow>
     if \<not> found then False else HasSuffix scheme ''s'')"

text \<open>The start-up warning about a plaintext connection looks at exactly what \<open>Dial\<close> decides: the
  connection is dialled with TLS just when \<open>grpcUsesTLS\<close> says so, to the address without its scheme.\<close>

theorem tls_warning_matches_dial:
  "map_sum id dl_tls (Dial addr base (Inr ())) = Inr (grpcUsesTLS addr) \<and>
   map_sum id GRPCHost (Dial addr base (Inr ())) =
     Inr (let (scheme, rest, found) = Cut addr ''://'' in if found then rest else addr)"
  by (auto simp: Dial_def splitScheme_def grpcUsesTLS_def GRPCHost_def Cut_def Let_def eval_nat_numeral
      split: option.splits)

end
