(* ===== verification/Browse_Views.thy ===== *)
theory Browse_Views
  imports Lore_Client "HOL-Library.Product_Lexorder" "HOL-Library.Multiset"
begin

text \<open>
  The pure part of the browse pages of \<open>src/ArcLoreWeb\<close>: the helpers of
  \<open>internal/handlers/{tree,repo,commits,commit,locks}.go\<close>, the view models of
  \<open>web/templates\<close> they fill, and \<open>internal/render/diff.go\<close>. A rendered component (Markdown,
  highlighted source, a diff) is its text. Integers of Go are integers in their range, with the
  wrap-around written out where it shows; \<open>now\<close> is the clock in nanoseconds.
\<close>

section \<open>Decimal printing\<close>

definition wrap64 :: "int \<Rightarrow> int" where
  "wrap64 x = (x + 2 ^ 63) mod 2 ^ 64 - 2 ^ 63"

text \<open>The loop the printers share: digits are put in front until the number is used up.\<close>

function digit_loop :: "int \<Rightarrow> string \<Rightarrow> string" where
  "digit_loop n buf = (if n > 0 then digit_loop (n div 10) (digit_char (nat (n mod 10)) # buf) else buf)"
  by pat_completeness auto

termination by (relation "measure (\<lambda>(n, _). nat n)") auto

declare digit_loop.simps [simp del]

definition decimal :: "int \<Rightarrow> string" where
  "decimal n = (if n = 0 then ''0'' else digit_loop n '''')"

definition itoa :: "int \<Rightarrow> string" where
  "itoa n = (if n = 0 then ''0'' else digit_loop n '''')"

definition formatInt :: "int \<Rightarrow> string" where
  "formatInt n =
    (if n = 0 then ''0''
     else let neg = n < 0;
              m = (if neg then wrap64 (- n) else n);
              ds = digit_loop m ''''
          in if neg then CHR ''-'' # ds else ds)"

section \<open>Paths\<close>

definition leafName :: "string \<Rightarrow> string" where
  "leafName path = (case LastIndexByte path CHR ''/'' of Some i \<Rightarrow> drop (i + 1) path | None \<Rightarrow> path)"

definition parentDir :: "string \<Rightarrow> string" where
  "parentDir path = (case LastIndexByte path CHR ''/'' of Some i \<Rightarrow> take i path | None \<Rightarrow> '''')"

definition toID :: "byte list \<Rightarrow> byte list" where
  "toID b = take 16 b @ replicate (16 - length b) 0"

definition isBinary :: "byte list \<Rightarrow> bool" where
  "isBinary src = (0 \<in> set (take 8192 src))"

text \<open>\<open>splitPath\<close> of \<open>file.templ\<close>, with the start of the current part as the text read since.\<close>

fun split_path_loop :: "string \<Rightarrow> string \<Rightarrow> string list" where
  "split_path_loop cur [] = (if cur \<noteq> '''' then [cur] else [])"
| "split_path_loop cur (c # s) =
    (if c = CHR ''/'' then (if cur \<noteq> '''' then cur # split_path_loop '''' s else split_path_loop '''' s)
     else split_path_loop (cur @ [c]) s)"

definition splitPath :: "string \<Rightarrow> string list" where
  "splitPath path = split_path_loop '''' path"

record BreadcrumbSegment =
  bs_Name :: string
  bs_URL :: string

fun breadcrumb_loop :: "string \<Rightarrow> bool \<Rightarrow> string \<Rightarrow> string list \<Rightarrow> BreadcrumbSegment list" where
  "breadcrumb_loop base first accumulated [] = []"
| "breadcrumb_loop base first accumulated (part # parts) =
    (let acc = accumulated @ (if first then '''' else ''/'') @ part
     in \<lparr>bs_Name = part, bs_URL = base @ acc\<rparr> # breadcrumb_loop base False acc parts)"

definition breadcrumbSegments :: "string \<Rightarrow> string \<Rightarrow> string \<Rightarrow> string \<Rightarrow> BreadcrumbSegment list" where
  "breadcrumbSegments owner repoName branchName path =
    breadcrumb_loop (''/'' @ owner @ ''/'' @ repoName @ ''/src/branch/'' @ branchName @ ''/'') True ''''
      (splitPath path)"

section \<open>The file table\<close>

record FileRowView =
  fr_Name :: string
  fr_Path :: string
  fr_IsDir :: bool
  fr_Locked :: bool
  fr_LockOwner :: string

text \<open>The overlay: the last lock that names a path wins.\<close>

definition lock_overlay :: "lore_lock list \<Rightarrow> (string \<rightharpoonup> lore_lock)" where
  "lock_overlay locks = foldl (\<lambda>m l. case lk_Resource l of
      None \<Rightarrow> m | Some r \<Rightarrow> m(lr_Description r \<mapsto> l)) Map.empty locks"

definition file_row :: "(string \<rightharpoonup> lore_lock) \<Rightarrow> tree_node \<Rightarrow> FileRowView" where
  "file_row lockByPath node = \<lparr>fr_Name = leafName (tn_Path node), fr_Path = tn_Path node,
     fr_IsDir = (tn_NodeType node = NodeDirectory),
     fr_Locked = (lockByPath (tn_Path node) \<noteq> None),
     fr_LockOwner = (case lockByPath (tn_Path node) of None \<Rightarrow> '''' | Some l \<Rightarrow> lk_Owner l)\<rparr>"

text \<open>\<open>sort.SliceStable\<close> with directories first and then by name.\<close>

definition row_key :: "FileRowView \<Rightarrow> bool \<times> string" where
  "row_key r = (\<not> fr_IsDir r, fr_Name r)"

definition buildRows :: "tree_node list \<Rightarrow> (string \<rightharpoonup> lore_lock) \<Rightarrow> FileRowView list" where
  "buildRows nodes lockByPath = sort_key row_key (map (file_row lockByPath) nodes)"

section \<open>Commit history\<close>

definition commitsURL :: "string \<Rightarrow> string \<Rightarrow> string \<Rightarrow> byte list \<Rightarrow> string" where
  "commitsURL owner repoName branchName cursor = ''/'' @ owner @ ''/'' @ repoName @ ''/commits/branch/'' @
     branchName @ ''?cursor='' @ hex_encode cursor"

definition commitURL :: "string \<Rightarrow> string \<Rightarrow> string \<Rightarrow> string" where
  "commitURL owner repoName hexSig = ''/'' @ owner @ ''/'' @ repoName @ ''/commit/'' @ hexSig"

definition shortSig :: "string \<Rightarrow> string" where
  "shortSig hexSig = (if length hexSig \<le> 12 then hexSig else take 12 hexSig)"

definition firstLine :: "string \<Rightarrow> string" where
  "firstLine msg = (case IndexByte msg CHR 0x0A of
      Some i \<Rightarrow> (let line = take i msg in if line = '''' then ''(no message)'' else line)
    | None \<Rightarrow> if msg = '''' then ''(no message)'' else msg)"

definition splitMessage :: "string \<Rightarrow> string \<times> string" where
  "splitMessage msg = (let (first, rest, found) = Cut msg [CHR 0x0A];
       first = (if first = '''' then ''(no message)'' else first)
     in if \<not> found then (first, '''') else (first, TrimLeft rest [CHR 0x0A]))"

fun dedup_loop :: "byte list set \<Rightarrow> byte list list \<Rightarrow> byte list list" where
  "dedup_loop seen [] = []"
| "dedup_loop seen (sig # items) =
    (if sig \<in> seen then dedup_loop seen items else sig # dedup_loop (insert sig seen) items)"

text \<open>Of an item only the signature is used.\<close>

definition dedupBySignature :: "byte list list \<Rightarrow> byte list list" where
  "dedupBySignature items = dedup_loop {} items"

record CommitRowView =
  cw_ShortSig :: string
  cw_HexSig :: string
  cw_Subject :: string
  cw_Author :: string
  cw_RelTime :: string
  cw_Date :: string
  cw_URL :: string

record CommitDateGroup =
  cg_Date :: string
  cg_Rows :: "CommitRowView list"

definition row_date :: "CommitRowView \<Rightarrow> string" where
  "row_date row = (if cw_Date row = '''' then ''unknown date'' else cw_Date row)"

definition add_to_groups :: "CommitDateGroup list \<Rightarrow> CommitRowView \<Rightarrow> CommitDateGroup list" where
  "add_to_groups groups row = (let date = row_date row in
     if groups \<noteq> [] \<and> cg_Date (last groups) = date
     then butlast groups @ [(last groups)\<lparr>cg_Rows := cg_Rows (last groups) @ [row]\<rparr>]
     else groups @ [\<lparr>cg_Date = date, cg_Rows = [row]\<rparr>])"

definition groupByDate :: "CommitRowView list \<Rightarrow> CommitDateGroup list" where
  "groupByDate rows = foldl add_to_groups [] rows"

section \<open>Times\<close>

text \<open>The proleptic Gregorian date of a day since 1970-01-01, and the layout \<open>2006-01-02\<close>.\<close>

definition civil_from_days :: "int \<Rightarrow> int \<times> int \<times> int" where
  "civil_from_days days = (let z = days + 719468; era = z div 146097; doe = z mod 146097;
       yoe = (doe - doe div 1460 + doe div 36524 - doe div 146096) div 365;
       doy = doe - (365 * yoe + yoe div 4 - yoe div 100);
       mp = (5 * doy + 2) div 153;
       m = (if mp < 10 then mp + 3 else mp - 9)
     in (yoe + era * 400 + (if m \<le> 2 then 1 else 0), m, doy - (153 * mp + 2) div 5 + 1))"

definition pad_dec :: "nat \<Rightarrow> int \<Rightarrow> string" where
  "pad_dec w n = (let ds = dec_nat (nat \<bar>n\<bar>)
     in (if n < 0 then ''-'' else '''') @ replicate (w - length ds) CHR ''0'' @ ds)"

definition format_date :: "int \<times> int \<times> int \<Rightarrow> string" where
  "format_date ymd = (case ymd of (y, m, d) \<Rightarrow> pad_dec 4 y @ ''-'' @ pad_dec 2 m @ ''-'' @ pad_dec 2 d)"

text \<open>A timestamp is a 64-bit count of milliseconds, taken as a signed number.\<close>

definition unixDate :: "u64 \<Rightarrow> string" where
  "unixDate ts = (if ts = 0 then ''''
     else format_date (civil_from_days (sint ts div 86400000)))"

definition pluralAgo :: "int \<Rightarrow> string \<Rightarrow> string" where
  "pluralAgo n unit = (let n = (if n \<le> 0 then 1 else n)
     in itoa n @ '' '' @ unit @ (if n \<noteq> 1 then ''s'' else '''') @ '' ago'')"

text \<open>\<open>time.Since\<close> saturates at the ends of the range of durations.\<close>

definition time_since :: "int \<Rightarrow> int \<Rightarrow> int" where
  "time_since now t = max (- (2 ^ 63)) (min (2 ^ 63 - 1) (now - t))"

definition relativeTime :: "int \<Rightarrow> u64 \<Rightarrow> string" where
  "relativeTime now ts =
    (if ts = 0 then ''''
     else let d = max 0 (time_since now (sint ts * 1000000)); hour = 60 * nminute
          in if d < nminute then ''just now''
             else if d < hour then pluralAgo (d div nminute) ''minute''
             else if d < 24 * hour then pluralAgo (d div hour) ''hour''
             else if d < 30 * 24 * hour then pluralAgo (d div (24 * hour)) ''day''
             else if d < 365 * 24 * hour then pluralAgo (d div (30 * 24 * hour)) ''month''
             else pluralAgo (d div (365 * 24 * hour)) ''year'')"

text \<open>\<open>t\<close> is the time of the lock in seconds.\<close>

definition lockedAtRelative :: "int \<Rightarrow> int \<Rightarrow> string" where
  "lockedAtRelative now t = (if t \<le> 0 then '''' else relativeTime now (word_of_int t))"

section \<open>Printing\<close>

lemma digit_loop_dec: "0 < n \<Longrightarrow> digit_loop n buf = dec_nat (nat n) @ buf"
proof (induction n buf rule: digit_loop.induct)
  case (1 n buf)
  have st: "digit_loop n buf = digit_loop (n div 10) (digit_char (nat (n mod 10)) # buf)"
    using 1(2) by (subst digit_loop.simps) simp
  show ?case
  proof (cases "n < 10")
    case True
    with 1(2) have "n div 10 = 0" "n mod 10 = n" by simp_all
    with True 1(2) st show ?thesis by (subst (asm) (2) digit_loop.simps) (simp add: dec_nat.simps [of "nat n"])
  next
    case False
    then have "0 < n div 10" "nat (n div 10) = nat n div 10" "nat (n mod 10) = nat n mod 10" "\<not> nat n < 10"
      by (simp_all add: nat_div_distrib nat_mod_distrib pos_imp_zdiv_pos_iff)
    with 1 st show ?thesis by (simp add: dec_nat.simps [of "nat n"])
  qed
qed

lemma length_dec_nat: "n < 10 ^ Suc k \<Longrightarrow> length (dec_nat n) \<le> Suc k"
proof (induction k arbitrary: n)
  case (Suc k)
  have "n div 10 < 10 ^ Suc k" using Suc.prems by (simp add: less_mult_imp_div_less)
  with Suc.IH [of "n div 10"] show ?case by (subst dec_nat.simps) simp
qed (simp add: dec_nat.simps)

text \<open>The hand-written printers agree with \<open>strconv\<close>. \<open>decimal\<close> and \<open>itoa\<close> print every natural
  number as the reference does; \<open>formatInt\<close> prints every 64-bit integer as the reference does but the
  smallest, which comes out as a bare minus sign; and none writes more than the 20 bytes of its
  buffer.\<close>

theorem printers_exact:
  "decimal (int n) = dec_nat n \<and> itoa (int n) = dec_nat n \<and>
   (\<forall>m\<in>{- (2 ^ 63) <..< 2 ^ 63}. formatInt m = FormatInt m \<and> length (formatInt m) \<le> 20) \<and>
   formatInt (- (2 ^ 63)) = ''-''"
proof -
  have "formatInt m = FormatInt m \<and> length (formatInt m) \<le> 20" if m: "m \<in> {- (2 ^ 63) <..< 2 ^ 63}" for m
  proof -
    have "nat \<bar>m\<bar> < 10 ^ Suc 18" using m by auto
    then have len: "length (dec_nat (nat \<bar>m\<bar>)) \<le> 19" using length_dec_nat by fastforce
    have "wrap64 (- m) = - m" if "m < 0" using m that by (simp add: wrap64_def)
    then have "formatInt m = FormatInt m"
      by (auto simp: formatInt_def FormatInt_def digit_loop_dec Let_def dec_nat.simps [of 0] digit_char_eval)
    moreover have "length (FormatInt m) \<le> 20" using len by (auto simp: FormatInt_def)
    ultimately show ?thesis by simp
  qed
  moreover have "formatInt (- (2 ^ 63)) = ''-''"
    by (simp add: formatInt_def wrap64_def Let_def digit_loop.simps)
  moreover have "decimal (int n) = dec_nat n" "itoa (int n) = dec_nat n"
    by (simp_all add: decimal_def itoa_def digit_loop_dec dec_nat.simps [of 0] digit_char_eval)
  ultimately show ?thesis by blast
qed

theorem printers_exact_witness:
  "formatInt (- 9223372036854775807) = FormatInt (- 9223372036854775807) \<and> itoa 42 = ''42'' \<and>
   formatInt (- (2 ^ 63)) = ''-''"
proof -
  have "formatInt (- 9223372036854775807) = FormatInt (- 9223372036854775807)"
    using printers_exact [of 42] by simp
  moreover have "itoa 42 = ''42''"
    using printers_exact [of 42] by (simp add: dec_nat_eval)
  ultimately show ?thesis using printers_exact [of 42] by simp
qed

section \<open>Paths\<close>

lemma LastIndexByte_Some_split:
  "LastIndexByte s b = Some i \<Longrightarrow> s = take i s @ b # drop (i + 1) s \<and> b \<notin> set (drop (i + 1) s)"
proof -
  assume *: "LastIndexByte s b = Some i"
  then obtain j where j: "IndexByte (rev s) b = Some j" "i = length s - 1 - j"
    by (auto simp: LastIndexByte_def split: option.splits)
  from IndexByte_Some [of "rev s" b j] j(1) have "j < length s" "rev s ! j = b" "b \<notin> set (take j (rev s))"
    by auto
  then have "i < length s" "s ! i = b" "b \<notin> set (drop (i + 1) s)"
    using j(2) by (auto simp: rev_nth take_rev Suc_diff_Suc)
  then show ?thesis by (metis Cons_nth_drop_Suc Suc_eq_plus1 append_take_drop_id)
qed

lemma LastIndexByte_None: "LastIndexByte s b = None \<longleftrightarrow> b \<notin> set s"
  by (auto simp: LastIndexByte_def IndexByte_None split: option.splits)

lemma path_join:
  "CHR ''/'' \<in> set p \<Longrightarrow> parentDir p @ ''/'' @ leafName p = p"
  "CHR ''/'' \<notin> set p \<Longrightarrow> parentDir p = '''' \<and> leafName p = p"
  "CHR ''/'' \<notin> set (leafName p)"
  using LastIndexByte_Some_split [of p "CHR ''/''"] LastIndexByte_None [of p "CHR ''/''"]
  by (auto simp: parentDir_def leafName_def split: option.splits)

lemma split_path_loop_split:
  "CHR ''/'' \<notin> set cur \<Longrightarrow>
    split_path_loop cur s = filter (\<lambda>w. w \<noteq> '''') (split_on CHR ''/'' (cur @ s))"
proof (induction cur s rule: split_path_loop.induct)
  case (1 cur)
  then show ?case by (simp add: split_on_none)
next
  case (2 cur c s)
  then show ?case by (cases "c = CHR ''/''") (auto simp: split_on_sep)
qed

text \<open>The text of a path below a directory, by its parts.\<close>

definition join_parts :: "string list \<Rightarrow> string" where
  "join_parts ps = concat (map (\<lambda>p. ''/'' @ p) ps)"

lemma breadcrumb_loop_exact:
  "breadcrumb_loop base first acc ps = map (\<lambda>i. \<lparr>bs_Name = ps ! i,
     bs_URL = base @ acc @ (if first then drop 1 (join_parts (take (i + 1) ps))
       else join_parts (take (i + 1) ps))\<rparr>) [0..<length ps]"
proof (induction base first acc ps rule: breadcrumb_loop.induct)
  case (2 base first acc p ps)
  have "[0..<length (p # ps)] = 0 # map Suc [0..<length ps]"
    by (simp add: map_Suc_upt upt_conv_Cons del: upt_Suc)
  then show ?case using 2 [OF refl] by (simp add: Let_def join_parts_def comp_def)
qed simp

text \<open>Paths are taken apart and put together as the pages need it. The parent and the leaf of a
  path join to it, and the leaf has no slash; the breadcrumbs name the non-empty parts of the path in
  order, and the one of each part links to the path up to it.\<close>

theorem paths_exact:
  "(if CHR ''/'' \<in> set p then parentDir p @ ''/'' @ leafName p = p else parentDir p = '''' \<and> leafName p = p) \<and>
   CHR ''/'' \<notin> set (leafName p) \<and>
   splitPath p = filter (\<lambda>w. w \<noteq> '''') (split_on CHR ''/'' p) \<and>
   breadcrumbSegments owner repo br p = map (\<lambda>i. \<lparr>bs_Name = splitPath p ! i,
     bs_URL = ''/'' @ owner @ ''/'' @ repo @ ''/src/branch/'' @ br @
       join_parts (take (i + 1) (splitPath p))\<rparr>) [0..<length (splitPath p)]"
proof -
  have "''/'' @ drop 1 (join_parts (take (i + 1) ps)) = join_parts (take (i + 1) ps)" if "i < length ps" for i ps
    using that by (cases ps) (simp_all add: join_parts_def)
  then have "breadcrumbSegments owner repo br p = map (\<lambda>i. \<lparr>bs_Name = splitPath p ! i,
     bs_URL = ''/'' @ owner @ ''/'' @ repo @ ''/src/branch/'' @ br @
       join_parts (take (i + 1) (splitPath p))\<rparr>) [0..<length (splitPath p)]"
    unfolding breadcrumbSegments_def breadcrumb_loop_exact by (simp cong: map_cong)
  then show ?thesis
    using path_join [of p] by (simp add: splitPath_def split_path_loop_split)
qed

section \<open>The file table\<close>

lemma lock_overlay_last:
  "lock_overlay locks p = List.find (\<lambda>l. map_option lr_Description (lk_Resource l) = Some p) (rev locks)"
  unfolding lock_overlay_def
  by (induction locks rule: rev_induct) (auto split: option.split)


text \<open>The file table has one row for each node of the directory, directories first and each part
  by name, rows of one name in the order of the tree; a row is marked locked just when a lock names
  its path, with the owner of the last such lock.\<close>

theorem file_table_exact:
  "mset (buildRows nodes (lock_overlay locks)) = image_mset (file_row (lock_overlay locks)) (mset nodes) \<and>
   sorted (map row_key (buildRows nodes (lock_overlay locks))) \<and>
   filter (\<lambda>r. row_key r = k) (buildRows nodes (lock_overlay locks)) =
     filter (\<lambda>r. row_key r = k) (map (file_row (lock_overlay locks)) nodes) \<and>
   (let r = file_row (lock_overlay locks) n;
        holder = List.find (\<lambda>l. map_option lr_Description (lk_Resource l) = Some (tn_Path n)) (rev locks)
    in (fr_Locked r \<longleftrightarrow> (\<exists>l\<in>set locks. map_option lr_Description (lk_Resource l) = Some (tn_Path n))) \<and>
       fr_LockOwner r = (case holder of None \<Rightarrow> '''' | Some l \<Rightarrow> lk_Owner l))"
proof -
  have "List.find (\<lambda>l. map_option lr_Description (lk_Resource l) = Some p) (rev locks) \<noteq> None \<longleftrightarrow>
      (\<exists>l\<in>set locks. map_option lr_Description (lk_Resource l) = Some p)" for p
    by (auto simp: find_None_iff)
  then show ?thesis
    unfolding buildRows_def file_row_def lock_overlay_last Let_def
    by (simp add: sort_key_stable)
qed

section \<open>The history\<close>

lemma dedup_loop_remdups:
  "dedup_loop seen xs = rev (remdups (rev (filter (\<lambda>x. x \<notin> seen) xs)))"
proof (induction seen xs rule: dedup_loop.induct)
  case (2 seen x xs)
  have "rev (remdups (rev ys @ [x])) = x # rev (remdups (rev (filter (\<lambda>y. y \<noteq> x) ys)))" for ys :: "byte list list"
  proof -
    have "remdups (zs @ [x]) = remdups (filter (\<lambda>y. y \<noteq> x) zs) @ [x]" for zs :: "byte list list"
      by (induction zs) auto
    then show ?thesis by (simp add: rev_filter)
  qed
  moreover have "filter (\<lambda>y. y \<noteq> x) (filter (\<lambda>y. y \<notin> seen) xs) = filter (\<lambda>y. y \<notin> insert x seen) xs"
    by (auto intro!: filter_cong)
  ultimately show ?case using 2 by auto
qed simp

definition groups_ok :: "CommitDateGroup list \<Rightarrow> CommitRowView list \<Rightarrow> bool" where
  "groups_ok gs rows \<longleftrightarrow> concat (map cg_Rows gs) = rows \<and>
    (\<forall>g\<in>set gs. cg_Rows g \<noteq> [] \<and> (\<forall>r\<in>set (cg_Rows g). row_date r = cg_Date g)) \<and>
    (\<forall>i. Suc i < length gs \<longrightarrow> cg_Date (gs ! i) \<noteq> cg_Date (gs ! Suc i))"

lemma add_to_groups_ok:
  assumes "groups_ok gs rows"
  shows "groups_ok (add_to_groups gs r) (rows @ [r])"
proof (cases gs rule: rev_cases)
  case Nil
  with assms show ?thesis by (simp add: groups_ok_def add_to_groups_def Let_def)
next
  case (snoc hs g)
  show ?thesis
  proof (cases "cg_Date g = row_date r")
    case True
    let ?g = "g\<lparr>cg_Rows := cg_Rows g @ [r]\<rparr>"
    have "cg_Date ((hs @ [?g]) ! i) = cg_Date (gs ! i)" if "i < length gs" for i
      using that snoc by (auto simp: nth_append less_Suc_eq)
    with assms snoc True show ?thesis by (auto simp: groups_ok_def add_to_groups_def Let_def)
  next
    case False
    have "cg_Date ((gs @ [\<lparr>cg_Date = row_date r, cg_Rows = [r]\<rparr>]) ! i) \<noteq>
        cg_Date ((gs @ [\<lparr>cg_Date = row_date r, cg_Rows = [r]\<rparr>]) ! Suc i)" if "i < length gs" for i
      using that assms snoc False
      by (cases "i = length hs") (auto simp: groups_ok_def nth_append less_Suc_eq)
    with assms snoc False show ?thesis by (auto simp: groups_ok_def add_to_groups_def Let_def)
  qed
qed

text \<open>The history page keeps what the server sent. Of revisions with one signature the first is
  kept and the order stays; the date sections hold the rows in order, each section is non-empty and
  of one date, and two sections in a row have different dates.\<close>

theorem history_exact:
  "dedupBySignature sigs = rev (remdups (rev sigs)) \<and> distinct (dedupBySignature sigs) \<and>
   set (dedupBySignature sigs) = set sigs \<and> groups_ok (groupByDate rows) rows"
proof -
  have "groups_ok (foldl add_to_groups [] rows) rows"
    by (induction rows rule: rev_induct) (simp add: groups_ok_def, simp add: add_to_groups_ok)
  then show ?thesis by (simp add: dedupBySignature_def dedup_loop_remdups groupByDate_def)
qed

section \<open>Times\<close>

lemma sint_of_range:
  "- (2 ^ 63) \<le> x \<Longrightarrow> x < 2 ^ 63 \<Longrightarrow> sint (word_of_int x :: u64) = x"
  by (simp add: signed_of_int signed_take_bit_int_eq_self)

lemma word_of_range_nonzero: "0 < x \<Longrightarrow> x < 2 ^ 63 \<Longrightarrow> (word_of_int x :: u64) \<noteq> 0"
  using sint_of_range [of x] by auto

lemma relativeTime_just_now:
  assumes "0 < ms" and "ms < 2 ^ 63"
  shows "relativeTime (ms * 1000000) (word_of_int ms) = ''just now''"
  using assms sint_of_range [of ms] word_of_range_nonzero [of ms]
  by (simp add: relativeTime_def time_since_def Let_def)

text \<open>The age of a lock is wrong. A lock taken this very second, at any time from 2020 to 2100, is
  shown with an age of decades, because the seconds of its time are read as milliseconds; the same
  moment given in milliseconds is \<open>just now\<close>.\<close>

theorem lock_age_wrong:
  assumes "1577836800 \<le> t" and "t < 4102444800"
  shows "(\<exists>n\<ge>49. lockedAtRelative (t * nsec) t = dec_nat n @ '' years ago'') \<and>
    relativeTime (t * nsec) (word_of_int (t * 1000)) = ''just now''"
proof -
  have s: "sint (word_of_int t :: u64) = t" and nz: "(word_of_int t :: u64) \<noteq> 0"
    using sint_of_range [of t] word_of_range_nonzero [of t] assms by simp_all
  define d where "d = t * nsec - t * 1000000"
  have d: "1576258963200 * 1000000 \<le> d" "d < 4098342355200 * 1000000" using assms by (simp_all add: d_def)
  have since: "time_since (t * nsec) (t * 1000000) = d" using d by (simp add: time_since_def d_def)
  define n where "n = d div (365 * 24 * (60 * nminute))"
  have n: "49 \<le> n" using d by (simp add: n_def)
  have "lockedAtRelative (t * nsec) t = pluralAgo n ''year''"
    using assms d by (simp add: lockedAtRelative_def relativeTime_def nz s since Let_def n_def)
  also have "\<dots> = dec_nat (nat n) @ '' years ago''"
    using n printers_exact [of "nat n"] by (simp add: pluralAgo_def Let_def)
  finally have "lockedAtRelative (t * nsec) t = dec_nat (nat n) @ '' years ago''" .
  moreover have "49 \<le> nat n" using n by simp
  moreover have "relativeTime (t * 1000 * 1000000) (word_of_int (t * 1000)) = ''just now''"
    by (rule relativeTime_just_now) (use assms in simp_all)
  ultimately show ?thesis by (auto simp: mult.assoc)
qed

theorem lock_age_wrong_witness:
  "relativeTime (1700000000 * nsec) (word_of_int (1700000000 * 1000)) = ''just now'' \<and>
   lockedAtRelative (1700000000 * nsec) 1700000000 \<noteq> ''just now''"
  using lock_age_wrong [of 1700000000] by (auto simp: dec_nat.simps)

end
