(* ===== verification/Diff_Views.thy ===== *)
theory Diff_Views
  imports Browse_Views
begin

text \<open>
  The diff of a commit as the pages show it: the pure part of \<open>internal/handlers/commit.go\<close> and
  \<open>internal/render/diff.go\<close>. A parsed diff is the file model of the gitdiff library; its header
  text is a field, and its lists hold no nil pointers. \<open>esc\<close> is the HTML escaping of the template
  library.
\<close>

section \<open>The parsed diff\<close>

datatype line_op = OpContext | OpDelete | OpAdd

record git_line =
  gl_Op :: line_op
  gl_Line :: string

record git_fragment =
  gf_Header :: string
  gf_OldPosition :: int
  gf_NewPosition :: int
  gf_LinesAdded :: int
  gf_LinesDeleted :: int
  gf_Lines :: "git_line list"

record git_file =
  git_OldName :: string
  git_NewName :: string
  git_IsBinary :: bool
  git_IsNew :: bool
  git_IsDelete :: bool
  git_Fragments :: "git_fragment list"

definition new_git_file :: "string \<Rightarrow> git_file" where
  "new_git_file name = \<lparr>git_OldName = '''', git_NewName = name, git_IsBinary = False, git_IsNew = False,
     git_IsDelete = False, git_Fragments = []\<rparr>"

section \<open>commit.go\<close>

definition stampAction :: "action \<Rightarrow> git_file \<Rightarrow> git_file" where
  "stampAction act f = f\<lparr>git_IsNew := (act = ActAdd), git_IsDelete := (act = ActDelete)\<rparr>"

definition diffChangePath :: "diff_change \<Rightarrow> string" where
  "diffChangePath change = (if dc_Path change \<noteq> '''' then dc_Path change else dc_PathFrom change)"

record CommitFileView =
  cf_Path :: string
  cf_Adds :: int
  cf_Dels :: int

definition commit_file :: "git_file \<Rightarrow> CommitFileView" where
  "commit_file f = \<lparr>cf_Path = (if git_NewName f = '''' then git_OldName f else git_NewName f),
     cf_Adds = (if git_IsBinary f then 0 else sum_list (map gf_LinesAdded (git_Fragments f))),
     cf_Dels = (if git_IsBinary f then 0 else sum_list (map gf_LinesDeleted (git_Fragments f)))\<rparr>"

definition buildCommitFiles :: "git_file list \<Rightarrow> CommitFileView list" where
  "buildCommitFiles files = map commit_file files"

record CommitParentView =
  cp_ShortSig :: string
  cp_URL :: string

record CommitView =
  cv_Owner :: string
  cv_RepoName :: string
  cv_BranchName :: string
  cv_ShortSig :: string
  cv_HexSig :: string
  cv_Subject :: string
  cv_Body :: string
  cv_Author :: string
  cv_Committer :: string
  cv_Date :: string
  cv_Parents :: "CommitParentView list"
  cv_Files :: "CommitFileView list"
  cv_FilesChanged :: nat
  cv_Added :: u64
  cv_Deleted :: u64
  cv_Diff :: "string option"
  cv_RootCommit :: bool

definition parent_view :: "string \<Rightarrow> string \<Rightarrow> byte list \<Rightarrow> CommitParentView list" where
  "parent_view owner repoName sig = (if length sig \<noteq> 0
     then [\<lparr>cp_ShortSig = shortSig (hex_encode sig), cp_URL = commitURL owner repoName (hex_encode sig)\<rparr>]
     else [])"

definition buildCommitView :: "string \<Rightarrow> string \<Rightarrow> string \<Rightarrow> revision \<Rightarrow> CommitView" where
  "buildCommitView owner repoName sigHex rv = (let (subject, body) = splitMessage (rev_CommitMessage rv) in
     \<lparr>cv_Owner = owner, cv_RepoName = repoName, cv_BranchName = '''', cv_ShortSig = shortSig sigHex,
      cv_HexSig = sigHex, cv_Subject = subject, cv_Body = body, cv_Author = rev_CreatedBy rv,
      cv_Committer = (if rev_CommittedBy rv \<noteq> '''' \<and> rev_CommittedBy rv \<noteq> rev_CreatedBy rv
        then rev_CommittedBy rv else ''''),
      cv_Date = unixDate (rev_Timestamp rv),
      cv_Parents = parent_view owner repoName (parent_signature (rev_ParentSelf rv)) @
        parent_view owner repoName (parent_signature (rev_ParentOther rv)),
      cv_Files = [], cv_FilesChanged = 0, cv_Added = 0, cv_Deleted = 0, cv_Diff = None,
      cv_RootCommit = False\<rparr>)"

section \<open>diff.go\<close>

datatype diffLineKind = diffCtx | diffAdd | diffDel

record diffRow =
  dr_Kind :: diffLineKind
  dr_OldLine :: int
  dr_NewLine :: int
  dr_Content :: string

record diffHunk =
  dh_Header :: string
  dh_Rows :: "diffRow list"

record diffFileView =
  dv_Path :: string
  dv_IsBinary :: bool
  dv_IsNew :: bool
  dv_IsDeleted :: bool
  dv_Added :: int
  dv_Deleted :: int
  dv_Hunks :: "diffHunk list"

definition diffPath :: "git_file \<Rightarrow> string" where
  "diffPath f = (if git_NewName f \<noteq> '''' then git_NewName f else git_OldName f)"

text \<open>The inner loop, with the two line numbers and the two counts of the file.\<close>

fun build_rows :: "int \<Rightarrow> int \<Rightarrow> int \<Rightarrow> int \<Rightarrow> git_line list \<Rightarrow> diffRow list \<times> int \<times> int" where
  "build_rows oldLine newLine added deleted [] = ([], added, deleted)"
| "build_rows oldLine newLine added deleted (l # ls) =
    (let content = TrimSuffix (gl_Line l) [CHR 0x0A] in
     case gl_Op l of
       OpAdd \<Rightarrow> (case build_rows oldLine (newLine + 1) (added + 1) deleted ls of (rows, a, d) \<Rightarrow>
         (\<lparr>dr_Kind = diffAdd, dr_OldLine = 0, dr_NewLine = newLine, dr_Content = content\<rparr> # rows, a, d))
     | OpDelete \<Rightarrow> (case build_rows (oldLine + 1) newLine added (deleted + 1) ls of (rows, a, d) \<Rightarrow>
         (\<lparr>dr_Kind = diffDel, dr_OldLine = oldLine, dr_NewLine = 0, dr_Content = content\<rparr> # rows, a, d))
     | OpContext \<Rightarrow> (case build_rows (oldLine + 1) (newLine + 1) added deleted ls of (rows, a, d) \<Rightarrow>
         (\<lparr>dr_Kind = diffCtx, dr_OldLine = oldLine, dr_NewLine = newLine, dr_Content = content\<rparr> # rows,
          a, d)))"

fun build_hunks :: "int \<Rightarrow> int \<Rightarrow> git_fragment list \<Rightarrow> diffHunk list \<times> int \<times> int" where
  "build_hunks added deleted [] = ([], added, deleted)"
| "build_hunks added deleted (f # fs) =
    (case build_rows (gf_OldPosition f) (gf_NewPosition f) added deleted (gf_Lines f) of (rows, a, d) \<Rightarrow>
      (case build_hunks a d fs of (hs, a', d') \<Rightarrow>
        (\<lparr>dh_Header = gf_Header f, dh_Rows = rows\<rparr> # hs, a', d')))"

definition buildDiffFileView :: "git_file \<Rightarrow> diffFileView" where
  "buildDiffFileView f = (case build_hunks 0 0 (git_Fragments f) of (hs, a, d) \<Rightarrow>
     \<lparr>dv_Path = diffPath f, dv_IsBinary = git_IsBinary f, dv_IsNew = git_IsNew f,
      dv_IsDeleted = git_IsDelete f, dv_Added = a, dv_Deleted = d, dv_Hunks = hs\<rparr>)"

definition lineNumberText :: "int \<Rightarrow> string" where
  "lineNumberText n = (if n \<le> 0 then '''' else decimal n)"

fun lineKindClass :: "diffLineKind \<Rightarrow> string" where
  "lineKindClass diffAdd = ''diff-add''"
| "lineKindClass diffDel = ''diff-del''"
| "lineKindClass diffCtx = ''diff-ctx''"

fun lineSign :: "diffLineKind \<Rightarrow> string" where
  "lineSign diffAdd = ''+''"
| "lineSign diffDel = ''-''"
| "lineSign diffCtx = '' ''"

text \<open>A double quote of the markup.\<close>

abbreviation dq :: string where "dq \<equiv> [CHR 0x22]"

definition minus_sign :: string where
  "minus_sign = [CHR 0xE2, CHR 0x88, CHR 0x92]"

definition write_row :: "(string \<Rightarrow> string) \<Rightarrow> diffRow \<Rightarrow> string" where
  "write_row esc row =
     ''<tr class='' @ dq @ lineKindClass (dr_Kind row) @ dq @ '' data-old='' @ dq @
     esc (lineNumberText (dr_OldLine row)) @ dq @ '' data-new='' @ dq @
     esc (lineNumberText (dr_NewLine row)) @ dq @ ''><td class='' @ dq @ ''diff-gutter diff-gutter-old'' @ dq @
     ''>'' @ esc (lineNumberText (dr_OldLine row)) @ ''</td><td class='' @ dq @
     ''diff-gutter diff-gutter-new'' @ dq @ ''>'' @ esc (lineNumberText (dr_NewLine row)) @
     ''</td><td class='' @ dq @ ''diff-line'' @ dq @ ''><span class='' @ dq @ ''diff-sign'' @ dq @ ''>'' @
     esc (lineSign (dr_Kind row)) @ ''</span>'' @ esc (dr_Content row) @ ''</td></tr>''"

definition write_hunk :: "(string \<Rightarrow> string) \<Rightarrow> diffHunk \<Rightarrow> string" where
  "write_hunk esc hunk =
     ''<tr class='' @ dq @ ''diff-hunk'' @ dq @ ''><td class='' @ dq @ ''diff-gutter'' @ dq @ '' colspan='' @ dq @
     ''2'' @ dq @ ''></td><td class='' @ dq @ ''diff-line diff-hunk-header'' @ dq @ ''>'' @
     esc (dh_Header hunk) @ ''</td></tr>'' @ concat (map (write_row esc) (dh_Rows hunk))"

definition write_view :: "(string \<Rightarrow> string) \<Rightarrow> diffFileView \<Rightarrow> string" where
  "write_view esc view =
     ''<div class='' @ dq @ ''diff-file'' @ dq @ '' data-path='' @ dq @ esc (dv_Path view) @ dq @ ''>'' @
     ''<div class='' @ dq @ ''diff-file-header'' @ dq @ ''><span class='' @ dq @ ''diff-file-path'' @ dq @ ''>'' @
     esc (dv_Path view) @ ''</span>'' @
     (if dv_IsNew view
      then ''<span class='' @ dq @ ''diff-file-tag diff-file-new'' @ dq @ ''>added</span>'' else '''') @
     (if dv_IsDeleted view
      then ''<span class='' @ dq @ ''diff-file-tag diff-file-deleted'' @ dq @ ''>deleted</span>'' else '''') @
     ''<span class='' @ dq @ ''diff-file-stat diff-stat-add'' @ dq @ ''>+'' @ decimal (dv_Added view) @
     ''</span><span class='' @ dq @ ''diff-file-stat diff-stat-del'' @ dq @ ''>'' @ minus_sign @
     decimal (dv_Deleted view) @ ''</span></div>'' @
     (if dv_IsBinary view
      then ''<div class='' @ dq @ ''diff-binary'' @ dq @ ''>Binary file changed</div></div>''
      else ''<table class='' @ dq @ ''diff-table'' @ dq @ ''><tbody>'' @
        concat (map (write_hunk esc) (dv_Hunks view)) @ ''</tbody></table></div>'')"

definition writeDiff :: "(string \<Rightarrow> string) \<Rightarrow> diffFileView list \<Rightarrow> string" where
  "writeDiff esc views = concat (map (write_view esc) views)"

definition Diff :: "(string \<Rightarrow> string) \<Rightarrow> git_file list \<Rightarrow> string" where
  "Diff esc files = writeDiff esc (map buildDiffFileView files)"

section \<open>Line numbers\<close>

definition kind_of_op :: "line_op \<Rightarrow> diffLineKind" where
  "kind_of_op opn = (case opn of OpAdd \<Rightarrow> diffAdd | OpDelete \<Rightarrow> diffDel | OpContext \<Rightarrow> diffCtx)"

text \<open>The numbers of one side run on from a start without a gap.\<close>

definition run_of :: "int \<Rightarrow> nat \<Rightarrow> int list" where
  "run_of start n = map (\<lambda>i. start + int i) [0..<n]"

lemma run_of_simps [simp]: "run_of s 0 = []" "run_of s (Suc n) = s # run_of (s + 1) n"
  by (simp_all add: run_of_def upt_conv_Cons map_Suc_upt [symmetric] del: upt_Suc) 

definition rows_ok :: "int \<Rightarrow> int \<Rightarrow> git_line list \<Rightarrow> diffRow list \<Rightarrow> bool" where
  "rows_ok oldPos newPos ls rows \<longleftrightarrow>
    map dr_Kind rows = map (kind_of_op \<circ> gl_Op) ls \<and>
    map dr_Content rows = map (\<lambda>l. TrimSuffix (gl_Line l) [CHR 0x0A]) ls \<and>
    (let olds = filter (\<lambda>r. dr_Kind r \<noteq> diffAdd) rows; news = filter (\<lambda>r. dr_Kind r \<noteq> diffDel) rows
     in map dr_OldLine olds = run_of oldPos (length olds) \<and> map dr_NewLine news = run_of newPos (length news)) \<and>
    (\<forall>r\<in>set rows. (dr_Kind r = diffAdd \<longrightarrow> dr_OldLine r = 0) \<and> (dr_Kind r = diffDel \<longrightarrow> dr_NewLine r = 0))"

lemma build_rows_ok:
  "build_rows o' n a d ls = (rows, a', d') \<Longrightarrow> rows_ok o' n ls rows \<and>
    a' = a + int (length (filter (\<lambda>l. gl_Op l = OpAdd) ls)) \<and>
    d' = d + int (length (filter (\<lambda>l. gl_Op l = OpDelete) ls))"
proof (induction o' n a d ls arbitrary: rows rule: build_rows.induct)
  case (2 o' n a d l ls)
  show ?case
  proof (cases "gl_Op l")
    case OpContext
    with 2(4) obtain rs where "build_rows (o' + 1) (n + 1) a d ls = (rs, a', d')"
      "rows = \<lparr>dr_Kind = diffCtx, dr_OldLine = o', dr_NewLine = n, dr_Content = TrimSuffix (gl_Line l) [CHR 0x0A]\<rparr> # rs"
      by (auto simp: Let_def split: prod.splits)
    with 2(1) OpContext show ?thesis by (simp add: rows_ok_def kind_of_op_def Let_def)
  next
    case OpDelete
    with 2(4) obtain rs where "build_rows (o' + 1) n a (d + 1) ls = (rs, a', d')"
      "rows = \<lparr>dr_Kind = diffDel, dr_OldLine = o', dr_NewLine = 0, dr_Content = TrimSuffix (gl_Line l) [CHR 0x0A]\<rparr> # rs"
      by (auto simp: Let_def split: prod.splits)
    with 2(2) OpDelete show ?thesis by (simp add: rows_ok_def kind_of_op_def Let_def)
  next
    case OpAdd
    with 2(4) obtain rs where "build_rows o' (n + 1) (a + 1) d ls = (rs, a', d')"
      "rows = \<lparr>dr_Kind = diffAdd, dr_OldLine = 0, dr_NewLine = n, dr_Content = TrimSuffix (gl_Line l) [CHR 0x0A]\<rparr> # rs"
      by (auto simp: Let_def split: prod.splits)
    with 2(3) OpAdd show ?thesis by (simp add: rows_ok_def kind_of_op_def Let_def)
  qed
qed (simp add: rows_ok_def)

lemma build_hunks_ok:
  "build_hunks a d fs = (hs, a', d') \<Longrightarrow>
    list_all2 (\<lambda>f h. dh_Header h = gf_Header f \<and>
      rows_ok (gf_OldPosition f) (gf_NewPosition f) (gf_Lines f) (dh_Rows h)) fs hs \<and>
    a' = a + int (length (filter (\<lambda>l. gl_Op l = OpAdd) (concat (map gf_Lines fs)))) \<and>
    d' = d + int (length (filter (\<lambda>l. gl_Op l = OpDelete) (concat (map gf_Lines fs))))"
proof (induction a d fs arbitrary: hs rule: build_hunks.induct)
  case (2 a d f fs)
  from 2(2) obtain rows a1 d1 hs1 where
    s: "build_rows (gf_OldPosition f) (gf_NewPosition f) a d (gf_Lines f) = (rows, a1, d1)"
      "build_hunks a1 d1 fs = (hs1, a', d')" "hs = \<lparr>dh_Header = gf_Header f, dh_Rows = rows\<rparr> # hs1"
    by (auto split: prod.splits)
  from build_rows_ok [OF s(1)] 2(1) [OF s(1) [symmetric] _ s(2)] s(3) show ?case by auto
qed simp

section \<open>No markup out of the repository\<close>

definition markup :: "string \<Rightarrow> string" where
  "markup s = filter (\<lambda>c. c \<in> {CHR ''<'', CHR ''>''}) s"

text \<open>A view with the texts of the repository blanked out: the path, the hunk headers and the lines.\<close>

definition blank_row :: "diffRow \<Rightarrow> diffRow" where
  "blank_row row = row\<lparr>dr_Content := ''''\<rparr>"

definition blank_hunk :: "diffHunk \<Rightarrow> diffHunk" where
  "blank_hunk hunk = \<lparr>dh_Header = '''', dh_Rows = map blank_row (dh_Rows hunk)\<rparr>"

definition blank_view :: "diffFileView \<Rightarrow> diffFileView" where
  "blank_view view = view\<lparr>dv_Path := '''', dv_Hunks := map blank_hunk (dv_Hunks view)\<rparr>"

lemma markup_Nil [simp]: "markup [] = []"
  by (simp add: markup_def)

lemma markup_Cons [simp]: "markup (c # s) = (if c \<in> {CHR ''<'', CHR ''>''} then [c] else []) @ markup s"
  by (simp add: markup_def)

lemma markup_append [simp]: "markup (a @ b) = markup a @ markup b"
  by (simp add: markup_def)

lemma markup_concat: "markup (concat xs) = concat (map markup xs)"
  by (induction xs) (simp_all add: markup_def)

lemma markup_write_row:
  "(\<And>s. markup (esc s) = '''') \<Longrightarrow> markup (write_row esc (blank_row row)) = markup (write_row esc row)"
  by (simp add: write_row_def blank_row_def)

lemma markup_write_hunk:
  "(\<And>s. markup (esc s) = '''') \<Longrightarrow> markup (write_hunk esc (blank_hunk h)) = markup (write_hunk esc h)"
  by (simp add: write_hunk_def blank_hunk_def markup_concat markup_write_row comp_def)

lemma markup_write_view:
  "(\<And>s. markup (esc s) = '''') \<Longrightarrow> markup (write_view esc (blank_view v)) = markup (write_view esc v)"
  by (simp add: write_view_def blank_view_def markup_concat markup_write_hunk comp_def)

section \<open>Properties\<close>

text \<open>C40: The rendered diff of a file shows the lines of every fragment in their order and with their text (less
  a trailing newline), each old-side line carrying the next old number and each new-side line the next
  new number, counted without a gap from the positions of the fragment; an added line has no old number
  and a deleted one no new number, and the two counts of the file are exactly the added and the deleted
  lines of all its fragments.\<close>

theorem diff_lines_numbered:
  "let view = buildDiffFileView f; ls = concat (map gf_Lines (git_Fragments f)) in
    list_all2 (\<lambda>frag hunk. dh_Header hunk = gf_Header frag \<and>
      rows_ok (gf_OldPosition frag) (gf_NewPosition frag) (gf_Lines frag) (dh_Rows hunk))
      (git_Fragments f) (dv_Hunks view) \<and>
    dv_Added view = int (length (filter (\<lambda>l. gl_Op l = OpAdd) ls)) \<and>
    dv_Deleted view = int (length (filter (\<lambda>l. gl_Op l = OpDelete) ls)) \<and>
    dv_Path view = (if git_NewName f \<noteq> '''' then git_NewName f else git_OldName f)"
proof -
  obtain hs a d where h: "build_hunks 0 0 (git_Fragments f) = (hs, a, d)"
    by (cases "build_hunks 0 0 (git_Fragments f)")
  from build_hunks_ok [OF h] show ?thesis
    by (simp add: buildDiffFileView_def h diffPath_def Let_def)
qed

text \<open>Repository content cannot inject markup into a diff: with an escaping that never outputs an angle
  bracket, the angle brackets of the rendered diff, in their order, are those of the same diff with every
  path, hunk header and line blanked out, for any files, lines and numbers.\<close>

theorem diff_markup_escaped:
  assumes "\<And>s. filter (\<lambda>c. c \<in> {CHR ''<'', CHR ''>''}) (esc s) = ''''"
  shows "filter (\<lambda>c. c \<in> {CHR ''<'', CHR ''>''}) (writeDiff esc views) =
    filter (\<lambda>c. c \<in> {CHR ''<'', CHR ''>''}) (writeDiff esc (map blank_view views))"
proof -
  have "markup (esc s) = ''''" for s using assms by (simp add: markup_def)
  then have "markup (writeDiff esc views) = markup (writeDiff esc (map blank_view views))"
    by (simp add: writeDiff_def markup_concat markup_write_view comp_def)
  then show ?thesis by (simp add: markup_def)
qed

theorem diff_markup_escaped_witness:
  "\<forall>views. filter (\<lambda>c. c \<in> {CHR ''<'', CHR ''>''})
      (writeDiff (filter (\<lambda>c. c \<notin> {CHR ''<'', CHR ''>''})) views) =
    filter (\<lambda>c. c \<in> {CHR ''<'', CHR ''>''})
      (writeDiff (filter (\<lambda>c. c \<notin> {CHR ''<'', CHR ''>''})) (map blank_view views))"
  by (intro allI diff_markup_escaped) (auto simp: filter_empty_conv)

end
