(* ===== verification/Lore_Api.thy ===== *)
theory Lore_Api
  imports Diff_Views
begin

text \<open>
  The interface \<open>LoreClient\<close> of \<open>internal/handlers/lore_client.go\<close>, through which the pages reach the
  Lore server, and the client of \<open>internal/lore\<close> as its implementation. An implementation is a record
  of computations on a state \<open>'s\<close>. The client's own state is the part of it the exchange of tokens
  guards, beside the state of the far end.

  The locale \<open>lore_traffic\<close> is the contract the pages rely on when they pass tokens around: a
  computation keeps an invariant of the state as long as the calls it makes carry tokens that the
  exchange handed out.
\<close>

section \<open>lore_client.go\<close>

record ('s, 'h) LoreClient =
  lc_GRPCHost :: string
  lc_ResourceAuthzToken :: "string \<Rightarrow> string \<Rightarrow> ('s, (lore_err, string) result) state"
  lc_ListRepositories :: "lore_ctx \<Rightarrow> ('s, repository list \<times> lore_err option) state"
  lc_GetRepositoryByName :: "lore_ctx \<Rightarrow> string \<Rightarrow> ('s, (lore_err, repository option) result) state"
  lc_GetBranchByName :: "lore_ctx \<Rightarrow> string \<Rightarrow> ('s, (lore_err, branch option) result) state"
  lc_ListBranches :: "lore_ctx \<Rightarrow> ('s, branch list \<times> lore_err option) state"
  lc_ListRevisions :: "lore_ctx \<Rightarrow> byte list \<Rightarrow> byte list option \<Rightarrow>
    ('s, (lore_err, byte list list \<times> byte list \<times> byte list) result) state"
  lc_RevisionInfoBySignature :: "lore_ctx \<Rightarrow> byte list \<Rightarrow> ('s, (lore_err, revision option) result) state"
  lc_RevisionTree :: "lore_ctx \<Rightarrow> byte list \<Rightarrow> u64 \<Rightarrow> string \<Rightarrow> nat \<Rightarrow>
    ('s, 'h option \<times> tree_node list \<times> lore_err option) state"
  lc_RevisionDiff :: "lore_ctx \<Rightarrow> byte list \<Rightarrow> byte list \<Rightarrow>
    ('s, 'h option \<times> diff_change option list \<times> lore_err option) state"
  lc_QueryLocks :: "lore_ctx \<Rightarrow> byte list \<Rightarrow> ('s, (lore_err, lore_lock list) result) state"
  lc_FetchContent :: "lore_ctx \<Rightarrow> byte list \<Rightarrow> address option \<Rightarrow>
    ('s, (lore_err, content_response) result) state"
  lc_FetchContentBytes :: "lore_ctx \<Rightarrow> byte list \<Rightarrow> address option \<Rightarrow> nat \<Rightarrow>
    ('s, (lore_err, byte list \<times> bool) result) state"
  lc_RepositoryCreate :: "string \<Rightarrow> RepositoryCreateInput \<Rightarrow> ('s, (lore_err, byte list) result) state"
  lc_RepositoryDelete :: "string \<Rightarrow> byte list \<Rightarrow> ('s, lore_err option) state"
  lc_Unlock :: "string \<Rightarrow> byte list \<Rightarrow> lock_resource list \<Rightarrow> ('s, lore_err option) state"

section \<open>The client of the program\<close>

record 's lore_world =
  lw_auth :: auth_client
  lw_far :: 's

definition on_far :: "('s, 'a) state \<Rightarrow> ('s lore_world, 'a) state" where
  "on_far m = zoom lw_far (\<lambda>s w. w\<lparr>lw_far := s\<rparr>) m"

definition on_auth :: "('s \<Rightarrow> (auth_client, 'a) state) \<Rightarrow> ('s lore_world, 'a) state" where
  "on_auth m = do {
     w \<leftarrow> State_Monad.get;
     zoom lw_auth (\<lambda>c w. w\<lparr>lw_auth := c\<rparr>) (m (lw_far w)) }"

lemma run_on_far [simp, run_rules]: "run_state (on_far m) w =
    (fst (run_state m (lw_far w)), w\<lparr>lw_far := snd (run_state m (lw_far w))\<rparr>)"
  by (simp add: on_far_def)

lemma run_on_auth [simp, run_rules]: "run_state (on_auth m) w =
    (fst (run_state (m (lw_far w)) (lw_auth w)), w\<lparr>lw_auth := snd (run_state (m (lw_far w)) (lw_auth w))\<rparr>)"
  by (simp add: on_auth_def)

text \<open>What the client finds around it: the clock in milliseconds, the answers of the environment
  service, of a dial and of the exchange procedure as the far end stands, and the generator of UUIDs.\<close>

record 's lore_env =
  le_nowMs :: "'s \<Rightarrow> int"
  le_discovered :: "'s \<Rightarrow> (lore_err, string) result"
  le_dial :: "'s \<Rightarrow> string \<Rightarrow> (go_err, unit) result"
  le_exchange :: "'s \<Rightarrow> exchange_rpc"
  le_uuid :: "('s, (string, byte list) result) state"

definition lore_client_of :: "'s lore_env \<Rightarrow> ('s, 'h) lore_rpc \<Rightarrow> dialled \<Rightarrow>
    ('s lore_world, 'h) LoreClient" where
  "lore_client_of env rpc d = \<lparr>
     lc_GRPCHost = GRPCHost d,
     lc_ResourceAuthzToken = \<lambda>ident rsc. on_auth (\<lambda>s. ResourceAuthzToken (le_nowMs env s)
       (ExchangeResource (le_discovered env s) (le_dial env s) (le_exchange env s)) ident rsc),
     lc_ListRepositories = \<lambda>ctx. on_far (ListRepositories_rpc rpc ctx),
     lc_GetRepositoryByName = \<lambda>ctx n. on_far (GetRepositoryByName rpc ctx n),
     lc_GetBranchByName = \<lambda>ctx n. on_far (GetBranchByName rpc ctx n),
     lc_ListBranches = \<lambda>ctx. on_far (ListBranches rpc ctx),
     lc_ListRevisions = \<lambda>ctx b c. on_far (ListRevisions rpc ctx b c),
     lc_RevisionInfoBySignature = \<lambda>ctx sig. on_far (RevisionInfoBySignature rpc ctx sig),
     lc_RevisionTree = \<lambda>ctx b n p k. on_far (RevisionTree rpc ctx b n p k),
     lc_RevisionDiff = \<lambda>ctx f t. on_far (RevisionDiff rpc ctx f t),
     lc_QueryLocks = \<lambda>ctx b. on_far (QueryLocks rpc ctx b),
     lc_FetchContent = \<lambda>ctx i a. on_far (FetchContent rpc (dl_httpBase d) ctx i a),
     lc_FetchContentBytes = \<lambda>ctx i a n. on_far (FetchContentBytes rpc (dl_httpBase d) ctx i a n),
     lc_RepositoryCreate = \<lambda>token inp. on_far (do {
       repoUUID \<leftarrow> le_uuid env;
       branchUUID \<leftarrow> (case repoUUID of Inl e \<Rightarrow> State_Monad.return (Inl e) | Inr _ \<Rightarrow> le_uuid env);
       RepositoryCreate rpc repoUUID branchUUID token inp }),
     lc_RepositoryDelete = \<lambda>token i. on_far (RepositoryDelete rpc token i),
     lc_Unlock = \<lambda>token i ls. on_far (Unlock rpc token i ls)\<rparr>"

section \<open>Computations that keep an invariant\<close>

text \<open>\<open>ensures I Q m\<close>: from a state in \<open>I\<close>, \<open>m\<close> ends in one, with a result in \<open>Q\<close>.\<close>

definition ensures :: "('s \<Rightarrow> bool) \<Rightarrow> ('a \<Rightarrow> bool) \<Rightarrow> ('s, 'a) state \<Rightarrow> bool" where
  "ensures I Q m \<longleftrightarrow> (\<forall>s. I s \<longrightarrow> I (snd (run_state m s)) \<and> Q (fst (run_state m s)))"

lemma ensuresI: "(\<And>s r s'. I s \<Longrightarrow> run_state m s = (r, s') \<Longrightarrow> I s' \<and> Q r) \<Longrightarrow> ensures I Q m"
  unfolding ensures_def by (metis prod.collapse)

lemma ensures_bind: "ensures I Q m \<Longrightarrow> (\<And>x. Q x \<Longrightarrow> keeps I (f x)) \<Longrightarrow> keeps I (State_Monad.bind m f)"
  by (simp add: ensures_def keeps_def)

section \<open>The contract\<close>

locale lore_traffic =
  fixes lc :: "('s, 'h) LoreClient" and I :: "'s \<Rightarrow> bool" and ident :: string and ok :: "string \<Rightarrow> bool"
  assumes token: "ensures I (\<lambda>r. \<forall>t. r = Inr t \<longrightarrow> ok t) (lc_ResourceAuthzToken lc ident WildcardResource)"
    and ListRepositories: "ok t \<Longrightarrow> keeps I (lc_ListRepositories lc (WithLoreCall t i))"
    and GetRepositoryByName: "ok t \<Longrightarrow> keeps I (lc_GetRepositoryByName lc (WithLoreCall t i) n)"
    and GetBranchByName: "ok t \<Longrightarrow> keeps I (lc_GetBranchByName lc (WithLoreCall t i) n)"
    and ListBranches: "ok t \<Longrightarrow> keeps I (lc_ListBranches lc (WithLoreCall t i))"
    and ListRevisions: "ok t \<Longrightarrow> keeps I (lc_ListRevisions lc (WithLoreCall t i) b c)"
    and RevisionInfo: "ok t \<Longrightarrow> keeps I (lc_RevisionInfoBySignature lc (WithLoreCall t i) sig)"
    and RevisionTree: "ok t \<Longrightarrow> keeps I (lc_RevisionTree lc (WithLoreCall t i) b v p k)"
    and RevisionDiff: "ok t \<Longrightarrow> keeps I (lc_RevisionDiff lc (WithLoreCall t i) sf st)"
    and QueryLocks: "ok t \<Longrightarrow> keeps I (lc_QueryLocks lc (WithLoreCall t i) b)"
    and FetchContent: "ok t \<Longrightarrow> keeps I (lc_FetchContent lc (WithLoreCall t i) j a)"
    and FetchContentBytes: "ok t \<Longrightarrow> keeps I (lc_FetchContentBytes lc (WithLoreCall t i) j a cap)"
    and RepositoryCreate: "ok t \<Longrightarrow> keeps I (lc_RepositoryCreate lc t inp)"
    and RepositoryDelete: "ok t \<Longrightarrow> keeps I (lc_RepositoryDelete lc t i)"
    and Unlock: "ok t \<Longrightarrow> keeps I (lc_Unlock lc t i ls)"
begin

lemmas calls = ListRepositories GetRepositoryByName GetBranchByName ListBranches ListRevisions RevisionInfo
  RevisionTree RevisionDiff QueryLocks FetchContent FetchContentBytes RepositoryCreate RepositoryDelete Unlock

text \<open>A computation that starts with the exchange goes on with a good token or an error.\<close>

lemma after_token:
  assumes "\<And>e. keeps I (f (Inl e))" and "\<And>t. ok t \<Longrightarrow> keeps I (f (Inr t))"
  shows "keeps I (State_Monad.bind (lc_ResourceAuthzToken lc ident WildcardResource) f)"
proof (rule ensures_bind [OF token])
  fix x :: "(lore_err, string) result"
  assume "\<forall>t. x = Inr t \<longrightarrow> ok t"
  with assms show "keeps I (f x)" by (cases x) auto
qed

end

section \<open>The traffic of the program's client\<close>

text \<open>The far end with a log of the \<open>authorization\<close> header of every call that reaches it, the requests
  of the content endpoint included.\<close>

type_synonym 's logged = "'s \<times> string option list"

definition log_call :: "string option \<Rightarrow> ('s, 'a) state \<Rightarrow> ('s logged, 'a) state" where
  "log_call hdr m = State_Monad.State (\<lambda>(s, l). case run_state m s of (r, s') \<Rightarrow> (r, (s', l @ [hdr])))"

definition auth_header :: "metadata \<Rightarrow> string option" where
  "auth_header md = map_of md ''authorization''"

definition logged_rpc :: "('s, 'h) lore_rpc \<Rightarrow> ('s logged, 'h) lore_rpc" where
  "logged_rpc rpc = \<lparr>
     rpc_RepositoryList = \<lambda>md. log_call (auth_header md) (rpc_RepositoryList rpc md),
     rpc_RepositoryGet = \<lambda>md n. log_call (auth_header md) (rpc_RepositoryGet rpc md n),
     rpc_BranchGet = \<lambda>md n. log_call (auth_header md) (rpc_BranchGet rpc md n),
     rpc_BranchList = \<lambda>md. log_call (auth_header md) (rpc_BranchList rpc md),
     rpc_RevisionList = \<lambda>md q. log_call (auth_header md) (rpc_RevisionList rpc md q),
     rpc_RevisionInfo = \<lambda>md q. log_call (auth_header md) (rpc_RevisionInfo rpc md q),
     rpc_RevisionTree = \<lambda>md b p k. log_call (auth_header md) (rpc_RevisionTree rpc md b p k),
     rpc_RevisionDiff = \<lambda>md f t. log_call (auth_header md) (rpc_RevisionDiff rpc md f t),
     rpc_LockQuery = \<lambda>md b. log_call (auth_header md) (rpc_LockQuery rpc md b),
     rpc_Unlock = \<lambda>md ls. log_call (auth_header md) (rpc_Unlock rpc md ls),
     rpc_RepositoryCreate = \<lambda>md q. log_call (auth_header md) (rpc_RepositoryCreate rpc md q),
     rpc_RepositoryDelete = \<lambda>md i. log_call (auth_header md) (rpc_RepositoryDelete rpc md i),
     rpc_EnvironmentGet = \<lambda>md. log_call (auth_header md) (rpc_EnvironmentGet rpc md),
     http_Get = \<lambda>url a. log_call a (http_Get rpc url a)\<rparr>"

definition logged_env :: "'s lore_env \<Rightarrow> 's logged lore_env" where
  "logged_env env = \<lparr>le_nowMs = le_nowMs env \<circ> fst, le_discovered = le_discovered env \<circ> fst,
     le_dial = le_dial env \<circ> fst, le_exchange = le_exchange env \<circ> fst,
     le_uuid = State_Monad.State (\<lambda>(s, l). case run_state (le_uuid env) s of (r, s') \<Rightarrow> (r, (s', l)))\<rparr>"

definition logged_client :: "'s lore_env \<Rightarrow> ('s, 'h) lore_rpc \<Rightarrow> dialled \<Rightarrow>
    ('s logged lore_world, 'h) LoreClient" where
  "logged_client env rpc d = lore_client_of (logged_env env) (logged_rpc rpc) d"

text \<open>The exchange procedure answers an identity and a resource with a token.\<close>

definition answered :: "'s lore_env \<Rightarrow> string \<Rightarrow> string \<Rightarrow> string \<Rightarrow> bool" where
  "answered env i rsc t \<longleftrightarrow> i \<noteq> '''' \<and> t \<noteq> '''' \<and>
     (\<exists>s conn e. le_exchange env s conn (''Bearer '' @ i) rsc = Inr (Some (t, e)))"

definition cache_answered :: "'s lore_env \<Rightarrow> auth_client \<Rightarrow> bool" where
  "cache_answered env c \<longleftrightarrow> (\<forall>(k, v)\<in>set (cl_authzCache c). \<exists>i rsc. k = cache_key i rsc \<and>
     CHR 0x00 \<notin> set rsc \<and> answered env i rsc (ae_token v))"

definition token_ok :: "'s lore_env \<Rightarrow> string \<Rightarrow> string \<Rightarrow> bool" where
  "token_ok env ident t \<longleftrightarrow> (if ident = '''' then t = '''' else answered env ident WildcardResource t)"

definition header_ok :: "'s lore_env \<Rightarrow> string \<Rightarrow> string option \<Rightarrow> bool" where
  "header_ok env ident h \<longleftrightarrow> (if ident = '''' then h = None
     else \<exists>t. h = Some (''Bearer '' @ t) \<and> answered env ident WildcardResource t)"

text \<open>Since the log stood at \<open>l0\<close>, only good headers were sent.\<close>

definition traffic :: "'s lore_env \<Rightarrow> string \<Rightarrow> string option list \<Rightarrow> 's logged lore_world \<Rightarrow> bool" where
  "traffic env ident l0 w \<longleftrightarrow> cache_answered env (lw_auth w) \<and>
     (\<exists>l. snd (lw_far w) = l0 @ l \<and> list_all (header_ok env ident) l)"

lemma authClientForURL_cache:
  "cl_authzCache (snd (run_state (authClientForURL disc dial) c)) = cl_authzCache c"
  by (auto simp: authClientForURL_def resolveAuthURL_def store_auth_client_def split: sum.split option.split)

lemma ExchangeResource_run:
  assumes "run_state (ExchangeResource disc dial rpc i rsc) c = (r, c')"
  shows "cl_authzCache c' = cl_authzCache c"
    and "r = Inr (t, e) \<Longrightarrow> t \<noteq> '''' \<and> (\<exists>conn. rpc conn (''Bearer '' @ i) rsc = Inr (Some (t, e)))"
  using assms authClientForURL_cache [of disc dial c]
  by (auto simp: ExchangeResource_def split: sum.splits option.splits if_splits)

lemma WildcardResource_no_zero: "CHR 0x00 \<notin> set WildcardResource"
  by (simp add: WildcardResource_def)

lemma cached_token_answered:
  assumes "cache_answered env c" and "cached_token now (cache_key i rsc) c = Some t"
    and "CHR 0x00 \<notin> set rsc"
  shows "answered env i rsc t"
proof -
  from assms(2) obtain v where "(cache_key i rsc, v) \<in> set (cl_authzCache c)" "t = ae_token v"
    by (auto simp: cached_token_def split: option.splits if_splits dest: map_of_SomeD)
  with assms(1) obtain j q where "cache_key i rsc = cache_key j q" "CHR 0x00 \<notin> set q" "answered env j q t"
    by (fastforce simp: cache_answered_def)
  with cache_key_inj [of i rsc j q] assms(3) show ?thesis by simp
qed

lemma store_token_answered:
  assumes "cache_answered env c" and "answered env i rsc t" and "CHR 0x00 \<notin> set rsc"
  shows "cache_answered env (store_token now (cache_key i rsc) \<lparr>ae_token = t, ae_expMs = e\<rparr> c)"
  using assms unfolding cache_answered_def store_token_def
  by (auto dest!: update_set) blast

lemma ResourceAuthzToken_answered:
  assumes c: "cache_answered env c" and z: "CHR 0x00 \<notin> set rsc"
    and run: "run_state (ResourceAuthzToken now (ExchangeResource disc dial (le_exchange env s)) i rsc) c = (r, c')"
  shows "cache_answered env c' \<and>
    (\<forall>t. r = Inr t \<longrightarrow> (if i = '''' then t = '''' else answered env i rsc t))"
proof (cases "i = ''''")
  case True
  with run c show ?thesis by (auto simp: ResourceAuthzToken_def)
next
  case i: False
  show ?thesis
  proof (cases "cached_token now (cache_key i rsc) c")
    case (Some t)
    with run i c cached_token_answered [OF c Some z] show ?thesis by (auto simp: ResourceAuthzToken_def Let_def)
  next
    case None
    obtain x c1 where x: "run_state (ExchangeResource disc dial (le_exchange env s) i rsc) c = (x, c1)"
      by (cases "run_state (ExchangeResource disc dial (le_exchange env s) i rsc) c")
    from ExchangeResource_run(1) [OF x] c have c1: "cache_answered env c1" by (simp add: cache_answered_def)
    show ?thesis
    proof (cases x)
      case (Inl e)
      with None run i x c1 show ?thesis by (auto simp: ResourceAuthzToken_def Let_def)
    next
      case (Inr p)
      obtain t e where p: "p = (t, e)" by (cases p)
      from ExchangeResource_run(2) [OF x] Inr p i have a: "answered env i rsc t"
        by (auto simp: answered_def)
      with None run i x Inr p store_token_answered [OF c1 a z] show ?thesis
        by (auto simp: ResourceAuthzToken_def Let_def)
    qed
  qed
qed

lemma keeps_log_call:
  "header_ok env ident h \<Longrightarrow> keeps (traffic env ident l0) (on_far (log_call h m))"
  by (auto simp: keeps_def traffic_def log_call_def split: prod.split)

lemma keeps_on_far_bind:
  "keeps I (on_far m) \<Longrightarrow> (\<And>x. keeps I (on_far (f x))) \<Longrightarrow> keeps I (on_far (State_Monad.bind m f))"
proof -
  assume a: "keeps I (on_far m)" "\<And>x. keeps I (on_far (f x))"
  have "on_far (State_Monad.bind m f) = State_Monad.bind (on_far m) (\<lambda>x. on_far (f x))"
    by (rule state_ext) simp
  with keeps_bind [OF a] show ?thesis by simp
qed

lemma keeps_on_far_return: "keeps I (on_far (State_Monad.return x))"
  by (simp add: keeps_def)

lemma header_of_call:
  assumes "token_ok env ident t"
  shows "header_ok env ident (auth_header (authOutgoingContext (WithLoreCall t i)))"
    and "header_ok env ident (if t \<noteq> '''' then Some (''Bearer '' @ t) else None)"
  using assms
  by (auto simp: token_ok_def header_ok_def auth_header_def authOutgoingContext_def WithLoreCall_def
      answered_def split: if_splits)

lemmas keeps_far = keeps_on_far_bind keeps_on_far_return keeps_log_call header_of_call

lemma keeps_on_far_case:
  "(\<And>e. x = Inl e \<Longrightarrow> keeps I (on_far (f e))) \<Longrightarrow> (\<And>y. x = Inr y \<Longrightarrow> keeps I (on_far (g y))) \<Longrightarrow>
    keeps I (on_far (case x of Inl e \<Rightarrow> f e | Inr y \<Rightarrow> g y))"
  "(c \<Longrightarrow> keeps I (on_far m1)) \<Longrightarrow> (\<not> c \<Longrightarrow> keeps I (on_far m2)) \<Longrightarrow>
    keeps I (on_far (if c then m1 else m2))"
  by (auto split: sum.split)

lemma keeps_uuid: "keeps (traffic env ident l0) (on_far (le_uuid (logged_env env)))"
  by (auto simp: keeps_def traffic_def logged_env_def split: prod.split)

lemma header_of_get:
  "token_ok env ident t \<Longrightarrow> header_ok env ident (case WithLoreCall t i of None \<Rightarrow> None
     | Some a \<Rightarrow> if ca_token a \<noteq> '''' then Some (''Bearer '' @ ca_token a) else None)"
  using header_of_call(2) [of env ident t] by (auto simp: WithLoreCall_def split: if_splits)

interpretation web_traffic: lore_traffic "logged_client env rpc d" "traffic env ident l0" ident "token_ok env ident"
proof unfold_locales
  show "ensures (traffic env ident l0) (\<lambda>r. \<forall>t. r = Inr t \<longrightarrow> token_ok env ident t)
      (lc_ResourceAuthzToken (logged_client env rpc d) ident WildcardResource)"
  proof (rule ensuresI)
    fix w r w'
    assume t: "traffic env ident l0 w"
      and r: "run_state (lc_ResourceAuthzToken (logged_client env rpc d) ident WildcardResource) w = (r, w')"
    obtain c' where c': "w' = w\<lparr>lw_auth := c'\<rparr>"
      and run: "run_state (ResourceAuthzToken (le_nowMs env (fst (lw_far w)))
        (ExchangeResource (le_discovered env (fst (lw_far w))) (le_dial env (fst (lw_far w)))
          (le_exchange env (fst (lw_far w)))) ident WildcardResource) (lw_auth w) = (r, c')"
      using r by (cases "run_state (ResourceAuthzToken (le_nowMs env (fst (lw_far w)))
        (ExchangeResource (le_discovered env (fst (lw_far w))) (le_dial env (fst (lw_far w)))
          (le_exchange env (fst (lw_far w)))) ident WildcardResource) (lw_auth w)")
        (auto simp: logged_client_def lore_client_of_def logged_env_def)
    from t have "cache_answered env (lw_auth w)" by (simp add: traffic_def)
    from ResourceAuthzToken_answered [OF this WildcardResource_no_zero run] t c'
    show "traffic env ident l0 w' \<and> (\<forall>t. r = Inr t \<longrightarrow> token_ok env ident t)"
      by (auto simp: traffic_def token_ok_def)
  qed
qed (simp_all add: logged_client_def lore_client_of_def logged_rpc_def ListRepositories_rpc_def
    GetRepositoryByName_def GetBranchByName_def ListBranches_def ListRevisions_def revisionInfo_def
    RevisionInfoBySignature_def RevisionTree_def RevisionDiff_def QueryLocks_def FetchContent_def
    FetchContentBytes_def RepositoryCreate_def RepositoryDelete_def Unlock_def
    keeps_far keeps_on_far_case header_of_get keeps_uuid)

end
