(* ===== verification/Front_Http.thy ===== *)
theory Front_Http
  imports Lore_Api
begin

text \<open>
  Requests and responses of the web client: what a handler of \<open>internal/handlers\<close> reads from its
  request, the view models of \<open>web/templates\<close>, and \<open>render.go\<close>. A page is named by the template that
  renders it with the view it gets; the markup of the templates is not modelled. \<open>http.Redirect\<close> is
  the target as it is handed over, with the status 303 that every call uses; the small body
  \<open>net/http\<close> adds is left out.
\<close>

section \<open>Requests\<close>

record front_identity =
  fi_Sub :: string
  fi_Token :: string
  fi_IsAdmin :: bool

text \<open>The URL parameters of the router, the query and the posted form as lists of pairs, first match
  first; \<open>fq_form_ok\<close> is the outcome of \<open>ParseForm\<close>.\<close>

record front_request =
  fq_path :: string
  fq_htmx :: bool
  fq_params :: "(string \<times> string) list"
  fq_query :: "(string \<times> string) list"
  fq_form_ok :: bool
  fq_post :: "(string \<times> string) list"
  fq_identity :: "front_identity option"

definition lookup_value :: "(string \<times> string) list \<Rightarrow> string \<Rightarrow> string" where
  "lookup_value kvs k = (case map_of kvs k of None \<Rightarrow> '''' | Some v \<Rightarrow> v)"

definition URLParam :: "front_request \<Rightarrow> string \<Rightarrow> string" where
  "URLParam r k = lookup_value (fq_params r) k"

definition QueryGet :: "front_request \<Rightarrow> string \<Rightarrow> string" where
  "QueryGet r k = lookup_value (fq_query r) k"

definition PostFormValue :: "front_request \<Rightarrow> string \<Rightarrow> string" where
  "PostFormValue r k = lookup_value (fq_post r) k"

definition FormValue :: "front_request \<Rightarrow> string \<Rightarrow> string" where
  "FormValue r k = lookup_value (fq_post r @ fq_query r) k"

definition identity_of :: "front_request \<Rightarrow> front_identity" where
  "identity_of r = (case fq_identity r of
      None \<Rightarrow> \<lparr>fi_Sub = '''', fi_Token = '''', fi_IsAdmin = False\<rparr> | Some i \<Rightarrow> i)"

definition identityToken :: "front_request \<Rightarrow> string" where
  "identityToken r = (case fq_identity r of None \<Rightarrow> '''' | Some i \<Rightarrow> fi_Token i)"

section \<open>Views\<close>

text \<open>A rendered component is its markup.\<close>

record HomeView =
  hv_Username :: string
  hv_RepoCount :: nat
  hv_Repos :: "string list"

record RepoListView =
  rl_Name :: string
  rl_Description :: string
  rl_DefaultBranchName :: string
  rl_Creator :: string

record BranchOption =
  bo_Name :: string
  bo_URL :: string
  bo_Active :: bool

record RepoView =
  rv_Owner :: string
  rv_Name :: string
  rv_Description :: string
  rv_DefaultBranchName :: string
  rv_Rows :: "FileRowView list"
  rv_Readme :: "string option"
  rv_Empty :: bool
  rv_ID :: string
  rv_CloneHost :: string
  rv_CurrentBranch :: string
  rv_Branches :: "BranchOption list"

record TreeView =
  tv_Owner :: string
  tv_RepoName :: string
  tv_BranchName :: string
  tv_DirPath :: string
  tv_Rows :: "FileRowView list"

record FileView =
  fv_Owner :: string
  fv_RepoName :: string
  fv_BranchName :: string
  fv_FilePath :: string
  fv_Filename :: string
  fv_RawURL :: string
  fv_Locked :: bool
  fv_LockOwner :: string
  fv_LexerName :: string
  fv_Body :: "string option"
  fv_TooLarge :: bool

record CommitListView =
  cl_Owner :: string
  cl_RepoName :: string
  cl_BranchName :: string
  cl_Groups :: "CommitDateGroup list"
  cl_PrevURL :: string
  cl_NextURL :: string
  cl_Empty :: bool

record LockRowView =
  lw_Path :: string
  lw_Owner :: string
  lw_LockedAt :: string
  lw_Branch :: string
  lw_Hash :: string
  lw_Description :: string

record LocksView =
  lv_Owner :: string
  lv_RepoName :: string
  lv_BranchName :: string
  lv_Rows :: "LockRowView list"

record AdminUserView =
  au_Username :: string
  au_DisplayName :: string
  au_IsAdmin :: bool
  au_Created :: int

record AdminRepoView =
  av_ID :: string
  av_Name :: string
  av_Description :: string
  av_DefaultBranchName :: string
  av_Creator :: string

record AdminGrantsResource =
  ag_ResourceID :: string
  ag_Name :: string
  ag_Permissions :: "string list"

record AdminGrantsMember =
  gm_Username :: string
  gm_DisplayName :: string
  gm_IsAdmin :: bool
  gm_Selected :: bool

datatype front_page =
    ForbiddenPage string string
  | NotFoundPage string
  | HomePage HomeView
  | RepoListPage "RepoListView list"
  | RepoPage RepoView
  | TreePage TreeView
  | FilePage FileView
  | CommitListPage CommitListView
  | CommitPage CommitView
  | LocksPage LocksView
  | AdminUsersPage "AdminUserView list" string bool
  | AdminReposPage "AdminRepoView list" string
  | AdminGrantsPage "AdminGrantsMember list" "AdminGrantsResource list" string string
  | LoginPage string bool
  | RegisterPage string
  | AccountPage string string
  | SetupPage string

section \<open>Responses\<close>

text \<open>\<open>Layout\<close>: title, page, the user and the admin flag of the navigation, and its section.\<close>

datatype front_body =
    Fragment front_page
  | Layout string front_page string bool string
  | TextBody string
  | BlobBody "byte reader"
  | NoBody

record front_response =
  fp_status :: nat
  fp_headers :: "(string \<times> string) list"
  fp_body :: front_body

definition http_Error :: "string \<Rightarrow> nat \<Rightarrow> front_response" where
  "http_Error msg code = \<lparr>fp_status = code,
     fp_headers = [(''Content-Type'', ''text/plain; charset=utf-8''), (''X-Content-Type-Options'', ''nosniff'')],
     fp_body = TextBody (msg @ [CHR 0x0A])\<rparr>"

definition http_NotFound :: front_response where
  "http_NotFound = http_Error ''404 page not found'' 404"

definition http_Redirect :: "string \<Rightarrow> front_response" where
  "http_Redirect url = \<lparr>fp_status = 303, fp_headers = [(''Location'', url)], fp_body = NoBody\<rparr>"

definition html_type :: "(string \<times> string) list" where
  "html_type = [(''Content-Type'', ''text/html; charset=utf-8'')]"

definition nav_section :: "string \<Rightarrow> string" where
  "nav_section path = (if HasPrefix path ''/admin'' then ''admin''
     else if HasPrefix path ''/explore'' then ''explore'' else ''home'')"

definition renderPageStatus :: "front_request \<Rightarrow> nat \<Rightarrow> string \<Rightarrow> front_page \<Rightarrow> front_response" where
  "renderPageStatus r code title pg = \<lparr>fp_status = code, fp_headers = html_type,
     fp_body = (if fq_htmx r then Fragment pg
       else Layout title pg (fi_Sub (identity_of r)) (fi_IsAdmin (identity_of r)) (nav_section (fq_path r)))\<rparr>"

definition renderPage :: "front_request \<Rightarrow> string \<Rightarrow> front_page \<Rightarrow> front_response" where
  "renderPage r title pg = renderPageStatus r 200 title pg"

text \<open>\<open>html.EscapeString\<close>.\<close>

definition html_escape_char :: "char \<Rightarrow> string" where
  "html_escape_char c = (if c = CHR ''&'' then ''&amp;'' else if c = CHR 0x27 then ''&#39;''
     else if c = CHR ''<'' then ''&lt;'' else if c = CHR ''>'' then ''&gt;''
     else if c = CHR 0x22 then ''&#34;'' else [c])"

definition html_EscapeString :: "string \<Rightarrow> string" where
  "html_EscapeString s = concat (map html_escape_char s)"

text \<open>The titles end in a dash and the name of the site.\<close>

definition dash :: string where
  "dash = '' '' @ em_dash @ '' ''"

definition site_title :: "string \<Rightarrow> string" where
  "site_title s = s @ dash @ ''ArcLore''"

lemma renderPage_status [simp]: "fp_status (renderPage r t p) = 200"
  by (simp add: renderPage_def renderPageStatus_def)

lemma renderPageStatus_status [simp]: "fp_status (renderPageStatus r c t p) = c"
  by (simp add: renderPageStatus_def)

lemma http_Error_status [simp]: "fp_status (http_Error m c) = c"
  by (simp add: http_Error_def)

lemma http_NotFound_status [simp]: "fp_status http_NotFound = 404"
  by (simp add: http_NotFound_def)

lemma http_Redirect_status [simp]: "fp_status (http_Redirect u) = 303"
  by (simp add: http_Redirect_def)

end
