(* ===== verification/Html_Text.thy ===== *)
theory Html_Text
  imports Front_Http
begin

text \<open>
  The HTML the templates of \<open>web/templates\<close> print. A component is the text it writes: literals, what
  the templ library makes of dynamic values, and other components, in the order of the writes. The
  library is a parameter, the record \<open>templ_lib\<close>; what the pages rely on is the locale
  \<open>escaping_templ\<close>. Whether a text is well formed is decided by a machine that reads it character by
  character with the stack of open elements. It is stricter than HTML where the pages can be: values
  of attributes are quoted, no attribute is an event handler, and a script element has no content.
\<close>

section \<open>The library\<close>

text \<open>\<open>templ.EscapeString\<close>, \<open>templ.ResolveAttributeValue\<close> of a text, the text of \<open>templ.CSSClasses\<close>, where a
  class may come with a condition, \<open>templ.JoinURLErrs\<close> of a plain string (a \<open>SafeURL\<close> passes as it is), and
  what \<open>strings.ToUpper\<close> makes of a text that is not ASCII.\<close>

record templ_lib =
  tl_EscapeString :: "string \<Rightarrow> string"
  tl_AttributeValue :: "string \<Rightarrow> string"
  tl_CSSClasses :: "(string \<times> bool) list \<Rightarrow> string"
  tl_URL :: "string \<Rightarrow> string"
  tl_upper :: "string \<Rightarrow> string"

type_synonym html = string

definition flat :: "html list \<Rightarrow> html" where
  "flat ps = concat ps"

text \<open>A dynamic text, attribute, class list and plain URL.\<close>

definition esc :: "templ_lib \<Rightarrow> string \<Rightarrow> html" where
  "esc T s = tl_EscapeString T s"

definition att :: "templ_lib \<Rightarrow> string \<Rightarrow> html" where
  "att T s = tl_AttributeValue T s"

definition cls :: "templ_lib \<Rightarrow> (string \<times> bool) list \<Rightarrow> html" where
  "cls T cs = tl_AttributeValue T (tl_CSSClasses T cs)"

definition url :: "templ_lib \<Rightarrow> string \<Rightarrow> html" where
  "url T s = tl_EscapeString T (tl_URL T s)"

definition ellipsis :: string where
  "ellipsis = [CHR 0xE2, CHR 0x80, CHR 0xA6]"

section \<open>Well-formed text\<close>

text \<open>The names of elements and attributes are kept as they were read, last character first.\<close>

datatype html_mode =
    Text | TagStart | Open string | Close string | Attrs string string | AttrEq string | AttrValue string
  | Declaration | Script | Failed

type_synonym html_state = "html_mode \<times> string list"

definition void_element :: "string \<Rightarrow> bool" where
  "void_element t \<longleftrightarrow> t \<in> set (map rev [''input'', ''meta'', ''link'', ''br'', ''hr'', ''img''])"

definition opened :: "string \<Rightarrow> string list \<Rightarrow> html_state" where
  "opened t st = (if void_element t then (Text, st)
     else if t = rev ''script'' then (Script, t # st) else (Text, t # st))"

fun html_step :: "html_state \<Rightarrow> char \<Rightarrow> html_state" where
  "html_step (Text, st) c = (if c = CHR ''<'' then (TagStart, st)
     else if c = CHR ''>'' then (Failed, st) else (Text, st))"
| "html_step (TagStart, st) c = (if c = CHR ''/'' then (Close [], st)
     else if c = CHR ''!'' then (Declaration, st)
     else if c \<in> set ''abcdefghijklmnopqrstuvwxyz'' then (Open [c], st) else (Failed, st))"
| "html_step (Open t, st) c = (if c = CHR '' '' then (Attrs t [], st)
     else if c = CHR ''>'' then opened t st else (Open (c # t), st))"
| "html_step (Close t, st) c = (if c = CHR ''>''
     then (if st \<noteq> [] \<and> hd st = t then (Text, tl st) else (Failed, st)) else (Close (c # t), st))"
| "html_step (Attrs t a, st) c = (if c = CHR ''>'' then opened t st
     else if c = CHR '' '' then (Attrs t [], st)
     else if c = CHR ''='' then (if take 2 (rev a) = ''on'' then (Failed, st) else (AttrEq t, st))
     else if c \<in> {CHR 0x22, CHR ''<''} then (Failed, st) else (Attrs t (c # a), st))"
| "html_step (AttrEq t, st) c = (if c = CHR 0x22 then (AttrValue t, st) else (Failed, st))"
| "html_step (AttrValue t, st) c = (if c = CHR 0x22 then (Attrs t [], st)
     else if c \<in> {CHR ''<'', CHR ''>''} then (Failed, st) else (AttrValue t, st))"
| "html_step (Declaration, st) c = (if c = CHR ''>'' then (Text, st) else (Declaration, st))"
| "html_step (Script, st) c = (if c = CHR ''<'' then (TagStart, st) else (Failed, st))"
| "html_step (Failed, st) c = (Failed, st)"

definition html_run :: "html_state \<Rightarrow> html \<Rightarrow> html_state" where
  "html_run q s = foldl html_step q s"

text \<open>A text that can stand anywhere between tags, and a whole document.\<close>

definition balanced :: "html \<Rightarrow> bool" where
  "balanced s \<longleftrightarrow> (\<forall>st. html_run (Text, st) s = (Text, st))"

definition well_formed :: "html \<Rightarrow> bool" where
  "well_formed s \<longleftrightarrow> html_run (Text, []) s = (Text, [])"

text \<open>A text without the characters that end a text or a quoted value.\<close>

definition inert :: "string \<Rightarrow> bool" where
  "inert s \<longleftrightarrow> CHR ''<'' \<notin> set s \<and> CHR ''>'' \<notin> set s \<and> CHR 0x22 \<notin> set s"

section \<open>How the machine runs\<close>

lemma html_run_Nil [simp]: "html_run q [] = q"
  by (simp add: html_run_def)

lemma html_run_Cons: "html_run q (c # s) = html_run (html_step q c) s"
  by (simp add: html_run_def)

lemma html_run_append: "html_run q (s @ t) = html_run (html_run q s) t"
  by (simp add: html_run_def)

lemma html_run_flat [simp]:
  "html_run q (flat []) = q" "html_run q (flat (p # ps)) = html_run (html_run q p) (flat ps)"
  by (simp_all add: flat_def html_run_append)

lemma html_run_inert:
  "inert s \<Longrightarrow> html_run (Text, st) s = (Text, st)"
  "inert s \<Longrightarrow> html_run (AttrValue t, st) s = (AttrValue t, st)"
  by (induction s) (auto simp: inert_def html_run_Cons)

lemma balanced_run: "balanced s \<Longrightarrow> html_run (Text, st) s = (Text, st)"
  by (simp add: balanced_def)

lemma balanced_wf: "balanced s \<Longrightarrow> well_formed s"
  by (simp add: balanced_def well_formed_def)

lemma html_run_if: "html_run q (if c then s else t) = (if c then html_run q s else html_run q t)"
  by simp

text \<open>A loop stays where its body does.\<close>

lemma html_run_for:
  "(\<And>x. html_run (Text, st) (f x) = (Text, st)) \<Longrightarrow> html_run (Text, st) (flat (map f xs)) = (Text, st)"
  by (induction xs) simp_all

lemmas html_machine = html_run_Cons html_run_if html_run_for opened_def void_element_def
  em_dash_def ellipsis_def

lemma inert_escape: "inert (html_EscapeString s)"
  by (induction s) (auto simp: inert_def html_EscapeString_def html_escape_char_def)

text \<open>What the pages rely on: escaped texts and attributes are inert.\<close>

named_theorems component_rules \<open>components that leave the machine where it was\<close>

locale escaping_templ =
  fixes T :: templ_lib
  assumes escaped: "inert (tl_EscapeString T s)"
    and attribute: "inert (tl_AttributeValue T s)"
begin

lemma inert_holes: "inert (esc T s)" "inert (att T s)" "inert (cls T cs)" "inert (url T s)"
  by (simp_all add: esc_def att_def cls_def url_def escaped attribute)

lemmas run_holes = inert_holes [THEN html_run_inert(1)] inert_holes [THEN html_run_inert(2)]

end

text \<open>The library with the escaping of \<open>html.EscapeString\<close>, which is what templ documents.\<close>

definition class_text :: "(string \<times> bool) list \<Rightarrow> string" where
  "class_text cs = (case map fst (filter snd cs) of
      [] \<Rightarrow> '''' | c # r \<Rightarrow> c @ concat (map (\<lambda>x. '' '' @ x) r))"

definition go_templ :: "(string \<Rightarrow> string) \<Rightarrow> templ_lib" where
  "go_templ u = \<lparr>tl_EscapeString = html_EscapeString, tl_AttributeValue = html_EscapeString,
     tl_CSSClasses = class_text, tl_URL = id, tl_upper = u\<rparr>"

interpretation html_templ: escaping_templ "go_templ u" for u
  by unfold_locales (simp_all add: go_templ_def inert_escape)

end
