(* ===== verification/Web_Html.thy ===== *)
theory Web_Html
  imports Html_Text Web
begin

text \<open>
  The HTML of the pages of the authentication server: the templates of \<open>src/arc-lore-auth/web.go\<close>. What
  \<open>html/template\<close> makes of a value in a text, in a quoted attribute and in the query of a link is the
  record \<open>html_template\<close>.
\<close>

record html_template =
  ht_text :: "string \<Rightarrow> string"
  ht_attr :: "string \<Rightarrow> string"
  ht_urlquery :: "string \<Rightarrow> string"

definition nl :: string where
  "nl = [CHR 0x0A]"

section \<open>The templates\<close>

definition cleartextNote :: string where
  \<open>cleartextNote =
    flat [''Served over plain HTTP '', em_dash,
     '' passwords travel in cleartext. Use only on a trusted network.'']\<close>

definition pageStyle :: html where
  \<open>pageStyle =
    flat [''<style>'', nl, ''body{font-family:system-ui,sans-serif;max-width:640px;margin:3rem '',
     ''auto;padding:0 1rem;color:#222}'', nl, ''h1{font-size:1.4rem}'', nl,
     ''form{margin:1rem 0;padding:1rem;border:1px solid #ccc;border-radius:8px}'', nl,
     ''label{display:block;margin:.5rem 0 .15rem}'', nl,
     ''input[type=text],input[type=password]{width:100%;padding:.45rem;box-sizing:borde'',
     ''r-box}'', nl, ''button{margin-top:.8rem;padding:.5rem 1rem;cursor:pointer}'', nl,
     ''.warn{background:#fff4e5;border:1px solid #e0a96d;padding:.6rem '',
     ''.8rem;border-radius:6px;font-size:.85rem;color:#7a4d00}'', nl,
     ''.err{background:#fdecea;border:1px solid #d9534f;padding:.6rem '',
     ''.8rem;border-radius:6px;color:#a12622}'', nl,
     ''.ok{background:#e8f5e9;border:1px solid #4caf50;padding:.6rem '',
     ''.8rem;border-radius:6px;color:#1b5e20}'', nl,
     ''table{border-collapse:collapse;width:100%;margin:1rem 0}'', nl,
     ''th,td{border:1px solid #ddd;padding:.4rem .5rem;text-align:left;font-size:.9rem}'', nl,
     ''fieldset{border:1px solid #ccc;border-radius:8px;margin:1rem 0}'', nl,
     ''small{color:#666}'', nl, ''</style>'']\<close>

definition loginHTML :: "html_template \<Rightarrow> string \<Rightarrow> string \<Rightarrow> string \<Rightarrow> html" where
  \<open>loginHTML H session csrf err =
    flat [''<!doctype html><html><head><meta charset="utf-8"><title>Sign in '', em_dash,
     '' ArcLore</title>'', pageStyle, ''</head><body>'', nl, ''<h1>Sign in to ArcLore</h1>'',
     nl, ''<div class="warn">'', ht_text H cleartextNote, ''</div>'', nl,
     if err \<noteq> '''' then flat [''<div class="err">'', ht_text H err, ''</div>''] else '''',
     nl, ''<form method="POST" action="/login?session='', ht_urlquery H session, ''">'', nl,
     ''  <input type="hidden" name="session" value="'', ht_attr H session, ''">'', nl,
     ''  <input type="hidden" name="csrf" value="'', ht_attr H csrf, ''">'', nl,
     ''  <label for="u">Username</label>'', nl,
     ''  <input type="text" id="u" name="username" autocomplete="username" autofocus>'', nl,
     ''  <label for="p">Password</label>'', nl,
     ''  <input type="password" id="p" name="password" autocomplete="current-password">'', nl,
     ''  <button type="submit">Sign in</button>'', nl, ''</form>'', nl, ''</body></html>'']\<close>

definition loginDoneHTML :: "html_template \<Rightarrow> string \<Rightarrow> html" where
  \<open>loginDoneHTML H user =
    flat [''<!doctype html><html><head><meta charset="utf-8"><title>Signed in '', em_dash,
     '' ArcLore</title>'', pageStyle, ''</head><body>'', nl, ''<h1>Signed in</h1>'', nl,
     ''<div class="ok">Signed in as <strong>'', ht_text H user,
     ''</strong>. Return to your editor '', em_dash, '' you can close this tab.</div>'', nl,
     ''</body></html>'']\<close>

definition loginBadHTML :: "html" where
  \<open>loginBadHTML =
    flat [''<!doctype html><html><head><meta charset="utf-8"><title>Login link '', em_dash,
     '' ArcLore</title>'', pageStyle, ''</head><body>'', nl, ''<h1>Login link invalid</h1>'',
     nl, ''<div class="err">This login link is invalid or has expired. Start the login '',
     ''again from your editor or the CLI.</div>'', nl, ''</body></html>'']\<close>

definition adminUnlockHTML :: "html_template \<Rightarrow> string \<Rightarrow> string \<Rightarrow> html" where
  \<open>adminUnlockHTML H csrf err =
    flat [''<!doctype html><html><head><meta charset="utf-8"><title>Admin '', em_dash,
     '' ArcLore</title>'', pageStyle, ''</head><body>'', nl, ''<h1>ArcLore admin</h1>'', nl,
     ''<div class="warn">'', ht_text H cleartextNote, ''</div>'', nl,
     if err \<noteq> '''' then flat [''<div class="err">'', ht_text H err, ''</div>''] else '''',
     nl, ''<form method="POST" action="/admin/unlock">'', nl,
     ''  <input type="hidden" name="csrf" value="'', ht_attr H csrf, ''">'', nl,
     ''  <label for="s">Admin secret</label>'', nl,
     ''  <input type="password" id="s" name="secret" autocomplete="off" autofocus>'', nl,
     ''  <button type="submit">Unlock</button>'', nl, ''</form>'', nl, ''</body></html>'']\<close>

definition adminHTML :: "html_template \<Rightarrow> string \<Rightarrow> adminUserRow list \<Rightarrow> string \<Rightarrow> string \<Rightarrow> html" where
  \<open>adminHTML H csrf us okMsg err =
    flat [''<!doctype html><html><head><meta charset="utf-8"><title>Admin '', em_dash,
     '' ArcLore</title>'', pageStyle, ''</head><body>'', nl, ''<h1>ArcLore user admin</h1>'',
     nl, ''<div class="warn">'', ht_text H cleartextNote, ''</div>'', nl,
     if err \<noteq> '''' then flat [''<div class="err">'', ht_text H err, ''</div>''] else '''',
     nl,
     if okMsg \<noteq> '''' then flat [''<div class="ok">'', ht_text H okMsg, ''</div>''] else '''',
     nl, nl, ''<h2>Users</h2>'', nl, ''<table>'', nl,
     ''  <tr><th>Username</th><th>Display name</th><th>Created</th><th>Updated</th>'',
     ''</tr>'', nl, ''  '',
     if us = [] then flat [''<tr><td colspan="4"><small>No users yet.</small></td></tr>''] else
     flat (map (\<lambda>r. flat [''<tr><td>'', ht_text H (row_Username r), ''</td><td>'', ht_text H (row_DisplayName r), ''</td><td>'', ht_text H (row_CreatedStr r), ''</td><td>'', ht_text H (row_UpdatedStr r), ''</td></tr>'']) us),
     nl, ''</table>'', nl, nl, ''<fieldset><legend>Create user</legend>'', nl,
     ''<form method="POST" action="/admin/users">'', nl,
     ''  <input type="hidden" name="csrf" value="'', ht_attr H csrf, ''">'', nl,
     ''  <label>Username</label><input type="text" name="username">'', nl,
     ''  <label>Display name (optional)</label><input type="text" name="display_name">'', nl,
     ''  <label>Password</label><input type="password" name="password" '',
     ''autocomplete="new-password">'', nl, ''  <button type="submit">Create</button>'', nl,
     ''</form></fieldset>'', nl, nl, ''<fieldset><legend>Set password</legend>'', nl,
     ''<form method="POST" action="/admin/users/setpw">'', nl,
     ''  <input type="hidden" name="csrf" value="'', ht_attr H csrf, ''">'', nl,
     ''  <label>Username</label><input type="text" name="username">'', nl,
     ''  <label>New password</label><input type="password" name="password" '',
     ''autocomplete="new-password">'', nl, ''  <button type="submit">Set password</button>'',
     nl, ''</form></fieldset>'', nl, nl, ''<fieldset><legend>Delete user</legend>'', nl,
     ''<form method="POST" action="/admin/users/delete">'', nl,
     ''  <input type="hidden" name="csrf" value="'', ht_attr H csrf, ''">'', nl,
     ''  <label>Username</label><input type="text" name="username">'', nl,
     ''  <button type="submit">Delete</button>'', nl, ''</form></fieldset>'', nl,
     ''</body></html>'']\<close>

definition adminDisabledHTML :: html where
  \<open>adminDisabledHTML =
    flat [''<!doctype html><meta charset="utf-8">'', pageStyle,
     ''<h1>Admin disabled</h1><div class="err">User admin is disabled because <code>'',
     ''admin_secret</code> is not set. Set it in config.toml and restart to enable '',
     ''<code>/admin</code>.</div>'']\<close>

text \<open>The page in HTML; an error of \<open>http.Error\<close> and a redirect are none.\<close>

fun auth_page_html :: "html_template \<Rightarrow> page \<Rightarrow> html option" where
  "auth_page_html H (HttpError msg) = None"
| "auth_page_html H (page.LoginPage code csrf err) = Some (loginHTML H code csrf err)"
| "auth_page_html H (LoginDone user) = Some (loginDoneHTML H user)"
| "auth_page_html H LoginBad = Some loginBadHTML"
| "auth_page_html H AdminDisabled = Some adminDisabledHTML"
| "auth_page_html H (AdminUnlock csrf err) = Some (adminUnlockHTML H csrf err)"
| "auth_page_html H (AdminPage csrf us okMsg err) = Some (adminHTML H csrf us okMsg err)"
| "auth_page_html H (SeeOther u) = None"

section \<open>They are well formed\<close>

locale escaping_html =
  fixes H :: html_template
  assumes escaped_text: "inert (ht_text H s)" and escaped_attr: "inert (ht_attr H s)"
    and escaped_query: "inert (ht_urlquery H s)"
begin

lemmas run_values = escaped_text [THEN html_run_inert(1)] escaped_attr [THEN html_run_inert(2)]
  escaped_query [THEN html_run_inert(2)]

lemma pageStyle_run: "html_run (Text, st) pageStyle = (Text, st)"
  unfolding pageStyle_def by (simp add: html_machine nl_def)

lemma loginHTML_run: "html_run (Text, st) (loginHTML H session csrf err) = (Text, st)"
  unfolding loginHTML_def by (simp add: html_machine nl_def pageStyle_run run_values)

lemma loginDoneHTML_run: "html_run (Text, st) (loginDoneHTML H user) = (Text, st)"
  unfolding loginDoneHTML_def by (simp add: html_machine nl_def pageStyle_run run_values)

lemma loginBadHTML_run: "html_run (Text, st) (loginBadHTML) = (Text, st)"
  unfolding loginBadHTML_def by (simp add: html_machine nl_def pageStyle_run run_values)

lemma adminUnlockHTML_run: "html_run (Text, st) (adminUnlockHTML H csrf err) = (Text, st)"
  unfolding adminUnlockHTML_def by (simp add: html_machine nl_def pageStyle_run run_values)

lemma adminHTML_run: "html_run (Text, st) (adminHTML H csrf us okMsg err) = (Text, st)"
  unfolding adminHTML_def by (simp add: html_machine nl_def pageStyle_run run_values)

lemma adminDisabledHTML_run: "html_run (Text, st) (adminDisabledHTML) = (Text, st)"
  unfolding adminDisabledHTML_def by (simp add: html_machine nl_def pageStyle_run run_values)

lemmas template_runs = loginHTML_run loginDoneHTML_run loginBadHTML_run adminUnlockHTML_run adminHTML_run adminDisabledHTML_run

lemma auth_page_wf: "auth_page_html H pg = Some h \<Longrightarrow> well_formed h"
  by (cases pg) (auto simp: well_formed_def template_runs)

end

text \<open>The escaping of \<open>html/template\<close> as documented: that of HTML, after that of queries in a link.\<close>

definition go_template :: html_template where
  "go_template = \<lparr>ht_text = html_EscapeString, ht_attr = html_EscapeString,
     ht_urlquery = \<lambda>s. html_EscapeString (QueryEscape s)\<rparr>"

interpretation auth_html: escaping_html go_template
  by unfold_locales (simp_all add: go_template_def inert_escape)

text \<open>Every page the authentication server renders is well-formed HTML without event handlers or inline
  scripts, whatever user names, messages and session codes it shows, and it is a page unless the answer is
  an error text or a redirect.\<close>

theorem auth_pages_well_formed:
  "let pg = ws_page (fst (run_state (web_serve env r c) s)) in case auth_page_html go_template pg of
    None \<Rightarrow> (\<exists>m. pg = HttpError m) \<or> (\<exists>u. pg = SeeOther u) | Some h \<Rightarrow> well_formed h"
proof -
  have "case auth_page_html go_template pg of
      None \<Rightarrow> (\<exists>m. pg = HttpError m) \<or> (\<exists>u. pg = SeeOther u) | Some h \<Rightarrow> well_formed h" for pg
  proof (cases "auth_page_html go_template pg")
    case None
    then show ?thesis by (cases pg) simp_all
  next
    case (Some h)
    with auth_html.auth_page_wf show ?thesis by auto
  qed
  then show ?thesis by (simp add: Let_def)
qed

end
