(* ===== verification/Mgmt_Client.thy ===== *)
theory Mgmt_Client
  imports Go_Http
begin

text \<open>
  \<open>src/ArcLoreWeb/internal/mgmt/client.go\<close>: the client of the JSON management API. The HTTP
  transport is an argument, a computation on the state \<open>'s\<close> of the far end; so is the JSON
  decoder. Go returns the value it decoded into beside the error, so each method returns both.
\<close>

section \<open>Requests and answers\<close>

datatype json = JString string | JBool bool

record http_request =
  hr_method :: string
  hr_url :: string
  hr_contentType :: "string option"
  hr_authorization :: "string option"
  hr_body :: "(string \<times> json) list option"

datatype http_failure = BuildFailed string | SendFailed string

type_synonym 's transport =
  "http_request \<Rightarrow> ('s, (http_failure, nat \<times> char reader) result) state"

datatype mgmt_err = APIError nat string | MgmtErr string

definition mgmt_err_text :: "mgmt_err \<Rightarrow> string" where
  "mgmt_err_text e = (case e of
      APIError code msg \<Rightarrow>
        if msg \<noteq> '''' then ''mgmt: '' @ dec_nat code @ '' '' @ StatusText code @ '': '' @ msg
        else ''mgmt: '' @ dec_nat code @ '' '' @ StatusText code
    | MgmtErr t \<Rightarrow> t)"

record StatusResp =
  sr_HasUsers :: bool
  sr_RegistrationOpen :: bool

record AuthResp =
  ar_Token :: string
  ar_ExpiresAt :: int
  ar_UserID :: string
  ar_Name :: string
  ar_IsAdmin :: bool

record UserResp =
  ur_Username :: string
  ur_DisplayName :: string
  ur_IsAdmin :: bool
  ur_Created :: int

record ResourceResp =
  rr_ResourceID :: string
  rr_Name :: string
  rr_Created :: int

text \<open>A decoder gives what it left in the target and the text of its error; \<open>js_error\<close> is the
  \<open>error\<close> field of a text that parses as an object.\<close>

type_synonym 'o decoder = "char reader \<Rightarrow> 'o \<times> string option"

record mgmt_json =
  js_error :: "string \<Rightarrow> string option"
  js_status :: "StatusResp decoder"
  js_auth :: "AuthResp decoder"
  js_user :: "UserResp decoder"
  js_users :: "UserResp list decoder"
  js_resource :: "ResourceResp decoder"
  js_resources :: "ResourceResp list decoder"
  js_grants :: "(string \<times> string list) list decoder"

record mgmt_client =
  mc_base :: string
  mc_json :: mgmt_json

section \<open>The client\<close>

definition New_mgmt :: "string \<Rightarrow> mgmt_json \<Rightarrow> mgmt_client" where
  "New_mgmt b js = \<lparr>mc_base = TrimRight b ''/'', mc_json = js\<rparr>"

definition readErrorMessage :: "mgmt_json \<Rightarrow> char reader \<Rightarrow> string" where
  "readErrorMessage js body = (case read_limited (2 ^ 16) body of
      None \<Rightarrow> ''''
    | Some raw \<Rightarrow> (case js_error js raw of
        Some e \<Rightarrow> if e \<noteq> '''' then e else TrimSpace raw
      | None \<Rightarrow> TrimSpace raw))"

definition mgmt_request ::
  "mgmt_client \<Rightarrow> string \<Rightarrow> string \<Rightarrow> string \<Rightarrow> (string \<times> json) list option \<Rightarrow> http_request" where
  "mgmt_request c meth path token b = \<lparr>hr_method = meth, hr_url = mc_base c @ path,
     hr_contentType = (if b \<noteq> None then Some ''application/json'' else None),
     hr_authorization = (if token \<noteq> '''' then Some (''Bearer '' @ token) else None),
     hr_body = b\<rparr>"

text \<open>\<open>do\<close>: a request, with the target of the decoder and its zero value, where there is one.\<close>

definition mgmt_do ::
  "'s transport \<Rightarrow> mgmt_client \<Rightarrow> string \<Rightarrow> string \<Rightarrow> string \<Rightarrow> (string \<times> json) list option \<Rightarrow>
    'o \<Rightarrow> (mgmt_json \<Rightarrow> 'o decoder) option \<Rightarrow> ('s, 'o \<times> mgmt_err option) state" where
  "mgmt_do tr c meth path token b zero out = do {
     r \<leftarrow> tr (mgmt_request c meth path token b);
     State_Monad.return (case r of
         Inl (BuildFailed e) \<Rightarrow> (zero, Some (MgmtErr (''mgmt: build request: '' @ e)))
       | Inl (SendFailed e) \<Rightarrow> (zero, Some (MgmtErr (''mgmt: '' @ meth @ '' '' @ path @ '': '' @ e)))
       | Inr (code, body) \<Rightarrow>
           if code < 200 \<or> code \<ge> 300
           then (zero, Some (APIError code (readErrorMessage (mc_json c) body)))
           else case out of
             None \<Rightarrow> (zero, None)
           | Some dec \<Rightarrow> (case dec (mc_json c) body of
               (v, Some e) \<Rightarrow> (v, Some (MgmtErr (''mgmt: decode response: '' @ e)))
             | (v, None) \<Rightarrow> (v, None))) }"

definition zero_status :: StatusResp where
  "zero_status = \<lparr>sr_HasUsers = False, sr_RegistrationOpen = False\<rparr>"

definition zero_auth :: AuthResp where
  "zero_auth = \<lparr>ar_Token = '''', ar_ExpiresAt = 0, ar_UserID = '''', ar_Name = '''', ar_IsAdmin = False\<rparr>"

definition zero_user_resp :: UserResp where
  "zero_user_resp = \<lparr>ur_Username = '''', ur_DisplayName = '''', ur_IsAdmin = False, ur_Created = 0\<rparr>"

definition zero_resource_resp :: ResourceResp where
  "zero_resource_resp = \<lparr>rr_ResourceID = '''', rr_Name = '''', rr_Created = 0\<rparr>"

section \<open>Public endpoints\<close>

definition mgmt_Status :: "'s transport \<Rightarrow> mgmt_client \<Rightarrow> ('s, StatusResp \<times> mgmt_err option) state" where
  "mgmt_Status tr c = mgmt_do tr c ''GET'' ''/api/status'' '''' None zero_status (Some js_status)"

definition mgmt_Setup :: "'s transport \<Rightarrow> mgmt_client \<Rightarrow> string \<Rightarrow> string \<Rightarrow> string \<Rightarrow>
    ('s, AuthResp \<times> mgmt_err option) state" where
  "mgmt_Setup tr c username password displayName =
    mgmt_do tr c ''POST'' ''/api/setup'' '''' (Some [(''username'', JString username),
      (''password'', JString password), (''display_name'', JString displayName)])
      zero_auth (Some js_auth)"

definition mgmt_Login :: "'s transport \<Rightarrow> mgmt_client \<Rightarrow> string \<Rightarrow> string \<Rightarrow>
    ('s, AuthResp \<times> mgmt_err option) state" where
  "mgmt_Login tr c username password =
    mgmt_do tr c ''POST'' ''/api/login'' '''' (Some [(''username'', JString username),
      (''password'', JString password)]) zero_auth (Some js_auth)"

definition mgmt_Register :: "'s transport \<Rightarrow> mgmt_client \<Rightarrow> string \<Rightarrow> string \<Rightarrow>
    ('s, AuthResp \<times> mgmt_err option) state" where
  "mgmt_Register tr c username password =
    mgmt_do tr c ''POST'' ''/api/register'' '''' (Some [(''username'', JString username),
      (''password'', JString password)]) zero_auth (Some js_auth)"

text \<open>The methods without a result.\<close>

definition mgmt_call :: "'s transport \<Rightarrow> mgmt_client \<Rightarrow> string \<Rightarrow> string \<Rightarrow> string \<Rightarrow>
    (string \<times> json) list option \<Rightarrow> ('s, mgmt_err option) state" where
  "mgmt_call tr c meth path token b = do {
     r \<leftarrow> mgmt_do tr c meth path token b () None;
     State_Monad.return (snd r) }"

definition mgmt_ChangeMyPassword :: "'s transport \<Rightarrow> mgmt_client \<Rightarrow> string \<Rightarrow> string \<Rightarrow> string \<Rightarrow>
    ('s, mgmt_err option) state" where
  "mgmt_ChangeMyPassword tr c token current newPassword =
    mgmt_call tr c ''POST'' ''/api/me/password'' token
      (Some [(''current'', JString current), (''new'', JString newPassword)])"

section \<open>Admin endpoints\<close>

definition mgmt_SetRegistration :: "'s transport \<Rightarrow> mgmt_client \<Rightarrow> string \<Rightarrow> bool \<Rightarrow>
    ('s, mgmt_err option) state" where
  "mgmt_SetRegistration tr c token opn =
    mgmt_call tr c ''POST'' ''/api/admin/registration'' token (Some [(''open'', JBool opn)])"

definition mgmt_ListUsers :: "'s transport \<Rightarrow> mgmt_client \<Rightarrow> string \<Rightarrow>
    ('s, UserResp list \<times> mgmt_err option) state" where
  "mgmt_ListUsers tr c token = mgmt_do tr c ''GET'' ''/api/users'' token None [] (Some js_users)"

definition mgmt_CreateUser :: "'s transport \<Rightarrow> mgmt_client \<Rightarrow> string \<Rightarrow> string \<Rightarrow> string \<Rightarrow> string \<Rightarrow>
    bool \<Rightarrow> ('s, UserResp \<times> mgmt_err option) state" where
  "mgmt_CreateUser tr c token username password displayName isAdmin =
    mgmt_do tr c ''POST'' ''/api/users'' token (Some [(''username'', JString username),
      (''password'', JString password), (''display_name'', JString displayName),
      (''is_admin'', JBool isAdmin)]) zero_user_resp (Some js_user)"

definition mgmt_DeleteUser :: "'s transport \<Rightarrow> mgmt_client \<Rightarrow> string \<Rightarrow> string \<Rightarrow>
    ('s, mgmt_err option) state" where
  "mgmt_DeleteUser tr c token username =
    mgmt_call tr c ''DELETE'' (''/api/users/'' @ PathEscape username) token None"

definition mgmt_SetPassword :: "'s transport \<Rightarrow> mgmt_client \<Rightarrow> string \<Rightarrow> string \<Rightarrow> string \<Rightarrow>
    ('s, mgmt_err option) state" where
  "mgmt_SetPassword tr c token username password =
    mgmt_call tr c ''POST'' (''/api/users/'' @ PathEscape username @ ''/password'') token
      (Some [(''password'', JString password)])"

definition mgmt_SetAdmin :: "'s transport \<Rightarrow> mgmt_client \<Rightarrow> string \<Rightarrow> string \<Rightarrow> bool \<Rightarrow>
    ('s, mgmt_err option) state" where
  "mgmt_SetAdmin tr c token username isAdmin =
    mgmt_call tr c ''POST'' (''/api/users/'' @ PathEscape username @ ''/admin'') token
      (Some [(''is_admin'', JBool isAdmin)])"

definition mgmt_ListResources :: "'s transport \<Rightarrow> mgmt_client \<Rightarrow> string \<Rightarrow>
    ('s, ResourceResp list \<times> mgmt_err option) state" where
  "mgmt_ListResources tr c token =
    mgmt_do tr c ''GET'' ''/api/resources'' token None [] (Some js_resources)"

definition mgmt_ImportResource :: "'s transport \<Rightarrow> mgmt_client \<Rightarrow> string \<Rightarrow> string \<Rightarrow> string \<Rightarrow>
    ('s, ResourceResp \<times> mgmt_err option) state" where
  "mgmt_ImportResource tr c token resourceID name =
    mgmt_do tr c ''POST'' ''/api/resources'' token (Some [(''resource_id'', JString resourceID),
      (''name'', JString name)]) zero_resource_resp (Some js_resource)"

definition mgmt_RemoveResource :: "'s transport \<Rightarrow> mgmt_client \<Rightarrow> string \<Rightarrow> string \<Rightarrow>
    ('s, mgmt_err option) state" where
  "mgmt_RemoveResource tr c token resourceID =
    mgmt_call tr c ''DELETE'' ''/api/resources'' token (Some [(''resource_id'', JString resourceID)])"

definition mgmt_Grants :: "'s transport \<Rightarrow> mgmt_client \<Rightarrow> string \<Rightarrow> string \<Rightarrow>
    ('s, (string \<times> string list) list \<times> mgmt_err option) state" where
  "mgmt_Grants tr c token username =
    mgmt_do tr c ''GET'' (''/api/users/'' @ PathEscape username @ ''/grants'') token None []
      (Some js_grants)"

definition grant_body :: "string \<Rightarrow> string \<Rightarrow> string \<Rightarrow> (string \<times> json) list" where
  "grant_body username resourceID permission = [(''username'', JString username),
     (''resource_id'', JString resourceID), (''permission'', JString permission)]"

definition mgmt_AddGrant :: "'s transport \<Rightarrow> mgmt_client \<Rightarrow> string \<Rightarrow> string \<Rightarrow> string \<Rightarrow> string \<Rightarrow>
    ('s, mgmt_err option) state" where
  "mgmt_AddGrant tr c token username resourceID permission =
    mgmt_call tr c ''POST'' ''/api/grants'' token (Some (grant_body username resourceID permission))"

definition mgmt_RemoveGrant :: "'s transport \<Rightarrow> mgmt_client \<Rightarrow> string \<Rightarrow> string \<Rightarrow> string \<Rightarrow> string \<Rightarrow>
    ('s, mgmt_err option) state" where
  "mgmt_RemoveGrant tr c token username resourceID permission =
    mgmt_call tr c ''DELETE'' ''/api/grants'' token (Some (grant_body username resourceID permission))"

end
