(* ===== verification/Pages.thy ===== *)
theory Pages
  imports Front_Http
begin

text \<open>
  The browse pages of \<open>src/ArcLoreWeb/internal/handlers\<close>: \<open>handlers.go\<close>, \<open>home.go\<close>, \<open>repo.go\<close>,
  \<open>tree.go\<close>, \<open>commits.go\<close>, \<open>commit.go\<close> and \<open>locks.go\<close>. A handler is a computation over the state of its
  \<open>LoreClient\<close>; closing a body and logging are left out. The libraries that render content are the
  fields of \<open>renderers\<close>, and the text of the error that a body breaks off with. Worker pools run their jobs in some order, an argument, and each job is one
  step: the jobs write to different places and share only the client.
\<close>

record renderers =
  rn_LexerName :: "string \<Rightarrow> byte list \<Rightarrow> string"
  rn_Highlight :: "string \<Rightarrow> byte list \<Rightarrow> string option"
  rn_Markdown :: "byte list \<Rightarrow> string option"
  rn_Unified :: "string \<Rightarrow> string \<Rightarrow> string \<Rightarrow> string \<Rightarrow> string"
  rn_gitdiff :: "string \<Rightarrow> git_file list option"
  rn_readError :: string

type_synonym 's page_handler = "('s, front_response) state"

section \<open>handlers.go\<close>

definition ownerSegment :: string where "ownerSegment = ''-''"

definition bearer :: "('s, 'h) LoreClient \<Rightarrow> front_request \<Rightarrow> ('s, (lore_err, string) result) state" where
  "bearer lc r = lc_ResourceAuthzToken lc (identityToken r) WildcardResource"

definition baseCtx :: "('s, 'h) LoreClient \<Rightarrow> front_request \<Rightarrow> ('s, (lore_err, lore_ctx) result) state" where
  "baseCtx lc r = do {
     t \<leftarrow> bearer lc r;
     State_Monad.return (case t of Inl e \<Rightarrow> Inl e | Inr tok \<Rightarrow> Inr (WithLoreCall tok zeroRepo)) }"

definition repoCtx :: "('s, 'h) LoreClient \<Rightarrow> front_request \<Rightarrow> byte list \<Rightarrow>
    ('s, (lore_err, lore_ctx) result) state" where
  "repoCtx lc r repoID = do {
     t \<leftarrow> bearer lc r;
     State_Monad.return (case t of Inl e \<Rightarrow> Inl e | Inr tok \<Rightarrow> Inr (WithLoreCall tok repoID)) }"

definition unreachable_detail :: string where
  "unreachable_detail = ''The auth server is unreachable or its TLS certificate is not trusted by this host. '' @
     ''Install the auth server'' @ [CHR 0x27] @ ''s certificate in this host'' @ [CHR 0x27] @
     ''s trust store (see INSTALL.md).''"

definition denied_detail :: string where
  "denied_detail = ''You don'' @ [CHR 0x27] @ ''t have access to this repository.''"

definition forbiddenDetail :: "lore_err \<Rightarrow> string" where
  "forbiddenDetail e = (if is_unreachable e then unreachable_detail else denied_detail)"

definition forbidden_page :: "front_request \<Rightarrow> string \<Rightarrow> lore_err \<Rightarrow> front_response" where
  "forbidden_page r what e =
    renderPageStatus r 403 (site_title ''Not authorized'') (ForbiddenPage what (forbiddenDetail e))"

definition not_found_page :: "front_request \<Rightarrow> string \<Rightarrow> string \<Rightarrow> front_response" where
  "not_found_page r title what = renderPageStatus r 404 (site_title title) (NotFoundPage what)"

definition bad_gateway :: "string \<Rightarrow> lore_err \<Rightarrow> front_response" where
  "bad_gateway doing e = http_Error (doing @ '': '' @ lore_text e) 502"

text \<open>The prologue of the pages of a repository: the context without a repository, the repository by
  its name, and the context of its id. What a refused exchange and an unknown repository are answered
  with differs between the pages and the raw endpoint.\<close>

definition with_repo :: "('s, 'h) LoreClient \<Rightarrow> front_request \<Rightarrow> (lore_err \<Rightarrow> front_response) \<Rightarrow>
    front_response \<Rightarrow> string \<Rightarrow> (repository \<Rightarrow> byte list \<Rightarrow> lore_ctx \<Rightarrow> 's page_handler) \<Rightarrow> 's page_handler" where
  "with_repo lc r forbidden missing name k = do {
     b \<leftarrow> baseCtx lc r;
     case b of
       Inl e \<Rightarrow> State_Monad.return (forbidden e)
     | Inr base \<Rightarrow> do {
         x \<leftarrow> lc_GetRepositoryByName lc base name;
         case x of
           Inl e \<Rightarrow> State_Monad.return (if lore_status e = StNotFound then missing
             else bad_gateway ''failed to load repository'' e)
         | Inr rp \<Rightarrow> do {
             let repo = repo_of rp;
             let repoID = toID (rp_Id repo);
             c \<leftarrow> repoCtx lc r repoID;
             case c of
               Inl e \<Rightarrow> State_Monad.return (forbidden e)
             | Inr ctx \<Rightarrow> k repo repoID ctx } } }"

text \<open>The branch named in the URL.\<close>

definition with_branch :: "('s, 'h) LoreClient \<Rightarrow> lore_ctx \<Rightarrow> front_response \<Rightarrow> string \<Rightarrow>
    (byte list \<Rightarrow> 's page_handler) \<Rightarrow> 's page_handler" where
  "with_branch lc ctx missing branchName k = do {
     x \<leftarrow> lc_GetBranchByName lc ctx branchName;
     case x of
       Inl e \<Rightarrow> State_Monad.return (if lore_status e = StNotFound then missing
         else bad_gateway ''failed to load branch'' e)
     | Inr b \<Rightarrow> k (toID (br_Id (branch_of b))) }"

section \<open>home.go\<close>

definition Home :: "('s, 'h) LoreClient \<Rightarrow> front_request \<Rightarrow> 's page_handler" where
  "Home lc r = do {
     b \<leftarrow> baseCtx lc r;
     case b of
       Inl e \<Rightarrow> State_Monad.return (forbidden_page r ''repositories'' e)
     | Inr ctx \<Rightarrow> do {
         (repos, err) \<leftarrow> lc_ListRepositories lc ctx;
         case err of
           Some e \<Rightarrow> State_Monad.return (bad_gateway ''failed to list repositories'' e)
         | None \<Rightarrow> State_Monad.return (renderPage r ''ArcLore'' (HomePage
             \<lparr>hv_Username = fi_Sub (identity_of r), hv_RepoCount = length repos,
              hv_Repos = map rp_Name repos\<rparr>)) } }"

definition repoListView :: "repository \<Rightarrow> RepoListView" where
  "repoListView repo = \<lparr>rl_Name = rp_Name repo, rl_Description = rp_Description repo,
     rl_DefaultBranchName = rp_DefaultBranchName repo, rl_Creator = rp_Creator repo\<rparr>"

definition Explore :: "('s, 'h) LoreClient \<Rightarrow> front_request \<Rightarrow> 's page_handler" where
  "Explore lc r = do {
     b \<leftarrow> baseCtx lc r;
     case b of
       Inl e \<Rightarrow> State_Monad.return (forbidden_page r ''repositories'' e)
     | Inr ctx \<Rightarrow> do {
         (repos, err) \<leftarrow> lc_ListRepositories lc ctx;
         case err of
           Some e \<Rightarrow> State_Monad.return (bad_gateway ''failed to list repositories'' e)
         | None \<Rightarrow> State_Monad.return (renderPage r (site_title ''Explore'')
             (RepoListPage (map repoListView repos))) } }"

section \<open>repo.go\<close>

definition lockOverlay :: "('s, 'h) LoreClient \<Rightarrow> lore_ctx \<Rightarrow> byte list \<Rightarrow>
    ('s, string \<rightharpoonup> lore_lock) state" where
  "lockOverlay lc ctx branchID = do {
     x \<leftarrow> lc_QueryLocks lc ctx branchID;
     State_Monad.return (case x of Inl _ \<Rightarrow> Map.empty | Inr locks \<Rightarrow> lock_overlay locks) }"

definition branch_option :: "string \<Rightarrow> string \<Rightarrow> string \<Rightarrow> BranchOption" where
  "branch_option repoName current name = \<lparr>bo_Name = name,
     bo_URL = ''/-/'' @ repoName @ ''?branch='' @ QueryEscape name, bo_Active = (name = current)\<rparr>"

definition branchOptions :: "('s, 'h) LoreClient \<Rightarrow> lore_ctx \<Rightarrow> string \<Rightarrow> string \<Rightarrow>
    ('s, BranchOption list) state" where
  "branchOptions lc ctx repoName current = do {
     (branches, err) \<leftarrow> lc_ListBranches lc ctx;
     State_Monad.return (if err \<noteq> None \<or> length branches = 0
       then [branch_option repoName current current]
       else map (\<lambda>b. branch_option repoName current (br_Name b)) branches) }"

definition renderReadme :: "('s, 'h) LoreClient \<Rightarrow> renderers \<Rightarrow> lore_ctx \<Rightarrow> byte list \<Rightarrow> tree_node list \<Rightarrow>
    ('s, string option) state" where
  "renderReadme lc rn ctx repoID nodes =
    (case find (\<lambda>n. tn_NodeType n = NodeFile \<and> EqualFold (leafName (tn_Path n)) ''README.md'') nodes of
       None \<Rightarrow> State_Monad.return None
     | Some node \<Rightarrow> do {
         x \<leftarrow> lc_FetchContent lc ctx repoID (tn_Address node);
         State_Monad.return (case x of
             Inl _ \<Rightarrow> None
           | Inr resp \<Rightarrow>
               if ct_Length resp > int MaxHighlightBytes then None
               else (case read_limited MaxHighlightBytes (ct_Body resp) of
                   None \<Rightarrow> None
                 | Some src \<Rightarrow> rn_Markdown rn src)) })"

text \<open>The \<open>?branch=\<close> override: a branch that does not exist is ignored.\<close>

definition resolve_branch :: "('s, 'h) LoreClient \<Rightarrow> lore_ctx \<Rightarrow> repository \<Rightarrow> string \<Rightarrow>
    ('s, (lore_err, byte list \<times> string) result) state" where
  "resolve_branch lc ctx repo sel =
    (let dflt = (toID (rp_DefaultBranchId repo), rp_DefaultBranchName repo)
     in if sel = '''' then State_Monad.return (Inr dflt)
        else do {
          x \<leftarrow> lc_GetBranchByName lc ctx sel;
          State_Monad.return (case x of
              Inr b \<Rightarrow> Inr (toID (br_Id (branch_of b)), br_Name (branch_of b))
            | Inl e \<Rightarrow> if lore_status e = StNotFound then Inr dflt else Inl e) })"

definition RepoHome :: "('s, 'h) LoreClient \<Rightarrow> renderers \<Rightarrow> string \<Rightarrow> front_request \<Rightarrow> 's page_handler" where
  "RepoHome lc rn loreHost r = (let name = URLParam r ''repo'' in
     with_repo lc r (forbidden_page r name) (not_found_page r ''Not found'' name) name
       (\<lambda>repo repoID ctx. do {
          rb \<leftarrow> resolve_branch lc ctx repo (QueryGet r ''branch'');
          case rb of
            Inl e \<Rightarrow> State_Monad.return (bad_gateway ''failed to resolve branch'' e)
          | Inr (branchID, currentBranchName) \<Rightarrow> do {
              branches \<leftarrow> branchOptions lc ctx (rp_Name repo) currentBranchName;
              let view = \<lparr>rv_Owner = ownerSegment, rv_Name = rp_Name repo,
                rv_Description = rp_Description repo, rv_DefaultBranchName = rp_DefaultBranchName repo,
                rv_Rows = [], rv_Readme = None, rv_Empty = False, rv_ID = IDToHex repoID,
                rv_CloneHost = loreHost, rv_CurrentBranch = currentBranchName, rv_Branches = branches\<rparr>;
              (_, nodes, terr) \<leftarrow> lc_RevisionTree lc ctx branchID 0 '''' 1;
              case terr of
                Some e \<Rightarrow> State_Monad.return (if lore_status e = StNotFound
                  then renderPage r (site_title (rv_Name view)) (RepoPage (view\<lparr>rv_Empty := True\<rparr>))
                  else bad_gateway ''failed to read tree'' e)
              | None \<Rightarrow>
                  if length nodes = 0
                  then State_Monad.return
                    (renderPage r (site_title (rv_Name view)) (RepoPage (view\<lparr>rv_Empty := True\<rparr>)))
                  else do {
                    lockByPath \<leftarrow> lockOverlay lc ctx branchID;
                    readme \<leftarrow> renderReadme lc rn ctx repoID nodes;
                    State_Monad.return (renderPage r (site_title (rv_Name view))
                      (RepoPage (view\<lparr>rv_Rows := buildRows nodes lockByPath, rv_Readme := readme\<rparr>))) } } }))"

section \<open>tree.go\<close>

definition subPath :: "front_request \<Rightarrow> string" where
  "subPath r = TrimPrefix (URLParam r ''*'') ''/''"

definition renderDirListing :: "('s, 'h) LoreClient \<Rightarrow> front_request \<Rightarrow> lore_ctx \<Rightarrow> byte list \<Rightarrow> string \<Rightarrow>
    string \<Rightarrow> string \<Rightarrow> string \<Rightarrow> tree_node list option \<Rightarrow> 's page_handler" where
  "renderDirListing lc r ctx branchID repoName branchName owner dirPath fetched = do {
     ns \<leftarrow> (case fetched of
         Some nodes \<Rightarrow> State_Monad.return (Inr nodes)
       | None \<Rightarrow> do {
           (_, nodes, terr) \<leftarrow> lc_RevisionTree lc ctx branchID 0 dirPath 1;
           State_Monad.return (case terr of Some e \<Rightarrow> Inl e | None \<Rightarrow> Inr nodes) });
     case ns of
       Inl e \<Rightarrow> State_Monad.return (if lore_status e = StNotFound
         then not_found_page r ''Not found'' dirPath else bad_gateway ''failed to read tree'' e)
     | Inr nodes \<Rightarrow> do {
         lockByPath \<leftarrow> lockOverlay lc ctx branchID;
         State_Monad.return (renderPage r
           (site_title (if dirPath \<noteq> '''' then leafName dirPath @ dash @ repoName else repoName))
           (TreePage \<lparr>tv_Owner = owner, tv_RepoName = repoName, tv_BranchName = branchName,
             tv_DirPath = dirPath, tv_Rows = buildRows nodes lockByPath\<rparr>)) } }"

text \<open>The lexer name and the body of a file view: what the highlighter makes of the source, or of it as
  plain text, or the escaped source.\<close>

definition highlight_view :: "renderers \<Rightarrow> string \<Rightarrow> byte list \<Rightarrow> string \<times> string" where
  "highlight_view rn filename src = (case rn_Highlight rn filename src of
      Some h \<Rightarrow> (rn_LexerName rn filename src, h)
    | None \<Rightarrow> (''Plain Text'', case rn_Highlight rn '''' src of
          Some h \<Rightarrow> h | None \<Rightarrow> html_EscapeString (raw_string src)))"

definition renderFileView :: "('s, 'h) LoreClient \<Rightarrow> renderers \<Rightarrow> front_request \<Rightarrow> lore_ctx \<Rightarrow> byte list \<Rightarrow>
    byte list \<Rightarrow> string \<Rightarrow> string \<Rightarrow> string \<Rightarrow> string \<Rightarrow> tree_node \<Rightarrow> 's page_handler" where
  "renderFileView lc rn r ctx repoID branchID repoName branchName owner filePath node = do {
     x \<leftarrow> lc_FetchContent lc ctx repoID (tn_Address node);
     case x of
       Inl e \<Rightarrow> State_Monad.return (bad_gateway ''failed to fetch content'' e)
     | Inr resp \<Rightarrow> do {
         lockByPath \<leftarrow> lockOverlay lc ctx branchID;
         let filename = leafName filePath;
         let lock = lockByPath filePath;
         let view = \<lparr>fv_Owner = owner, fv_RepoName = repoName, fv_BranchName = branchName,
           fv_FilePath = filePath, fv_Filename = filename,
           fv_RawURL = ''/'' @ owner @ ''/'' @ repoName @ ''/raw/branch/'' @ branchName @ ''/'' @ filePath,
           fv_Locked = (lock \<noteq> None),
           fv_LockOwner = (case lock of None \<Rightarrow> '''' | Some l \<Rightarrow> lk_Owner l),
           fv_LexerName = '''', fv_Body = None, fv_TooLarge = False\<rparr>;
         let show_view = (\<lambda>v. renderPage r (site_title filename) (FilePage v));
         State_Monad.return (
           if ct_Length resp > int MaxHighlightBytes then show_view (view\<lparr>fv_TooLarge := True\<rparr>)
           else case read_limited (MaxHighlightBytes + 1) (ct_Body resp) of
               None \<Rightarrow> http_Error (''failed to read content: '' @ rn_readError rn) 502
             | Some src \<Rightarrow>
                 if length src > MaxHighlightBytes \<or> isBinary src then show_view (view\<lparr>fv_TooLarge := True\<rparr>)
                 else (case highlight_view rn filename src of (lexer, body) \<Rightarrow>
                   show_view (view\<lparr>fv_LexerName := lexer, fv_Body := Some body\<rparr>))) } }"

definition find_path :: "string \<Rightarrow> tree_node list \<Rightarrow> tree_node option" where
  "find_path p nodes = find (\<lambda>n. tn_Path n = p) nodes"

definition Tree :: "('s, 'h) LoreClient \<Rightarrow> renderers \<Rightarrow> front_request \<Rightarrow> 's page_handler" where
  "Tree lc rn r = (let owner = URLParam r ''owner''; repoName = URLParam r ''repo'';
       branchName = URLParam r ''branch''; path = subPath r
     in with_repo lc r (forbidden_page r repoName) (not_found_page r ''Not found'' repoName) repoName
       (\<lambda>repo repoID ctx. with_branch lc ctx
          (not_found_page r ''Branch not found'' (''branch: '' @ branchName)) branchName (\<lambda>branchID.
          if path = '''' then renderDirListing lc r ctx branchID repoName branchName owner '''' None
          else do {
            (_, parentNodes, terr) \<leftarrow> lc_RevisionTree lc ctx branchID 0 (parentDir path) 1;
            case terr of
              Some e \<Rightarrow> State_Monad.return (if lore_status e = StNotFound
                then not_found_page r ''Not found'' path else bad_gateway ''failed to read tree'' e)
            | None \<Rightarrow> (case find_path path parentNodes of
                None \<Rightarrow> State_Monad.return (not_found_page r ''Not found'' path)
              | Some matched \<Rightarrow> (case tn_NodeType matched of
                    NodeDirectory \<Rightarrow> do {
                      (_, childNodes, terr2) \<leftarrow> lc_RevisionTree lc ctx branchID 0 path 1;
                      case terr2 of
                        Some e \<Rightarrow> State_Monad.return (if lore_status e = StNotFound
                          then not_found_page r ''Not found'' path else bad_gateway ''failed to read tree'' e)
                      | None \<Rightarrow> renderDirListing lc r ctx branchID repoName branchName owner path
                          (Some childNodes) }
                  | NodeFile \<Rightarrow> renderFileView lc rn r ctx repoID branchID repoName branchName owner path matched
                  | NodeLink \<Rightarrow> renderFileView lc rn r ctx repoID branchID repoName branchName owner path matched
                  | NodeUnknown _ \<Rightarrow> State_Monad.return (not_found_page r ''Not found'' path))) })))"

text \<open>\<open>path.Base\<close>, the media type before its parameters, and the types served inline.\<close>

definition path_Base :: "string \<Rightarrow> string" where
  "path_Base p = (if p = '''' then ''.''
     else let s = TrimRight p ''/''; l = leafName s in if l = '''' then ''/'' else l)"

definition main_type :: "string \<Rightarrow> string" where
  "main_type contentType = TrimSpace (fst (Cut contentType '';''))"

definition safeInline :: "string list" where
  "safeInline = [''text/plain'', ''text/markdown'', ''image/png'', ''image/jpeg'', ''image/gif'', ''image/webp'']"

definition raw_response :: "string \<Rightarrow> content_response \<Rightarrow> front_response" where
  "raw_response path resp = (let contentType = (if ct_ContentType resp = '''' then ''application/octet-stream''
         else ct_ContentType resp)
     in \<lparr>fp_status = 200,
         fp_headers = [(''Content-Type'', contentType)] @
           (if main_type contentType \<notin> set safeInline
            then [(''Content-Disposition'', ''attachment; filename='' @ Quote (path_Base path))] else []) @
           (if ct_Length resp \<ge> 0 then [(''Content-Length'', formatInt (ct_Length resp))] else []),
         fp_body = BlobBody (ct_Body resp)\<rparr>)"

text \<open>The part after the branch is known.\<close>

definition raw_file :: "('s, 'h) LoreClient \<Rightarrow> string \<Rightarrow> byte list \<Rightarrow> lore_ctx \<Rightarrow> byte list \<Rightarrow> 's page_handler" where
  "raw_file lc path repoID ctx branchID = do {
     (_, parentNodes, terr) \<leftarrow> lc_RevisionTree lc ctx branchID 0 (parentDir path) 1;
     case terr of
       Some e \<Rightarrow> State_Monad.return (if lore_status e = StNotFound
         then http_NotFound else bad_gateway ''failed to read tree'' e)
     | None \<Rightarrow> (case find_path path parentNodes of
         None \<Rightarrow> State_Monad.return http_NotFound
       | Some matched \<Rightarrow>
           if tn_NodeType matched = NodeDirectory then State_Monad.return http_NotFound
           else do {
             x \<leftarrow> lc_FetchContent lc ctx repoID (tn_Address matched);
             State_Monad.return (case x of
                 Inl e \<Rightarrow> bad_gateway ''failed to fetch content'' e
               | Inr resp \<Rightarrow> raw_response path resp) }) }"

definition Raw :: "('s, 'h) LoreClient \<Rightarrow> front_request \<Rightarrow> 's page_handler" where
  "Raw lc r =
    (if subPath r = '''' then State_Monad.return (http_Error ''raw endpoint requires a file path'' 400)
     else with_repo lc r (\<lambda>e. http_Error (forbiddenDetail e) 403) http_NotFound (URLParam r ''repo'')
       (\<lambda>repo repoID ctx. with_branch lc ctx http_NotFound (URLParam r ''branch'')
         (raw_file lc (subPath r) repoID ctx)))"

section \<open>commits.go\<close>

definition maxCommitRows :: nat where "maxCommitRows = 50"

text \<open>A row before its revision is known, and after.\<close>

definition base_row :: "string \<Rightarrow> string \<Rightarrow> byte list \<Rightarrow> CommitRowView" where
  "base_row owner repoName sig = (let hexSig = hex_encode sig
     in \<lparr>cw_ShortSig = shortSig hexSig, cw_HexSig = hexSig, cw_Subject = ''(no message)'', cw_Author = '''',
         cw_RelTime = '''', cw_Date = '''', cw_URL = commitURL owner repoName hexSig\<rparr>)"

definition enrich_row :: "int \<Rightarrow> (lore_err, revision option) result \<Rightarrow> CommitRowView \<Rightarrow> CommitRowView" where
  "enrich_row now x row = (case x of
      Inr (Some rv) \<Rightarrow> row\<lparr>cw_Subject := firstLine (rev_CommitMessage rv), cw_Author := rev_CreatedBy rv,
        cw_RelTime := relativeTime now (rev_Timestamp rv), cw_Date := unixDate (rev_Timestamp rv)\<rparr>
    | _ \<Rightarrow> row)"

text \<open>The job of one item, and the pool: the jobs in the order they happen to run, each storing its row.
  \<open>clock\<close> reads the time in nanoseconds off the state.\<close>

definition enrich_job :: "('s, 'h) LoreClient \<Rightarrow> ('s \<Rightarrow> int) \<Rightarrow> lore_ctx \<Rightarrow> string \<Rightarrow> string \<Rightarrow> byte list \<Rightarrow>
    ('s, CommitRowView) state" where
  "enrich_job lc clock ctx owner repoName sig = do {
     x \<leftarrow> lc_RevisionInfoBySignature lc ctx sig;
     s \<leftarrow> State_Monad.get;
     State_Monad.return (enrich_row (clock s) x (base_row owner repoName sig)) }"

fun run_jobs :: "(nat \<Rightarrow> ('s, 'r) state) \<Rightarrow> nat list \<Rightarrow> 'r list \<Rightarrow> ('s, 'r list) state" where
  "run_jobs job [] results = State_Monad.return results"
| "run_jobs job (i # sched) results = do {
     r \<leftarrow> job i;
     run_jobs job sched (results[i := r]) }"

definition zero_row :: CommitRowView where
  "zero_row = \<lparr>cw_ShortSig = '''', cw_HexSig = '''', cw_Subject = '''', cw_Author = '''', cw_RelTime = '''',
     cw_Date = '''', cw_URL = ''''\<rparr>"

definition enrichRevisions :: "('s, 'h) LoreClient \<Rightarrow> ('s \<Rightarrow> int) \<Rightarrow> (nat \<Rightarrow> nat list) \<Rightarrow> lore_ctx \<Rightarrow> string \<Rightarrow>
    string \<Rightarrow> byte list list \<Rightarrow> ('s, CommitRowView list) state" where
  "enrichRevisions lc clock sched ctx owner repoName items =
     run_jobs (\<lambda>i. enrich_job lc clock ctx owner repoName (items ! i)) (sched (length items))
       (replicate (length items) zero_row)"

text \<open>The part after the branch is known.\<close>

definition commits_list :: "('s, 'h) LoreClient \<Rightarrow> ('s \<Rightarrow> int) \<Rightarrow> (nat \<Rightarrow> nat list) \<Rightarrow> front_request \<Rightarrow> lore_ctx \<Rightarrow>
    byte list \<Rightarrow> 's page_handler" where
  "commits_list lc clock sched r ctx branchID = (let owner = URLParam r ''owner'';
       repoName = URLParam r ''repo''; branchName = URLParam r ''branch''; raw = QueryGet r ''cursor''
     in case (if raw = '''' then Some None else map_option Some (hex_decode raw)) of
       None \<Rightarrow> State_Monad.return (http_Error ''invalid cursor'' 400)
     | Some cursor \<Rightarrow> do {
         x \<leftarrow> lc_ListRevisions lc ctx branchID cursor;
         case x of
           Inl e \<Rightarrow> State_Monad.return (if lore_status e = StNotFound
             then renderPage r (site_title repoName) (CommitListPage \<lparr>cl_Owner = owner,
               cl_RepoName = repoName, cl_BranchName = branchName, cl_Groups = [], cl_PrevURL = '''',
               cl_NextURL = '''', cl_Empty = True\<rparr>)
             else bad_gateway ''failed to list revisions'' e)
         | Inr (items, forward, backward) \<Rightarrow> do {
             rows \<leftarrow> enrichRevisions lc clock sched ctx owner repoName
               (take maxCommitRows (dedupBySignature items));
             State_Monad.return (renderPage r (site_title (repoName @ dash @ ''Commits''))
               (CommitListPage \<lparr>cl_Owner = owner, cl_RepoName = repoName, cl_BranchName = branchName,
                 cl_Groups = groupByDate rows,
                 cl_PrevURL = (if length backward \<noteq> 0
                   then commitsURL owner repoName branchName backward else ''''),
                 cl_NextURL = (if length forward \<noteq> 0
                   then commitsURL owner repoName branchName forward else ''''),
                 cl_Empty = (length rows = 0)\<rparr>)) } })"

definition Commits :: "('s, 'h) LoreClient \<Rightarrow> ('s \<Rightarrow> int) \<Rightarrow> (nat \<Rightarrow> nat list) \<Rightarrow> front_request \<Rightarrow>
    's page_handler" where
  "Commits lc clock sched r = (let repoName = URLParam r ''repo''; branchName = URLParam r ''branch''
     in with_repo lc r (forbidden_page r repoName) (not_found_page r ''Not found'' repoName) repoName
       (\<lambda>repo repoID ctx. with_branch lc ctx
          (not_found_page r ''Branch not found'' (''branch: '' @ branchName)) branchName
          (commits_list lc clock sched r ctx)))"

section \<open>locks.go\<close>

definition lock_row :: "int \<Rightarrow> lore_lock \<Rightarrow> LockRowView" where
  "lock_row now l = (let rs = (case lk_Resource l of
       None \<Rightarrow> \<lparr>lr_Branch = [], lr_Hash = [], lr_Description = ''''\<rparr> | Some x \<Rightarrow> x)
     in \<lparr>lw_Path = lr_Description rs, lw_Owner = lk_Owner l,
         lw_LockedAt = lockedAtRelative now (lk_LockedAt l),
         lw_Branch = hex_encode (lr_Branch rs), lw_Hash = hex_encode (lr_Hash rs),
         lw_Description = lr_Description rs\<rparr>)"

definition Locks :: "('s, 'h) LoreClient \<Rightarrow> ('s \<Rightarrow> int) \<Rightarrow> front_request \<Rightarrow> 's page_handler" where
  "Locks lc clock r = (let repoName = URLParam r ''repo''; branchName = URLParam r ''branch''
     in with_repo lc r (forbidden_page r repoName) (not_found_page r ''Not found'' repoName) repoName
       (\<lambda>repo repoID ctx. with_branch lc ctx
          (not_found_page r ''Branch not found'' (''branch: '' @ branchName)) branchName (\<lambda>branchID. do {
          x \<leftarrow> lc_QueryLocks lc ctx branchID;
          s \<leftarrow> State_Monad.get;
          State_Monad.return (case x of
              Inl e \<Rightarrow> bad_gateway ''failed to query locks'' e
            | Inr locks \<Rightarrow> renderPage r (''Locks'' @ dash @ repoName)
                (LocksPage \<lparr>lv_Owner = ownerSegment, lv_RepoName = repoName, lv_BranchName = branchName,
                  lv_Rows = map (lock_row (clock s)) locks\<rparr>)) })))"

definition locks_url :: "front_request \<Rightarrow> string" where
  "locks_url r = ''/'' @ URLParam r ''owner'' @ ''/'' @ URLParam r ''repo'' @ ''/locks/branch/'' @
     URLParam r ''branch''"

definition lock_error :: "front_request \<Rightarrow> string \<Rightarrow> front_response" where
  "lock_error r msg = http_Redirect (locks_url r @ ''?err='' @ QueryEscape msg)"

definition ReleaseLock :: "('s, 'h) LoreClient \<Rightarrow> front_request \<Rightarrow> 's page_handler" where
  "ReleaseLock lc r =
    (if \<not> fq_form_ok r then State_Monad.return (http_Redirect (locks_url r @ ''?err=bad+form''))
     else case (hex_decode (FormValue r ''branch''), hex_decode (FormValue r ''hash'')) of
       (Some bb, Some hh) \<Rightarrow> do {
         b \<leftarrow> baseCtx lc r;
         case b of
           Inl e \<Rightarrow> State_Monad.return (lock_error r (forbiddenDetail e))
         | Inr base \<Rightarrow> do {
             x \<leftarrow> lc_GetRepositoryByName lc base (URLParam r ''repo'');
             case x of
               Inl e \<Rightarrow> State_Monad.return (lock_error r ''failed to load repository'')
             | Inr rp \<Rightarrow> do {
                 t \<leftarrow> lc_ResourceAuthzToken lc (identityToken r) WildcardResource;
                 case t of
                   Inl e \<Rightarrow> State_Monad.return (lock_error r (lore_text e))
                 | Inr token \<Rightarrow> do {
                     u \<leftarrow> lc_Unlock lc token (toID (rp_Id (repo_of rp)))
                       [\<lparr>lr_Branch = bb, lr_Hash = hh,
                         lr_Description = FormValue r ''description''\<rparr>];
                     State_Monad.return (case u of
                         Some e \<Rightarrow> lock_error r (lore_text e)
                       | None \<Rightarrow> http_Redirect (locks_url r)) } } } }
     | _ \<Rightarrow> State_Monad.return (lock_error r ''invalid lock id''))"

section \<open>commit.go\<close>

definition maxInlineDiffFiles :: nat where "maxInlineDiffFiles = 200"
definition MaxDiffBytes :: nat where "MaxDiffBytes = 2 ^ 20"

definition recoverAddress :: "('s, 'h) LoreClient \<Rightarrow> lore_ctx \<Rightarrow> revision_identifier \<Rightarrow> string \<Rightarrow>
    ('s, address option) state" where
  "recoverAddress lc ctx idn filePath = do {
     (_, nodes, terr) \<leftarrow> lc_RevisionTree lc ctx (toID (rid_BranchId idn)) (rid_Number idn) (parentDir filePath) 1;
     State_Monad.return (case terr of
         Some _ \<Rightarrow> None
       | None \<Rightarrow> Option.bind (find (\<lambda>n. tn_Path n = filePath \<and> tn_NodeType n = NodeFile) nodes) tn_Address) }"

record commitDiffResult =
  cd_index :: nat
  cd_files :: "git_file list"
  cd_added :: u64
  cd_deleted :: u64

definition synthetic :: "diff_change \<Rightarrow> git_file" where
  "synthetic change = stampAction (dc_Action change) (new_git_file (diffChangePath change))"

definition list_only :: "nat \<Rightarrow> git_file \<Rightarrow> commitDiffResult" where
  "list_only i f = \<lparr>cd_index = i, cd_files = [f], cd_added = 0, cd_deleted = 0\<rparr>"

definition ParseUnifiedDiff :: "renderers \<Rightarrow> string \<Rightarrow> git_file list option" where
  "ParseUnifiedDiff rn unified = (if TrimSpace unified = '''' then Some [] else rn_gitdiff rn unified)"

definition content_of :: "(lore_err, byte list \<times> bool) result \<Rightarrow> byte list \<times> bool" where
  "content_of x = (case x of Inl _ \<Rightarrow> ([], False) | Inr p \<Rightarrow> p)"

definition sum_added :: "git_file list \<Rightarrow> u64" where
  "sum_added fs = sum_list (map (\<lambda>g. word_of_int (gf_LinesAdded g)) (concat (map git_Fragments fs)))"

definition sum_deleted :: "git_file list \<Rightarrow> u64" where
  "sum_deleted fs = sum_list (map (\<lambda>g. word_of_int (gf_LinesDeleted g)) (concat (map git_Fragments fs)))"

text \<open>Both sides of a change, as they were recovered and fetched, turned into its diff.\<close>

definition diff_result :: "renderers \<Rightarrow> nat \<Rightarrow> diff_change \<Rightarrow> address option \<Rightarrow> address option \<Rightarrow>
    byte list \<times> bool \<Rightarrow> byte list \<times> bool \<Rightarrow> commitDiffResult" where
  "diff_result rn i change toAddr fromAddr to from =
    (let path = dc_Path change;
         fromPath = (if dc_PathFrom change = '''' then path else dc_PathFrom change);
         (toBytes, toTrunc) = to; (fromBytes, fromTrunc) = from
     in if toAddr \<noteq> None \<and> isBinary toBytes \<or> fromAddr \<noteq> None \<and> isBinary fromBytes
        then list_only i (stampAction (dc_Action change) ((new_git_file path)\<lparr>git_IsBinary := True\<rparr>))
        else if toTrunc \<or> fromTrunc then list_only i (synthetic change)
        else let label = (if path = '''' then fromPath else path);
                 unified = rn_Unified rn label label (raw_string fromBytes) (raw_string toBytes)
             in if unified = '''' then list_only i (synthetic change)
                else case ParseUnifiedDiff rn unified of
                    None \<Rightarrow> list_only i (synthetic change)
                  | Some [] \<Rightarrow> list_only i (synthetic change)
                  | Some (f # fs) \<Rightarrow> \<lparr>cd_index = i,
                      cd_files = map (\<lambda>f. stampAction (dc_Action change)
                        (if git_NewName f = '''' \<and> git_OldName f = '''' then f\<lparr>git_NewName := path\<rparr> else f))
                        (f # fs),
                      cd_added = sum_added (f # fs), cd_deleted = sum_deleted (f # fs)\<rparr>)"

definition resolveFileDiff :: "('s, 'h) LoreClient \<Rightarrow> renderers \<Rightarrow> lore_ctx \<Rightarrow> nat \<Rightarrow> diff_change \<Rightarrow> byte list \<Rightarrow>
    revision_identifier option \<Rightarrow> revision_identifier option \<Rightarrow> ('s, commitDiffResult) state" where
  "resolveFileDiff lc rn ctx i change repoID toIdent fromIdent = do {
     let path = dc_Path change;
     let fromPath = (if dc_PathFrom change = '''' then path else dc_PathFrom change);
     toAddr \<leftarrow> (case toIdent of
         Some idn \<Rightarrow> if length (dc_ContentTo change) > 0 then recoverAddress lc ctx idn path
           else State_Monad.return None
       | None \<Rightarrow> State_Monad.return None);
     fromAddr \<leftarrow> (case fromIdent of
         Some idn \<Rightarrow> if length (dc_ContentFrom change) > 0 then recoverAddress lc ctx idn fromPath
           else State_Monad.return None
       | None \<Rightarrow> State_Monad.return None);
     to \<leftarrow> lc_FetchContentBytes lc ctx repoID toAddr MaxDiffBytes;
     from \<leftarrow> lc_FetchContentBytes lc ctx repoID fromAddr MaxDiffBytes;
     State_Monad.return (diff_result rn i change toAddr fromAddr (content_of to) (content_of from)) }"

definition zero_result :: commitDiffResult where
  "zero_result = \<lparr>cd_index = 0, cd_files = [], cd_added = 0, cd_deleted = 0\<rparr>"

text \<open>The results past the bound are filled in without a job; the flattening sorts by the index.\<close>

definition first_results :: "diff_change list \<Rightarrow> commitDiffResult list" where
  "first_results changes = map (\<lambda>(i, c). if i \<ge> maxInlineDiffFiles then list_only i (synthetic c)
     else zero_result) (enumerate 0 changes)"

definition flatten_results :: "commitDiffResult list \<Rightarrow> git_file list \<times> u64 \<times> u64" where
  "flatten_results results = (let rs = sort_key cd_index results
     in (concat (map cd_files rs), sum_list (map cd_added rs), sum_list (map cd_deleted rs)))"

definition buildCommitDiff :: "('s, 'h) LoreClient \<Rightarrow> renderers \<Rightarrow> (nat \<Rightarrow> nat list) \<Rightarrow> lore_ctx \<Rightarrow>
    diff_change list \<Rightarrow> byte list \<Rightarrow> revision_identifier option \<Rightarrow> revision_identifier option \<Rightarrow>
    ('s, git_file list \<times> u64 \<times> u64) state" where
  "buildCommitDiff lc rn sched ctx changes repoID toIdent fromIdent = do {
     rs \<leftarrow> run_jobs (\<lambda>i. resolveFileDiff lc rn ctx i (changes ! i) repoID toIdent fromIdent)
       (sched (min (length changes) maxInlineDiffFiles)) (first_results changes);
     State_Monad.return (flatten_results rs) }"

definition file_changes :: "diff_change option list \<Rightarrow> diff_change list" where
  "file_changes entries = filter (\<lambda>c. dc_NodeType c \<noteq> NodeDirectory \<and> dc_Action c \<noteq> ActKeep)
     (List.map_filter id entries)"

definition Commit :: "('s, 'h) LoreClient \<Rightarrow> renderers \<Rightarrow> (string \<Rightarrow> string) \<Rightarrow> (nat \<Rightarrow> nat list) \<Rightarrow> front_request \<Rightarrow>
    's page_handler" where
  "Commit lc rn esc sched r = (let owner = URLParam r ''owner''; repoName = URLParam r ''repo'';
       sigHex = URLParam r ''sig''
     in case hex_decode sigHex of
       None \<Rightarrow> State_Monad.return (http_Error ''invalid commit signature'' 400)
     | Some sig \<Rightarrow>
         if length sig = 0 then State_Monad.return (http_Error ''invalid commit signature'' 400)
         else with_repo lc r (forbidden_page r repoName) (not_found_page r ''Not found'' repoName) repoName
           (\<lambda>repo repoID ctx. do {
              x \<leftarrow> lc_RevisionInfoBySignature lc ctx sig;
              case x of
                Inl e \<Rightarrow> State_Monad.return (if lore_status e = StNotFound
                  then not_found_page r ''Commit not found'' (''commit: '' @ sigHex)
                  else bad_gateway ''failed to load commit'' e)
              | Inr rvp \<Rightarrow> do {
                  let rv = revision_of rvp;
                  let parentSig = parent_signature (rev_ParentSelf rv);
                  let view = (buildCommitView owner repoName sigHex rv)
                    \<lparr>cv_BranchName := rp_DefaultBranchName repo, cv_RootCommit := (length parentSig = 0)\<rparr>;
                  (_, entries, derr) \<leftarrow> lc_RevisionDiff lc ctx parentSig sig;
                  case derr of
                    Some _ \<Rightarrow> State_Monad.return (renderPage r (site_title (cv_ShortSig view)) (CommitPage view))
                  | None \<Rightarrow> do {
                      (files, added, deleted) \<leftarrow> buildCommitDiff lc rn sched ctx (file_changes entries) repoID
                        (rev_Identifier rv) (parent_identifier (rev_ParentSelf rv));
                      State_Monad.return (renderPage r (site_title (cv_ShortSig view)) (CommitPage
                        (view\<lparr>cv_FilesChanged := length files, cv_Added := added, cv_Deleted := deleted,
                          cv_Files := buildCommitFiles files,
                          cv_Diff := (if length files > 0 then Some (Diff esc files) else None)\<rparr>))) } } }))"

section \<open>The routes\<close>

text \<open>The handlers of the browse group of \<open>main.go\<close>.\<close>

datatype browse_route =
    GetHome | GetExplore | GetRepo | GetTree | GetRaw | GetCommits | GetLocks | PostRelease | GetCommit

record 's page_env =
  pe_renderers :: renderers
  pe_escape :: "string \<Rightarrow> string"
  pe_clock :: "'s \<Rightarrow> int"
  pe_sched :: "nat \<Rightarrow> nat list"

fun browse :: "('s, 'h) LoreClient \<Rightarrow> 's page_env \<Rightarrow> browse_route \<Rightarrow> front_request \<Rightarrow> 's page_handler" where
  "browse lc pe GetHome r = Home lc r"
| "browse lc pe GetExplore r = Explore lc r"
| "browse lc pe GetRepo r = RepoHome lc (pe_renderers pe) (lc_GRPCHost lc) r"
| "browse lc pe GetTree r = Tree lc (pe_renderers pe) r"
| "browse lc pe GetRaw r = Raw lc r"
| "browse lc pe GetCommits r = Commits lc (pe_clock pe) (pe_sched pe) r"
| "browse lc pe GetLocks r = Locks lc (pe_clock pe) r"
| "browse lc pe PostRelease r = ReleaseLock lc r"
| "browse lc pe GetCommit r = Commit lc (pe_renderers pe) (pe_escape pe) (pe_sched pe) r"

section \<open>Where the tokens of the pages come from\<close>

lemma keeps_case_node_type [keeps_rules]:
  "keeps I m1 \<Longrightarrow> keeps I m2 \<Longrightarrow> keeps I m3 \<Longrightarrow> (\<And>n. keeps I (m4 n)) \<Longrightarrow>
    keeps I (case t of NodeDirectory \<Rightarrow> m1 | NodeFile \<Rightarrow> m2 | NodeLink \<Rightarrow> m3 | NodeUnknown n \<Rightarrow> m4 n)"
  by (cases t) simp_all

lemma keeps_run_jobs: "(\<And>i. keeps I (job i)) \<Longrightarrow> keeps I (run_jobs job sched results)"
  by (induction sched arbitrary: results) (simp_all add: keeps_return keeps_bind)

lemmas keeps_flow = keeps_return keeps_get keeps_if keeps_case_sum keeps_case_option keeps_case_prod keeps_Let

context lore_traffic begin

lemmas calls_then = calls [THEN keeps_bind]

lemma token_then:
  "(\<And>e. keeps I (g e)) \<Longrightarrow> (\<And>t. ok t \<Longrightarrow> keeps I (h t)) \<Longrightarrow>
    keeps I (State_Monad.bind (lc_ResourceAuthzToken lc ident WildcardResource) (case_sum g h))"
  by (rule after_token) simp_all

lemma baseCtx_then:
  assumes "identityToken r = ident" and "\<And>e. keeps I (g e)"
    and "\<And>t. ok t \<Longrightarrow> keeps I (h (WithLoreCall t zeroRepo))"
  shows "keeps I (State_Monad.bind (baseCtx lc r) (case_sum g h))"
  unfolding baseCtx_def bearer_def assms(1) State_Monad.bind_assoc State_Monad.bind_left_identity
  using assms(2,3) by (intro after_token) simp_all

lemma repoCtx_then:
  assumes "identityToken r = ident" and "\<And>e. keeps I (g e)"
    and "\<And>t. ok t \<Longrightarrow> keeps I (h (WithLoreCall t i))"
  shows "keeps I (State_Monad.bind (repoCtx lc r i) (case_sum g h))"
  unfolding repoCtx_def bearer_def assms(1) State_Monad.bind_assoc State_Monad.bind_left_identity
  using assms(2,3) by (intro after_token) simp_all

lemma keeps_with_repo:
  assumes "identityToken r = ident"
    and "\<And>repo i t. ok t \<Longrightarrow> keeps I (k repo i (WithLoreCall t i))"
  shows "keeps I (with_repo lc r forbidden missing name k)"
  unfolding with_repo_def
  by (intro baseCtx_then [OF assms(1)] repoCtx_then [OF assms(1)] keeps_flow calls_then assms(2))

lemma keeps_with_branch:
  assumes "ok t" and "\<And>b. keeps I (k b)"
  shows "keeps I (with_branch lc (WithLoreCall t i) missing branchName k)"
  unfolding with_branch_def using assms by (intro keeps_rules calls)

lemma keeps_lockOverlay: "ok t \<Longrightarrow> keeps I (lockOverlay lc (WithLoreCall t i) b)"
  unfolding lockOverlay_def by (intro keeps_rules calls)

lemma keeps_branchOptions: "ok t \<Longrightarrow> keeps I (branchOptions lc (WithLoreCall t i) n c)"
  unfolding branchOptions_def by (intro keeps_rules calls)

lemma keeps_resolve_branch: "ok t \<Longrightarrow> keeps I (resolve_branch lc (WithLoreCall t i) repo sel)"
  unfolding resolve_branch_def by (intro keeps_rules calls)

lemma keeps_renderReadme: "ok t \<Longrightarrow> keeps I (renderReadme lc rn (WithLoreCall t i) j nodes)"
  unfolding renderReadme_def by (intro keeps_rules calls)

lemma keeps_renderDirListing:
  "ok t \<Longrightarrow> keeps I (renderDirListing lc r (WithLoreCall t i) b rn bn ow dp nodes)"
  unfolding renderDirListing_def by (intro keeps_rules calls keeps_lockOverlay)

lemma keeps_renderFileView:
  "ok t \<Longrightarrow> keeps I (renderFileView lc rn r (WithLoreCall t i) j b n bn ow fp node)"
  unfolding renderFileView_def by (intro keeps_rules calls keeps_lockOverlay)

lemma keeps_enrichRevisions:
  "ok t \<Longrightarrow> keeps I (enrichRevisions lc clock sched (WithLoreCall t i) ow n items)"
  unfolding enrichRevisions_def enrich_job_def by (intro keeps_run_jobs keeps_rules calls)

lemma keeps_recoverAddress: "ok t \<Longrightarrow> keeps I (recoverAddress lc (WithLoreCall t i) idn p)"
  unfolding recoverAddress_def by (intro keeps_rules calls)

lemma keeps_buildCommitDiff:
  "ok t \<Longrightarrow> keeps I (buildCommitDiff lc rn sched (WithLoreCall t i) cs j a b)"
  unfolding buildCommitDiff_def resolveFileDiff_def
  by (intro keeps_run_jobs keeps_rules calls keeps_recoverAddress)

lemmas page_calls = calls keeps_with_branch keeps_lockOverlay keeps_branchOptions keeps_resolve_branch
  keeps_renderReadme keeps_renderDirListing keeps_renderFileView keeps_enrichRevisions keeps_buildCommitDiff

lemma keeps_repo_pages:
  assumes r: "identityToken r = ident"
  shows "keeps I (RepoHome lc rn host r)" "keeps I (Tree lc rn r)" "keeps I (Raw lc r)"
    "keeps I (Commits lc clock sched r)" "keeps I (Locks lc clock r)" "keeps I (Commit lc rn esc sched r)"
  unfolding RepoHome_def Tree_def Raw_def raw_file_def Commits_def commits_list_def Locks_def Commit_def
  by (intro keeps_with_repo [OF r] keeps_rules page_calls; assumption?)+

lemma keeps_ReleaseLock:
  assumes "identityToken r = ident"
  shows "keeps I (ReleaseLock lc r)"
  unfolding ReleaseLock_def assms
  by (intro baseCtx_then [OF assms] token_then keeps_flow calls_then)

lemma keeps_home_pages:
  assumes "identityToken r = ident"
  shows "keeps I (Home lc r)" "keeps I (Explore lc r)"
  unfolding Home_def Explore_def
  by (auto intro!: baseCtx_then [OF assms] keeps_flow calls_then)

lemma keeps_browse: "identityToken r = ident \<Longrightarrow> keeps I (browse lc pe route r)"
  by (cases route) (simp_all add: keeps_home_pages keeps_repo_pages keeps_ReleaseLock)

end

end
