(* ===== verification/Front_Session.thy ===== *)
theory Front_Session
  imports Mgmt_Client Pages Rate_Limit
begin

text \<open>
  The sessions of the web client and the pages that fill them: \<open>internal/auth/session.go\<close>,
  \<open>middleware.go\<close> and \<open>dev.go\<close>, \<open>internal/handlers/auth.go\<close>, and the check of \<open>internal/config\<close>. The
  session manager is the scs library: its operations on the session of the request are the record
  \<open>scs\<close>, what the code relies on is \<open>scs_ok\<close>. The cookie it sets is not modelled.
\<close>

section \<open>The session manager\<close>

datatype scs_value = VString string | VInt int | VBool bool

record 'x scs =
  scs_get :: "'x \<Rightarrow> string \<Rightarrow> scs_value option"
  scs_put :: "string \<Rightarrow> scs_value \<Rightarrow> 'x \<Rightarrow> 'x"
  scs_renew :: "'x \<Rightarrow> bool \<times> 'x"
  scs_destroy :: "'x \<Rightarrow> bool \<times> 'x"

text \<open>The documented behaviour: a value put under a key is got back until the key is put again; renewing
  the token keeps the data; a destroyed session is empty. Both can fail, and then keep the data.\<close>

definition scs_ok :: "'x scs \<Rightarrow> bool" where
  "scs_ok m \<longleftrightarrow>
    (\<forall>k v x j. scs_get m (scs_put m k v x) j = (if j = k then Some v else scs_get m x j)) \<and>
    (\<forall>x. scs_get m (snd (scs_renew m x)) = scs_get m x) \<and>
    (\<forall>x. scs_get m (snd (scs_destroy m x)) = (if fst (scs_destroy m x) then \<lambda>_. None else scs_get m x))"

definition GetString :: "'x scs \<Rightarrow> 'x \<Rightarrow> string \<Rightarrow> string" where
  "GetString m x k = (case scs_get m x k of Some (VString s) \<Rightarrow> s | _ \<Rightarrow> '''')"

definition GetInt64 :: "'x scs \<Rightarrow> 'x \<Rightarrow> string \<Rightarrow> int" where
  "GetInt64 m x k = (case scs_get m x k of Some (VInt n) \<Rightarrow> n | _ \<Rightarrow> 0)"

definition GetBool :: "'x scs \<Rightarrow> 'x \<Rightarrow> string \<Rightarrow> bool" where
  "GetBool m x k = (case scs_get m x k of Some (VBool b) \<Rightarrow> b | _ \<Rightarrow> False)"

definition sessionKeyUserSub :: string where "sessionKeyUserSub = ''user_sub''"
definition sessionKeyUserName :: string where "sessionKeyUserName = ''user_name''"
definition sessionKeyIdentityToken :: string where "sessionKeyIdentityToken = ''identity_token''"
definition sessionKeyTokenExpiry :: string where "sessionKeyTokenExpiry = ''token_expiry''"
definition sessionKeyIsAdmin :: string where "sessionKeyIsAdmin = ''is_admin''"

lemmas session_keys = sessionKeyUserSub_def sessionKeyUserName_def sessionKeyIdentityToken_def
  sessionKeyTokenExpiry_def sessionKeyIsAdmin_def

section \<open>The world of a request\<close>

text \<open>The session of the request, the far ends of the two clients, and the login throttle.\<close>

record ('x, 'm, 's) front_world =
  fw_session :: 'x
  fw_mgmt :: 'm
  fw_lore :: 's
  fw_throttle :: rateLimiter

type_synonym ('x, 'm, 's) front_handler = "(('x, 'm, 's) front_world, front_response) state"

definition on_session :: "('x, 'a) state \<Rightarrow> (('x, 'm, 's) front_world, 'a) state" where
  "on_session m = zoom fw_session (\<lambda>x w. w\<lparr>fw_session := x\<rparr>) m"

definition on_mgmt :: "('m, 'a) state \<Rightarrow> (('x, 'm, 's) front_world, 'a) state" where
  "on_mgmt m = zoom fw_mgmt (\<lambda>x w. w\<lparr>fw_mgmt := x\<rparr>) m"

definition on_lore :: "('s, 'a) state \<Rightarrow> (('x, 'm, 's) front_world, 'a) state" where
  "on_lore m = zoom fw_lore (\<lambda>x w. w\<lparr>fw_lore := x\<rparr>) m"

definition on_throttle :: "(rateLimiter, 'a) state \<Rightarrow> (('x, 'm, 's) front_world, 'a) state" where
  "on_throttle m = zoom fw_throttle (\<lambda>x w. w\<lparr>fw_throttle := x\<rparr>) m"

lemmas on_world_defs = on_session_def on_mgmt_def on_lore_def on_throttle_def

lemma run_on_world [simp, run_rules]:
  "run_state (on_session a) w =
    (fst (run_state a (fw_session w)), w\<lparr>fw_session := snd (run_state a (fw_session w))\<rparr>)"
  "run_state (on_mgmt b) w = (fst (run_state b (fw_mgmt w)), w\<lparr>fw_mgmt := snd (run_state b (fw_mgmt w))\<rparr>)"
  "run_state (on_lore c) w = (fst (run_state c (fw_lore w)), w\<lparr>fw_lore := snd (run_state c (fw_lore w))\<rparr>)"
  "run_state (on_throttle d) w =
    (fst (run_state d (fw_throttle w)), w\<lparr>fw_throttle := snd (run_state d (fw_throttle w))\<rparr>)"
  by (simp_all add: on_world_defs)

text \<open>What holds of the far end of the Lore client is kept by all that does not act on it.\<close>

lemma keeps_elsewhere [keeps_rules]:
  "keeps (\<lambda>w. I (fw_lore w)) (on_session a)" "keeps (\<lambda>w. I (fw_lore w)) (on_mgmt b)"
  "keeps (\<lambda>w. I (fw_lore w)) (on_throttle d)"
  by (simp_all add: keeps_def)

lemma keeps_on_lore [keeps_rules]: "keeps I c \<Longrightarrow> keeps (\<lambda>w. I (fw_lore w)) (on_lore c)"
  by (simp add: keeps_def)

section \<open>session.go\<close>

text \<open>\<open>None\<close> when the identity is stored, or the answer that was written.\<close>

definition StoreIdentity :: "'x scs \<Rightarrow> string \<Rightarrow> string \<Rightarrow> string \<Rightarrow> int \<Rightarrow> bool \<Rightarrow> ('x, front_response option) state" where
  "StoreIdentity m userSub name token expiresAt isAdmin = do {
     x \<leftarrow> State_Monad.get;
     let (renewed, x') = scs_renew m x;
     State_Monad.set x';
     if \<not> renewed then State_Monad.return (Some (http_Error ''session error'' 500))
     else do {
       State_Monad.update (scs_put m sessionKeyUserSub (VString userSub));
       State_Monad.update (scs_put m sessionKeyUserName (VString name));
       State_Monad.update (scs_put m sessionKeyIdentityToken (VString token));
       State_Monad.update (scs_put m sessionKeyTokenExpiry (VInt expiresAt));
       State_Monad.update (scs_put m sessionKeyIsAdmin (VBool isAdmin));
       State_Monad.return None } }"

section \<open>middleware.go, dev.go\<close>

definition session_identity :: "'x scs \<Rightarrow> 'x \<Rightarrow> front_identity" where
  "session_identity m x = \<lparr>fi_Sub = GetString m x sessionKeyUserSub,
     fi_Token = GetString m x sessionKeyIdentityToken, fi_IsAdmin = GetBool m x sessionKeyIsAdmin\<rparr>"

text \<open>\<open>now\<close> is the clock in seconds.\<close>

definition RequireAuth :: "'x scs \<Rightarrow> int \<Rightarrow> (front_request \<Rightarrow> ('x, 'm, 's) front_handler) \<Rightarrow> front_request \<Rightarrow>
    ('x, 'm, 's) front_handler" where
  "RequireAuth m now nxt r = do {
     w \<leftarrow> State_Monad.get;
     let x = fw_session w;
     let expiry = GetInt64 m x sessionKeyTokenExpiry;
     if GetString m x sessionKeyUserSub = '''' then State_Monad.return (http_Redirect ''/auth/login'')
     else if expiry \<noteq> 0 \<and> now > expiry then do {
       State_Monad.update (\<lambda>w. w\<lparr>fw_session := snd (scs_destroy m (fw_session w))\<rparr>);
       State_Monad.return (http_Redirect ''/auth/login'') }
     else nxt (r\<lparr>fq_identity := Some (session_identity m x)\<rparr>) }"

definition RequireAdmin :: "'x scs \<Rightarrow> (front_request \<Rightarrow> ('x, 'm, 's) front_handler) \<Rightarrow> front_request \<Rightarrow>
    ('x, 'm, 's) front_handler" where
  "RequireAdmin m nxt r = do {
     w \<leftarrow> State_Monad.get;
     if \<not> GetBool m (fw_session w) sessionKeyIsAdmin then State_Monad.return (http_Error ''forbidden'' 403)
     else nxt r }"

definition DevLoginHandler :: "'x scs \<Rightarrow> string \<Rightarrow> ('x, 'm, 's) front_handler" where
  "DevLoginHandler m devUserSub = on_session (do {
     x \<leftarrow> State_Monad.get;
     let (renewed, x') = scs_renew m x;
     State_Monad.set x';
     if \<not> renewed then State_Monad.return (http_Error ''session error'' 500)
     else do {
       State_Monad.update (scs_put m sessionKeyUserSub (VString devUserSub));
       State_Monad.update (scs_put m sessionKeyIdentityToken (VString ''''));
       State_Monad.return (http_Redirect ''/'') } })"

section \<open>auth.go\<close>

text \<open>The handlers have the transport and the client of the management API and the session manager.\<close>

record ('x, 'm) native =
  nt_transport :: "'m transport"
  nt_mgmt :: mgmt_client
  nt_sessions :: "'x scs"

definition renderAuthPage :: "front_request \<Rightarrow> string \<Rightarrow> front_page \<Rightarrow> front_response" where
  "renderAuthPage r title pg = \<lparr>fp_status = 200, fp_headers = html_type,
     fp_body = (if fq_htmx r then Fragment pg else Layout title pg '''' False '''')\<rparr>"

definition registrationOpen :: "('x, 'm) native \<Rightarrow> (('x, 'm, 's) front_world, bool) state" where
  "registrationOpen n = do {
     (st, err) \<leftarrow> on_mgmt (mgmt_Status (nt_transport n) (nt_mgmt n));
     State_Monad.return (if err \<noteq> None then False else sr_RegistrationOpen st) }"

definition login_page :: "('x, 'm) native \<Rightarrow> front_request \<Rightarrow> string \<Rightarrow> ('x, 'm, 's) front_handler" where
  "login_page n r msg = do {
     opn \<leftarrow> registrationOpen n;
     State_Monad.return (renderAuthPage r (site_title ''Sign in'') (LoginPage msg opn)) }"

definition LoginForm :: "('x, 'm) native \<Rightarrow> front_request \<Rightarrow> ('x, 'm, 's) front_handler" where
  "LoginForm n r = do {
     (st, err) \<leftarrow> on_mgmt (mgmt_Status (nt_transport n) (nt_mgmt n));
     State_Monad.return (if err = None \<and> \<not> sr_HasUsers st then http_Redirect ''/setup''
       else renderAuthPage r (site_title ''Sign in'') (LoginPage '''' (sr_RegistrationOpen st))) }"

definition store_login :: "('x, 'm) native \<Rightarrow> AuthResp \<Rightarrow> ('x, 'm, 's) front_handler" where
  "store_login n resp = do {
     failed \<leftarrow> on_session (StoreIdentity (nt_sessions n) (ar_UserID resp) (ar_Name resp) (ar_Token resp)
       (ar_ExpiresAt resp) (ar_IsAdmin resp));
     State_Monad.return (case failed of Some answer \<Rightarrow> answer | None \<Rightarrow> http_Redirect ''/'') }"

definition LoginSubmit :: "('x, 'm) native \<Rightarrow> front_request \<Rightarrow> ('x, 'm, 's) front_handler" where
  "LoginSubmit n r =
    (if \<not> fq_form_ok r then login_page n r ''Invalid form submission.''
     else do {
       (resp, err) \<leftarrow> on_mgmt (mgmt_Login (nt_transport n) (nt_mgmt n)
         (PostFormValue r ''username'') (PostFormValue r ''password''));
       case err of
         Some (APIError code msg) \<Rightarrow>
           login_page n r (if code = 401 then ''Invalid username or password.''
             else ''Sign-in is unavailable. Try again shortly.'')
       | Some (MgmtErr _) \<Rightarrow> login_page n r ''Sign-in is unavailable. Try again shortly.''
       | None \<Rightarrow> store_login n resp })"

definition RegisterForm :: "('x, 'm) native \<Rightarrow> front_request \<Rightarrow> ('x, 'm, 's) front_handler" where
  "RegisterForm n r = do {
     (st, err) \<leftarrow> on_mgmt (mgmt_Status (nt_transport n) (nt_mgmt n));
     State_Monad.return (if err \<noteq> None \<or> \<not> sr_RegistrationOpen st then http_Redirect ''/auth/login''
       else renderAuthPage r (site_title ''Register'') (RegisterPage '''')) }"

definition register_error :: "mgmt_err \<Rightarrow> string" where
  "register_error e = (case e of
      APIError code msg \<Rightarrow>
        if code = 403 then ''Registration is closed.''
        else if code = 409 then ''That username is already taken.''
        else if code = 400 then msg else ''Registration failed. Try again shortly.''
    | MgmtErr _ \<Rightarrow> ''Registration is unavailable. Try again shortly.'')"

definition RegisterSubmit :: "('x, 'm) native \<Rightarrow> front_request \<Rightarrow> ('x, 'm, 's) front_handler" where
  "RegisterSubmit n r = (let page = (\<lambda>msg. renderAuthPage r (site_title ''Register'') (RegisterPage msg)) in
     if \<not> fq_form_ok r then State_Monad.return (page ''Invalid form submission.'')
     else do {
       (resp, err) \<leftarrow> on_mgmt (mgmt_Register (nt_transport n) (nt_mgmt n)
         (PostFormValue r ''username'') (PostFormValue r ''password''));
       case err of
         Some e \<Rightarrow> State_Monad.return (page (register_error e))
       | None \<Rightarrow> store_login n resp })"

definition account_page :: "front_request \<Rightarrow> string \<Rightarrow> string \<Rightarrow> front_response" where
  "account_page r err note = renderAuthPage r (site_title ''Account'') (AccountPage err note)"

definition AccountForm :: "front_request \<Rightarrow> ('x, 'm, 's) front_handler" where
  "AccountForm r = State_Monad.return (account_page r '''' '''')"

definition change_error :: "mgmt_err \<Rightarrow> string" where
  "change_error e = (case e of
      APIError code msg \<Rightarrow>
        if code = 401 then ''Your current password is incorrect.''
        else if code = 400 then msg else ''Could not change your password. Try again shortly.''
    | MgmtErr _ \<Rightarrow> ''Password change is unavailable. Try again shortly.'')"

definition ChangePassword :: "('x, 'm) native \<Rightarrow> front_request \<Rightarrow> ('x, 'm, 's) front_handler" where
  "ChangePassword n r =
    (if \<not> fq_form_ok r then State_Monad.return (account_page r ''Invalid form submission.'' '''')
     else do {
       err \<leftarrow> on_mgmt (mgmt_ChangeMyPassword (nt_transport n) (nt_mgmt n) (fi_Token (identity_of r))
         (PostFormValue r ''current'') (PostFormValue r ''new''));
       State_Monad.return (case err of
           Some e \<Rightarrow> account_page r (change_error e) ''''
         | None \<Rightarrow> account_page r '''' ''Password changed.'') })"

definition setup_page :: "front_request \<Rightarrow> string \<Rightarrow> front_response" where
  "setup_page r msg = renderAuthPage r ''Set up ArcLore'' (SetupPage msg)"

definition SetupForm :: "('x, 'm) native \<Rightarrow> front_request \<Rightarrow> ('x, 'm, 's) front_handler" where
  "SetupForm n r = do {
     (st, err) \<leftarrow> on_mgmt (mgmt_Status (nt_transport n) (nt_mgmt n));
     State_Monad.return (if err \<noteq> None then setup_page r ''Could not reach the auth service. Is it running?''
       else if sr_HasUsers st then http_Redirect ''/auth/login'' else setup_page r '''') }"

definition SetupSubmit :: "('x, 'm) native \<Rightarrow> front_request \<Rightarrow> ('x, 'm, 's) front_handler" where
  "SetupSubmit n r =
    (if \<not> fq_form_ok r then State_Monad.return (setup_page r ''Invalid form submission.'')
     else do {
       (resp, err) \<leftarrow> on_mgmt (mgmt_Setup (nt_transport n) (nt_mgmt n) (PostFormValue r ''username'')
         (PostFormValue r ''password'') (PostFormValue r ''display_name''));
       case err of
         Some (APIError code msg) \<Rightarrow> State_Monad.return (if code = 409 then http_Redirect ''/auth/login''
           else setup_page r msg)
       | Some (MgmtErr _) \<Rightarrow>
           State_Monad.return (setup_page r ''Could not reach the auth service. Is it running?'')
       | None \<Rightarrow> store_login n resp })"

definition Logout :: "('x, 'm) native \<Rightarrow> ('x, 'm, 's) front_handler" where
  "Logout n = on_session (do {
     x \<leftarrow> State_Monad.get;
     let (destroyed, x') = scs_destroy (nt_sessions n) x;
     State_Monad.set x';
     State_Monad.return (if destroyed then http_Redirect ''/auth/login'' else http_Error ''session error'' 500) })"

section \<open>The configuration\<close>

definition config_Validate :: "bool \<Rightarrow> string \<Rightarrow> string option" where
  "config_Validate authDisabled mgmtAPIAddr = (if \<not> authDisabled \<and> mgmtAPIAddr = ''''
     then Some ''config: MGMT_API_ADDR is required when auth is enabled (LORE_AUTH_DISABLED=false)'' else None)"

end
