(* ===== verification/Front_Admin.thy ===== *)
theory Front_Admin
  imports Front_Session
begin

text \<open>
  The management screens of the web client, \<open>internal/handlers/admin.go\<close>. They act through the client
  of the management API and the Lore client; every change is a post that answers with a redirect to its
  list, with the error, if any, in the query.
\<close>

record ('m, 's, 'h) AdminHandler =
  ad_transport :: "'m transport"
  ad_mgmt :: mgmt_client
  ad_lore :: "('s, 'h) LoreClient"

definition adminToken :: "front_request \<Rightarrow> string" where
  "adminToken r = (case fq_identity r of None \<Rightarrow> '''' | Some i \<Rightarrow> fi_Token i)"

text \<open>The redirect back to a list, with an error.\<close>

definition back_to :: "string \<Rightarrow> front_response" where
  "back_to lst = http_Redirect lst"

definition back_err :: "string \<Rightarrow> string \<Rightarrow> front_response" where
  "back_err lst msg = http_Redirect (lst @ ''?err='' @ QueryEscape msg)"

definition bad_form :: "string \<Rightarrow> front_response" where
  "bad_form lst = http_Redirect (lst @ ''?err=bad+form'')"

definition users_list :: string where "users_list = ''/admin/users''"
definition repos_list :: string where "repos_list = ''/admin/repos''"
definition grants_list :: string where "grants_list = ''/admin/grants''"

text \<open>A post that makes one call: the outcome decides between the list and the error.\<close>

definition posted :: "string \<Rightarrow> (mgmt_err \<Rightarrow> string) \<Rightarrow> mgmt_err option \<Rightarrow> front_response" where
  "posted lst show_err err = (case err of None \<Rightarrow> back_to lst | Some e \<Rightarrow> back_err lst (show_err e))"

section \<open>Users\<close>

definition user_view :: "UserResp \<Rightarrow> AdminUserView" where
  "user_view u = \<lparr>au_Username = ur_Username u, au_DisplayName = ur_DisplayName u, au_IsAdmin = ur_IsAdmin u,
     au_Created = ur_Created u\<rparr>"

definition AdminUsers :: "('m, 's, 'h) AdminHandler \<Rightarrow> front_request \<Rightarrow> ('x, 'm, 's) front_handler" where
  "AdminUsers h r = do {
     (us, err) \<leftarrow> on_mgmt (mgmt_ListUsers (ad_transport h) (ad_mgmt h) (adminToken r));
     case err of
       Some e \<Rightarrow> State_Monad.return (http_Error (''admin: list users: '' @ mgmt_err_text e) 502)
     | None \<Rightarrow> do {
         (st, _) \<leftarrow> on_mgmt (mgmt_Status (ad_transport h) (ad_mgmt h));
         State_Monad.return (renderPage r (''Users'' @ dash @ ''ArcLore Admin'')
           (AdminUsersPage (map user_view us) (QueryGet r ''err'') (sr_RegistrationOpen st))) } }"

definition AdminSetRegistration :: "('m, 's, 'h) AdminHandler \<Rightarrow> front_request \<Rightarrow> ('x, 'm, 's) front_handler" where
  "AdminSetRegistration h r =
    (if \<not> fq_form_ok r then State_Monad.return (bad_form users_list)
     else do {
       err \<leftarrow> on_mgmt (mgmt_SetRegistration (ad_transport h) (ad_mgmt h) (adminToken r)
         (FormValue r ''open'' = ''1''));
       State_Monad.return (posted users_list mgmt_err_text err) })"

definition status_and_message :: "mgmt_err \<Rightarrow> string" where
  "status_and_message e = (case e of
      APIError code msg \<Rightarrow> StatusText code @ '': '' @ msg | MgmtErr _ \<Rightarrow> mgmt_err_text e)"

definition api_message :: "mgmt_err \<Rightarrow> string" where
  "api_message e = (case e of APIError code msg \<Rightarrow> msg | MgmtErr _ \<Rightarrow> mgmt_err_text e)"

definition AdminCreateUser :: "('m, 's, 'h) AdminHandler \<Rightarrow> front_request \<Rightarrow> ('x, 'm, 's) front_handler" where
  "AdminCreateUser h r =
    (if \<not> fq_form_ok r then State_Monad.return (bad_form users_list)
     else do {
       (_, err) \<leftarrow> on_mgmt (mgmt_CreateUser (ad_transport h) (ad_mgmt h) (adminToken r)
         (FormValue r ''username'') (FormValue r ''password'') (FormValue r ''display_name'')
         (FormValue r ''is_admin'' = ''1''));
       State_Monad.return (posted users_list status_and_message err) })"

definition AdminDeleteUser :: "('m, 's, 'h) AdminHandler \<Rightarrow> front_request \<Rightarrow> ('x, 'm, 's) front_handler" where
  "AdminDeleteUser h r = do {
     err \<leftarrow> on_mgmt (mgmt_DeleteUser (ad_transport h) (ad_mgmt h) (adminToken r) (URLParam r ''username''));
     State_Monad.return (posted users_list api_message err) }"

definition AdminSetPassword :: "('m, 's, 'h) AdminHandler \<Rightarrow> front_request \<Rightarrow> ('x, 'm, 's) front_handler" where
  "AdminSetPassword h r =
    (if \<not> fq_form_ok r then State_Monad.return (bad_form users_list)
     else do {
       err \<leftarrow> on_mgmt (mgmt_SetPassword (ad_transport h) (ad_mgmt h) (adminToken r) (URLParam r ''username'')
         (FormValue r ''password''));
       State_Monad.return (posted users_list mgmt_err_text err) })"

definition AdminSetAdmin :: "('m, 's, 'h) AdminHandler \<Rightarrow> front_request \<Rightarrow> ('x, 'm, 's) front_handler" where
  "AdminSetAdmin h r =
    (if \<not> fq_form_ok r then State_Monad.return (bad_form users_list)
     else do {
       err \<leftarrow> on_mgmt (mgmt_SetAdmin (ad_transport h) (ad_mgmt h) (adminToken r) (URLParam r ''username'')
         (FormValue r ''is_admin'' = ''1''));
       State_Monad.return (posted users_list api_message err) })"

section \<open>Repositories\<close>

definition adminRepoView :: "repository \<Rightarrow> AdminRepoView" where
  "adminRepoView repo = \<lparr>av_ID = hex_encode (rp_Id repo), av_Name = rp_Name repo,
     av_Description = rp_Description repo, av_DefaultBranchName = rp_DefaultBranchName repo,
     av_Creator = rp_Creator repo\<rparr>"

definition AdminRepos :: "('m, 's, 'h) AdminHandler \<Rightarrow> front_request \<Rightarrow> ('x, 'm, 's) front_handler" where
  "AdminRepos h r = on_lore (do {
     b \<leftarrow> baseCtx (ad_lore h) r;
     case b of
       Inl e \<Rightarrow> State_Monad.return (forbidden_page r ''repositories'' e)
     | Inr ctx \<Rightarrow> do {
         (repos, err) \<leftarrow> lc_ListRepositories (ad_lore h) ctx;
         State_Monad.return (case err of
             Some e \<Rightarrow> bad_gateway ''admin: list repos'' e
           | None \<Rightarrow> renderPage r (''Repos'' @ dash @ ''ArcLore Admin'')
               (AdminReposPage (map adminRepoView repos) (QueryGet r ''err''))) } })"

definition AdminCreateRepo :: "('m, 's, 'h) AdminHandler \<Rightarrow> front_request \<Rightarrow> ('x, 'm, 's) front_handler" where
  "AdminCreateRepo h r =
    (if \<not> fq_form_ok r then State_Monad.return (bad_form repos_list)
     else on_lore (do {
       t \<leftarrow> lc_ResourceAuthzToken (ad_lore h) (identityToken r) WildcardResource;
       case t of
         Inl e \<Rightarrow> State_Monad.return (back_err repos_list (lore_text e))
       | Inr token \<Rightarrow> do {
           x \<leftarrow> lc_RepositoryCreate (ad_lore h) token \<lparr>in_Name = FormValue r ''name'',
             in_Description = FormValue r ''description'', in_DefaultBranchName = '''',
             in_Creator = fi_Sub (identity_of r)\<rparr>;
           State_Monad.return (case x of
               Inl e \<Rightarrow> back_err repos_list (lore_text e)
             | Inr _ \<Rightarrow> back_to repos_list) } }))"

definition AdminDeleteRepo :: "('m, 's, 'h) AdminHandler \<Rightarrow> front_request \<Rightarrow> ('x, 'm, 's) front_handler" where
  "AdminDeleteRepo h r = (case ParseID (URLParam r ''id'') of
      Inl _ \<Rightarrow> State_Monad.return (back_err repos_list ''bad repository id'')
    | Inr repoID \<Rightarrow> on_lore (do {
        t \<leftarrow> lc_ResourceAuthzToken (ad_lore h) (identityToken r) WildcardResource;
        case t of
          Inl e \<Rightarrow> State_Monad.return (back_err repos_list (lore_text e))
        | Inr token \<Rightarrow> do {
            x \<leftarrow> lc_RepositoryDelete (ad_lore h) token repoID;
            State_Monad.return (case x of
                Some e \<Rightarrow> if is_repo_not_found e then back_to repos_list else back_err repos_list (lore_text e)
              | None \<Rightarrow> back_to repos_list) } }))"

definition AdminImportRepo :: "('m, 's, 'h) AdminHandler \<Rightarrow> front_request \<Rightarrow> ('x, 'm, 's) front_handler" where
  "AdminImportRepo h r =
    (if \<not> fq_form_ok r then State_Monad.return (bad_form repos_list)
     else do {
       (_, err) \<leftarrow> on_mgmt (mgmt_ImportResource (ad_transport h) (ad_mgmt h) (adminToken r)
         (FormValue r ''resource_id'') (FormValue r ''name''));
       State_Monad.return (posted repos_list mgmt_err_text err) })"

definition AdminRemoveResource :: "('m, 's, 'h) AdminHandler \<Rightarrow> front_request \<Rightarrow> ('x, 'm, 's) front_handler" where
  "AdminRemoveResource h r =
    (if \<not> fq_form_ok r then State_Monad.return (bad_form grants_list)
     else do {
       err \<leftarrow> on_mgmt (mgmt_RemoveResource (ad_transport h) (ad_mgmt h) (adminToken r)
         (FormValue r ''resource_id''));
       State_Monad.return (posted grants_list mgmt_err_text err) })"

section \<open>Grants\<close>

definition member_view :: "string \<Rightarrow> UserResp \<Rightarrow> AdminGrantsMember" where
  "member_view selected u = \<lparr>gm_Username = ur_Username u, gm_DisplayName = ur_DisplayName u,
     gm_IsAdmin = ur_IsAdmin u, gm_Selected = (ur_Username u = selected)\<rparr>"

definition resource_view :: "(string \<times> string list) list \<Rightarrow> ResourceResp \<Rightarrow> AdminGrantsResource" where
  "resource_view userGrants res = \<lparr>ag_ResourceID = rr_ResourceID res, ag_Name = rr_Name res,
     ag_Permissions = (case map_of userGrants (rr_ResourceID res) of None \<Rightarrow> [] | Some ps \<Rightarrow> ps)\<rparr>"

definition AdminGrants :: "('m, 's, 'h) AdminHandler \<Rightarrow> front_request \<Rightarrow> ('x, 'm, 's) front_handler" where
  "AdminGrants h r = do {
     (raw, err) \<leftarrow> on_mgmt (mgmt_ListResources (ad_transport h) (ad_mgmt h) (adminToken r));
     case err of
       Some e \<Rightarrow> State_Monad.return (http_Error (''admin: list resources: '' @ mgmt_err_text e) 502)
     | None \<Rightarrow> do {
         (us, _) \<leftarrow> on_mgmt (mgmt_ListUsers (ad_transport h) (ad_mgmt h) (adminToken r));
         let selected = QueryGet r ''user'';
         (gs, errMsg) \<leftarrow> (if selected = '''' then State_Monad.return ([], QueryGet r ''err'')
           else do {
             (gs, gerr) \<leftarrow> on_mgmt (mgmt_Grants (ad_transport h) (ad_mgmt h) (adminToken r) selected);
             State_Monad.return (case gerr of
                 None \<Rightarrow> (gs, QueryGet r ''err'')
               | Some e \<Rightarrow> (gs, ''grants lookup: '' @ mgmt_err_text e)) });
         State_Monad.return (renderPage r (''Grants'' @ dash @ ''ArcLore Admin'')
           (AdminGrantsPage (map (member_view selected) us) (map (resource_view gs) raw) selected errMsg)) } }"

text \<open>The redirect of a grant keeps the selected user.\<close>

definition grant_posted :: "string \<Rightarrow> mgmt_err option \<Rightarrow> front_response" where
  "grant_posted username err = http_Redirect (grants_list @ ''?user='' @ QueryEscape username @
     (case err of None \<Rightarrow> '''' | Some e \<Rightarrow> ''&err='' @ QueryEscape (mgmt_err_text e)))"

definition AdminAddGrant :: "('m, 's, 'h) AdminHandler \<Rightarrow> front_request \<Rightarrow> ('x, 'm, 's) front_handler" where
  "AdminAddGrant h r =
    (if \<not> fq_form_ok r then State_Monad.return (bad_form grants_list)
     else do {
       err \<leftarrow> on_mgmt (mgmt_AddGrant (ad_transport h) (ad_mgmt h) (adminToken r) (FormValue r ''username'')
         (FormValue r ''resource_id'') (FormValue r ''permission''));
       State_Monad.return (grant_posted (FormValue r ''username'') err) })"

definition AdminRemoveGrant :: "('m, 's, 'h) AdminHandler \<Rightarrow> front_request \<Rightarrow> ('x, 'm, 's) front_handler" where
  "AdminRemoveGrant h r =
    (if \<not> fq_form_ok r then State_Monad.return (bad_form grants_list)
     else do {
       err \<leftarrow> on_mgmt (mgmt_RemoveGrant (ad_transport h) (ad_mgmt h) (adminToken r) (FormValue r ''username'')
         (FormValue r ''resource_id'') (FormValue r ''permission''));
       State_Monad.return (grant_posted (FormValue r ''username'') err) })"

end
