(* ===== verification/Front_App.thy ===== *)
theory Front_App
  imports Front_Admin
begin

text \<open>
  The assembly of the web client, \<open>cmd/arcloreweb/main.go\<close>: the middleware that every request passes, the
  routes with the guards they are registered with, and the warnings at the start. Which route a path
  selects is the router's business: a request comes with the route it was matched to.
\<close>

section \<open>The routes\<close>

datatype auth_route =
    GetLoginPage | PostLoginForm | PostLogoutForm | GetSetupPage | PostSetupForm | GetRegisterPage | PostRegisterForm

datatype account_route = GetAccountPage | PostPasswordForm

datatype management_route =
    GetUsersPage | PostUserForm | PostUserDeleteForm | PostUserPasswordForm | PostUserAdminForm | PostRegistrationForm
  | GetReposPage | PostRepoForm | PostRepoImportForm | PostRepoDeleteForm | PostResourceRemoveForm
  | GetGrantsPage | PostGrantForm | PostGrantDeleteForm

datatype front_route =
    GetHealth | GetChroma | GetStatic string | GetDevLogin
  | AuthRoute auth_route | AccountRoute account_route | BrowseRoute browse_route | AdminRoute management_route

text \<open>Registered under the given setting of \<open>LORE_AUTH_DISABLED\<close>.\<close>

fun registered :: "bool \<Rightarrow> front_route \<Rightarrow> bool" where
  "registered authDisabled GetDevLogin = authDisabled"
| "registered authDisabled (AuthRoute _) = (\<not> authDisabled)"
| "registered authDisabled (AccountRoute _) = (\<not> authDisabled)"
| "registered authDisabled _ = True"

fun is_post :: "front_route \<Rightarrow> bool" where
  "is_post (AuthRoute a) = (a \<in> {PostLoginForm, PostLogoutForm, PostSetupForm, PostRegisterForm})"
| "is_post (AccountRoute a) = (a = PostPasswordForm)"
| "is_post (BrowseRoute b) = (b = PostRelease)"
| "is_post (AdminRoute a) = (a \<notin> {GetUsersPage, GetReposPage, GetGrantsPage})"
| "is_post _ = False"

section \<open>The program\<close>

text \<open>The configuration, the clients, and what the handlers of the static files answer.\<close>

record ('x, 'm, 's, 'h) front_app =
  ap_AuthDisabled :: bool
  ap_DevUserSub :: string
  ap_TrustForwardedFor :: bool
  ap_TrustedOrigins :: "string list"
  ap_sessions :: "'x scs"
  ap_transport :: "'m transport"
  ap_mgmt :: mgmt_client
  ap_lore :: "('s, 'h) LoreClient"
  ap_pages :: "'s page_env"
  ap_splitHost :: "string \<Rightarrow> string option"
  ap_chroma :: front_response
  ap_static :: "string \<Rightarrow> front_response"

definition native_of :: "('x, 'm, 's, 'h) front_app \<Rightarrow> ('x, 'm) native" where
  "native_of a = \<lparr>nt_transport = ap_transport a, nt_mgmt = ap_mgmt a, nt_sessions = ap_sessions a\<rparr>"

definition NewAdmin :: "('x, 'm, 's, 'h) front_app \<Rightarrow> ('m, 's, 'h) AdminHandler" where
  "NewAdmin a = \<lparr>ad_transport = ap_transport a, ad_mgmt = ap_mgmt a, ad_lore = ap_lore a\<rparr>"

text \<open>What the middleware reads from a request besides: its method, the peer and the headers, with the
  host part of the \<open>Origin\<close> as \<open>net/url\<close> parses it.\<close>

record front_meta =
  fm_method :: string
  fm_RemoteAddr :: string
  fm_XForwardedFor :: string
  fm_SecFetchSite :: string
  fm_Origin :: string
  fm_OriginHost :: "string option"
  fm_Host :: string

text \<open>\<open>http.CrossOriginProtection\<close>: \<open>True\<close> when the request is let through.\<close>

definition cop_check :: "string list \<Rightarrow> front_meta \<Rightarrow> bool" where
  "cop_check trusted q = (let exempt = (fm_Origin q \<in> set trusted) in
     if fm_method q \<in> {''GET'', ''HEAD'', ''OPTIONS''} then True
     else if fm_SecFetchSite q = '''' then
       (if fm_Origin q = '''' then True else if fm_OriginHost q = Some (fm_Host q) then True else exempt)
     else if fm_SecFetchSite q \<in> {''same-origin'', ''none''} then True else exempt)"

definition plain_text :: "nat \<Rightarrow> string \<Rightarrow> front_response" where
  "plain_text code msg = \<lparr>fp_status = code, fp_headers = [], fp_body = TextBody msg\<rparr>"

text \<open>The headers every response carries unless a handler sets them itself.\<close>

definition sq :: "string \<Rightarrow> string" where
  "sq s = [CHR 0x27] @ s @ [CHR 0x27]"

definition security_headers :: "(string \<times> string) list" where
  "security_headers = [(''X-Content-Type-Options'', ''nosniff''), (''X-Frame-Options'', ''DENY''),
     (''Referrer-Policy'', ''strict-origin-when-cross-origin''),
     (''Content-Security-Policy'', ''default-src '' @ sq ''self'' @ ''; img-src '' @ sq ''self'' @
        '' data:; style-src '' @ sq ''self'' @ '' '' @ sq ''unsafe-inline'' @ ''; script-src '' @ sq ''self'' @
        ''; object-src '' @ sq ''none'' @ ''; frame-ancestors '' @ sq ''none'')]"

definition secured :: "front_response \<Rightarrow> front_response" where
  "secured resp = resp\<lparr>fp_headers :=
     foldl (\<lambda>hs (k, v). AList.update k v hs) security_headers (fp_headers resp)\<rparr>"

text \<open>\<open>lt.Middleware\<close> in front of a posted form; \<open>now\<close> is the clock in nanoseconds.\<close>

definition with_throttle :: "('x, 'm, 's, 'h) front_app \<Rightarrow> int \<Rightarrow> front_meta \<Rightarrow> ('x, 'm, 's) front_handler \<Rightarrow>
    ('x, 'm, 's) front_handler" where
  "with_throttle a now q nxt = do {
     t \<leftarrow> on_throttle (throttle_Middleware (ap_splitHost a) (ap_TrustForwardedFor a) now
       (fm_RemoteAddr q) (fm_XForwardedFor q) ());
     case t of
       TooManyRequests \<Rightarrow> State_Monad.return (plain_text 429 (''too many login attempts'' @ dash @ ''slow down''))
     | Passed _ \<Rightarrow> nxt }"

fun auth_page :: "('x, 'm, 's, 'h) front_app \<Rightarrow> int \<Rightarrow> front_meta \<Rightarrow> auth_route \<Rightarrow> front_request \<Rightarrow>
    ('x, 'm, 's) front_handler" where
  "auth_page a now q GetLoginPage r = LoginForm (native_of a) r"
| "auth_page a now q PostLoginForm r = with_throttle a now q (LoginSubmit (native_of a) r)"
| "auth_page a now q PostLogoutForm r = Logout (native_of a)"
| "auth_page a now q GetSetupPage r = SetupForm (native_of a) r"
| "auth_page a now q PostSetupForm r = with_throttle a now q (SetupSubmit (native_of a) r)"
| "auth_page a now q GetRegisterPage r = RegisterForm (native_of a) r"
| "auth_page a now q PostRegisterForm r = with_throttle a now q (RegisterSubmit (native_of a) r)"

fun account_handler :: "('x, 'm, 's, 'h) front_app \<Rightarrow> account_route \<Rightarrow> front_request \<Rightarrow> ('x, 'm, 's) front_handler" where
  "account_handler a GetAccountPage r = AccountForm r"
| "account_handler a PostPasswordForm r = ChangePassword (native_of a) r"

fun admin_page :: "('m, 's, 'h) AdminHandler \<Rightarrow> management_route \<Rightarrow> front_request \<Rightarrow> ('x, 'm, 's) front_handler" where
  "admin_page h GetUsersPage r = AdminUsers h r"
| "admin_page h PostUserForm r = AdminCreateUser h r"
| "admin_page h PostUserDeleteForm r = AdminDeleteUser h r"
| "admin_page h PostUserPasswordForm r = AdminSetPassword h r"
| "admin_page h PostUserAdminForm r = AdminSetAdmin h r"
| "admin_page h PostRegistrationForm r = AdminSetRegistration h r"
| "admin_page h GetReposPage r = AdminRepos h r"
| "admin_page h PostRepoForm r = AdminCreateRepo h r"
| "admin_page h PostRepoImportForm r = AdminImportRepo h r"
| "admin_page h PostRepoDeleteForm r = AdminDeleteRepo h r"
| "admin_page h PostResourceRemoveForm r = AdminRemoveResource h r"
| "admin_page h GetGrantsPage r = AdminGrants h r"
| "admin_page h PostGrantForm r = AdminAddGrant h r"
| "admin_page h PostGrantDeleteForm r = AdminRemoveGrant h r"

fun dispatch :: "('x, 'm, 's, 'h) front_app \<Rightarrow> int \<Rightarrow> front_meta \<Rightarrow> front_route \<Rightarrow> front_request \<Rightarrow>
    ('x, 'm, 's) front_handler" where
  "dispatch a now q GetHealth r = State_Monad.return (plain_text 200 ''ok'')"
| "dispatch a now q GetChroma r = State_Monad.return (ap_chroma a)"
| "dispatch a now q (GetStatic p) r = State_Monad.return (ap_static a p)"
| "dispatch a now q GetDevLogin r = DevLoginHandler (ap_sessions a) (ap_DevUserSub a)"
| "dispatch a now q (AuthRoute ar) r = auth_page a now q ar r"
| "dispatch a now q (AccountRoute ar) r =
    RequireAuth (ap_sessions a) (now div nsec) (account_handler a ar) r"
| "dispatch a now q (BrowseRoute br) r =
    RequireAuth (ap_sessions a) (now div nsec) (\<lambda>r. on_lore (browse (ap_lore a) (ap_pages a) br r)) r"
| "dispatch a now q (AdminRoute ar) r =
    RequireAuth (ap_sessions a) (now div nsec)
      (RequireAdmin (ap_sessions a) (admin_page (NewAdmin a) ar)) r"

text \<open>A request whose context carries no identity yet. The route is the one the router matched, so one that is
  not registered does not occur and is answered as not found; a path or method that matches no pattern is
  answered by the router itself (404 or 405) and is no route here.\<close>

definition serve_front :: "('x, 'm, 's, 'h) front_app \<Rightarrow> int \<Rightarrow> front_meta \<Rightarrow> front_route \<Rightarrow> front_request \<Rightarrow>
    ('x, 'm, 's) front_handler" where
  "serve_front a now q route r = do {
     resp \<leftarrow> (if \<not> cop_check (ap_TrustedOrigins a) q
       then State_Monad.return (plain_text 403 ''cross-origin request blocked'')
       else if \<not> registered (ap_AuthDisabled a) route then State_Monad.return http_NotFound
       else dispatch a now q route (r\<lparr>fq_identity := None\<rparr>));
     State_Monad.return (secured resp) }"

section \<open>The start\<close>

text \<open>The warnings of a bind beyond the loopback interface; \<open>isLoopback\<close> is the judgement of \<open>net\<close> on an
  address, and the host is the listen address when it has no port.\<close>

datatype front_warning = PlainHTTP | InsecureCookie | PlainGRPC

definition front_warnings :: "(string \<Rightarrow> string option) \<Rightarrow> (string \<Rightarrow> bool) \<Rightarrow> string \<Rightarrow> string \<Rightarrow> bool \<Rightarrow>
    string \<Rightarrow> front_warning list" where
  "front_warnings splitHost isLoopback listenAddr certFile cookieSecure grpcAddr =
    (let host = (case splitHost listenAddr of Some h \<Rightarrow> h | None \<Rightarrow> listenAddr)
     in if host = ''localhost'' \<or> isLoopback host then []
        else (if certFile = '''' then [PlainHTTP] else []) @ (if \<not> cookieSecure then [InsecureCookie] else []) @
          (if \<not> grpcUsesTLS grpcAddr then [PlainGRPC] else []))"

datatype front_listener = ServeTLS string string | ServePlain | FatalMisconfig

definition front_listener_of :: "string \<Rightarrow> string \<Rightarrow> front_listener" where
  "front_listener_of certFile keyFile =
    (if certFile \<noteq> '''' \<and> keyFile \<noteq> '''' then ServeTLS certFile keyFile
     else if certFile \<noteq> '''' \<or> keyFile \<noteq> '''' then FatalMisconfig else ServePlain)"

end
