(* ===== verification/Page_Laws.thy ===== *)
theory Page_Laws
  imports Pages
begin

text \<open>
  What the browse pages guarantee: what the raw endpoint serves, and
  that the history, the lock and the commit pages show what the server answered, for any order of their
  workers. Two helpers open a run of a handler behind the prologue it shares with the others.
\<close>

section \<open>Properties\<close>

definition demo_lore :: "unit lore_env" where
  "demo_lore = \<lparr>le_nowMs = \<lambda>_. 0, le_discovered = \<lambda>_. Inr ''ucs-auth://auth'', le_dial = \<lambda>_ _. Inr (),
     le_exchange = \<lambda>_ _ _ _. Inr (Some (''tok'', 100000)), le_uuid = State_Monad.return (Inl ''no entropy'')\<rparr>"

definition demo_dialled :: dialled where
  "demo_dialled = \<lparr>dl_target = ''lore:41337'', dl_tls = False, dl_httpBase = ''http://lore:41339''\<rparr>"

definition demo_world :: "unit logged lore_world" where
  "demo_world = \<lparr>lw_auth = \<lparr>cl_authClient = None, cl_authURL = '''', cl_authURLOverride = '''',
     cl_authzCache = []\<rparr>, lw_far = ((), [])\<rparr>"

definition demo_pages :: "'s page_env" where
  "demo_pages = \<lparr>pe_renderers = \<lparr>rn_LexerName = \<lambda>_ _. ''Text'', rn_Highlight = \<lambda>_ _. None,
     rn_Markdown = \<lambda>_. None, rn_Unified = \<lambda>_ _ _ _. '''', rn_gitdiff = \<lambda>_. None,
     rn_readError = ''unexpected EOF''\<rparr>, pe_escape = html_EscapeString, pe_clock = \<lambda>_. 0,
     pe_sched = \<lambda>n. rev [0..<n]\<rparr>"

definition front_demo :: front_request where
  "front_demo = \<lparr>fq_path = ''/-/demo'', fq_htmx = False,
     fq_params = [(''owner'', ''-''), (''repo'', ''demo''), (''branch'', ''main''), (''*'', ''a.txt'')],
     fq_query = [], fq_form_ok = True, fq_post = [],
     fq_identity = Some \<lparr>fi_Sub = ''ann'', fi_Token = ''identity'', fi_IsAdmin = False\<rparr>\<rparr>"

text \<open>What the calls before a page body answer: the repository of the name in the URL with the context of
  its id, and the branch.\<close>

definition repo_opened :: "('s, 'h) LoreClient \<Rightarrow> front_request \<Rightarrow> string \<Rightarrow> 's \<Rightarrow> (repository \<times> lore_ctx \<times> 's) option" where
  "repo_opened lc r name s = (case run_state (baseCtx lc r) s of
      (Inr base, s1) \<Rightarrow> (case run_state (lc_GetRepositoryByName lc base name) s1 of
          (Inr rp, s2) \<Rightarrow> (case run_state (repoCtx lc r (toID (rp_Id (repo_of rp)))) s2 of
              (Inr ctx, s3) \<Rightarrow> Some (repo_of rp, ctx, s3)
            | _ \<Rightarrow> None)
        | _ \<Rightarrow> None)
    | _ \<Rightarrow> None)"

definition branch_opened :: "('s, 'h) LoreClient \<Rightarrow> lore_ctx \<Rightarrow> string \<Rightarrow> 's \<Rightarrow> (byte list \<times> 's) option" where
  "branch_opened lc ctx name s = (case run_state (lc_GetBranchByName lc ctx name) s of
      (Inr b, s1) \<Rightarrow> Some (toID (br_Id (branch_of b)), s1) | _ \<Rightarrow> None)"

lemma with_repo_run:
  assumes "run_state (with_repo lc r forbidden missing name k) s = (resp, s')"
  shows "(\<exists>e. resp = forbidden e) \<or> resp = missing \<or> (\<exists>e. resp = bad_gateway ''failed to load repository'' e) \<or>
    (\<exists>repo ctx s1. repo_opened lc r name s = Some (repo, ctx, s1) \<and>
      run_state (k repo (toID (rp_Id repo)) ctx) s1 = (resp, s'))"
proof -
  obtain b s1 where b: "run_state (baseCtx lc r) s = (b, s1)" by (cases "run_state (baseCtx lc r) s")
  show ?thesis
  proof (cases b)
    case (Inl e)
    with assms b show ?thesis by (auto simp: with_repo_def)
  next
    case (Inr base)
    obtain x s2 where x: "run_state (lc_GetRepositoryByName lc base name) s1 = (x, s2)"
      by (cases "run_state (lc_GetRepositoryByName lc base name) s1")
    show ?thesis
    proof (cases x)
      case (Inl e)
      with assms b Inr x show ?thesis by (auto simp: with_repo_def split: if_splits)
    next
      case rp: (Inr rp)
      obtain c s3 where c: "run_state (repoCtx lc r (toID (rp_Id (repo_of rp)))) s2 = (c, s3)"
        by (cases "run_state (repoCtx lc r (toID (rp_Id (repo_of rp)))) s2")
      with assms b Inr x rp show ?thesis by (cases c) (auto simp: with_repo_def repo_opened_def Let_def)
    qed
  qed
qed

lemma with_branch_run:
  assumes "run_state (with_branch lc ctx missing name k) s = (resp, s')"
  shows "resp = missing \<or> (\<exists>e. resp = bad_gateway ''failed to load branch'' e) \<or>
    (\<exists>b s1. branch_opened lc ctx name s = Some (b, s1) \<and> run_state (k b) s1 = (resp, s'))"
  using assms
  by (cases "run_state (lc_GetBranchByName lc ctx name) s")
    (auto simp: with_branch_def branch_opened_def split: sum.splits if_splits)

lemma bad_gateway_status [simp]: "fp_status (bad_gateway m e) = 502"
  by (simp add: bad_gateway_def)

lemma find_path_Some: "find_path p ns = Some n \<Longrightarrow> n \<in> set ns \<and> tn_Path n = p"
  by (auto simp: find_path_def find_Some_iff)

lemma main_type_inline [simp]: "main_type contentType \<in> set safeInline \<longleftrightarrow> main_type contentType \<in>
    {''text/plain'', ''text/markdown'', ''image/png'', ''image/jpeg'', ''image/gif'', ''image/webp''}"
  by (simp add: safeInline_def)

lemma raw_response_headers:
  "fp_body (raw_response path c) = BlobBody (ct_Body c)"
  "map_of (fp_headers (raw_response path c)) ''Content-Type'' =
    Some (if ct_ContentType c = '''' then ''application/octet-stream'' else ct_ContentType c)"
  "map_of (fp_headers (raw_response path c)) ''Content-Disposition'' =
    (if main_type (if ct_ContentType c = '''' then ''application/octet-stream'' else ct_ContentType c) \<in>
        {''text/plain'', ''text/markdown'', ''image/png'', ''image/jpeg'', ''image/gif'', ''image/webp''}
     then None else Some (''attachment; filename='' @ Quote (path_Base path)))"
  "map_of (fp_headers (raw_response path c)) ''Content-Length'' =
    (if ct_Length c \<ge> 0 then Some (formatInt (ct_Length c)) else None)"
  by (simp_all add: raw_response_def Let_def del: insert_iff)

text \<open>C34: The raw endpoint serves exactly the file that was asked for, as what it is, and nothing a browser would
  run. An answer with status 200 is the content the server holds, in the repository of the URL, for a node whose
  path is the path of the URL, that the branch of the URL lists in its parent directory, and that is no directory.
  Its type is the one the server gave, or that of plain bytes when it gave none; unless this is one of the
  six plain text and image types it is sent as an attachment under the base name of the path; its length is
  stated just when the server knew it.\<close>

theorem raw_serves_exact:
  assumes "run_state (Raw lc r) s = (resp, s')" and "fp_status resp = 200"
  shows "\<exists>repo ctx s0 branchID s1 h nodes node s2 c.
    repo_opened lc r (URLParam r ''repo'') s = Some (repo, ctx, s0) \<and>
    branch_opened lc ctx (URLParam r ''branch'') s0 = Some (branchID, s1) \<and>
    run_state (lc_RevisionTree lc ctx branchID 0 (parentDir (subPath r)) 1) s1 = ((h, nodes, None), s2) \<and>
    node \<in> set nodes \<and> tn_Path node = subPath r \<and> subPath r \<noteq> '''' \<and> tn_NodeType node \<noteq> NodeDirectory \<and>
    run_state (lc_FetchContent lc ctx (toID (rp_Id repo)) (tn_Address node)) s2 = (Inr c, s') \<and>
    fp_body resp = BlobBody (ct_Body c) \<and>
    (let t = (if ct_ContentType c = '''' then ''application/octet-stream'' else ct_ContentType c) in
      map_of (fp_headers resp) ''Content-Type'' = Some t \<and>
      map_of (fp_headers resp) ''Content-Disposition'' =
        (if main_type t \<in> {''text/plain'', ''text/markdown'', ''image/png'', ''image/jpeg'', ''image/gif'', ''image/webp''}
         then None else Some (''attachment; filename='' @ Quote (path_Base (subPath r))))) \<and>
    map_of (fp_headers resp) ''Content-Length'' = (if ct_Length c \<ge> 0 then Some (formatInt (ct_Length c)) else None)"
proof -
  have path: "subPath r \<noteq> ''''" using assms by (auto simp: Raw_def)
  with assms obtain repo ctx s0 where repo: "repo_opened lc r (URLParam r ''repo'') s = Some (repo, ctx, s0)" and
    "run_state (with_branch lc ctx http_NotFound (URLParam r ''branch'')
      (raw_file lc (subPath r) (toID (rp_Id repo)) ctx)) s0 = (resp, s')"
    by (auto simp: Raw_def dest!: with_repo_run)
  with assms(2) obtain branchID s1 where br: "branch_opened lc ctx (URLParam r ''branch'') s0 = Some (branchID, s1)"
    and run: "run_state (raw_file lc (subPath r) (toID (rp_Id repo)) ctx branchID) s1 = (resp, s')"
    by (auto dest!: with_branch_run)
  obtain h nodes terr s2 where tree: "run_state (lc_RevisionTree lc ctx branchID 0 (parentDir (subPath r)) 1) s1 =
      ((h, nodes, terr), s2)"
    by (cases "run_state (lc_RevisionTree lc ctx branchID 0 (parentDir (subPath r)) 1) s1") auto
  with run assms(2) have terr: "terr = None" by (auto simp: raw_file_def split: option.splits if_splits)
  with run assms(2) tree obtain node where node: "find_path (subPath r) nodes = Some node"
    "tn_NodeType node \<noteq> NodeDirectory"
    by (auto simp: raw_file_def split: option.splits if_splits)
  with run assms(2) tree terr obtain c where
    fetch: "run_state (lc_FetchContent lc ctx (toID (rp_Id repo)) (tn_Address node)) s2 = (Inr c, s')"
      and resp: "resp = raw_response (subPath r) c"
    by (cases "run_state (lc_FetchContent lc ctx (toID (rp_Id repo)) (tn_Address node)) s2")
      (auto simp: raw_file_def split: sum.splits)
  have "node \<in> set nodes \<and> tn_Path node = subPath r" by (rule find_path_Some [OF node(1)])
  moreover note raw_response_headers [of "subPath r" c, folded resp]
  ultimately show ?thesis using repo br tree terr node(2) path fetch
    unfolding Let_def by blast
qed

theorem raw_serves_exact_witness:
  "\<exists>c. fst (run_state (Raw (lore_client_of demo_lore demo_rpc demo_dialled) front_demo)
      \<lparr>lw_auth = lw_auth demo_world, lw_far = ()\<rparr>) = c \<and> fp_status c = 200 \<and>
    (\<exists>body. fp_body c = BlobBody body) \<and> map_of (fp_headers c) ''Content-Disposition'' \<noteq> None"
proof -
  let ?m = "run_state (Raw (lore_client_of demo_lore demo_rpc demo_dialled) front_demo)
      \<lparr>lw_auth = lw_auth demo_world, lw_far = ()\<rparr>"
  have "fp_status (fst ?m) = 200" "map_of (fp_headers (fst ?m)) ''Content-Disposition'' \<noteq> None"
    by code_simp+
  with raw_serves_exact [of "lore_client_of demo_lore demo_rpc demo_dialled" front_demo
    "\<lparr>lw_auth = lw_auth demo_world, lw_far = ()\<rparr>" "fst ?m" "snd ?m"]
  show ?thesis by auto
qed

text \<open>The pool fills every place of its schedule with the result of its own job, in whatever order.\<close>

lemma run_jobs_results:
  assumes "run_state (run_jobs job sched rs) s = (rs', s')" and "distinct sched"
  shows "length rs' = length rs \<and> (\<forall>i<length rs. if i \<in> set sched
    then \<exists>s1 s2. run_state (job i) s1 = (rs' ! i, s2) else rs' ! i = rs ! i)"
  using assms
proof (induction sched arbitrary: rs s)
  case (Cons j sched)
  obtain x s1 where x: "run_state (job j) s = (x, s1)" by (cases "run_state (job j) s")
  with Cons.prems(1) have run: "run_state (run_jobs job sched (rs[j := x])) s1 = (rs', s')" by simp
  from Cons.IH [OF run] Cons.prems(2) have ih: "length rs' = length rs"
    "\<And>i. i < length rs \<Longrightarrow> if i \<in> set sched then \<exists>s1 s2. run_state (job i) s1 = (rs' ! i, s2)
      else rs' ! i = rs[j := x] ! i" by auto
  have "if i \<in> set (j # sched) then \<exists>s1 s2. run_state (job i) s1 = (rs' ! i, s2) else rs' ! i = rs ! i"
    if "i < length rs" for i
  proof (cases "i = j")
    case True
    with ih(2) [OF that] Cons.prems(2) x that show ?thesis by auto
  next
    case False
    with ih(2) [OF that] show ?thesis by auto
  qed
  with ih(1) show ?case by blast
qed simp

definition permutes :: "(nat \<Rightarrow> nat list) \<Rightarrow> bool" where
  "permutes sched \<longleftrightarrow> (\<forall>n. distinct (sched n) \<and> set (sched n) = {..<n})"

text \<open>The row of a revision is made of the answer of the server about it, at whatever moment it was asked.\<close>

definition row_answered :: "('s, 'h) LoreClient \<Rightarrow> ('s \<Rightarrow> int) \<Rightarrow> lore_ctx \<Rightarrow> string \<Rightarrow> string \<Rightarrow> byte list \<Rightarrow>
    CommitRowView \<Rightarrow> bool" where
  "row_answered lc clock ctx owner repoName sig row \<longleftrightarrow> (\<exists>t x t'.
     run_state (lc_RevisionInfoBySignature lc ctx sig) t = (x, t') \<and>
     row = enrich_row (clock t') x (base_row owner repoName sig))"

lemma enrich_row_sig [simp]: "cw_HexSig (enrich_row now x row) = cw_HexSig row"
  by (simp add: enrich_row_def split: sum.split option.split)

lemma row_answered_sig: "row_answered lc clock ctx ow n sig row \<Longrightarrow> cw_HexSig row = hex_encode sig"
  by (auto simp: row_answered_def base_row_def Let_def)

lemma enrich_job_answered:
  "run_state (enrich_job lc clock ctx ow n sig) s = (row, s') \<Longrightarrow> row_answered lc clock ctx ow n sig row"
  by (cases "run_state (lc_RevisionInfoBySignature lc ctx sig) s")
    (auto simp: enrich_job_def row_answered_def intro!: exI)

lemma enrichRevisions_answered:
  assumes "run_state (enrichRevisions lc clock sched ctx ow n items) s = (rows, s')" and "permutes sched"
  shows "list_all2 (row_answered lc clock ctx ow n) items rows"
proof -
  note rs = run_jobs_results [OF assms(1) [unfolded enrichRevisions_def]]
  from assms(2) have d: "distinct (sched (length items))" "set (sched (length items)) = {..<length items}"
    by (simp_all add: permutes_def)
  from rs [OF d(1)] have len: "length rows = length items" by simp
  moreover have "row_answered lc clock ctx ow n (items ! i) (rows ! i)" if "i < length items" for i
    using rs [OF d(1)] d(2) that enrich_job_answered by fastforce
  ultimately show ?thesis by (simp add: list_all2_conv_all_nth)
qed

lemma rows_sigs: "list_all2 (row_answered lc clock ctx ow n) items rows \<Longrightarrow> map cw_HexSig rows = map hex_encode items"
  by (induction rule: list_all2_induct) (simp_all add: row_answered_sig)

definition shown_page :: "front_response \<Rightarrow> front_page option" where
  "shown_page resp = (case fp_body resp of Fragment p \<Rightarrow> Some p | Layout _ p _ _ _ \<Rightarrow> Some p | _ \<Rightarrow> None)"

lemma shown_page_simps [simp]:
  "shown_page (renderPageStatus r c t p) = Some p" "shown_page (renderPage r t p) = Some p"
  "shown_page (http_Error m c) = None" "shown_page http_NotFound = None" "shown_page (http_Redirect u) = None"
  "shown_page (bad_gateway m e) = None" "shown_page (forbidden_page r m e) = Some (ForbiddenPage m (forbiddenDetail e))"
  "shown_page (not_found_page r t m) = Some (NotFoundPage m)"
  by (simp_all add: shown_page_def renderPageStatus_def renderPage_def http_Error_def http_NotFound_def
      http_Redirect_def bad_gateway_def forbidden_page_def not_found_page_def)

lemma hex_encode_inj: "inj hex_encode"
  by (rule inj_on_inverseI [of _ "\<lambda>s. the (hex_decode s)"]) (simp add: hex_decode_encode)

lemma distinct_dedup: "distinct (dedupBySignature items)"
proof -
  have "distinct (dedup_loop seen items) \<and> set (dedup_loop seen items) \<inter> seen = {}" for seen
    by (induction seen items rule: dedup_loop.induct) auto
  then show ?thesis by (simp add: dedupBySignature_def)
qed

lemma dedup_Nil: "dedup_loop {} items = [] \<longleftrightarrow> items = []"
  by (cases items) simp_all

definition asked_cursor :: "front_request \<Rightarrow> byte list option \<Rightarrow> bool" where
  "asked_cursor r cursor \<longleftrightarrow> (if QueryGet r ''cursor'' = '''' then cursor = None
     else cursor \<noteq> None \<and> cursor = hex_decode (QueryGet r ''cursor''))"

lemma commits_list_run:
  assumes "run_state (commits_list lc clock sched r ctx b) s = (resp, s')"
    and "shown_page resp = Some (CommitListPage view)" and "permutes sched"
  shows "\<exists>cursor x s1. asked_cursor r cursor \<and> run_state (lc_ListRevisions lc ctx b cursor) s = (x, s1) \<and> (case x of
      Inl e \<Rightarrow> lore_status e = StNotFound \<and> cl_Groups view = [] \<and> cl_Empty view \<and> cl_NextURL view = '''' \<and> cl_PrevURL view = ''''
    | Inr (items, f, bw) \<Rightarrow> \<exists>rows. cl_Groups view = groupByDate rows \<and>
        list_all2 (row_answered lc clock ctx (URLParam r ''owner'') (URLParam r ''repo'')) (take 50 (dedupBySignature items)) rows \<and>
        (cl_Empty view \<longleftrightarrow> items = []) \<and>
        cl_NextURL view = (if f = [] then '''' else commitsURL (URLParam r ''owner'') (URLParam r ''repo'') (URLParam r ''branch'') f) \<and>
        cl_PrevURL view = (if bw = [] then '''' else commitsURL (URLParam r ''owner'') (URLParam r ''repo'') (URLParam r ''branch'') bw))"
proof -
  let ?ow = "URLParam r ''owner''" and ?n = "URLParam r ''repo''" and ?br = "URLParam r ''branch''"
  let ?c = "if QueryGet r ''cursor'' = '''' then Some None else map_option Some (hex_decode (QueryGet r ''cursor''))"
  from assms(1,2) obtain cursor where c: "?c = Some cursor"
    by (cases ?c) (auto simp: commits_list_def Let_def)
  then have asked: "asked_cursor r cursor" by (auto simp: asked_cursor_def split: if_splits)
  obtain x s1 where x: "run_state (lc_ListRevisions lc ctx b cursor) s = (x, s1)"
    by (cases "run_state (lc_ListRevisions lc ctx b cursor) s")
  show ?thesis
  proof (cases x)
    case (Inl e)
    with assms(1,2) c x have "lore_status e = StNotFound \<and> cl_Groups view = [] \<and> cl_Empty view \<and>
        cl_NextURL view = '''' \<and> cl_PrevURL view = ''''"
      by (auto simp: commits_list_def Let_def split: if_splits)
    with asked x Inl show ?thesis by auto
  next
    case (Inr p)
    obtain items f bw where p: "p = (items, f, bw)" by (cases p)
    let ?shown = "take 50 (dedupBySignature items)"
    obtain rows s2 where rows: "run_state (enrichRevisions lc clock sched ctx ?ow ?n ?shown) s1 = (rows, s2)"
      by (cases "run_state (enrichRevisions lc clock sched ctx ?ow ?n ?shown) s1")
    from enrichRevisions_answered [OF rows assms(3)]
    have ans: "list_all2 (row_answered lc clock ctx ?ow ?n) ?shown rows" .
    then have "rows = [] \<longleftrightarrow> items = []"
      by (auto simp: dedupBySignature_def dedup_Nil dest: list_all2_lengthD)
    moreover have "cl_Groups view = groupByDate rows \<and> cl_Empty view = (rows = []) \<and>
      cl_NextURL view = (if f = [] then '''' else commitsURL ?ow ?n ?br f) \<and>
      cl_PrevURL view = (if bw = [] then '''' else commitsURL ?ow ?n ?br bw)"
      using assms(1,2) c x Inr p rows by (auto simp: commits_list_def Let_def maxCommitRows_def)
    ultimately show ?thesis using x Inr p ans asked
      by (intro exI [of _ cursor] exI [of _ x] exI [of _ s1]) auto
  qed
qed

text \<open>C36: The history page shows every revision of the page once. A commit list is the answer of the server for the
  branch of the URL from the cursor of the URL on. When the server does not know that branch the list is empty and
  links nowhere. Otherwise, for any order in which the workers finish, its rows, over all its dates, are the
  signatures the server listed, in their order, each at its first occurrence, up to fifty, and each
  row is made of what the server answered about its own revision; the rows are cut into groups exactly where
  the date changes, every group under the date of its rows; the page says it is empty just when the server
  listed none, and links to the older and the newer page just when the server gave a cursor for it, by that cursor.\<close>

theorem commits_page_exact:
  assumes "run_state (Commits lc clock sched r) s = (resp, s')"
    and "shown_page resp = Some (CommitListPage view)" and "permutes sched"
  shows "\<exists>repo ctx s0 b s1 cursor x s2.
    repo_opened lc r (URLParam r ''repo'') s = Some (repo, ctx, s0) \<and>
    branch_opened lc ctx (URLParam r ''branch'') s0 = Some (b, s1) \<and> asked_cursor r cursor \<and>
    run_state (lc_ListRevisions lc ctx b cursor) s1 = (x, s2) \<and>
    (case x of
      Inl e \<Rightarrow> lore_status e = StNotFound \<and> cl_Groups view = [] \<and> cl_Empty view \<and>
        cl_NextURL view = '''' \<and> cl_PrevURL view = ''''
    | Inr (items, f, bw) \<Rightarrow>
        let groups = cl_Groups view; rows = concat (map cg_Rows groups);
          shown = take 50 (rev (remdups (rev items)));
          page = commitsURL (URLParam r ''owner'') (URLParam r ''repo'') (URLParam r ''branch'')
        in map cw_HexSig rows = map hex_encode shown \<and> distinct (map cw_HexSig rows) \<and>
          list_all2 (row_answered lc clock ctx (URLParam r ''owner'') (URLParam r ''repo'')) shown rows \<and>
          (\<forall>g\<in>set groups. cg_Rows g \<noteq> [] \<and> (\<forall>row\<in>set (cg_Rows g). row_date row = cg_Date g)) \<and>
          (\<forall>i. Suc i < length groups \<longrightarrow> cg_Date (groups ! i) \<noteq> cg_Date (groups ! Suc i)) \<and>
          (cl_Empty view \<longleftrightarrow> items = []) \<and>
          cl_NextURL view = (if f = [] then '''' else page f) \<and> cl_PrevURL view = (if bw = [] then '''' else page bw))"
proof -
  from assms(1,2) obtain repo ctx s0 where repo: "repo_opened lc r (URLParam r ''repo'') s = Some (repo, ctx, s0)" and
    "run_state (with_branch lc ctx (not_found_page r ''Branch not found'' (''branch: '' @ URLParam r ''branch''))
      (URLParam r ''branch'') (commits_list lc clock sched r ctx)) s0 = (resp, s')"
    by (auto simp: Commits_def Let_def dest!: with_repo_run)
  with assms(2) obtain b s1 where br: "branch_opened lc ctx (URLParam r ''branch'') s0 = Some (b, s1)"
    and list: "run_state (commits_list lc clock sched r ctx b) s1 = (resp, s')"
    by (auto dest!: with_branch_run)
  from commits_list_run [OF list assms(2,3)] obtain cursor x s2 where
    asked: "asked_cursor r cursor" "run_state (lc_ListRevisions lc ctx b cursor) s1 = (x, s2)" and
    out: "case x of
      Inl e \<Rightarrow> lore_status e = StNotFound \<and> cl_Groups view = [] \<and> cl_Empty view \<and> cl_NextURL view = '''' \<and> cl_PrevURL view = ''''
    | Inr (items, f, bw) \<Rightarrow> \<exists>rows. cl_Groups view = groupByDate rows \<and>
        list_all2 (row_answered lc clock ctx (URLParam r ''owner'') (URLParam r ''repo'')) (take 50 (dedupBySignature items)) rows \<and>
        (cl_Empty view \<longleftrightarrow> items = []) \<and>
        cl_NextURL view = (if f = [] then '''' else commitsURL (URLParam r ''owner'') (URLParam r ''repo'') (URLParam r ''branch'') f) \<and>
        cl_PrevURL view = (if bw = [] then '''' else commitsURL (URLParam r ''owner'') (URLParam r ''repo'') (URLParam r ''branch'') bw)"
    by blast
  show ?thesis
  proof (cases x)
    case (Inl e)
    show ?thesis
      by (intro exI conjI, rule repo, rule br, rule asked(1), rule asked(2)) (use out Inl in simp)
  next
    case (Inr p)
    obtain items f bw where p: "p = (items, f, bw)" by (cases p)
    from out Inr p obtain rows where rows: "cl_Groups view = groupByDate rows"
      "list_all2 (row_answered lc clock ctx (URLParam r ''owner'') (URLParam r ''repo'')) (take 50 (dedupBySignature items)) rows"
      "cl_Empty view \<longleftrightarrow> items = []"
      "cl_NextURL view = (if f = [] then '''' else commitsURL (URLParam r ''owner'') (URLParam r ''repo'') (URLParam r ''branch'') f)"
      "cl_PrevURL view = (if bw = [] then '''' else commitsURL (URLParam r ''owner'') (URLParam r ''repo'') (URLParam r ''branch'') bw)"
      by auto
    have d: "distinct (map cw_HexSig rows)"
      using inj_on_subset [OF hex_encode_inj subset_UNIV]
      by (simp add: rows_sigs [OF rows(2)] distinct_map distinct_dedup)
    show ?thesis
      by (intro exI conjI, rule repo, rule br, rule asked(1), rule asked(2))
        (use history_exact [of items rows] rows_sigs [OF rows(2)] rows Inr p d in
          \<open>simp add: Let_def groups_ok_def\<close>)
  qed
qed

theorem commits_page_exact_witness:
  "\<exists>view. shown_page (fst (run_state (Commits (lore_client_of demo_lore demo_rpc demo_dialled) (\<lambda>_. 0) (\<lambda>n. rev [0..<n])
      front_demo) \<lparr>lw_auth = lw_auth demo_world, lw_far = ()\<rparr>)) = Some (CommitListPage view) \<and>
    map cw_HexSig (concat (map cg_Rows (cl_Groups view))) = [''01'', ''02''] \<and>
    (\<forall>g\<in>set (cl_Groups view). \<forall>row\<in>set (cg_Rows g). row_date row = cg_Date g)"
proof -
  let ?m = "run_state (Commits (lore_client_of demo_lore demo_rpc demo_dialled) (\<lambda>_. 0) (\<lambda>n. rev [0..<n])
      front_demo) \<lparr>lw_auth = lw_auth demo_world, lw_far = ()\<rparr>"
  have p: "permutes (\<lambda>n. rev [0..<n])" by (auto simp: permutes_def)
  have "case shown_page (fst ?m) of
      Some (CommitListPage view) \<Rightarrow> map cw_HexSig (concat (map cg_Rows (cl_Groups view))) = [''01'', ''02'']
    | _ \<Rightarrow> False" by code_simp
  then obtain view where v: "shown_page (fst ?m) = Some (CommitListPage view)"
    "map cw_HexSig (concat (map cg_Rows (cl_Groups view))) = [''01'', ''02'']"
    by (auto split: option.splits front_page.splits)
  then have "cl_Groups view \<noteq> []" by auto
  with commits_page_exact [OF surjective_pairing v(1) p]
  have dates: "\<forall>g\<in>set (cl_Groups view). \<forall>row\<in>set (cg_Rows g). row_date row = cg_Date g"
  proof (elim exE conjE, goal_cases)
    case (1 repo ctx s0 b s1 cursor x s2)
    then show ?case by (cases x) (auto simp: Let_def)
  qed
  show ?thesis by (rule exI [of _ view]) (intro conjI v dates)
qed

section \<open>Properties of the lock page and of the diff\<close>

text \<open>C37: The release button of a lock row releases exactly that lock. Posting the branch, the hash and the
  description that the row of a lock carries, however the lock was rendered, either redirects with an
  error or has asked the server to unlock precisely the resource of the lock, in the repository of the
  URL, in one call, which the server accepted as the last thing the handler did.\<close>

theorem lock_row_releases:
  assumes "lk_Resource l = Some rs"
    and "FormValue r ''branch'' = lw_Branch (lock_row now l)"
    and "FormValue r ''hash'' = lw_Hash (lock_row now l)"
    and "FormValue r ''description'' = lw_Description (lock_row now l)"
    and "run_state (ReleaseLock lc r) s = (resp, s')"
  shows "(\<exists>e. resp = http_Redirect (locks_url r @ ''?err='' @ e)) \<or>
    (resp = http_Redirect (locks_url r) \<and>
     (\<exists>token repo s1.
       repo_opened lc r (URLParam r ''repo'') s = Some (repo, WithLoreCall token (toID (rp_Id repo)), s1) \<and>
       run_state (lc_Unlock lc token (toID (rp_Id repo)) [rs]) s1 = (None, s')))"
proof -
  have row: "hex_decode (FormValue r ''branch'') = Some (lr_Branch rs)"
    "hex_decode (FormValue r ''hash'') = Some (lr_Hash rs)" "FormValue r ''description'' = lr_Description rs"
    using assms(1-4) by (simp_all add: lock_row_def Let_def)
  have same: "\<lparr>lr_Branch = lr_Branch rs, lr_Hash = lr_Hash rs, lr_Description = lr_Description rs\<rparr> = rs" by simp
  obtain b s1 where b: "run_state (baseCtx lc r) s = (b, s1)" by (cases "run_state (baseCtx lc r) s")
  show ?thesis
  proof (cases "fq_form_ok r \<and> (\<exists>base. b = Inr base)")
    case False
    with assms(5) row b show ?thesis
      by (cases b) (auto simp: ReleaseLock_def lock_error_def split: if_splits)
  next
    case True
    then obtain base where base: "b = Inr base" by blast
    obtain x s2 where x: "run_state (lc_GetRepositoryByName lc base (URLParam r ''repo'')) s1 = (x, s2)"
      by (cases "run_state (lc_GetRepositoryByName lc base (URLParam r ''repo'')) s1")
    obtain t s3 where t: "run_state (lc_ResourceAuthzToken lc (identityToken r) WildcardResource) s2 = (t, s3)"
      by (cases "run_state (lc_ResourceAuthzToken lc (identityToken r) WildcardResource) s2")
    show ?thesis
    proof (cases "(\<exists>e. x = Inl e) \<or> (\<exists>e. t = Inl e)")
      case err: True
      with True assms(5) row b base x t show ?thesis
        by (cases x; cases t) (auto simp: ReleaseLock_def lock_error_def)
    next
      case False
      then obtain rp token where rt: "x = Inr rp" "t = Inr token" by (metis sum.exhaust)
      obtain u s4 where u: "run_state (lc_Unlock lc token (toID (rp_Id (repo_of rp))) [rs]) s3 = (u, s4)"
        by (cases "run_state (lc_Unlock lc token (toID (rp_Id (repo_of rp))) [rs]) s3")
      have "(resp, s') = ((case u of Some e \<Rightarrow> lock_error r (lore_text e)
          | None \<Rightarrow> http_Redirect (locks_url r)), s4)"
        using True assms(5) row b base x t rt u by (auto simp: ReleaseLock_def same)
      then have out: "resp = (case u of Some e \<Rightarrow> lock_error r (lore_text e) | None \<Rightarrow> http_Redirect (locks_url r))"
        "s' = s4" by simp_all
      have opened: "repo_opened lc r (URLParam r ''repo'') s =
          Some (repo_of rp, WithLoreCall token (toID (rp_Id (repo_of rp))), s3)"
        using b base x t rt by (simp add: repo_opened_def repoCtx_def bearer_def)
      show ?thesis
      proof (cases u)
        case None
        with u out opened show ?thesis
          by (intro disjI2 conjI exI [of _ token] exI [of _ "repo_of rp"] exI [of _ s3]) simp_all
      qed (auto simp: out lock_error_def)
    qed
  qed
qed

definition demo_lock :: lore_lock where
  "demo_lock = \<lparr>lk_Resource = Some \<lparr>lr_Branch = [1, 255], lr_Hash = [171], lr_Description = ''a b.txt''\<rparr>,
     lk_Owner = ''ann'', lk_LockedAt = 0\<rparr>"

definition demo_release :: front_request where
  "demo_release = front_demo\<lparr>fq_post :=
     [(''branch'', ''01ff''), (''hash'', ''ab''), (''description'', ''a b.txt'')]\<rparr>"

theorem lock_row_releases_witness:
  "\<exists>resp. fst (run_state (ReleaseLock (lore_client_of demo_lore demo_rpc demo_dialled) demo_release)
      \<lparr>lw_auth = lw_auth demo_world, lw_far = ()\<rparr>) = resp \<and> resp = http_Redirect (locks_url demo_release) \<and>
    (\<exists>token (repo :: repository) s1 s'. run_state (lc_Unlock (lore_client_of demo_lore demo_rpc demo_dialled) token
      (toID (rp_Id repo)) [\<lparr>lr_Branch = [1, 255], lr_Hash = [171], lr_Description = ''a b.txt''\<rparr>]) s1 = (None, s'))"
proof -
  let ?m = "run_state (ReleaseLock (lore_client_of demo_lore demo_rpc demo_dialled) demo_release)
      \<lparr>lw_auth = lw_auth demo_world, lw_far = ()\<rparr>"
  have l: "lk_Resource demo_lock = Some \<lparr>lr_Branch = [1, 255], lr_Hash = [171], lr_Description = ''a b.txt''\<rparr>"
    by (simp add: demo_lock_def)
  have "FormValue demo_release ''branch'' = lw_Branch (lock_row 0 demo_lock)"
    "FormValue demo_release ''hash'' = lw_Hash (lock_row 0 demo_lock)"
    "FormValue demo_release ''description'' = lw_Description (lock_row 0 demo_lock)" by code_simp+
  from lock_row_releases [OF l this surjective_pairing, where lc = "lore_client_of demo_lore demo_rpc demo_dialled"
      and s = "\<lparr>lw_auth = lw_auth demo_world, lw_far = ()\<rparr>"]
  have "(\<exists>e. fst ?m = http_Redirect (locks_url demo_release @ ''?err='' @ e)) \<or>
    fst ?m = http_Redirect (locks_url demo_release) \<and>
    (\<exists>token (repo :: repository) s1. run_state (lc_Unlock (lore_client_of demo_lore demo_rpc demo_dialled) token
      (toID (rp_Id repo)) [\<lparr>lr_Branch = [1, 255], lr_Hash = [171], lr_Description = ''a b.txt''\<rparr>]) s1 =
      (None, snd ?m))" by blast
  moreover have "fp_headers (fst ?m) = [(''Location'', ''/-/demo/locks/branch/main'')]" by code_simp
  moreover have "locks_url demo_release = ''/-/demo/locks/branch/main''" by code_simp
  ultimately show ?thesis by (auto simp: http_Redirect_def)
qed

text \<open>A result belongs to its change: it is not empty, its files carry the marks of the action, and its counts are
  those of its files.\<close>

definition result_ok :: "nat \<Rightarrow> diff_change \<Rightarrow> commitDiffResult \<Rightarrow> bool" where
  "result_ok i c x \<longleftrightarrow> cd_index x = i \<and> cd_files x \<noteq> [] \<and>
    (\<forall>f\<in>set (cd_files x). git_IsNew f = (dc_Action c = ActAdd) \<and> git_IsDelete f = (dc_Action c = ActDelete)) \<and>
    cd_added x = sum_added (cd_files x) \<and> cd_deleted x = sum_deleted (cd_files x)"

lemma sums_append [simp]:
  "sum_added (fs @ gs) = sum_added fs + sum_added gs" "sum_deleted (fs @ gs) = sum_deleted fs + sum_deleted gs"
  by (simp_all add: sum_added_def sum_deleted_def)

lemma sums_concat:
  "\<forall>x\<in>set rs. cd_added x = sum_added (cd_files x) \<Longrightarrow> sum_list (map cd_added rs) = sum_added (concat (map cd_files rs))"
  "\<forall>x\<in>set rs. cd_deleted x = sum_deleted (cd_files x) \<Longrightarrow> sum_list (map cd_deleted rs) = sum_deleted (concat (map cd_files rs))"
  by (induction rs) (simp_all, simp_all add: sum_added_def sum_deleted_def)

lemma stamp_simps [simp]:
  "git_IsNew (stampAction a f) = (a = ActAdd)" "git_IsDelete (stampAction a f) = (a = ActDelete)"
  "git_Fragments (stampAction a f) = git_Fragments f"
  by (simp_all add: stampAction_def)

lemma list_only_ok:
  "git_Fragments f = [] \<Longrightarrow> git_IsNew f = (dc_Action c = ActAdd) \<Longrightarrow> git_IsDelete f = (dc_Action c = ActDelete) \<Longrightarrow>
    result_ok i c (list_only i f)"
  by (simp add: result_ok_def list_only_def sum_added_def sum_deleted_def)

lemma synthetic_ok: "result_ok i c (list_only i (synthetic c))"
  by (rule list_only_ok) (simp_all add: synthetic_def new_git_file_def)

lemma diff_result_ok: "result_ok i c (diff_result rn i c ta fa t f)"
proof -
  have marked: "result_ok i c (list_only i (stampAction (dc_Action c) ((new_git_file p)\<lparr>git_IsBinary := True\<rparr>)))" for p
    by (rule list_only_ok) (simp_all add: new_git_file_def)
  have parsed: "result_ok i c \<lparr>cd_index = i, cd_files = map (\<lambda>f. stampAction (dc_Action c)
      (if git_NewName f = '''' \<and> git_OldName f = '''' then f\<lparr>git_NewName := p\<rparr> else f)) (g # gs),
      cd_added = sum_added (g # gs), cd_deleted = sum_deleted (g # gs)\<rparr>" for p g gs
  proof -
    have "map git_Fragments (map (\<lambda>f. stampAction (dc_Action c)
        (if git_NewName f = '''' \<and> git_OldName f = '''' then f\<lparr>git_NewName := p\<rparr> else f)) fs) = map git_Fragments fs" for fs
      by (simp add: comp_def)
    from this [of "g # gs"] show ?thesis
      unfolding result_ok_def sum_added_def sum_deleted_def by (simp only: commitDiffResult.simps) auto
  qed
  show ?thesis
    unfolding diff_result_def Let_def
    by (auto simp only: marked parsed synthetic_ok split: prod.split option.split list.split if_split)
qed

lemma resolveFileDiff_ok:
  "run_state (resolveFileDiff lc rn ctx i c j a b) s = (x, s') \<Longrightarrow> result_ok i c x"
  by (auto simp: resolveFileDiff_def Let_def diff_result_ok)

lemma sort_key_indexed: "(\<And>i. i < length xs \<Longrightarrow> cd_index (xs ! i) = i) \<Longrightarrow> sort_key cd_index xs = xs"
  by (rule sort_key_id_if_sorted) (simp add: sorted_iff_nth_mono_less)

text \<open>The page behind the prologue, and the view it ends with.\<close>

definition commit_view :: "front_request \<Rightarrow> repository \<Rightarrow> revision \<Rightarrow> (string \<Rightarrow> string) \<Rightarrow> git_file list \<Rightarrow> u64 \<Rightarrow> u64 \<Rightarrow>
    CommitView" where
  "commit_view r repo rv esc files added deleted =
    (buildCommitView (URLParam r ''owner'') (URLParam r ''repo'') (URLParam r ''sig'') rv)
      \<lparr>cv_BranchName := rp_DefaultBranchName repo, cv_RootCommit := (parent_signature (rev_ParentSelf rv) = []),
       cv_FilesChanged := length files, cv_Files := buildCommitFiles files,
       cv_Diff := (if files = [] then None else Some (Diff esc files)),
       cv_Added := added, cv_Deleted := deleted\<rparr>"

definition commit_body :: "('s, 'h) LoreClient \<Rightarrow> renderers \<Rightarrow> (string \<Rightarrow> string) \<Rightarrow> (nat \<Rightarrow> nat list) \<Rightarrow> front_request \<Rightarrow>
    byte list \<Rightarrow> repository \<Rightarrow> byte list \<Rightarrow> lore_ctx \<Rightarrow> 's page_handler" where
  "commit_body lc rn esc sched r sig repo repoID ctx = do {
     x \<leftarrow> lc_RevisionInfoBySignature lc ctx sig;
     case x of
       Inl e \<Rightarrow> State_Monad.return (if lore_status e = StNotFound
         then not_found_page r ''Commit not found'' (''commit: '' @ URLParam r ''sig'')
         else bad_gateway ''failed to load commit'' e)
     | Inr rvp \<Rightarrow> do {
         let rv = revision_of rvp;
         let parentSig = parent_signature (rev_ParentSelf rv);
         let view = (buildCommitView (URLParam r ''owner'') (URLParam r ''repo'') (URLParam r ''sig'') rv)
           \<lparr>cv_BranchName := rp_DefaultBranchName repo, cv_RootCommit := (length parentSig = 0)\<rparr>;
         (_, entries, derr) \<leftarrow> lc_RevisionDiff lc ctx parentSig sig;
         case derr of
           Some _ \<Rightarrow> State_Monad.return (renderPage r (site_title (cv_ShortSig view)) (CommitPage view))
         | None \<Rightarrow> do {
             (files, added, deleted) \<leftarrow> buildCommitDiff lc rn sched ctx (file_changes entries) repoID
               (rev_Identifier rv) (parent_identifier (rev_ParentSelf rv));
             State_Monad.return (renderPage r (site_title (cv_ShortSig view)) (CommitPage
               (view\<lparr>cv_FilesChanged := length files, cv_Added := added, cv_Deleted := deleted,
                 cv_Files := buildCommitFiles files,
                 cv_Diff := (if length files > 0 then Some (Diff esc files) else None)\<rparr>))) } } }"

lemma Commit_body: "Commit lc rn esc sched r = (case hex_decode (URLParam r ''sig'') of
    None \<Rightarrow> State_Monad.return (http_Error ''invalid commit signature'' 400)
  | Some sig \<Rightarrow> if length sig = 0 then State_Monad.return (http_Error ''invalid commit signature'' 400)
      else with_repo lc r (forbidden_page r (URLParam r ''repo''))
        (not_found_page r ''Not found'' (URLParam r ''repo'')) (URLParam r ''repo'') (commit_body lc rn esc sched r sig))"
  unfolding Commit_def commit_body_def Let_def by (rule refl)

lemma commit_body_run:
  assumes "run_state (commit_body lc rn esc sched r sig repo repoID ctx) s0 = (resp, s')"
    and "shown_page resp = Some (CommitPage view)"
  shows "\<exists>rvp s1 h entries derr s2 files added deleted.
    run_state (lc_RevisionInfoBySignature lc ctx sig) s0 = (Inr rvp, s1) \<and>
    run_state (lc_RevisionDiff lc ctx (parent_signature (rev_ParentSelf (revision_of rvp))) sig) s1 =
      ((h, entries, derr), s2) \<and>
    (if derr = None then run_state (buildCommitDiff lc rn sched ctx (file_changes entries) repoID
        (rev_Identifier (revision_of rvp)) (parent_identifier (rev_ParentSelf (revision_of rvp)))) s2 = ((files, added, deleted), s')
      else files = [] \<and> added = 0 \<and> deleted = 0) \<and>
    view = commit_view r repo (revision_of rvp) esc files added deleted"
proof -
  obtain x s1 where x: "run_state (lc_RevisionInfoBySignature lc ctx sig) s0 = (x, s1)"
    by (cases "run_state (lc_RevisionInfoBySignature lc ctx sig) s0")
  with assms obtain rvp where rvp: "x = Inr rvp" by (cases x) (auto simp: commit_body_def split: if_splits)
  let ?rv = "revision_of rvp"
  obtain h entries derr s2 where d: "run_state (lc_RevisionDiff lc ctx (parent_signature (rev_ParentSelf ?rv)) sig) s1 =
      ((h, entries, derr), s2)"
    by (metis prod.collapse)
  show ?thesis
  proof (cases derr)
    case (Some e)
    with assms x rvp d have "view = commit_view r repo ?rv esc [] 0 0"
      by (auto simp: commit_body_def Let_def commit_view_def buildCommitView_def buildCommitFiles_def split: prod.splits)
    with Some x rvp d show ?thesis by auto
  next
    case None
    obtain files added deleted s3 where b: "run_state (buildCommitDiff lc rn sched ctx (file_changes entries) repoID
        (rev_Identifier ?rv) (parent_identifier (rev_ParentSelf ?rv))) s2 = ((files, added, deleted), s3)"
      by (metis prod.collapse)
    with None assms x rvp d have "view = commit_view r repo ?rv esc files added deleted \<and> s3 = s'"
      by (auto simp: commit_body_def Let_def commit_view_def split: prod.splits)
    with None x rvp d b show ?thesis by auto
  qed
qed

lemma buildCommitDiff_run:
  assumes "run_state (buildCommitDiff lc rn sched ctx changes repoID toIdent fromIdent) s = ((files, added, deleted), s')"
    and "permutes sched"
  shows "\<exists>results. length results = length changes \<and> files = concat (map cd_files results) \<and>
      added = sum_added files \<and> deleted = sum_deleted files \<and>
      (\<forall>i<length changes. result_ok i (changes ! i) (results ! i) \<and>
        (if i < 200
         then \<exists>t t'. run_state (resolveFileDiff lc rn ctx i (changes ! i) repoID toIdent fromIdent) t = (results ! i, t')
         else cd_files (results ! i) = [synthetic (changes ! i)]))"
proof -
  let ?job = "\<lambda>i. resolveFileDiff lc rn ctx i (changes ! i) repoID toIdent fromIdent"
  let ?n = "min (length changes) maxInlineDiffFiles"
  obtain rs s1 where run: "run_state (run_jobs ?job (sched ?n) (first_results changes)) s = (rs, s1)"
    by (cases "run_state (run_jobs ?job (sched ?n) (first_results changes)) s")
  from assms(2) have d: "distinct (sched ?n)" "set (sched ?n) = {..<?n}" by (simp_all add: permutes_def)
  have len0: "length (first_results changes) = length changes" by (simp add: first_results_def)
  note results = run_jobs_results [OF run d(1), unfolded d(2) len0]
  have each: "result_ok i (changes ! i) (rs ! i) \<and>
      (if i < 200 then \<exists>t t'. run_state (?job i) t = (rs ! i, t') else cd_files (rs ! i) = [synthetic (changes ! i)])"
    if i: "i < length changes" for i
  proof (cases "i < 200")
    case True
    with results [THEN conjunct2, rule_format, OF i] i obtain t1 t2 where "run_state (?job i) t1 = (rs ! i, t2)"
      by (auto simp: maxInlineDiffFiles_def)
    with True resolveFileDiff_ok [OF this] show ?thesis by auto
  next
    case False
    with results [THEN conjunct2, rule_format, OF i] i have "rs ! i = list_only i (synthetic (changes ! i))"
      by (auto simp: first_results_def maxInlineDiffFiles_def nth_enumerate_eq)
    with False synthetic_ok show ?thesis by (simp add: list_only_def)
  qed
  have len: "length rs = length changes" using results by simp
  with each have sorted: "sort_key cd_index rs = rs" by (intro sort_key_indexed) (simp add: result_ok_def)
  have all: "\<forall>x\<in>set rs. cd_added x = sum_added (cd_files x)" "\<forall>x\<in>set rs. cd_deleted x = sum_deleted (cd_files x)"
    using each len by (auto simp: in_set_conv_nth result_ok_def)
  have "files = concat (map cd_files rs)" "added = sum_added files" "deleted = sum_deleted files"
    using assms(1) run sums_concat(1) [OF all(1)] sums_concat(2) [OF all(2)]
    by (auto simp: buildCommitDiff_def flatten_results_def sorted Let_def)
  with len each show ?thesis by blast
qed

text \<open>C35: A commit page loses no change and mixes none up. A commit page is made of what the server answered about the
  revision of the URL and about its diff to its first parent, in the repository of the URL. For any order in which
  the workers finish, its files are, in the order of the changes (directories, conflicts and kept files
  left out), the files of each change, at least one for every change, marked as new or deleted just as the
  change says: the first 200 as their own jobs resolved them, those beyond as a bare entry made
  without a call to the server. The page lists and renders exactly these files, and its totals are the sums of their
  added and deleted lines. When the diff fails the page has the header and no file.\<close>

theorem commit_diff_complete:
  assumes "run_state (Commit lc rn esc sched r) s = (resp, s')"
    and "shown_page resp = Some (CommitPage view)" and "permutes sched"
  shows "\<exists>sig repo ctx s0 rvp s1 h entries derr s2 results.
    hex_decode (URLParam r ''sig'') = Some sig \<and> sig \<noteq> [] \<and>
    repo_opened lc r (URLParam r ''repo'') s = Some (repo, ctx, s0) \<and>
    run_state (lc_RevisionInfoBySignature lc ctx sig) s0 = (Inr rvp, s1) \<and>
    (let rv = revision_of rvp; parent = parent_signature (rev_ParentSelf rv);
       changes = (if derr = None then file_changes entries else []);
       files = concat (map cd_files results)
     in run_state (lc_RevisionDiff lc ctx parent sig) s1 = ((h, entries, derr), s2) \<and>
       length results = length changes \<and>
       (\<forall>i<length changes. let c = changes ! i; fs = cd_files (results ! i) in
         fs \<noteq> [] \<and>
         (\<forall>f\<in>set fs. git_IsNew f = (dc_Action c = ActAdd) \<and> git_IsDelete f = (dc_Action c = ActDelete)) \<and>
         (if i < 200
          then \<exists>t t'. run_state (resolveFileDiff lc rn ctx i c (toID (rp_Id repo)) (rev_Identifier rv)
            (parent_identifier (rev_ParentSelf rv))) t = (results ! i, t')
          else fs = [synthetic c])) \<and>
       view = (buildCommitView (URLParam r ''owner'') (URLParam r ''repo'') (URLParam r ''sig'') rv)
         \<lparr>cv_BranchName := rp_DefaultBranchName repo, cv_RootCommit := (parent = []),
          cv_FilesChanged := length files, cv_Files := buildCommitFiles files,
          cv_Diff := (if files = [] then None else Some (Diff esc files)),
          cv_Added := sum_added files, cv_Deleted := sum_deleted files\<rparr>)"
proof -
  from assms(1,2) obtain sig repo ctx s0 where sig: "hex_decode (URLParam r ''sig'') = Some sig" "sig \<noteq> []"
    and repo: "repo_opened lc r (URLParam r ''repo'') s = Some (repo, ctx, s0)"
    and run: "run_state (commit_body lc rn esc sched r sig repo (toID (rp_Id repo)) ctx) s0 = (resp, s')"
    by (auto simp: Commit_body dest!: with_repo_run split: option.splits if_splits)
  from commit_body_run [OF run assms(2)] obtain rvp s1 h entries derr s2 files added deleted where
    info: "run_state (lc_RevisionInfoBySignature lc ctx sig) s0 = (Inr rvp, s1)" and
    diff: "run_state (lc_RevisionDiff lc ctx (parent_signature (rev_ParentSelf (revision_of rvp))) sig) s1 =
      ((h, entries, derr), s2)" and
    built: "if derr = None then run_state (buildCommitDiff lc rn sched ctx (file_changes entries) (toID (rp_Id repo))
        (rev_Identifier (revision_of rvp)) (parent_identifier (rev_ParentSelf (revision_of rvp)))) s2 = ((files, added, deleted), s')
      else files = [] \<and> added = 0 \<and> deleted = 0" and
    view: "view = commit_view r repo (revision_of rvp) esc files added deleted"
    by blast
  let ?changes = "if derr = None then file_changes entries else []"
  obtain results where res: "length results = length ?changes" "files = concat (map cd_files results)"
    "added = sum_added files" "deleted = sum_deleted files"
    "\<forall>i<length ?changes. result_ok i (?changes ! i) (results ! i) \<and> (if i < 200
       then \<exists>t t'. run_state (resolveFileDiff lc rn ctx i (?changes ! i) (toID (rp_Id repo))
         (rev_Identifier (revision_of rvp)) (parent_identifier (rev_ParentSelf (revision_of rvp)))) t = (results ! i, t')
       else cd_files (results ! i) = [synthetic (?changes ! i)])"
  proof (cases derr)
    case None
    with built that show ?thesis by (auto dest!: buildCommitDiff_run [OF _ assms(3)])
  next
    case (Some e)
    with built that [of "[]"] show ?thesis by (simp add: sum_added_def sum_deleted_def)
  qed
  show ?thesis
    unfolding Let_def
    by (intro exI conjI, rule sig(1), rule sig(2), rule repo, rule info, rule diff, rule res(1))
      (use res(5) in \<open>unfold result_ok_def, blast\<close>, simp only: view commit_view_def res(2-4))
qed

definition demo_change :: diff_change where
  "demo_change = \<lparr>dc_Path = ''a.txt'', dc_PathFrom = '''', dc_Action = ActAdd, dc_NodeType = NodeFile,
     dc_ContentFrom = [], dc_ContentTo = [1]\<rparr>"

definition demo_commit_rpc :: "(unit, unit) lore_rpc" where
  "demo_commit_rpc = demo_rpc\<lparr>rpc_RevisionDiff := \<lambda>_ _ _. State_Monad.return (Inr
     ([DiffChangeMsg demo_change, DiffConflictMsg, DiffChangeMsg demo_change], None))\<rparr>"

definition demo_commit :: front_request where
  "demo_commit = front_demo\<lparr>fq_params := [(''owner'', ''-''), (''repo'', ''demo''), (''sig'', ''0a'')]\<rparr>"

lemma with_repo_opened:
  "repo_opened lc r name s = Some (repo, ctx, s1) \<Longrightarrow>
    run_state (with_repo lc r forbidden missing name k) s = run_state (k repo (toID (rp_Id repo)) ctx) s1"
  by (auto simp: repo_opened_def with_repo_def Let_def split: prod.splits sum.splits)

lemma demo_commit_calls:
  "run_state (lc_RevisionInfoBySignature (lore_client_of demo_lore demo_commit_rpc demo_dialled) ctx sig) w = (Inr None, w)"
  "run_state (lc_RevisionDiff (lore_client_of demo_lore demo_commit_rpc demo_dialled) ctx a b) w =
    ((None, [Some demo_change, None, Some demo_change], None), w)"
  by (simp_all add: lore_client_of_def on_far_def RevisionInfoBySignature_def revisionInfo_def RevisionDiff_def demo_commit_rpc_def
      demo_rpc_def drainRevisionDiff_def)

lemma demo_commit_opened:
  "\<exists>repo ctx w'. repo_opened (lore_client_of demo_lore demo_commit_rpc demo_dialled) demo_commit ''demo''
    \<lparr>lw_auth = lw_auth demo_world, lw_far = ()\<rparr> = Some (repo, ctx, w')"
proof -
  have "repo_opened (lore_client_of demo_lore demo_commit_rpc demo_dialled) demo_commit ''demo''
    \<lparr>lw_auth = lw_auth demo_world, lw_far = ()\<rparr> \<noteq> None" by code_simp
  then show ?thesis by auto
qed

theorem commit_diff_complete_witness:
  "\<exists>view files. shown_page (fst (run_state (Commit (lore_client_of demo_lore demo_commit_rpc demo_dialled)
      (pe_renderers (demo_pages :: unit page_env)) html_EscapeString (\<lambda>n. rev [0..<n]) demo_commit)
      \<lparr>lw_auth = lw_auth demo_world, lw_far = ()\<rparr>)) = Some (CommitPage view) \<and>
    2 \<le> length files \<and> cv_Files view = buildCommitFiles files \<and> cv_Added view = sum_added files"
proof -
  let ?lc = "lore_client_of demo_lore demo_commit_rpc demo_dialled" and ?rn = "pe_renderers (demo_pages :: unit page_env)"
  let ?w = "\<lparr>lw_auth = lw_auth demo_world, lw_far = ()\<rparr>" and ?sched = "\<lambda>n::nat. rev [0..<n]"
  let ?m = "run_state (Commit ?lc ?rn html_EscapeString ?sched demo_commit) ?w"
  have p: "permutes ?sched" by (auto simp: permutes_def)
  have url: "hex_decode (URLParam demo_commit ''sig'') = Some [10]" "URLParam demo_commit ''repo'' = ''demo''"
    by code_simp+
  obtain repo ctx w' where o: "repo_opened ?lc demo_commit ''demo'' ?w = Some (repo, ctx, w')"
    using demo_commit_opened by blast
  obtain files added deleted w2 where "run_state (buildCommitDiff ?lc ?rn ?sched ctx
      (file_changes [Some demo_change, None, Some demo_change]) (toID (rp_Id repo)) None None) w' = ((files, added, deleted), w2)"
    by (metis prod.collapse)
  then have "\<exists>view. shown_page (fst ?m) = Some (CommitPage view)"
    by (simp add: Commit_body url with_repo_opened [OF o] commit_body_def demo_commit_calls Let_def
        revision_of_def parent_identifier_def)
  then obtain view where v: "shown_page (fst ?m) = Some (CommitPage view)" ..
  have two: "length (file_changes [Some demo_change, None, Some demo_change]) = 2"
    by (simp add: file_changes_def map_filter_simps demo_change_def)
  have "\<exists>results :: commitDiffResult list. cv_Files view = buildCommitFiles (concat (map cd_files results)) \<and>
    cv_Added view = sum_added (concat (map cd_files results)) \<and>
    length results = (2::nat) \<and> (\<forall>i<2. cd_files (results ! i) \<noteq> [])"
    using commit_diff_complete [OF surjective_pairing v p]
    by (auto simp: Let_def demo_commit_calls two)
  then obtain results :: "commitDiffResult list" where view: "cv_Files view = buildCommitFiles (concat (map cd_files results))"
      "cv_Added view = sum_added (concat (map cd_files results))" and
    r: "length results = (2::nat)" "\<forall>i<2. cd_files (results ! i) \<noteq> []"
    by blast
  from r(1) obtain x y where "results = [x, y]" by (auto simp: numeral_2_eq_2 length_Suc_conv)
  with r(2) have "2 \<le> length (concat (map cd_files results))"
    by (cases "cd_files x"; cases "cd_files y") (auto simp: numeral_2_eq_2 less_Suc_eq)
  with v view show ?thesis by blast
qed

end
