(* ===== verification/Front_Laws.thy ===== *)
theory Front_Laws
  imports Front_App Page_Laws
begin

text \<open>
  What holds of every request to the web client: the guards of its routes, the tokens that leave with its
  calls, and the refusal of forged posts.
\<close>

section \<open>The guards\<close>

definition logged_in :: "'x scs \<Rightarrow> 'x \<Rightarrow> int \<Rightarrow> bool" where
  "logged_in m x now \<longleftrightarrow> GetString m x sessionKeyUserSub \<noteq> '''' \<and>
     (GetInt64 m x sessionKeyTokenExpiry = 0 \<or> now \<le> GetInt64 m x sessionKeyTokenExpiry)"

definition allowed :: "'x scs \<Rightarrow> 'x \<Rightarrow> int \<Rightarrow> front_route \<Rightarrow> bool" where
  "allowed m x now route = (case route of
      AdminRoute _ \<Rightarrow> logged_in m x now \<and> GetBool m x sessionKeyIsAdmin
    | BrowseRoute _ \<Rightarrow> logged_in m x now
    | AccountRoute _ \<Rightarrow> logged_in m x now
    | _ \<Rightarrow> True)"

lemma RequireAuth_in:
  "logged_in m (fw_session w) now \<Longrightarrow> run_state (RequireAuth m now nxt r) w =
    run_state (nxt (r\<lparr>fq_identity := Some (session_identity m (fw_session w))\<rparr>)) w"
  by (auto simp: RequireAuth_def logged_in_def Let_def)

lemma RequireAuth_out:
  "\<not> logged_in m (fw_session w) now \<Longrightarrow>
    \<exists>x'. run_state (RequireAuth m now nxt r) w = (http_Redirect ''/auth/login'', w\<lparr>fw_session := x'\<rparr>)"
  by (auto simp: RequireAuth_def logged_in_def Let_def intro: exI [of _ "fw_session w"])

lemma secured_simps [simp]: "fp_status (secured x) = fp_status x" "fp_body (secured x) = fp_body x"
  by (simp_all add: secured_def)

lemma secured_redirect: "map_of (fp_headers (secured (http_Redirect u))) ''Location'' = Some u"
  by (simp add: secured_def http_Redirect_def update_conv')

lemma dispatch_denied:
  assumes "\<not> allowed (ap_sessions a) (fw_session w) (now div nsec) route"
  shows "\<exists>x'. run_state (dispatch a now q route r) w =
    (if logged_in (ap_sessions a) (fw_session w) (now div nsec) then http_Error ''forbidden'' 403
     else http_Redirect ''/auth/login'', w\<lparr>fw_session := x'\<rparr>)"
proof (cases "logged_in (ap_sessions a) (fw_session w) (now div nsec)")
  case True
  with assms obtain ar where "route = AdminRoute ar" "\<not> GetBool (ap_sessions a) (fw_session w) sessionKeyIsAdmin"
    by (cases route) (auto simp: allowed_def)
  with True show ?thesis
    by (auto simp: RequireAuth_in RequireAdmin_def intro: exI [of _ "fw_session w"])
next
  case False
  with assms RequireAuth_out [OF False] show ?thesis
    by (cases route) (simp_all add: allowed_def)
qed

text \<open>C31: Nobody gets past the guards. A request to a browse or account page without a session that is logged
  in and not expired, and a request to a management page without one that is an administrator's as
  well, reaches neither the auth service nor the Lore server: it is sent to the login page or refused,
  and at most its own session is cleared.\<close>

theorem front_guarded:
  assumes "run_state (serve_front a now q route r) w = (resp, w')"
    and "\<not> allowed (ap_sessions a) (fw_session w) (now div nsec) route"
  shows "fw_mgmt w' = fw_mgmt w \<and> fw_lore w' = fw_lore w \<and> fw_throttle w' = fw_throttle w \<and>
    (map_of (fp_headers resp) ''Location'' = Some ''/auth/login'' \<and> fp_status resp = 303 \<or>
     fp_status resp \<in> {403, 404})"
proof -
  obtain x' where "run_state (dispatch a now q route (r\<lparr>fq_identity := None\<rparr>)) w =
    (if logged_in (ap_sessions a) (fw_session w) (now div nsec) then http_Error ''forbidden'' 403
     else http_Redirect ''/auth/login'', w\<lparr>fw_session := x'\<rparr>)"
    using dispatch_denied [OF assms(2)] by blast
  with assms(1) show ?thesis
    by (auto simp: serve_front_def plain_text_def secured_redirect split: if_splits)
qed

text \<open>A session manager on maps, and a small program, for the witnesses.\<close>

definition demo_scs :: "(string \<Rightarrow> scs_value option) scs" where
  "demo_scs = \<lparr>scs_get = \<lambda>x. x, scs_put = \<lambda>k v x. x(k \<mapsto> v), scs_renew = \<lambda>x. (True, x),
     scs_destroy = \<lambda>x. (True, Map.empty)\<rparr>"

lemma demo_scs_ok: "scs_ok demo_scs"
  by (simp add: scs_ok_def demo_scs_def)

definition demo_app :: "'m transport \<Rightarrow> mgmt_client \<Rightarrow> ('s, 'h) LoreClient \<Rightarrow> 's page_env \<Rightarrow>
    (string \<Rightarrow> scs_value option, 'm, 's, 'h) front_app" where
  "demo_app tr c lc pe = \<lparr>ap_AuthDisabled = False, ap_DevUserSub = ''dev-user'', ap_TrustForwardedFor = False,
     ap_TrustedOrigins = [], ap_sessions = demo_scs, ap_transport = tr, ap_mgmt = c, ap_lore = lc,
     ap_pages = pe, ap_splitHost = \<lambda>_. None, ap_chroma = http_NotFound, ap_static = \<lambda>_. http_NotFound\<rparr>"

definition demo_get :: front_meta where
  "demo_get = \<lparr>fm_method = ''GET'', fm_RemoteAddr = ''10.0.0.7:5000'', fm_XForwardedFor = '''',
     fm_SecFetchSite = '''', fm_Origin = '''', fm_OriginHost = None, fm_Host = ''arclore''\<rparr>"

lemma demo_denied:
  "\<not> allowed (ap_sessions (demo_app tr c lc pe)) [''user_sub'' \<mapsto> VString ''bob''] n (AdminRoute ar)"
  by (simp add: allowed_def GetBool_def demo_app_def demo_scs_def session_keys)

theorem front_guarded_witness:
  "\<forall>tr c lc pe r s m rl. fw_lore (snd (run_state (serve_front (demo_app tr c lc pe) 0 demo_get (AdminRoute GetUsersPage) r)
      \<lparr>fw_session = [''user_sub'' \<mapsto> VString ''bob''], fw_mgmt = m, fw_lore = s, fw_throttle = rl\<rparr>)) = s"
proof (intro allI)
  fix tr c lc pe r s m rl
  let ?w = "\<lparr>fw_session = [''user_sub'' \<mapsto> VString ''bob''], fw_mgmt = m, fw_lore = s, fw_throttle = rl\<rparr>"
  show "fw_lore (snd (run_state (serve_front (demo_app tr c lc pe) 0 demo_get (AdminRoute GetUsersPage) r) ?w)) = s"
    using front_guarded [OF surjective_pairing, where a = "demo_app tr c lc pe" and w = ?w and now = 0
        and route = "AdminRoute GetUsersPage" and q = demo_get and r = r] by (simp add: demo_denied)
qed

section \<open>Forged posts\<close>

text \<open>C32: A form posted from another site does nothing. Whatever the route, when the browser marks the request
  as cross-site (or, from an older browser, its origin is another host) and the origin is not configured
  as trusted, the answer is 403 and session, auth service, Lore server and throttle are as before; and
  every form of the program itself, posted from its own pages, is let through.\<close>

theorem forged_posts_refused:
  assumes "fm_method q = ''POST''" and "fm_Origin q \<notin> set (ap_TrustedOrigins a)"
    and "fm_SecFetchSite q \<notin> {'''', ''same-origin'', ''none''} \<or>
      fm_SecFetchSite q = '''' \<and> fm_Origin q \<noteq> '''' \<and> fm_OriginHost q \<noteq> Some (fm_Host q)"
  shows "(\<exists>resp. run_state (serve_front a now q route r) w = (resp, w) \<and> fp_status resp = 403) \<and>
    cop_check (ap_TrustedOrigins a) (q\<lparr>fm_SecFetchSite := ''same-origin''\<rparr>) \<and>
    cop_check (ap_TrustedOrigins a) (q\<lparr>fm_SecFetchSite := '''', fm_OriginHost := Some (fm_Host q)\<rparr>)"
proof -
  have "\<not> cop_check (ap_TrustedOrigins a) q"
    using assms by (auto simp: cop_check_def Let_def)
  then show ?thesis by (auto simp: serve_front_def plain_text_def cop_check_def Let_def)
qed

definition demo_forged :: front_meta where
  "demo_forged = demo_get\<lparr>fm_method := ''POST'', fm_SecFetchSite := ''cross-site'', fm_Origin := ''http://evil''\<rparr>"

theorem forged_posts_refused_witness:
  "\<forall>tr c lc pe r w. snd (run_state (serve_front (demo_app tr c lc pe) 0 demo_forged
      (AdminRoute PostUserDeleteForm) r) w) = w"
proof (intro allI)
  fix tr c lc pe r w
  have "fm_method demo_forged = ''POST''" "fm_Origin demo_forged \<notin> set (ap_TrustedOrigins (demo_app tr c lc pe))"
    "fm_SecFetchSite demo_forged \<notin> {'''', ''same-origin'', ''none''} \<or> fm_SecFetchSite demo_forged = '''' \<and>
      fm_Origin demo_forged \<noteq> '''' \<and> fm_OriginHost demo_forged \<noteq> Some (fm_Host demo_forged)"
    by (simp_all add: demo_forged_def demo_get_def demo_app_def)
  from forged_posts_refused [OF this, of 0 "AdminRoute PostUserDeleteForm" r w]
  show "snd (run_state (serve_front (demo_app tr c lc pe) 0 demo_forged (AdminRoute PostUserDeleteForm) r) w) = w"
    by auto
qed

section \<open>The tokens of all calls\<close>

context lore_traffic begin

lemma keeps_admin_page:
  assumes "ad_lore h = lc" and "identityToken r = ident"
  shows "keeps (\<lambda>w. I (fw_lore w)) (admin_page h ar r)"
proof (cases ar)
  case GetReposPage
  then show ?thesis unfolding GetReposPage admin_page.simps AdminRepos_def assms(1)
    by (intro keeps_on_lore baseCtx_then [OF assms(2)] keeps_flow calls_then)
next
  case PostRepoForm
  then show ?thesis unfolding PostRepoForm admin_page.simps AdminCreateRepo_def assms
    by (intro keeps_on_lore token_then keeps_flow calls_then)
next
  case PostRepoDeleteForm
  then show ?thesis unfolding PostRepoDeleteForm admin_page.simps AdminDeleteRepo_def assms
    by (intro keeps_on_lore token_then keeps_flow calls_then)
qed (simp_all add: AdminUsers_def AdminCreateUser_def AdminDeleteUser_def AdminSetPassword_def AdminSetAdmin_def
    AdminSetRegistration_def AdminImportRepo_def AdminRemoveResource_def AdminGrants_def AdminAddGrant_def
    AdminRemoveGrant_def keeps_rules)

end

lemma native_leaves_lore:
  "keeps (\<lambda>w. I (fw_lore w)) (auth_page a now q ar r)"
  "keeps (\<lambda>w. I (fw_lore w)) (account_handler a ac r)"
  "keeps (\<lambda>w. I (fw_lore w)) (DevLoginHandler m sub)"
proof -
  have tr: "keeps (\<lambda>w. I (fw_lore w)) (with_throttle a now q nxt)" if "keeps (\<lambda>w. I (fw_lore w)) nxt" for nxt
    unfolding with_throttle_def using that
    by (intro keeps_rules) (auto split: throttled.split simp: keeps_return)
  have err: "keeps (\<lambda>w. I (fw_lore w)) (case e of APIError c m \<Rightarrow> f c m | MgmtErr m \<Rightarrow> g m)"
    if "\<And>c m. keeps (\<lambda>w. I (fw_lore w)) (f c m)" "\<And>m. keeps (\<lambda>w. I (fw_lore w)) (g m)" for e f g
    using that by (cases e) simp_all
  show "keeps (\<lambda>w. I (fw_lore w)) (auth_page a now q ar r)"
    by (cases ar) (auto simp: LoginForm_def SetupForm_def RegisterForm_def LoginSubmit_def SetupSubmit_def
        RegisterSubmit_def Logout_def store_login_def login_page_def registrationOpen_def Let_def
        intro!: tr err keeps_rules)
  show "keeps (\<lambda>w. I (fw_lore w)) (account_handler a ac r)"
    by (cases ac) (auto simp: AccountForm_def ChangePassword_def intro!: keeps_rules)
  show "keeps (\<lambda>w. I (fw_lore w)) (DevLoginHandler m sub)"
    unfolding DevLoginHandler_def by (intro keeps_rules)
qed
lemma dispatch_traffic:
  assumes "ap_lore a = logged_client env rpc d" and "traffic env tok l0 (fw_lore w)"
    and "tok = fi_Token (session_identity (ap_sessions a) (fw_session w))"
  shows "traffic env tok l0 (fw_lore (snd (run_state (dispatch a now q route r) w)))"
proof (cases "allowed (ap_sessions a) (fw_session w) (now div nsec) route")
  case False
  from dispatch_denied [OF this, of q r] assms(2) show ?thesis by (elim exE) simp
next
  case True
  let ?I = "\<lambda>w. traffic env tok l0 (fw_lore w)"
  let ?r = "r\<lparr>fq_identity := Some (session_identity (ap_sessions a) (fw_session w))\<rparr>"
  have tok: "identityToken ?r = tok" by (simp add: identityToken_def assms(3))
  show ?thesis
  proof (cases route)
    case (BrowseRoute br)
    with True have "logged_in (ap_sessions a) (fw_session w) (now div nsec)" by (simp add: allowed_def)
    with BrowseRoute keepsD [OF keeps_on_lore [OF web_traffic.keeps_browse [OF tok]], where s = w] assms(1,2)
    show ?thesis by (simp add: RequireAuth_in)
  next
    case (AdminRoute ar)
    with True have "logged_in (ap_sessions a) (fw_session w) (now div nsec)"
      "GetBool (ap_sessions a) (fw_session w) sessionKeyIsAdmin" by (simp_all add: allowed_def)
    moreover have "ad_lore (NewAdmin a) = logged_client env rpc d" by (simp add: NewAdmin_def assms(1))
    ultimately show ?thesis
      using AdminRoute keepsD [OF web_traffic.keeps_admin_page [OF _ tok], where s = w] assms(2)
      by (simp add: RequireAuth_in RequireAdmin_def)
  next
    case (AccountRoute ac)
    with True have "logged_in (ap_sessions a) (fw_session w) (now div nsec)" by (simp add: allowed_def)
    with AccountRoute keepsD [OF native_leaves_lore(2), of "traffic env tok l0" w a ac ?r] assms(2)
    show ?thesis by (simp add: RequireAuth_in)
  qed (use assms(2) keepsD [OF native_leaves_lore(1), of "traffic env tok l0" w]
      keepsD [OF native_leaves_lore(3), of "traffic env tok l0" w] in simp_all)
qed

text \<open>C30: No request makes the program present a token on the Lore server that is not its session's. If every
  cached token was the answer to an exchange for the identity and the resource it is cached under, then
  this holds after any request to any route, and each call made on the way (a remote procedure or a
  content request, in any order of the workers) carried no token when the session holds none, and
  otherwise one that the exchange procedure answered to the bearer of exactly the identity token of the
  session of this request, for the wildcard resource; a request that the guards stop makes no call.\<close>

theorem front_token_flow:
  assumes "ap_lore a = logged_client env rpc d" and "cache_answered env (lw_auth (fw_lore w))"
    and "run_state (serve_front a now q route r) w = (resp, w')"
  shows "cache_answered env (lw_auth (fw_lore w')) \<and>
    (\<exists>l. snd (lw_far (fw_lore w')) = snd (lw_far (fw_lore w)) @ l \<and>
      (\<not> allowed (ap_sessions a) (fw_session w) (now div nsec) route \<longrightarrow> l = []) \<and>
      (\<forall>h\<in>set l. let tok = GetString (ap_sessions a) (fw_session w) ''identity_token'' in
        if tok = '''' then h = None
        else \<exists>t s conn e. h = Some (''Bearer '' @ t) \<and> t \<noteq> '''' \<and>
          le_exchange env s conn (''Bearer '' @ tok) WildcardResource = Inr (Some (t, e))))"
proof -
  let ?tok = "GetString (ap_sessions a) (fw_session w) ''identity_token''"
  let ?l0 = "snd (lw_far (fw_lore w))"
  let ?d = "dispatch a now q route (r\<lparr>fq_identity := None\<rparr>)"
  have tok: "?tok = fi_Token (session_identity (ap_sessions a) (fw_session w))"
    by (simp add: session_identity_def session_keys)
  have "traffic env ?tok ?l0 (fw_lore w)" using assms(2) by (simp add: traffic_def)
  from dispatch_traffic [OF assms(1) this tok] this
  have tr: "traffic env ?tok ?l0 (fw_lore w')"
    using assms(3) by (auto simp: serve_front_def split: if_splits)
  then obtain l where l: "snd (lw_far (fw_lore w')) = ?l0 @ l" "list_all (header_ok env ?tok) l"
    by (auto simp: traffic_def)
  have "l = []" if "\<not> allowed (ap_sessions a) (fw_session w) (now div nsec) route"
    using dispatch_denied [OF that, of q "r\<lparr>fq_identity := None\<rparr>"] assms(3) l(1)
    by (auto simp: serve_front_def split: if_splits)
  with tr l show ?thesis
    by (fastforce simp: traffic_def header_ok_def answered_def list_all_iff Let_def)
qed

lemma demo_home:
  "snd (lw_far (snd (run_state (browse (logged_client demo_lore demo_rpc demo_dialled) demo_pages GetHome
     (front_demo\<lparr>fq_identity := Some \<lparr>fi_Sub = ''ann'', fi_Token = ''identity'', fi_IsAdmin = False\<rparr>\<rparr>))
     demo_world))) \<noteq> []"
  by code_simp

definition demo_session :: "string \<Rightarrow> scs_value option" where
  "demo_session = [''user_sub'' \<mapsto> VString ''ann'', ''identity_token'' \<mapsto> VString ''identity'']"

theorem front_token_flow_witness:
  "\<forall>(tr :: 'm transport) c (m :: 'm) rl. let a = demo_app tr c (logged_client demo_lore demo_rpc demo_dialled) demo_pages;
      w = \<lparr>fw_session = demo_session, fw_mgmt = m, fw_lore = demo_world, fw_throttle = rl\<rparr>;
      w' = snd (run_state (serve_front a 0 demo_get (BrowseRoute GetHome) front_demo) w)
    in snd (lw_far (fw_lore w')) \<noteq> [] \<and>
      (\<forall>h\<in>set (snd (lw_far (fw_lore w'))). \<exists>t. h = Some (''Bearer '' @ t) \<and> t \<noteq> '''')"
proof (intro allI)
  fix tr :: "'m transport" and c and m :: 'm and rl
  define a where "a = demo_app tr c (logged_client demo_lore demo_rpc demo_dialled) (demo_pages :: unit logged lore_world page_env)"
  define w where "w = \<lparr>fw_session = demo_session, fw_mgmt = m, fw_lore = demo_world, fw_throttle = rl\<rparr>"
  let ?run = "run_state (serve_front a 0 demo_get (BrowseRoute GetHome) front_demo) w"
  have a: "ap_lore a = logged_client demo_lore demo_rpc demo_dialled" by (simp add: a_def demo_app_def)
  have c: "cache_answered demo_lore (lw_auth (fw_lore w))"
    by (simp add: w_def demo_world_def cache_answered_def)
  have log: "snd (lw_far (fw_lore w)) = []" by (simp add: w_def demo_world_def)
  have tok: "GetString (ap_sessions a) (fw_session w) ''identity_token'' = ''identity''"
    by (simp add: a_def w_def demo_app_def demo_scs_def demo_session_def GetString_def)
  have ident: "session_identity (ap_sessions a) (fw_session w) =
      \<lparr>fi_Sub = ''ann'', fi_Token = ''identity'', fi_IsAdmin = False\<rparr>"
    "logged_in (ap_sessions a) (fw_session w) 0"
    by (simp_all add: session_identity_def logged_in_def session_keys GetString_def GetBool_def GetInt64_def
        a_def w_def demo_app_def demo_scs_def demo_session_def)
  have "snd (lw_far (fw_lore (snd ?run))) \<noteq> []"
    using demo_home ident
    by (simp add: serve_front_def a_def w_def demo_app_def cop_check_def demo_get_def RequireAuth_in Let_def)
  moreover from front_token_flow [OF a c surjective_pairing]
  have "\<forall>h\<in>set (snd (lw_far (fw_lore (snd ?run)))). \<exists>t. h = Some (''Bearer '' @ t) \<and> t \<noteq> ''''"
    using log tok by (fastforce simp: Let_def)
  ultimately show "let a = demo_app tr c (logged_client demo_lore demo_rpc demo_dialled) demo_pages;
      w = \<lparr>fw_session = demo_session, fw_mgmt = m, fw_lore = demo_world, fw_throttle = rl\<rparr>;
      w' = snd (run_state (serve_front a 0 demo_get (BrowseRoute GetHome) front_demo) w)
    in snd (lw_far (fw_lore w')) \<noteq> [] \<and>
      (\<forall>h\<in>set (snd (lw_far (fw_lore w'))). \<exists>t. h = Some (''Bearer '' @ t) \<and> t \<noteq> '''')"
    unfolding Let_def a_def w_def by blast
qed

end
