(* ===== verification/Api_Http.thy ===== *)
theory Api_Http
  imports Api Mgmt_Client
begin

text \<open>
  The JSON API as the web client reaches it: the patterns \<open>registerAPIRoutes\<close> gives to Go's
  \<open>ServeMux\<close>, its cleaning of paths with the redirect that \<open>http.Client\<close> follows, the decoding of
  the bodies, and the transport that results. \<open>wire\<close> is what arrives of a JSON body: itself, unless
  its text exceeds the megabyte of \<open>decodeJSON\<close> or a string is not valid UTF-8. \<open>enc\<close> is the text of
  a response.
\<close>

section \<open>Paths\<close>

text \<open>\<open>path.Clean\<close> of a rooted path, on its segments.\<close>

fun clean_segs :: "string list \<Rightarrow> string list \<Rightarrow> string list" where
  "clean_segs acc [] = rev acc"
| "clean_segs acc (s # ss) =
    (if s = '''' \<or> s = ''.'' then clean_segs acc ss
     else if s = ''..'' then clean_segs (tl acc) ss
     else clean_segs (s # acc) ss)"

definition join_path :: "string list \<Rightarrow> string" where
  "join_path ss = (if ss = [] then ''/'' else concat (map (\<lambda>s. ''/'' @ s) ss))"

definition cleanPath :: "string \<Rightarrow> string" where
  "cleanPath p =
    (if p = '''' then ''/''
     else let p = (if hd p \<noteq> CHR ''/'' then ''/'' @ p else p);
              np = join_path (clean_segs [] (split_on CHR ''/'' p))
          in if last p = CHR ''/'' \<and> np \<noteq> ''/'' then np @ ''/'' else np)"

definition mux_segment :: "string \<Rightarrow> string" where
  "mux_segment s = (case PathUnescape s of None \<Rightarrow> s | Some t \<Rightarrow> t)"

section \<open>Bodies\<close>

definition json_str :: "(string \<times> json) list \<Rightarrow> string \<Rightarrow> string option" where
  "json_str b k = (case map_of b k of None \<Rightarrow> Some '''' | Some (JString s) \<Rightarrow> Some s | _ \<Rightarrow> None)"

definition json_bool :: "(string \<times> json) list \<Rightarrow> string \<Rightarrow> bool option" where
  "json_bool b k = (case map_of b k of None \<Rightarrow> Some False | Some (JBool v) \<Rightarrow> Some v | _ \<Rightarrow> None)"

definition dec_setup :: "(string \<times> json) list \<Rightarrow> apiSetupReq option" where
  "dec_setup b = (case (json_str b ''username'', json_str b ''password'', json_str b ''display_name'') of
      (Some u, Some p, Some d) \<Rightarrow> Some \<lparr>set_Username = u, set_Password = p, set_DisplayName = d\<rparr>
    | _ \<Rightarrow> None)"

definition dec_login :: "(string \<times> json) list \<Rightarrow> apiLoginReq option" where
  "dec_login b = (case (json_str b ''username'', json_str b ''password'') of
      (Some u, Some p) \<Rightarrow> Some \<lparr>log_Username = u, log_Password = p\<rparr> | _ \<Rightarrow> None)"

definition dec_register :: "(string \<times> json) list \<Rightarrow> apiRegisterReq option" where
  "dec_register b = (case (json_str b ''username'', json_str b ''password'') of
      (Some u, Some p) \<Rightarrow> Some \<lparr>reg_Username = u, reg_Password = p\<rparr> | _ \<Rightarrow> None)"

definition dec_me_password :: "(string \<times> json) list \<Rightarrow> apiMePasswordReq option" where
  "dec_me_password b = (case (json_str b ''current'', json_str b ''new'') of
      (Some u, Some p) \<Rightarrow> Some \<lparr>me_Current = u, me_New = p\<rparr> | _ \<Rightarrow> None)"

definition dec_create_user :: "(string \<times> json) list \<Rightarrow> apiCreateUserReq option" where
  "dec_create_user b = (case (json_str b ''username'', json_str b ''password'',
       json_str b ''display_name'', json_bool b ''is_admin'') of
      (Some u, Some p, Some d, Some a) \<Rightarrow>
        Some \<lparr>cu_Username = u, cu_Password = p, cu_DisplayName = d, cu_IsAdmin = a\<rparr>
    | _ \<Rightarrow> None)"

definition dec_resource_req :: "(string \<times> json) list \<Rightarrow> (string \<times> string) option" where
  "dec_resource_req b = (case (json_str b ''resource_id'', json_str b ''name'') of
      (Some r, Some n) \<Rightarrow> Some (r, n) | _ \<Rightarrow> None)"

definition dec_grant :: "(string \<times> json) list \<Rightarrow> apiGrantReq option" where
  "dec_grant b = (case (json_str b ''username'', json_str b ''resource_id'', json_str b ''permission'') of
      (Some u, Some r, Some p) \<Rightarrow> Some \<lparr>gr_Username = u, gr_ResourceID = r, gr_Permission = p\<rparr>
    | _ \<Rightarrow> None)"

lemmas dec_defs = dec_setup_def dec_login_def dec_register_def dec_me_password_def dec_create_user_def
  dec_resource_req_def dec_grant_def json_str_def json_bool_def

section \<open>Routes\<close>

text \<open>The patterns, on the unescaped segments of a clean path. \<open>b\<close> is the decoded object, if any.\<close>

definition api_route :: "string \<Rightarrow> string list \<Rightarrow> (string \<times> json) list option \<Rightarrow> api_call option" where
  "api_route m segs b =
    (if segs = [''api'', ''status''] then (if m = ''GET'' then Some GetStatus else None)
     else if segs = [''api'', ''setup''] then (if m = ''POST'' then Some (PostSetup (Option.bind b dec_setup)) else None)
     else if segs = [''api'', ''login''] then (if m = ''POST'' then Some (PostLogin (Option.bind b dec_login)) else None)
     else if segs = [''api'', ''register'']
     then (if m = ''POST'' then Some (PostRegister (Option.bind b dec_register)) else None)
     else if segs = [''api'', ''me'', ''password'']
     then (if m = ''POST'' then Some (PostMePassword (Option.bind b dec_me_password)) else None)
     else if segs = [''api'', ''admin'', ''registration'']
     then (if m = ''POST'' then Some (PostRegistration (Option.bind b (\<lambda>j. json_bool j ''open''))) else None)
     else if segs = [''api'', ''users'']
     then (if m = ''GET'' then Some GetUsers
           else if m = ''POST'' then Some (PostUsers (Option.bind b dec_create_user)) else None)
     else if segs = [''api'', ''resources'']
     then (if m = ''GET'' then Some GetResources
           else if m = ''POST'' then Some (PostResources (Option.bind b dec_resource_req))
           else if m = ''DELETE'' then Some (DeleteResources (Option.bind b (\<lambda>j. json_str j ''resource_id'')))
           else None)
     else if segs = [''api'', ''grants'']
     then (if m = ''POST'' then Some (PostGrants (Option.bind b dec_grant))
           else if m = ''DELETE'' then Some (DeleteGrants (Option.bind b dec_grant)) else None)
     else if take 2 segs = [''api'', ''users''] then (case drop 2 segs of
         [n] \<Rightarrow> if m = ''DELETE'' \<and> n \<noteq> '''' then Some (DeleteUsers n) else None
       | [n, r] \<Rightarrow>
           if n = '''' then None
           else if r = ''password'' \<and> m = ''POST''
           then Some (PostUserPassword n (Option.bind b (\<lambda>j. json_str j ''password'')))
           else if r = ''admin'' \<and> m = ''POST''
           then Some (PostUserAdmin n (Option.bind b (\<lambda>j. json_bool j ''is_admin'')))
           else if r = ''grants'' \<and> m = ''GET'' then Some (GetUserGrants n)
           else None
       | _ \<Rightarrow> None)
     else None)"

text \<open>A path that is not clean is redirected to its clean form, and the client follows with \<open>GET\<close> and
  no body; a per cent sign of the path is escaped anew on the way.\<close>

definition mux_find :: "string \<Rightarrow> string list \<Rightarrow> (string \<times> json) list option \<Rightarrow> (nat, api_call) result" where
  "mux_find m segs b = (case api_route m segs b of
      Some c \<Rightarrow> Inr c
    | None \<Rightarrow> Inl (if \<exists>m'\<in>set [''GET'', ''POST'', ''DELETE'']. api_route m' segs None \<noteq> None
        then 405 else 404))"

definition mux_call ::
  "((string \<times> json) list \<Rightarrow> (string \<times> json) list option) \<Rightarrow> string \<Rightarrow> string \<Rightarrow>
    (string \<times> json) list option \<Rightarrow> (nat, api_call) result" where
  "mux_call wire m path b =
    (let c = cleanPath path
     in if c \<noteq> path
        then mux_find ''GET'' (map mux_segment (split_on CHR ''/''
          (drop 1 (concat (map (\<lambda>x. if x = CHR ''%'' then ''%25'' else [x]) c))))) None
        else mux_find m (map mux_segment (split_on CHR ''/'' (drop 1 path))) (Option.bind b wire))"

text \<open>The transport: the far end is the state of the authentication server. \<open>src\<close> is the peer address
  of the web server with the randomness and the clock of the request; a request without a handler is
  answered by the mux.\<close>

definition api_transport ::
  "auth_env \<Rightarrow> request \<Rightarrow> ((string \<times> json) list \<Rightarrow> (string \<times> json) list option) \<Rightarrow>
    (body \<Rightarrow> string) \<Rightarrow> string \<Rightarrow> auth_server transport" where
  "api_transport env src wire enc b rq =
    (let path = drop (length b) (hr_url rq);
         auth = (case hr_authorization rq of None \<Rightarrow> '''' | Some h \<Rightarrow> h)
     in case mux_call wire (hr_method rq) path (hr_body rq) of
       Inl code \<Rightarrow> State_Monad.return (Inr (code,
         Whole ((if code = 405 then ''Method Not Allowed'' else ''404 page not found'') @ [CHR 0x0A])))
     | Inr call \<Rightarrow> do {
         r \<leftarrow> registerAPIRoutes env (src\<lparr>rq_auth := auth\<rparr>) call;
         State_Monad.return (Inr (fst r, Whole (enc (snd r)))) })"

section \<open>Cleaning\<close>

definition plain_seg :: "string \<Rightarrow> bool" where
  "plain_seg s \<longleftrightarrow> s \<notin> {'''', ''.'', ''..''} \<and> CHR ''/'' \<notin> set s"

lemma clean_segs_plain: "\<forall>s\<in>set ss. plain_seg s \<Longrightarrow> clean_segs acc ss = rev acc @ ss"
  by (induction ss arbitrary: acc) (auto simp: plain_seg_def)

lemma split_join_path:
  "\<forall>s\<in>set ss. CHR ''/'' \<notin> set s \<Longrightarrow> ss \<noteq> [] \<Longrightarrow> split_on CHR ''/'' (join_path ss) = '''' # ss"
proof (induction ss)
  case (Cons s ss)
  show ?case
  proof (cases "ss = []")
    case True
    with Cons.prems show ?thesis by (simp add: join_path_def split_on_none)
  next
    case False
    with Cons obtain t where "join_path ss = ''/'' @ t" "split_on CHR ''/'' (join_path ss) = '''' # ss"
      by (cases ss) (auto simp: join_path_def)
    with Cons.prems False show ?thesis by (simp add: join_path_def split_on_sep)
  qed
qed simp

text \<open>A path of plain segments is clean, and is routed by their texts.\<close>

lemma cleanPath_plain:
  assumes "\<forall>s\<in>set ss. plain_seg s" and "ss \<noteq> []"
  shows "cleanPath (join_path ss) = join_path ss"
    and "split_on CHR ''/'' (drop 1 (join_path ss)) = ss"
proof -
  have sp: "split_on CHR ''/'' (join_path ss) = '''' # ss"
    using assms by (intro split_join_path) (auto simp: plain_seg_def)
  from assms obtain s r where ss: "ss = s # r" by (cases ss) auto
  have hd: "hd (join_path ss) = CHR ''/''" "join_path ss \<noteq> ''''" by (simp_all add: join_path_def ss)
  obtain q l where l: "ss = q @ [l]" using assms(2) by (cases ss rule: rev_cases) auto
  with assms(1) have "l \<noteq> ''''" "CHR ''/'' \<notin> set l" by (auto simp: plain_seg_def)
  then have la: "last (join_path ss) \<noteq> CHR ''/''"
    by (auto simp: join_path_def l) (metis last_in_set)
  show "cleanPath (join_path ss) = join_path ss"
    using assms hd la by (simp add: cleanPath_def sp Let_def clean_segs_plain)
  show "split_on CHR ''/'' (drop 1 (join_path ss)) = ss"
    using sp by (simp add: join_path_def ss)
qed

lemma plain_PathEscape: "s \<notin> {'''', ''.'', ''..''} \<Longrightarrow> plain_seg (PathEscape s)"
  using PathEscape_eq_iff [of s "''.''"] PathEscape_eq_iff [of s "''..''"] PathEscape_segment [of s]
  by (simp add: plain_seg_def PathEscape_safe path_safe_def url_unreserved_def)

lemma mux_segment_escape [simp]: "mux_segment (PathEscape s) = s"
  by (simp add: mux_segment_def PathUnescape_Escape)

lemma mux_call_plain:
  assumes "path = join_path ss" and "\<forall>s\<in>set ss. plain_seg s" and "ss \<noteq> []"
  shows "mux_call wire m path b = mux_find m (map mux_segment ss) (Option.bind b wire)"
  using assms cleanPath_plain [OF assms(2,3)] by (simp add: mux_call_def)

section \<open>Every method reaches its handler\<close>

lemma api_paths:
  "''/api/status'' = join_path [''api'', ''status'']" "''/api/setup'' = join_path [''api'', ''setup'']"
  "''/api/login'' = join_path [''api'', ''login'']" "''/api/register'' = join_path [''api'', ''register'']"
  "''/api/me/password'' = join_path [''api'', ''me'', ''password'']"
  "''/api/admin/registration'' = join_path [''api'', ''admin'', ''registration'']"
  "''/api/users'' = join_path [''api'', ''users'']" "''/api/resources'' = join_path [''api'', ''resources'']"
  "''/api/grants'' = join_path [''api'', ''grants'']"
  "''/api/users/'' @ s = join_path [''api'', ''users'', s]"
  "''/api/users/'' @ s @ ''/password'' = join_path [''api'', ''users'', s, ''password'']"
  "''/api/users/'' @ s @ ''/admin'' = join_path [''api'', ''users'', s, ''admin'']"
  "''/api/users/'' @ s @ ''/grants'' = join_path [''api'', ''users'', s, ''grants'']"
  by (simp_all add: join_path_def)

lemma mux_segment_plain: "list_all path_safe s \<Longrightarrow> mux_segment s = s"
  using mux_segment_escape [of s] by (simp add: PathEscape_safe)

lemma fixed_segs [simp]:
  "mux_segment ''api'' = ''api''" "mux_segment ''status'' = ''status''" "mux_segment ''setup'' = ''setup''"
  "mux_segment ''login'' = ''login''" "mux_segment ''register'' = ''register''"
  "mux_segment ''me'' = ''me''" "mux_segment ''password'' = ''password''" "mux_segment ''admin'' = ''admin''"
  "mux_segment ''registration'' = ''registration''" "mux_segment ''users'' = ''users''"
  "mux_segment ''resources'' = ''resources''" "mux_segment ''grants'' = ''grants''"
  by (rule mux_segment_plain, simp add: path_safe_def url_unreserved_def)+

lemmas to_api = mux_call_plain [OF api_paths(1)] mux_call_plain [OF api_paths(2)]
  mux_call_plain [OF api_paths(3)] mux_call_plain [OF api_paths(4)] mux_call_plain [OF api_paths(5)]
  mux_call_plain [OF api_paths(6)] mux_call_plain [OF api_paths(7)] mux_call_plain [OF api_paths(8)]
  mux_call_plain [OF api_paths(9)] mux_call_plain [OF api_paths(10)] mux_call_plain [OF api_paths(11)]
  mux_call_plain [OF api_paths(12)] mux_call_plain [OF api_paths(13)]

lemma plain_words:
  "plain_seg ''api''" "plain_seg ''status''" "plain_seg ''setup''" "plain_seg ''login''"
  "plain_seg ''register''" "plain_seg ''me''" "plain_seg ''password''" "plain_seg ''admin''"
  "plain_seg ''registration''" "plain_seg ''users''" "plain_seg ''resources''" "plain_seg ''grants''"
  by (simp_all add: plain_seg_def)

text \<open>What a method makes of the response of its handler.\<close>

definition bearer_header :: "string \<Rightarrow> string" where
  "bearer_header token = (if token \<noteq> '''' then ''Bearer '' @ token else '''')"

definition api_outcome ::
  "auth_env \<Rightarrow> request \<Rightarrow> string \<Rightarrow> api_call \<Rightarrow> auth_server \<Rightarrow> response \<times> auth_server" where
  "api_outcome env src token call s = run_state (registerAPIRoutes env
     (src\<lparr>rq_auth := bearer_header token\<rparr>) call) s"

definition api_answer ::
  "mgmt_client \<Rightarrow> (body \<Rightarrow> string) \<Rightarrow> 'o \<Rightarrow> (mgmt_json \<Rightarrow> 'o decoder) option \<Rightarrow> response \<times> auth_server \<Rightarrow>
    ('o \<times> mgmt_err option) \<times> auth_server" where
  "api_answer c enc zero out o' = (case o' of ((code, b), s') \<Rightarrow>
     (if code < 200 \<or> code \<ge> 300
      then (zero, Some (APIError code (readErrorMessage (mc_json c) (Whole (enc b)))))
      else case out of
        None \<Rightarrow> (zero, None)
      | Some dec \<Rightarrow> (case dec (mc_json c) (Whole (enc b)) of
          (v, Some e) \<Rightarrow> (v, Some (MgmtErr (''mgmt: decode response: '' @ e)))
        | (v, None) \<Rightarrow> (v, None)), s'))"

lemma run_mgmt_do:
  assumes "mux_call wire m path b = Inr call"
  shows "run_state (mgmt_do (api_transport env src wire enc (mc_base c)) c m path token b zero out) s =
    api_answer c enc zero out (api_outcome env src token call s)"
proof -
  let ?auth = "bearer_header token"
  obtain code bo s' where r: "run_state (registerAPIRoutes env (src\<lparr>rq_auth := ?auth\<rparr>) call) s = ((code, bo), s')"
    by (metis prod.collapse)
  have "(case hr_authorization (mgmt_request c m path token b) of None \<Rightarrow> '''' | Some h \<Rightarrow> h) = ?auth"
    by (simp add: mgmt_request_def bearer_header_def)
  moreover have "hr_method (mgmt_request c m path token b) = m" "hr_body (mgmt_request c m path token b) = b"
    "drop (length (mc_base c)) (hr_url (mgmt_request c m path token b)) = path"
    by (simp_all add: mgmt_request_def)
  ultimately show ?thesis
    using assms r
    by (cases out) (simp_all add: mgmt_do_def api_transport_def api_answer_def api_outcome_def Let_def)
qed

lemma run_mgmt_call:
  assumes "mux_call wire m path b = Inr call"
  shows "run_state (mgmt_call (api_transport env src wire enc (mc_base c)) c m path token b) s =
    apfst snd (api_answer c enc () None (api_outcome env src token call s))"
  by (cases "api_answer c enc () None (api_outcome env src token call s)")
    (simp add: mgmt_call_def run_mgmt_do [OF assms])

lemma run_mgmt_call_refused:
  assumes "mux_call wire m path b = Inl code" and "code < 200 \<or> code \<ge> 300"
  shows "\<exists>msg. run_state (mgmt_call (api_transport env src wire enc (mc_base c)) c m path token b) s =
    (Some (APIError code msg), s)"
  using assms by (simp add: mgmt_call_def mgmt_do_def api_transport_def mgmt_request_def Let_def)

lemma mux_calls_fixed:
  assumes "\<forall>j. wire j = Some j"
  shows "mux_call wire ''GET'' ''/api/status'' None = Inr GetStatus"
    and "mux_call wire ''POST'' ''/api/setup'' (Some j) = Inr (PostSetup (dec_setup j))"
    and "mux_call wire ''POST'' ''/api/login'' (Some j) = Inr (PostLogin (dec_login j))"
    and "mux_call wire ''POST'' ''/api/register'' (Some j) = Inr (PostRegister (dec_register j))"
    and "mux_call wire ''POST'' ''/api/me/password'' (Some j) = Inr (PostMePassword (dec_me_password j))"
    and "mux_call wire ''POST'' ''/api/admin/registration'' (Some j) =
      Inr (PostRegistration (json_bool j ''open''))"
    and "mux_call wire ''GET'' ''/api/users'' None = Inr GetUsers"
    and "mux_call wire ''POST'' ''/api/users'' (Some j) = Inr (PostUsers (dec_create_user j))"
    and "mux_call wire ''GET'' ''/api/resources'' None = Inr GetResources"
    and "mux_call wire ''POST'' ''/api/resources'' (Some j) = Inr (PostResources (dec_resource_req j))"
    and "mux_call wire ''DELETE'' ''/api/resources'' (Some j) =
      Inr (DeleteResources (json_str j ''resource_id''))"
    and "mux_call wire ''POST'' ''/api/grants'' (Some j) = Inr (PostGrants (dec_grant j))"
    and "mux_call wire ''DELETE'' ''/api/grants'' (Some j) = Inr (DeleteGrants (dec_grant j))"
  using assms by (simp_all add: to_api plain_words mux_find_def api_route_def)

lemma mux_calls_user:
  assumes "\<forall>j. wire j = Some j" and "n \<notin> {'''', ''.'', ''..''}"
  shows "mux_call wire ''DELETE'' (''/api/users/'' @ PathEscape n) None = Inr (DeleteUsers n)"
    and "mux_call wire ''POST'' (''/api/users/'' @ PathEscape n @ ''/password'') (Some j) =
      Inr (PostUserPassword n (json_str j ''password''))"
    and "mux_call wire ''POST'' (''/api/users/'' @ PathEscape n @ ''/admin'') (Some j) =
      Inr (PostUserAdmin n (json_bool j ''is_admin''))"
    and "mux_call wire ''GET'' (''/api/users/'' @ PathEscape n @ ''/grants'') None = Inr (GetUserGrants n)"
proof -
  note user = plain_PathEscape [OF assms(2)] plain_words assms
  note rules = mux_find_def api_route_def
  show "mux_call wire ''DELETE'' (''/api/users/'' @ PathEscape n) None = Inr (DeleteUsers n)"
    by (rule trans [OF mux_call_plain [OF api_paths(10)]]) (use user in \<open>simp_all add: rules\<close>)
  show "mux_call wire ''POST'' (''/api/users/'' @ PathEscape n @ ''/password'') (Some j) =
      Inr (PostUserPassword n (json_str j ''password''))"
    by (rule trans [OF mux_call_plain [OF api_paths(11)]]) (use user in \<open>simp_all add: rules\<close>)
  show "mux_call wire ''POST'' (''/api/users/'' @ PathEscape n @ ''/admin'') (Some j) =
      Inr (PostUserAdmin n (json_bool j ''is_admin''))"
    by (rule trans [OF mux_call_plain [OF api_paths(12)]]) (use user in \<open>simp_all add: rules\<close>)
  show "mux_call wire ''GET'' (''/api/users/'' @ PathEscape n @ ''/grants'') None = Inr (GetUserGrants n)"
    by (rule trans [OF mux_call_plain [OF api_paths(13)]]) (use user in \<open>simp_all add: rules\<close>)
qed

text \<open>C33: each method of the management client reaches the handler it is meant for, with the
  arguments and the bearer token it was given, and reports its outcome: an \<open>APIError\<close> with the status
  exactly when that is not a success. A user name is carried through the path for every text but
  the empty one, a dot and two dots; the bodies arrive as they were sent.\<close>

theorem mgmt_reaches_api:
  assumes "mc_base c = b" and "\<forall>j. wire j = Some j" and "n \<notin> {'''', ''.'', ''..''}"
  shows "let tr = api_transport env src wire enc b; to = (\<lambda>tok call. api_outcome env src tok call s);
      done = (\<lambda>tok call. apfst snd (api_answer c enc () None (api_outcome env src tok call s)))
    in run_state (mgmt_Status tr c) s = api_answer c enc zero_status (Some js_status) (to '''' GetStatus) \<and>
      run_state (mgmt_Setup tr c u p dn) s = api_answer c enc zero_auth (Some js_auth)
        (to '''' (PostSetup (Some \<lparr>set_Username = u, set_Password = p, set_DisplayName = dn\<rparr>))) \<and>
      run_state (mgmt_Login tr c u p) s = api_answer c enc zero_auth (Some js_auth)
        (to '''' (PostLogin (Some \<lparr>log_Username = u, log_Password = p\<rparr>))) \<and>
      run_state (mgmt_Register tr c u p) s = api_answer c enc zero_auth (Some js_auth)
        (to '''' (PostRegister (Some \<lparr>reg_Username = u, reg_Password = p\<rparr>))) \<and>
      run_state (mgmt_ChangeMyPassword tr c tok cur p) s =
        done tok (PostMePassword (Some \<lparr>me_Current = cur, me_New = p\<rparr>)) \<and>
      run_state (mgmt_SetRegistration tr c tok opn) s = done tok (PostRegistration (Some opn)) \<and>
      run_state (mgmt_ListUsers tr c tok) s = api_answer c enc [] (Some js_users) (to tok GetUsers) \<and>
      run_state (mgmt_CreateUser tr c tok u p dn adm) s = api_answer c enc zero_user_resp (Some js_user)
        (to tok (PostUsers (Some \<lparr>cu_Username = u, cu_Password = p, cu_DisplayName = dn, cu_IsAdmin = adm\<rparr>))) \<and>
      run_state (mgmt_DeleteUser tr c tok n) s = done tok (DeleteUsers n) \<and>
      run_state (mgmt_SetPassword tr c tok n p) s = done tok (PostUserPassword n (Some p)) \<and>
      run_state (mgmt_SetAdmin tr c tok n adm) s = done tok (PostUserAdmin n (Some adm)) \<and>
      run_state (mgmt_ListResources tr c tok) s =
        api_answer c enc [] (Some js_resources) (to tok GetResources) \<and>
      run_state (mgmt_ImportResource tr c tok rid rn) s =
        api_answer c enc zero_resource_resp (Some js_resource) (to tok (PostResources (Some (rid, rn)))) \<and>
      run_state (mgmt_RemoveResource tr c tok rid) s = done tok (DeleteResources (Some rid)) \<and>
      run_state (mgmt_Grants tr c tok n) s = api_answer c enc [] (Some js_grants) (to tok (GetUserGrants n)) \<and>
      run_state (mgmt_AddGrant tr c tok u rid p) s =
        done tok (PostGrants (Some \<lparr>gr_Username = u, gr_ResourceID = rid, gr_Permission = p\<rparr>)) \<and>
      run_state (mgmt_RemoveGrant tr c tok u rid p) s =
        done tok (DeleteGrants (Some \<lparr>gr_Username = u, gr_ResourceID = rid, gr_Permission = p\<rparr>))"
proof -
  note fixed = mux_calls_fixed [OF assms(2)] and user = mux_calls_user [OF assms(2,3)]
  note public = mgmt_Status_def mgmt_Setup_def mgmt_Login_def mgmt_Register_def
    and admin = mgmt_ChangeMyPassword_def mgmt_SetRegistration_def mgmt_ListUsers_def
      mgmt_CreateUser_def mgmt_DeleteUser_def mgmt_SetPassword_def mgmt_SetAdmin_def
      mgmt_ListResources_def mgmt_ImportResource_def mgmt_RemoveResource_def mgmt_Grants_def
      mgmt_AddGrant_def mgmt_RemoveGrant_def
  show ?thesis unfolding Let_def assms(1) [symmetric] public admin
    by (intro conjI; (subst run_mgmt_do run_mgmt_call, rule fixed user)?; simp add: dec_defs grant_body_def)
qed

theorem mgmt_reaches_api_witness:
  "\<forall>env src enc js s.
    run_state (mgmt_DeleteUser (api_transport env src Some enc ''http://auth'')
      \<lparr>mc_base = ''http://auth'', mc_json = js\<rparr> ''tok'' ''b/b'') s =
    apfst snd (api_answer \<lparr>mc_base = ''http://auth'', mc_json = js\<rparr> enc () None
      (api_outcome env src ''tok'' (DeleteUsers ''b/b'') s))"
proof (intro allI)
  fix env src enc js s
  show "run_state (mgmt_DeleteUser (api_transport env src Some enc ''http://auth'')
      \<lparr>mc_base = ''http://auth'', mc_json = js\<rparr> ''tok'' ''b/b'') s =
    apfst snd (api_answer \<lparr>mc_base = ''http://auth'', mc_json = js\<rparr> enc () None
      (api_outcome env src ''tok'' (DeleteUsers ''b/b'') s))"
    by (rule mgmt_reaches_api [unfolded Let_def, THEN conjunct2, THEN conjunct2, THEN conjunct2,
          THEN conjunct2, THEN conjunct2, THEN conjunct2, THEN conjunct2, THEN conjunct2, THEN conjunct1])
      simp_all
qed

lemma mux_dots:
  "mux_call wire ''DELETE'' ''/api/users/.'' None = Inr GetUsers"
  "mux_call wire ''DELETE'' ''/api/users/..'' None = Inl 404"
  by code_simp+

text \<open>The exceptions are real. A dot and two dots are valid user names; but a request to delete the
  first is redirected to the list of users, so the client reports success whenever the list is
  answered, and nothing is deleted; for the second it reports 404.\<close>

theorem dot_users_not_deleted:
  "let tr = api_transport env src wire enc (mc_base c);
      (e1, s1) = run_state (mgmt_DeleteUser tr c tok ''.'') s;
      ((code, body), s') = api_outcome env src tok GetUsers s;
      (e2, s2) = run_state (mgmt_DeleteUser tr c tok ''..'') s
    in usernamePattern ''.'' \<and> usernamePattern ''..'' \<and>
      (e1 = None \<longleftrightarrow> 200 \<le> code \<and> code < 300) \<and> same_tables (as_db s) (as_db s1) \<and>
      s2 = s \<and> (\<exists>m. e2 = Some (APIError 404 m))"
proof -
  have names: "usernamePattern ''.''" "usernamePattern ''..''" by code_simp+
  have dot: "''/api/users/'' @ PathEscape ''.'' = ''/api/users/.''"
    "''/api/users/'' @ PathEscape ''..'' = ''/api/users/..''" by code_simp+
  obtain code bo s' where o': "api_outcome env src tok GetUsers s = ((code, bo), s')"
    by (metis prod.collapse)
  have "same_tables (as_db s) (as_db s')"
    using keepsD [OF unchanged.api_admin [OF unchanged.api_reads(2)], of "as_db s" s env _] o'
    by (simp add: api_outcome_def on_tables_def) (metis snd_conv)
  moreover have "run_state (mgmt_DeleteUser (api_transport env src wire enc (mc_base c)) c tok ''.'') s =
      apfst snd (api_answer c enc () None (api_outcome env src tok GetUsers s))"
    unfolding mgmt_DeleteUser_def dot by (rule run_mgmt_call [OF mux_dots(1)])
  moreover obtain msg where "run_state (mgmt_DeleteUser (api_transport env src wire enc (mc_base c)) c tok ''..'') s =
      (Some (APIError 404 msg), s)"
    unfolding mgmt_DeleteUser_def dot
    using run_mgmt_call_refused [OF mux_dots(2)] by fastforce
  ultimately show ?thesis using names o' by (auto simp: Let_def api_answer_def)
qed

end
