(* ===== verification/Front_Login.thy ===== *)
theory Front_Login
  imports Front_Laws Api_Http
begin

text \<open>
  The two programs together: the login form of the web client over the transport that ends in the
  handlers of the auth service. That the client's JSON decoder reads the token response the service
  encodes is the hypothesis \<open>reads_tokens\<close>.
\<close>

definition auth_resp_of :: "api_token \<Rightarrow> AuthResp" where
  "auth_resp_of t = \<lparr>ar_Token = at_token t, ar_ExpiresAt = at_expires_at t, ar_UserID = at_user_id t,
     ar_Name = at_name t, ar_IsAdmin = at_is_admin t\<rparr>"

definition reads_tokens :: "mgmt_client \<Rightarrow> (body \<Rightarrow> string) \<Rightarrow> bool" where
  "reads_tokens c enc \<longleftrightarrow> (\<forall>t. js_auth (mc_json c) (Whole (enc (TokenBody t))) = (auth_resp_of t, None))"

lemma StoreIdentity_run:
  assumes "scs_ok m" and "run_state (StoreIdentity m sub name tok e adm) x = (failed, x')"
  shows "failed = None \<and> session_identity m x' = \<lparr>fi_Sub = sub, fi_Token = tok, fi_IsAdmin = adm\<rparr> \<and>
      GetInt64 m x' sessionKeyTokenExpiry = e \<or>
    failed = Some (http_Error ''session error'' 500) \<and> scs_get m x' = scs_get m x"
proof -
  have get: "scs_get m (scs_put m k v y) j = (if j = k then Some v else scs_get m y j)" for k v y j
    using assms(1) by (simp add: scs_ok_def)
  have renew: "scs_get m (snd (scs_renew m x)) = scs_get m x" using assms(1) by (simp add: scs_ok_def)
  show ?thesis
    using assms(2) renew
    by (cases "scs_renew m x")
      (auto simp: StoreIdentity_def Let_def session_identity_def GetString_def GetBool_def GetInt64_def
        session_keys get split: if_splits)
qed

lemma login_page_session: "run_state (login_page n r msg) w = (resp, w') \<Longrightarrow>
    fw_session w' = fw_session w \<and> fp_status resp = 200"
  by (auto simp: login_page_def registrationOpen_def renderAuthPage_def split: prod.splits)

lemma token_response_codes: "fst (fst (run_state (token_response env rq ok n dn) s)) \<in> {500, ok}"
  by (simp add: token_response_def writeAPIError_def writeJSON_def split: sum.split)

lemma handleAPILogin_codes:
  "fst (fst (run_state (handleAPILogin env rq b) s)) \<in> {200, 400, 401, 429, 500}"
proof -
  define C :: "nat set" where "C = {200, 400, 401, 429, 500}"
  have codes: "400 \<in> C" "401 \<in> C" "429 \<in> C" by (simp_all add: C_def)
  have token: "fst (fst (run_state (token_response env rq 200 n dn) s)) \<in> C" for n dn s
    using token_response_codes [of env rq 200 n dn s] by (auto simp: C_def)
  have "fst (fst (run_state (handleAPILogin env rq b) s)) \<in> C"
    by (auto simp: handleAPILogin_def writeAPIError_def decodeJSON_def Let_def codes token split: option.split)
  then show ?thesis by (simp add: C_def)
qed

lemma mgmt_Login_reaches:
  assumes "\<forall>j. wire j = Some j"
  shows "run_state (mgmt_Login (api_transport env src wire enc (mc_base c)) c u p) s =
    api_answer c enc zero_auth (Some js_auth)
      (api_outcome env src '''' (PostLogin (Some \<lparr>log_Username = u, log_Password = p\<rparr>)) s)"
  unfolding mgmt_Login_def
  by (subst run_mgmt_do, rule mux_calls_fixed [OF assms]) (simp add: dec_defs)

text \<open>C29: Logging in on the web makes the session the user's whose password it was.
  With the client's transport ending in the auth service, a posted login form either leaves the data of
  the session as it was and answers an error page, or redirects home; then the auth service has a user
  of the posted name whose stored record accepts the posted password, and the session holds exactly
  this user, the token the service signed for that user, its expiry, and the administrator flag only if
  the user is an administrator. The login itself changes no table.\<close>

theorem front_login_authentic:
  assumes "nt_transport n = api_transport env src wire enc (mc_base (nt_mgmt n))"
    and "\<forall>j. wire j = Some j" and "scs_ok (nt_sessions n)" and "reads_tokens (nt_mgmt n) enc"
    and "jwt_exact (env_lib env)" and "db_ok (as_db (fw_mgmt w))"
    and "run_state (LoginSubmit n r) w = (resp, w')"
  shows "(scs_get (nt_sessions n) (fw_session w') = scs_get (nt_sessions n) (fw_session w) \<and>
      fp_status resp \<in> {200, 500}) \<or>
    (resp = http_Redirect ''/'' \<and> same_tables (as_db (fw_mgmt w)) (as_db (fw_mgmt w')) \<and>
     (\<exists>u t. select_user (normalizeUsername (PostFormValue r ''username'')) (as_db (fw_mgmt w)) = Some u \<and>
       VerifyPassword (env_idkey env) (Argon2id u) (PostFormValue r ''password'') \<and>
       token_body_for env u (as_db (fw_mgmt w)) t \<and>
       GetInt64 (nt_sessions n) (fw_session w') ''token_expiry'' = at_expires_at t \<and>
       (let i = session_identity (nt_sessions n) (fw_session w') in
         fi_Sub i = Username u \<and> fi_Token i = at_token t \<and> (fi_IsAdmin i \<longrightarrow> IsAdmin u))))"
proof (cases "fq_form_ok r")
  case False
  with assms(7) login_page_session [of n r _ w resp w'] show ?thesis by (auto simp: LoginSubmit_def)
next
  case True
  let ?req = "Some \<lparr>log_Username = PostFormValue r ''username'', log_Password = PostFormValue r ''password''\<rparr>"
  let ?rq = "src\<lparr>rq_auth := bearer_header ''''\<rparr>"
  obtain code b s' where h: "run_state (handleAPILogin env ?rq ?req) (fw_mgmt w) = ((code, b), s')"
    by (metis prod.collapse)
  have login: "run_state (mgmt_Login (nt_transport n) (nt_mgmt n) (PostFormValue r ''username'')
      (PostFormValue r ''password'')) (fw_mgmt w) =
    api_answer (nt_mgmt n) enc zero_auth (Some js_auth) ((code, b), s')"
    unfolding assms(1) mgmt_Login_reaches [OF assms(2)] by (simp add: api_outcome_def h)
  show ?thesis
  proof (cases "code = 200")
    case False
    with handleAPILogin_codes [of env ?rq ?req "fw_mgmt w"] h have "code < 200 \<or> code \<ge> 300" by auto
    then obtain e where "run_state (mgmt_Login (nt_transport n) (nt_mgmt n) (PostFormValue r ''username'')
        (PostFormValue r ''password'')) (fw_mgmt w) = ((zero_auth, Some (APIError code e)), s')"
      unfolding login by (simp add: api_answer_def)
    with assms(7) True obtain msg where
      "run_state (login_page n r msg) (w\<lparr>fw_mgmt := s'\<rparr>) = (resp, w')"
      by (auto simp: LoginSubmit_def)
    from login_page_session [OF this] show ?thesis by simp
  next
    case ok: True
    from handleAPILogin_200 [OF assms(5,6) h ok] obtain u t where
      u: "select_user (normalizeUsername (PostFormValue r ''username'')) (as_db (fw_mgmt w)) = Some u"
        "VerifyPassword (env_idkey env) (Argon2id u) (PostFormValue r ''password'')"
      and t: "b = TokenBody t" "token_body_for env u (as_db (fw_mgmt w)) t"
      and same: "same_tables (as_db (fw_mgmt w)) (as_db s')"
      by auto
    have "run_state (mgmt_Login (nt_transport n) (nt_mgmt n) (PostFormValue r ''username'')
        (PostFormValue r ''password'')) (fw_mgmt w) = ((auth_resp_of t, None), s')"
      using assms(4) ok t(1) unfolding login by (simp add: api_answer_def reads_tokens_def)
    with assms(7) True have store: "run_state (store_login n (auth_resp_of t)) (w\<lparr>fw_mgmt := s'\<rparr>) = (resp, w')"
      by (simp add: LoginSubmit_def)
    obtain failed x' where st: "run_state (StoreIdentity (nt_sessions n) (at_user_id t) (at_name t) (at_token t)
        (at_expires_at t) (at_is_admin t)) (fw_session w) = (failed, x')"
      by (metis prod.collapse)
    with store have out: "w' = w\<lparr>fw_mgmt := s', fw_session := x'\<rparr>"
      "resp = (case failed of Some answer \<Rightarrow> answer | None \<Rightarrow> http_Redirect ''/'')"
      by (simp_all add: store_login_def auth_resp_of_def)
    from StoreIdentity_run [OF assms(3) st] show ?thesis
    proof (elim disjE conjE)
      assume "failed = None" "session_identity (nt_sessions n) x' =
          \<lparr>fi_Sub = at_user_id t, fi_Token = at_token t, fi_IsAdmin = at_is_admin t\<rparr>"
        "GetInt64 (nt_sessions n) x' sessionKeyTokenExpiry = at_expires_at t"
      with out u t(2) same show ?thesis
        by (auto simp: token_body_for_def session_keys Let_def intro!: disjI2 exI [of _ u] exI [of _ t])
    qed (auto simp: out)
  qed
qed

text \<open>An encoding of token responses that can be read back, for the witness.\<close>

definition put_str :: "string \<Rightarrow> string" where
  "put_str u = concat (map (\<lambda>c. [CHR ''x'', c]) u) @ ''.''"

fun take_str :: "string \<Rightarrow> string \<times> string" where
  "take_str (a # c # s) =
    (if a = CHR ''x'' then (case take_str s of (u, t) \<Rightarrow> (c # u, t)) else ([], c # s))"
| "take_str s = ([], [])"

lemma take_put_str [simp]: "take_str (put_str u @ s) = (u, s)"
  by (induction u; cases s) (simp_all add: put_str_def)

definition put_int :: "int \<Rightarrow> string" where
  "put_int i = put_str (replicate (nat \<bar>i\<bar>) CHR ''1'') @ (if i < 0 then ''-'' else ''+'')"

definition take_int :: "string \<Rightarrow> int \<times> string" where
  "take_int s = (case take_str s of (u, t) \<Rightarrow> ((if take 1 t = ''-'' then - int (length u) else int (length u)), drop 1 t))"

lemma take_put_int [simp]: "take_int (put_int i @ s) = (i, s)"
  by (simp add: take_int_def put_int_def)

definition demo_enc :: "body \<Rightarrow> string" where
  "demo_enc b = (case b of
      TokenBody t \<Rightarrow> put_str (at_token t) @ put_int (at_expires_at t) @ put_str (at_user_id t) @
        put_str (at_name t) @ put_str (if at_is_admin t then ''y'' else '''')
    | _ \<Rightarrow> '''')"

definition demo_read :: "char reader \<Rightarrow> AuthResp \<times> string option" where
  "demo_read r = (case r of
      Broken _ \<Rightarrow> (zero_auth, Some ''unexpected EOF'')
    | Whole s \<Rightarrow> (let (tok, s1) = take_str s; (e, s2) = take_int s1; (u, s3) = take_str s2;
          (n, s4) = take_str s3; (adm, _) = take_str (s4 @ '' '')
        in (\<lparr>ar_Token = tok, ar_ExpiresAt = e, ar_UserID = u, ar_Name = n, ar_IsAdmin = (adm \<noteq> '''')\<rparr>, None)))"

definition demo_mgmt :: mgmt_client where
  "demo_mgmt = \<lparr>mc_base = ''http://auth'', mc_json = \<lparr>js_error = \<lambda>_. None, js_status = \<lambda>_. (zero_status, None),
     js_auth = demo_read, js_user = \<lambda>_. (zero_user_resp, None), js_users = \<lambda>_. ([], None),
     js_resource = \<lambda>_. (zero_resource_resp, None), js_resources = \<lambda>_. ([], None),
     js_grants = \<lambda>_. ([], None)\<rparr>\<rparr>"

lemma demo_reads: "reads_tokens demo_mgmt demo_enc"
  by (auto simp: reads_tokens_def demo_mgmt_def demo_enc_def demo_read_def auth_resp_of_def Let_def)

definition demo_native :: "(string \<Rightarrow> scs_value option, auth_server) native" where
  "demo_native = \<lparr>nt_transport = api_transport (demo_env demo_claims) (demo_request '''') Some demo_enc ''http://auth'',
     nt_mgmt = demo_mgmt, nt_sessions = demo_scs\<rparr>"

definition demo_login_form :: front_request where
  "demo_login_form = front_demo\<lparr>fq_post := [(''username'', ''bob''), (''password'', ''right'')]\<rparr>"

theorem front_login_authentic_witness:
  "\<exists>h. \<forall>s rl. let w = \<lparr>fw_session = Map.empty, fw_mgmt = demo_server (login_db h), fw_lore = s, fw_throttle = rl\<rparr>;
      (resp, w') = run_state (LoginSubmit demo_native demo_login_form) w
    in resp = http_Redirect ''/'' \<and> fi_Sub (session_identity demo_scs (fw_session w')) = ''bob''"
proof -
  obtain h where h: "HashPassword toy_idkey (Some [1, 2, 3]) ''right'' = Inr h"
    using toy_hash by blast
  let ?b = "Some \<lparr>log_Username = ''bob'', log_Password = ''right''\<rparr>"
  let ?run = "run_state (handleAPILogin (demo_env demo_claims) (demo_request '''') ?b) (demo_server (login_db h))"
  have ub: "DisplayName ((demo_user ''bob'' False 0)\<lparr>Argon2id := h\<rparr>) = ''bob''"
    by (simp add: demo_user_def)
  have "fst (fst ?run) = 200"
    using toy_verify [OF h]
    by (simp add: handleAPILogin_def decodeJSON_def VerifyHash_def Let_def demo_names
        credentials_ok_iff GetUser_calm user_or_zero_def ub token_response_def
        mintTokenResponse_def login_mint writeJSON_def demo_user_def)
  then obtain bo s' where run: "?run = ((200, bo), s')" by (metis prod.collapse)
  have ok: "jwt_exact (env_lib (demo_env demo_claims))" "db_ok (as_db (demo_server (login_db h)))"
    by (simp_all add: one_token_exact demo_names)
  from handleAPILogin_200 [OF ok run refl] obtain t where t: "bo = TokenBody t" by auto
  have form: "PostFormValue demo_login_form ''username'' = ''bob''" "PostFormValue demo_login_form ''password'' = ''right''"
    by (simp_all add: demo_login_form_def PostFormValue_def lookup_value_def)
  have nt: "nt_transport demo_native = api_transport (demo_env demo_claims) (demo_request '''') Some demo_enc
      (mc_base (nt_mgmt demo_native))" "nt_sessions demo_native = demo_scs" "nt_mgmt demo_native = demo_mgmt"
    by (simp_all add: demo_native_def demo_mgmt_def)
  have rq: "(demo_request '''')\<lparr>rq_auth := bearer_header ''''\<rparr> = demo_request ''''"
    by (simp add: demo_request_def bearer_header_def)
  have "run_state (mgmt_Login (nt_transport demo_native) demo_mgmt ''bob'' ''right'') (demo_server (login_db h)) =
      api_answer demo_mgmt demo_enc zero_auth (Some js_auth) ((200, bo), s')"
    unfolding nt mgmt_Login_reaches [of Some, simplified] by (simp add: api_outcome_def rq run)
  then have login: "run_state (mgmt_Login (nt_transport demo_native) demo_mgmt ''bob'' ''right'')
      (demo_server (login_db h)) = ((auth_resp_of t, None), s')"
    using demo_reads by (simp add: api_answer_def reads_tokens_def t)
  have valid: "fq_form_ok demo_login_form" by (simp add: demo_login_form_def front_demo_def)
  show ?thesis
  proof (intro exI [of _ h] allI)
    fix s :: 's and rl
    let ?w = "\<lparr>fw_session = Map.empty, fw_mgmt = demo_server (login_db h), fw_lore = s, fw_throttle = rl\<rparr>"
    obtain resp w' where r: "run_state (LoginSubmit demo_native demo_login_form) ?w = (resp, w')"
      by (cases "run_state (LoginSubmit demo_native demo_login_form) ?w")
    then have resp: "resp = http_Redirect ''/''"
      by (auto simp: LoginSubmit_def valid form login nt(2,3) store_login_def StoreIdentity_def demo_scs_def)
    have "select_user (normalizeUsername ''bob'') (login_db h) = Some u \<Longrightarrow> Username u = ''bob''" for u
      by (drule select_user_Some) (simp add: demo_names)
    then have "fi_Sub (session_identity demo_scs (fw_session w')) = ''bob''"
      using front_login_authentic [OF nt(1) _ _ _ ok(1) _ r] demo_scs_ok demo_reads ok(2)
      by (auto simp: nt form resp Let_def)
    with r resp show "let w = ?w; (resp, w') = run_state (LoginSubmit demo_native demo_login_form) w
      in resp = http_Redirect ''/'' \<and> fi_Sub (session_identity demo_scs (fw_session w')) = ''bob''"
      by simp
  qed
qed

end
