(* ===== verification/Renderers.thy ===== *)
theory Renderers
  imports Pages
begin

text \<open>
  The renderers of content, \<open>highlight.go\<close>, \<open>markdown.go\<close> and \<open>css.go\<close> of \<open>internal/render\<close>. They
  configure two libraries: \<open>chroma_lib\<close> is the highlighter, with lexers of type \<open>'l\<close> and token streams
  of type \<open>'t\<close>, and \<open>goldmark_lib\<close> the conversion of Markdown under its options.
\<close>

section \<open>The libraries\<close>

datatype html_option = WithClasses bool | WithLineNumbers bool | LineNumbersInTable bool

record ('l, 't) chroma_lib =
  lexers_Match :: "string \<Rightarrow> 'l option"
  lexers_Analyse :: "string \<Rightarrow> 'l option"
  lexers_Fallback :: 'l
  lexer_Config_Name :: "'l \<Rightarrow> string"
  chroma_Tokenise :: "'l \<Rightarrow> string \<Rightarrow> 't option"
  chroma_Format :: "html_option list \<Rightarrow> string \<Rightarrow> 't \<Rightarrow> string option"
  chroma_WriteCSS :: "html_option list \<Rightarrow> string \<Rightarrow> string option"

record goldmark_options =
  go_GFM :: bool
  go_HighlightStyle :: string
  go_HighlightFormat :: "html_option list"
  go_HardWraps :: bool
  go_XHTML :: bool
  go_Unsafe :: bool

type_synonym goldmark_lib = "goldmark_options \<Rightarrow> byte list \<Rightarrow> string option"

section \<open>highlight.go\<close>

definition chromaStyle :: string where
  "chromaStyle = ''github-dark''"

text \<open>By the name, then by the name and the first bytes of the content, then plain text.\<close>

definition lexerFor :: "('l, 't) chroma_lib \<Rightarrow> string \<Rightarrow> byte list \<Rightarrow> 'l" where
  "lexerFor ch filename src = (case lexers_Match ch filename of
      Some l \<Rightarrow> l
    | None \<Rightarrow>
        let base = (case LastIndexByte filename CHR ''/'' of Some i \<Rightarrow> drop (i + 1) filename | None \<Rightarrow> filename);
            snippet = (if length src > 8192 then take 8192 src else src)
        in case lexers_Analyse ch (base @ [CHR 0x0A] @ raw_string snippet) of
            Some l \<Rightarrow> l
          | None \<Rightarrow> lexers_Fallback ch)"

definition LexerName :: "('l, 't) chroma_lib \<Rightarrow> string \<Rightarrow> byte list \<Rightarrow> string" where
  "LexerName ch filename src = lexer_Config_Name ch (lexerFor ch filename src)"

definition Highlight :: "('l, 't) chroma_lib \<Rightarrow> string \<Rightarrow> byte list \<Rightarrow> string option" where
  "Highlight ch filename src = (case chroma_Tokenise ch (lexerFor ch filename src) (raw_string src) of
      None \<Rightarrow> None
    | Some iterator \<Rightarrow>
        chroma_Format ch [WithClasses True, WithLineNumbers True, LineNumbersInTable True] chromaStyle iterator)"

section \<open>markdown.go\<close>

definition markdownEngine :: goldmark_options where
  "markdownEngine = \<lparr>go_GFM = True, go_HighlightStyle = chromaStyle, go_HighlightFormat = [WithClasses True],
     go_HardWraps = True, go_XHTML = True, go_Unsafe = False\<rparr>"

definition Markdown :: "goldmark_lib \<Rightarrow> byte list \<Rightarrow> string option" where
  "Markdown convert src = convert markdownEngine src"

section \<open>css.go\<close>

definition GenerateCSS :: "('l, 't) chroma_lib \<Rightarrow> string option" where
  "GenerateCSS ch = chroma_WriteCSS ch [WithClasses True] chromaStyle"

text \<open>\<open>ServeChromaCSS\<close> of \<open>render.go\<close>. A sheet that cannot be written is not begun; the error keeps the
  caching header, which \<open>http.Error\<close> does not remove.\<close>

definition immutable_cache :: "string \<times> string" where
  "immutable_cache = (''Cache-Control'', ''public, max-age=31536000, immutable'')"

definition ServeChromaCSS :: "('l, 't) chroma_lib \<Rightarrow> front_response" where
  "ServeChromaCSS ch = (case GenerateCSS ch of
      Some css \<Rightarrow> \<lparr>fp_status = 200, fp_headers = [(''Content-Type'', ''text/css; charset=utf-8''), immutable_cache],
        fp_body = TextBody css\<rparr>
    | None \<Rightarrow> let e = http_Error ''failed to generate stylesheet'' 500
        in e\<lparr>fp_headers := fp_headers e @ [immutable_cache]\<rparr>)"

section \<open>The renderers of the pages\<close>

definition web_renderers :: "('l, 't) chroma_lib \<Rightarrow> goldmark_lib \<Rightarrow> (string \<Rightarrow> string \<Rightarrow> string \<Rightarrow> string \<Rightarrow> string) \<Rightarrow>
    (string \<Rightarrow> git_file list option) \<Rightarrow> string \<Rightarrow> renderers" where
  "web_renderers ch convert unified parse readError = \<lparr>rn_LexerName = LexerName ch,
     rn_Highlight = Highlight ch, rn_Markdown = Markdown convert, rn_Unified = unified,
     rn_gitdiff = parse, rn_readError = readError\<rparr>"

text \<open>An error of the stylesheet may be cached like the stylesheet.\<close>

lemma css_error_cached:
  "GenerateCSS ch = None \<Longrightarrow> fp_status (ServeChromaCSS ch) = 500 \<and>
    map_of (fp_headers (ServeChromaCSS ch)) ''Cache-Control'' = Some ''public, max-age=31536000, immutable''"
  by (simp add: ServeChromaCSS_def http_Error_def immutable_cache_def)

end
