(* ===== verification/Front_Start.thy ===== *)
theory Front_Start
  imports Front_Laws Renderers
begin

text \<open>
  How the web client is configured and started: \<open>internal/config/config.go\<close>, the session settings of
  \<open>internal/auth/session.go\<close>, \<open>web/embed.go\<close>, \<open>main\<close> of \<open>cmd/arcloreweb/main.go\<close>, and the line that
  \<open>internal/lore/jwtdebug.go\<close> makes of a token for the log. The library that reads the environment is an
  argument: it answers the configuration or an error.
\<close>

section \<open>config.go\<close>

record front_config =
  fc_ListenAddr :: string
  fc_TLSCertFile :: string
  fc_TLSKeyFile :: string
  fc_LoreGRPCAddr :: string
  fc_LoreHTTPAddr :: string
  fc_LoreTLS :: bool
  fc_RequestTimeout :: int
  fc_AuthDisabled :: bool
  fc_AuthURL :: string
  fc_SessionSecret :: string
  fc_DevUserSub :: string
  fc_MgmtAPIAddr :: string
  fc_CookieSecure :: bool
  fc_CSRFTrustedOrigins :: "string list"
  fc_TrustForwardedFor :: bool

text \<open>The tags: the variable of a field, and its default, or that it is required.\<close>

datatype env_tag = EnvPlain string | EnvDefault string string | EnvRequired string

definition front_config_tags :: "env_tag list" where
  "front_config_tags = [EnvDefault ''LISTEN_ADDR'' '':41380'', EnvPlain ''TLS_CERT_FILE'', EnvPlain ''TLS_KEY_FILE'',
     EnvRequired ''LORE_GRPC_ADDR'', EnvRequired ''LORE_HTTP_ADDR'', EnvDefault ''LORE_TLS'' ''false'',
     EnvDefault ''LORE_TIMEOUT'' ''30s'', EnvDefault ''LORE_AUTH_DISABLED'' ''false'', EnvPlain ''LORE_AUTH_URL'',
     EnvPlain ''SESSION_SECRET'', EnvDefault ''DEV_USER_SUB'' ''dev-user'', EnvPlain ''MGMT_API_ADDR'',
     EnvDefault ''SESSION_COOKIE_SECURE'' ''false'', EnvPlain ''CSRF_TRUSTED_ORIGINS'',
     EnvDefault ''TRUST_FORWARDED_FOR'' ''false'']"

definition front_Load :: "(env_tag list \<Rightarrow> (string, front_config) result) \<Rightarrow> (string, front_config) result" where
  "front_Load parseAs = (case parseAs front_config_tags of
      Inl e \<Rightarrow> Inl e
    | Inr cfg \<Rightarrow> (case config_Validate (fc_AuthDisabled cfg) (fc_MgmtAPIAddr cfg) of
        Some e \<Rightarrow> Inl e
      | None \<Rightarrow> Inr cfg))"

section \<open>session.go, embed.go\<close>

datatype same_site = SameSiteLax | SameSiteOther

record session_settings =
  sn_Lifetime :: int
  sn_Secure :: bool
  sn_HttpOnly :: bool
  sn_SameSite :: same_site

text \<open>The settings of the manager, and whether the useless secret is warned of.\<close>

definition NewSessionManager :: "bool \<Rightarrow> string \<Rightarrow> session_settings \<times> bool" where
  "NewSessionManager secure secret = (\<lparr>sn_Lifetime = 8 * 60 * nminute, sn_Secure = secure, sn_HttpOnly = True,
     sn_SameSite = SameSiteLax\<rparr>, secret \<noteq> '''')"

text \<open>\<open>http.StripPrefix\<close> answers with \<open>NotFound\<close> when the prefix is not there; the file server gets the
  headers that are set so far.\<close>

definition StaticHandler :: "((string \<times> string) list \<Rightarrow> string \<Rightarrow> front_response) \<Rightarrow> string \<Rightarrow> front_response" where
  "StaticHandler fileServer path = (if HasPrefix path ''/static/''
     then fileServer [immutable_cache] (TrimPrefix path ''/static/'')
     else http_NotFound\<lparr>fp_headers := fp_headers http_NotFound @ [immutable_cache]\<rparr>)"

section \<open>main.go\<close>

text \<open>What the program is made of besides the configuration.\<close>

record ('x, 'm, 's, 'h, 'l, 't) front_parts =
  pa_scs :: "session_settings \<Rightarrow> 'x scs"
  pa_transport :: "'m transport"
  pa_json :: mgmt_json
  pa_env :: "'s lore_env"
  pa_rpc :: "('s, 'h) lore_rpc"
  pa_dial :: "string \<Rightarrow> bool \<Rightarrow> (string, unit) result"
  pa_chroma :: "('l, 't) chroma_lib"
  pa_goldmark :: goldmark_lib
  pa_unified :: "string \<Rightarrow> string \<Rightarrow> string \<Rightarrow> string \<Rightarrow> string"
  pa_gitdiff :: "string \<Rightarrow> git_file list option"
  pa_readError :: string
  pa_escape :: "string \<Rightarrow> string"
  pa_clock :: "'s lore_world \<Rightarrow> int"
  pa_sched :: "nat \<Rightarrow> nat list"
  pa_splitHost :: "string \<Rightarrow> string option"
  pa_isLoopback :: "string \<Rightarrow> bool"
  pa_badOrigin :: "string \<Rightarrow> string option"
  pa_fileServer :: "(string \<times> string) list \<Rightarrow> string \<Rightarrow> front_response"

definition build_app :: "('x, 'm, 's, 'h, 'l, 't) front_parts \<Rightarrow> front_config \<Rightarrow> dialled \<Rightarrow>
    ('x, 'm, 's lore_world, 'h) front_app" where
  "build_app p cfg d = \<lparr>ap_AuthDisabled = fc_AuthDisabled cfg, ap_DevUserSub = fc_DevUserSub cfg,
     ap_TrustForwardedFor = fc_TrustForwardedFor cfg, ap_TrustedOrigins = fc_CSRFTrustedOrigins cfg,
     ap_sessions = pa_scs p (fst (NewSessionManager (fc_CookieSecure cfg) (fc_SessionSecret cfg))),
     ap_transport = pa_transport p, ap_mgmt = New_mgmt (fc_MgmtAPIAddr cfg) (pa_json p),
     ap_lore = lore_client_of (pa_env p) (pa_rpc p) d,
     ap_pages = \<lparr>pe_renderers = web_renderers (pa_chroma p) (pa_goldmark p) (pa_unified p) (pa_gitdiff p)
         (pa_readError p), pe_escape = pa_escape p, pe_clock = pa_clock p, pe_sched = pa_sched p\<rparr>,
     ap_splitHost = pa_splitHost p, ap_chroma = ServeChromaCSS (pa_chroma p),
     ap_static = \<lambda>path. StaticHandler (pa_fileServer p) path\<rparr>"

text \<open>The client starts without a connection; \<open>SetAuthURL\<close> sets the override.\<close>

definition new_auth_client :: auth_client where
  "new_auth_client = \<lparr>cl_authClient = None, cl_authURL = '''', cl_authURLOverride = '''', cl_authzCache = []\<rparr>"

definition initial_client :: "front_config \<Rightarrow> auth_client" where
  "initial_client cfg = (if fc_AuthURL cfg \<noteq> ''''
     then snd (run_state (SetAuthURL (fc_AuthURL cfg)) new_auth_client) else new_auth_client)"

text \<open>\<open>main\<close> up to the first request: the message of \<open>Fatalf\<close>, or the program with the state of its client,
  its warnings and its listener.\<close>

definition front_main :: "('x, 'm, 's, 'h, 'l, 't) front_parts \<Rightarrow> (env_tag list \<Rightarrow> (string, front_config) result) \<Rightarrow>
    (string, ('x, 'm, 's lore_world, 'h) front_app \<times> auth_client \<times> front_warning list \<times> front_listener) result" where
  "front_main p parseAs = (case front_Load parseAs of
      Inl e \<Rightarrow> Inl (''arcloreweb: config: '' @ e)
    | Inr cfg \<Rightarrow> (case Dial (fc_LoreGRPCAddr cfg) (fc_LoreHTTPAddr cfg) (case_prod (pa_dial p) (splitScheme (fc_LoreGRPCAddr cfg))) of
        Inl e \<Rightarrow> Inl (''arcloreweb: lore dial: '' @ e)
      | Inr d \<Rightarrow> (case find (\<lambda>orig. pa_badOrigin p orig \<noteq> None) (fc_CSRFTrustedOrigins cfg) of
          Some orig \<Rightarrow> Inl (''arcloreweb: trusted origin '' @ Quote orig @ '': '' @ the (pa_badOrigin p orig))
        | None \<Rightarrow>
            let listener = front_listener_of (fc_TLSCertFile cfg) (fc_TLSKeyFile cfg)
            in if listener = FatalMisconfig
               then Inl ''arcloreweb: TLS_CERT_FILE and TLS_KEY_FILE must be set together''
               else Inr (build_app p cfg d, initial_client cfg,
                 front_warnings (pa_splitHost p) (pa_isLoopback p) (fc_ListenAddr cfg) (fc_TLSCertFile cfg)
                   (fc_CookieSecure cfg) (fc_LoreGRPCAddr cfg), listener))))"

section \<open>jwtdebug.go\<close>

text \<open>A decoded JSON value: what the code looks at of it. A number is its truncation to 64 bits.\<close>

datatype json = JString string | JNumber int | JArray "json list" | JOther

text \<open>\<open>json.Unmarshal\<close> into a map (what was decoded before an error stays) and \<open>json.Marshal\<close>.\<close>

record json_lib =
  jn_Unmarshal :: "byte list \<Rightarrow> (string \<times> json) list"
  jn_Marshal :: "json \<Rightarrow> string option"

text \<open>\<open>base64.URLEncoding\<close>: without line breaks, which are skipped, the length is a multiple of four, filled
  up with at most two signs.\<close>

definition b64_decode_padded :: "b64_alphabet \<Rightarrow> string \<Rightarrow> byte list option" where
  "b64_decode_padded al s = (let t = filter (\<lambda>c. c \<noteq> CHR 0x0D \<and> c \<noteq> CHR 0x0A) s; body = TrimRight t ''=''
     in if length t mod 4 = 0 \<and> length t - length body \<le> 2 then b64_decode al body else None)"

definition decodeJWTSegment :: "json_lib \<Rightarrow> string \<Rightarrow> (string \<times> json) list" where
  "decodeJWTSegment js seg = (case b64_decode RawURL seg of
      Some raw \<Rightarrow> jn_Unmarshal js raw
    | None \<Rightarrow> (case b64_decode_padded RawURL seg of
        None \<Rightarrow> []
      | Some raw \<Rightarrow> jn_Unmarshal js raw))"

definition json_text :: "json option \<Rightarrow> string" where
  "json_text v = (case v of Some (JString s) \<Rightarrow> s | _ \<Rightarrow> '''')"

definition comma_joined :: "string list \<Rightarrow> string" where
  "comma_joined xs = (case xs of [] \<Rightarrow> '''' | x # r \<Rightarrow> x @ concat (map (\<lambda>y. '','' @ y) r))"

definition jwtAudience :: "json option \<Rightarrow> string" where
  "jwtAudience aud = (case aud of
      Some (JString s) \<Rightarrow> s
    | Some (JArray vs) \<Rightarrow> comma_joined (List.map_filter (\<lambda>v. case v of JString s \<Rightarrow> Some s | _ \<Rightarrow> None) vs)
    | _ \<Rightarrow> '''')"

fun first_marshalled :: "json_lib \<Rightarrow> (string \<times> json) list \<Rightarrow> string list \<Rightarrow> string" where
  "first_marshalled js payload [] = ''<none>''"
| "first_marshalled js payload (key # keys) = (case map_of payload key of
      None \<Rightarrow> first_marshalled js payload keys
    | Some v \<Rightarrow> (case jn_Marshal js v of
        Some b \<Rightarrow> b
      | None \<Rightarrow> first_marshalled js payload keys))"

definition jwtResources :: "json_lib \<Rightarrow> (string \<times> json) list \<Rightarrow> string" where
  "jwtResources js payload = first_marshalled js payload [''resources'', ''resource'', ''permissions'', ''scope'']"

text \<open>The ellipsis is printable, so \<open>%q\<close> leaves it.\<close>

definition quoted_sub :: "string \<Rightarrow> string" where
  "quoted_sub sub = (if length sub > 8
     then butlast (Quote (take 8 sub)) @ [CHR 0xE2, CHR 0x80, CHR 0xA6, CHR 0x22] else Quote sub)"

definition jwtSummary :: "json_lib \<Rightarrow> string \<Rightarrow> string" where
  "jwtSummary js token = (case split_on CHR ''.'' token of
      p0 # p1 # _ \<Rightarrow>
        (let header = decodeJWTSegment js p0; payload = decodeJWTSegment js p1;
             sub = json_text (map_of payload ''sub'');
             exp = (case map_of payload ''exp'' of Some (JNumber n) \<Rightarrow> FormatInt n | _ \<Rightarrow> '''')
         in ''kid='' @ Quote (json_text (map_of header ''kid'')) @
            '' alg='' @ Quote (json_text (map_of header ''alg'')) @
            '' iss='' @ Quote (json_text (map_of payload ''iss'')) @
            '' aud='' @ Quote (jwtAudience (map_of payload ''aud'')) @
            '' sub='' @ quoted_sub sub @ '' exp='' @ exp @
            '' resources='' @ jwtResources js payload)
    | parts \<Rightarrow> ''<not a JWT: '' @ dec_nat (length parts) @ '' segments>'')"

section \<open>Properties\<close>

text \<open>What the log shows of a token does not depend on its signature.\<close>

theorem jwtSummary_hides_signature:
  assumes "CHR ''.'' \<notin> set h" "CHR ''.'' \<notin> set q"
  shows "jwtSummary js (h @ ''.'' @ q @ ''.'' @ sig) = jwtSummary js (h @ ''.'' @ q @ ''.'' @ sig')"
  by (simp add: jwtSummary_def split_on_sep assms)

text \<open>A client that comes up has a usable configuration: native login has its management API, the session
  cookie follows the configuration, and the TLS files are both there or both missing.\<close>

theorem front_main_sound:
  assumes "front_main p parseAs = Inr (a, c, ws, l)"
  obtains cfg where "parseAs front_config_tags = Inr cfg"
    "ap_AuthDisabled a = fc_AuthDisabled cfg" "\<not> ap_AuthDisabled a \<Longrightarrow> fc_MgmtAPIAddr cfg \<noteq> ''''"
    "ap_sessions a = pa_scs p \<lparr>sn_Lifetime = 8 * 60 * nminute, sn_Secure = fc_CookieSecure cfg, sn_HttpOnly = True,
       sn_SameSite = SameSiteLax\<rparr>"
    "(fc_TLSCertFile cfg = '''') = (fc_TLSKeyFile cfg = '''')"
    "\<forall>x\<in>set (fc_CSRFTrustedOrigins cfg). pa_badOrigin p x = None"
    "cl_authzCache c = []" "cl_authURLOverride c = fc_AuthURL cfg"
  using assms
  by (auto simp: front_main_def front_Load_def config_Validate_def build_app_def NewSessionManager_def
      front_listener_of_def initial_client_def new_auth_client_def SetAuthURL_def find_None_iff Let_def
      split: sum.splits option.splits if_splits)

end
