(* ===== verification/Templ_Repo.thy ===== *)
theory Templ_Repo
  imports Html_Text
begin

text \<open>
  The templates of the repository pages: the shared helpers of \<open>web/templates\<close>, and the components of
  \<open>repo_subheader_templ.go\<close>, \<open>home_templ.go\<close>, \<open>repo_list_templ.go\<close>, \<open>repo_templ.go\<close>, \<open>file_templ.go\<close> and
  \<open>locks_templ.go\<close>, each the sequence of its writes. Where a function is long its loops and branches are
  definitions of their own.
\<close>

section \<open>Helpers\<close>

text \<open>\<open>strings.Fields\<close> and \<open>strings.ToUpper\<close>; the slices of \<open>Initials\<close> are of bytes.\<close>

fun fields_loop :: "string \<Rightarrow> string \<Rightarrow> string list" where
  "fields_loop cur [] = (if cur = '''' then [] else [cur])"
| "fields_loop cur (c # s) =
    (if is_space c then (if cur = '''' then fields_loop '''' s else cur # fields_loop '''' s)
     else fields_loop (cur @ [c]) s)"

definition Fields :: "string \<Rightarrow> string list" where
  "Fields s = fields_loop '''' s"

definition upper_char :: "char \<Rightarrow> char" where
  "upper_char c =
    (if 97 \<le> (of_char c :: nat) \<and> (of_char c :: nat) \<le> 122 then char_of ((of_char c :: nat) - 32) else c)"

definition ToUpper :: "templ_lib \<Rightarrow> string \<Rightarrow> string" where
  "ToUpper T s = (if list_all (\<lambda>c. (of_char c :: nat) < 128) s then map upper_char s else tl_upper T s)"

definition Initials :: "templ_lib \<Rightarrow> string \<Rightarrow> string" where
  "Initials T s = (let s = TrimSpace s; parts = Fields s in
     if s = '''' then ''?''
     else if length parts \<ge> 2 then ToUpper T (take 1 (parts ! 0) @ take 1 (parts ! 1))
     else if length s \<ge> 2 then ToUpper T (take 2 s)
     else ToUpper T (take 1 s))"

text \<open>Bytes, not letters: of a word that begins outside ASCII the first byte alone is taken.\<close>

lemma initials_cut_runes:
  "Initials T ([CHR 0xC3, CHR 0xA9] @ '' b'') = tl_upper T [CHR 0xC3, CHR ''b'']"
  by (simp add: Initials_def Fields_def ToUpper_def TrimSpace_def is_space_def)

definition pluralRepos :: "nat \<Rightarrow> string" where
  "pluralRepos n = (if n = 1 then '' repository'' else '' repositories'')"

definition srcURL :: "RepoView \<Rightarrow> FileRowView \<Rightarrow> string" where
  "srcURL repo row = ''/'' @ rv_Owner repo @ ''/'' @ rv_Name repo @ ''/src/branch/'' @ rv_CurrentBranch repo @
     ''/'' @ fr_Path row"

definition repo_commitsURL :: "RepoView \<Rightarrow> string" where
  "repo_commitsURL repo = ''/'' @ rv_Owner repo @ ''/'' @ rv_Name repo @ ''/commits/branch/'' @ rv_CurrentBranch repo"

definition lockTooltip :: "string \<Rightarrow> string" where
  "lockTooltip owner = (if owner = '''' then ''Locked'' else ''Locked by '' @ owner)"

definition lockLabel :: "string \<Rightarrow> string" where
  "lockLabel owner = (if owner = '''' then ''Locked'' else owner)"

definition treeSrcURL :: "TreeView \<Rightarrow> FileRowView \<Rightarrow> string" where
  "treeSrcURL tree row = ''/'' @ tv_Owner tree @ ''/'' @ tv_RepoName tree @ ''/src/branch/'' @ tv_BranchName tree @
     ''/'' @ fr_Path row"

definition treeDirLabel :: "string \<Rightarrow> string" where
  "treeDirLabel dirPath = (if dirPath = '''' then ''/'' else dirPath)"

section \<open>Components\<close>

definition commits_tab :: "templ_lib \<Rightarrow> string \<Rightarrow> string \<Rightarrow> string \<Rightarrow> html" where
  \<open>commits_tab T repo branch active =
    (if active = ''commits'' then flat [''<a class="tab active" href="'', esc T (''/-/'' @ repo @ ''/commits/branch/'' @ branch),
       ''"><span class="msi">history</span>Commits</a> '']
     else flat [''<a class="tab" href="'', esc T (''/-/'' @ repo @ ''/commits/branch/'' @ branch),
       ''"><span class="msi">history</span>Commits</a> ''])\<close>

definition locks_tab :: "templ_lib \<Rightarrow> string \<Rightarrow> string \<Rightarrow> string \<Rightarrow> html" where
  \<open>locks_tab T repo branch active =
    (if branch = '''' then flat [''<span class="tab" style="opacity:0.5;cursor:default;"><span class="msi">'',
       ''lock</span>Locks</span>'']
     else if active = ''locks'' then flat [''<a class="tab active" href="'', esc T (''/-/'' @ repo @ ''/locks/branch/'' @ branch),
       ''"><span class="msi">lock</span>Locks</a>'']
     else flat [''<a class="tab" href="'', esc T (''/-/'' @ repo @ ''/locks/branch/'' @ branch),
       ''"><span class="msi">lock</span>Locks</a>''])\<close>

definition RepoSubHeader :: "templ_lib \<Rightarrow> string \<Rightarrow> string \<Rightarrow> string \<Rightarrow> html" where
  \<open>RepoSubHeader T repo branch active =
    flat [''<div class="repo-head"><div class="repo-crumb"><span class="msi">'',
     ''menu_book</span> <a class="repo-name-strong" href="'', esc T (''/-/'' @ repo), ''">'',
     esc T repo, ''</a> <span class="badge">Private</span></div></div><div class="tabbar">'',
     if active = ''code'' then flat [''<a class="tab active" href="'', esc T (''/-/'' @ repo),
       ''"><span class="msi">code</span>Code</a> '']
     else flat [''<a class="tab" href="'', esc T (''/-/'' @ repo),
       ''"><span class="msi">code</span>Code</a> ''],
     commits_tab T repo branch active, locks_tab T repo branch active, ''</div>'']\<close>

definition HomePage_html :: "templ_lib \<Rightarrow> HomeView \<Rightarrow> html" where
  \<open>HomePage_html T v =
    flat [''<section class="home"><div class="home-userhead"><span class="home-userlogo">'',
     ''<span class="msi">deployed_code</span></span> <span class="home-username">'',
     esc T (hv_Username v), ''</span> <span class="msi home-userchev">expand_more</span></div>'',
     ''<div class="home-grid"><div class="home-main"><div class="card heat-card">'',
     ''<div class="home-feed-empty"><span class="msi">calendar_month</span><p>'',
     ''Contribution graph '', em_dash,
     '' coming soon</p><span class="home-coming-soon-detail">'',
     ''Requires a lore-server activity RPC with per-revision author and '',
     ''timestamp.</span></div></div><div class="home-feed-empty"><span class="msi">'',
     ''history</span><p>Activity timeline '', em_dash,
     '' coming soon</p><span class="home-coming-soon-detail">'',
     ''Requires a cross-repo activity stream from lore-server.</span></div></div>'',
     ''<aside class="home-aside"><div class="home-aside-tabs"><span class="active">'',
     ''Repositories <span class="countchip">'', esc T (dec_nat (hv_RepoCount v)),
     ''</span></span> <span>Organizations <span class="countchip">0</span></span></div>'',
     ''<div class="card"><div class="aside-search"><span class="msi s">search</span>'',
     '' <input type="text" placeholder="Search repos'', ellipsis,
     ''" aria-label="Search repositories">'',
     '' <button type="button" class="aside-tune" title="Filter"><span class="msi">'',
     ''tune</span></button></div><div class="aside-filters"><span class="active">'',
     ''All</span> <span>Sources</span> <span>Forks</span> <span>Mirrors</span></div>'',
     if length (hv_Repos v) = 0 then flat [''<div class="lt-empty">You have no repositories yet '', em_dash,
       '' create one with the lore CLI (<code>'',
       ''lore repository create lore://&lt;host&gt;/&lt;name&gt;</code>'',
       '') or ask an admin for access.</div>'']
     else flat (map (\<lambda>r. flat [''<a class="aside-repo" href="'', esc T (''/-/'' @ r),
         ''"><span class="msi">lock</span>'', esc T r, ''</a>'']) (hv_Repos v)),
     ''</div></aside></div></section>'']\<close>

definition RepoRow :: "templ_lib \<Rightarrow> RepoListView \<Rightarrow> html" where
  \<open>RepoRow T repo =
    flat [''<div class="lt-row"><div class="lt-primary"><span class="msi">folder</span>'',
     ''<div style="min-width:0;"><a class="name" href="'', esc T (''/-/'' @ rl_Name repo),
     ''">'', esc T (rl_Name repo), ''</a> '',
     if rl_Creator repo \<noteq> '''' then flat [''<div class="sub">'', esc T (rl_Creator repo), ''</div>'']
     else '''',
     ''</div></div><span><span class="badge">'',
     ''<span class="msi" style="font-size:14px;vertical-align:-2px;">'',
     ''account_tree</span> '', esc T (rl_DefaultBranchName repo),
     ''</span></span> <span class="sub-desc">'', esc T (rl_Description repo), ''</span></div>'']\<close>

definition RepoListPage_html :: "templ_lib \<Rightarrow> RepoListView list \<Rightarrow> html" where
  \<open>RepoListPage_html T repos =
    flat [''<section class="repos-page"><div class="page-head"><h1>Repositories</h1><p>'',
     ''Browse the repositories hosted on this Lore server.</p></div>'',
     ''<div class="toolbar-row"><span class="count">'', esc T (dec_nat (length repos)),
     esc T (pluralRepos (length repos)), ''</span> <span class="spacer"></span></div>'',
     ''<div class="card" style="--cols: minmax(220px,1.8fr) 180px 2fr;">'',
     ''<div class="lt-head"><span>Repository</span> <span>Default branch</span> <span>'',
     ''Description</span></div>'',
     if length repos = 0 then ''<div class="lt-empty">No repositories yet.</div>''
     else flat (map (\<lambda>repo. RepoRow T repo) repos),
     ''</div></section>'']\<close>

definition RepoHeader :: "templ_lib \<Rightarrow> RepoView \<Rightarrow> html" where
  \<open>RepoHeader T repo =
    flat [''<div class="repo-head"><div class="repo-crumb"><span class="msi">'',
     ''menu_book</span> <span><a href="/">'', esc T (rv_Owner repo), ''</a> '', esc T '' / '',
     '' <a class="repo-name-strong" href="'', esc T (''/-/'' @ rv_Name repo), ''">'',
     esc T (rv_Name repo), ''</a></span> <span class="badge">Private</span></div></div>'']\<close>

definition EmptyRepo :: "html" where
  \<open>EmptyRepo =
    flat [''<div class="card"><div class="lt-empty">This repository is empty '', em_dash,
     '' push a first commit to get started.</div></div>'']\<close>

definition FileRow :: "templ_lib \<Rightarrow> RepoView \<Rightarrow> FileRowView \<Rightarrow> html" where
  \<open>FileRow T repo row =
    flat [''<div class="frow">'',
     if fr_IsDir row then ''<span class="msi icon-dir">folder</span> ''
     else ''<span class="msi icon-file">description</span> '',
     ''<a class="frow-name" href="'', esc T (srcURL repo row), ''">'', esc T (fr_Name row),
     ''</a> <span class="frow-spacer"></span> '',
     if fr_Locked row then flat [''<span class="frow-lock" title="'', att T (lockTooltip (fr_LockOwner row)),
       ''"><span class="msi">lock</span>'', esc T (lockLabel (fr_LockOwner row)), ''</span>'']
     else '''',
     ''</div>'']\<close>

definition FileTable :: "templ_lib \<Rightarrow> RepoView \<Rightarrow> html" where
  \<open>FileTable T repo =
    flat [''<div class="card"><div class="ftable-headrow">'',
     ''<span class="msi" style="font-size:18px;color:var(--text-secondary);">'',
     ''account_tree</span> <strong>'', esc T (rv_CurrentBranch repo),
     ''</strong> <span class="frow-spacer"></span> <span>'',
     esc T (dec_nat (length (rv_Rows repo))), '' items</span></div>'',
     flat (map (\<lambda>row. FileRow T repo row) (rv_Rows repo)), ''</div>'']\<close>

definition ReadmePanel :: "html \<Rightarrow> html" where
  \<open>ReadmePanel readme =
    flat [''<div class="card"><div class="card-head"><span class="msi">description</span>'',
     ''README.md</div><div class="readme-body markdown-body">'', readme, ''</div></div>'']\<close>

definition CloneCard :: "templ_lib \<Rightarrow> RepoView \<Rightarrow> html" where
  \<open>CloneCard T repo =
    flat [''<div class="aside-card"><h3>Clone / set up</h3><p class="muted"><small>'',
     ''Fresh checkout into a new folder:</small></p><code class="clone-cmd">'',
     ''lore clone lore://'', esc T (rv_CloneHost repo), ''/'', esc T (rv_Name repo),
     ''</code><p class="muted"><small>'',
     ''Attach an existing folder to this repository:</small></p>'',
     ''<code class="clone-cmd">lore repository create lore://'', esc T (rv_CloneHost repo),
     ''/'', esc T (rv_Name repo), '' --id '', esc T (rv_ID repo),
     ''</code><p class="muted"><small>Repository ID:</small></p><div class="clone-id">'',
     ''<code>'', esc T (rv_ID repo), ''</code> <button class="copy-btn" data-copy="'',
     att T (rv_ID repo), ''">Copy</button></div></div>'']\<close>

definition RepoAside :: "templ_lib \<Rightarrow> RepoView \<Rightarrow> html" where
  \<open>RepoAside T repo =
    flat [''<aside class="aside"><div class="aside-card"><h3>About</h3>'',
     if rv_Description repo \<noteq> '''' then flat [''<p>'', esc T (rv_Description repo), ''</p>'']
     else ''<p class="muted">No description provided.</p>'',
     ''<div class="aside-meta"><div class="row"><span class="msi">account_tree</span>'',
     ''Default branch <strong>'', esc T (rv_DefaultBranchName repo),
     ''</strong></div><div class="row"><span class="msi">folder</span><strong>'',
     esc T (dec_nat (length (rv_Rows repo))), ''</strong> top-level entries</div></div></div>'',
     CloneCard T repo, ''</aside>'']\<close>

definition code_layout :: "templ_lib \<Rightarrow> RepoView \<Rightarrow> html" where
  \<open>code_layout T repo =
    flat [''<div class="code-layout"><div><div class="code-toolbar">'',
     ''<details class="branch-picker"><summary class="pillbtn"><span class="msi">'',
     ''account_tree</span>'', esc T (rv_CurrentBranch repo),
     ''<span class="msi">expand_more</span></summary><div class="branch-menu">'',
     flat (map (\<lambda>b. if bo_Active b then flat [''<a href="'', esc T (bo_URL b), ''" class="active">'', esc T (bo_Name b), ''</a>'']
       else flat [''<a href="'', esc T (bo_URL b), ''">'', esc T (bo_Name b), ''</a>'']) (rv_Branches repo)),
     ''</div></details> <span class="spacer"></span> <a class="accentbtn" href="'',
     esc T (repo_commitsURL repo), ''"><span class="msi">history</span>History</a></div>'',
     FileTable T repo,
     case rv_Readme repo of None \<Rightarrow> '''' | Some readme \<Rightarrow> ReadmePanel readme,
     ''</div>'', RepoAside T repo, ''</div>'']\<close>

definition RepoPage_html :: "templ_lib \<Rightarrow> RepoView \<Rightarrow> html" where
  \<open>RepoPage_html T repo =
    flat [''<section class="repo">'', RepoHeader T repo,
     ''<div class="tabbar"><span class="tab active"><span class="msi">code</span>'',
     ''Code</span> <a class="tab" href="'', esc T (repo_commitsURL repo),
     ''"><span class="msi">history</span>Commits</a> <a class="tab" href="'',
     esc T (''/-/'' @ rv_Name repo @ ''/locks/branch/'' @ rv_CurrentBranch repo),
     ''"><span class="msi">lock</span>Locks</a></div>'',
     if rv_Empty repo then EmptyRepo
     else code_layout T repo, ''</section>'']\<close>

definition NotFound :: "templ_lib \<Rightarrow> string \<Rightarrow> html" where
  \<open>NotFound T name =
    flat [''<section class="not-found"><h1>Not found</h1><p>No repository named <code>'', esc T name,
     ''</code>.</p></section>'']\<close>

definition Forbidden :: "templ_lib \<Rightarrow> string \<Rightarrow> string \<Rightarrow> html" where
  \<open>Forbidden T name detail =
    flat [''<section class="not-found"><h1>Not authorized</h1><p>'',
     ''You are not authorized to access the repository <code>'', esc T name,
     ''</code> (token exchange failed).</p>'',
     if detail \<noteq> '''' then flat [''<p class="muted"><small>'', esc T detail, ''</small></p>'']
     else '''',
     ''</section>'']\<close>

definition TreeBreadcrumb :: "templ_lib \<Rightarrow> TreeView \<Rightarrow> html" where
  \<open>TreeBreadcrumb T tree =
    flat [''<nav class="path-crumb"><a href="'', esc T (''/-/'' @ tv_RepoName tree), ''">'',
     esc T (tv_RepoName tree), ''</a> '',
     if tv_DirPath tree \<noteq> '''' then flat (map (\<lambda>seg. flat [''<span class="sep">/</span> <a href="'', esc T (bs_URL seg), ''">'',
         esc T (bs_Name seg), ''</a>'']) (breadcrumbSegments (tv_Owner tree) (tv_RepoName tree) (tv_BranchName tree) (tv_DirPath tree)))
     else '''',
     ''</nav>'']\<close>

definition TreeFileRow :: "templ_lib \<Rightarrow> TreeView \<Rightarrow> FileRowView \<Rightarrow> html" where
  \<open>TreeFileRow T tree row =
    flat [''<div class="frow">'',
     if fr_IsDir row then ''<span class="msi icon-dir">folder</span> ''
     else ''<span class="msi icon-file">description</span> '',
     ''<a class="frow-name" href="'', esc T (treeSrcURL tree row), ''">'', esc T (fr_Name row),
     ''</a> <span class="frow-spacer"></span> '',
     if fr_Locked row then flat [''<span class="frow-lock" title="'', att T (lockTooltip (fr_LockOwner row)),
       ''"><span class="msi">lock</span>'', esc T (lockLabel (fr_LockOwner row)), ''</span>'']
     else '''',
     ''</div>'']\<close>

definition TreePage_html :: "templ_lib \<Rightarrow> TreeView \<Rightarrow> html" where
  \<open>TreePage_html T tree =
    flat [''<section class="tree">'',
     RepoSubHeader T (tv_RepoName tree) (tv_BranchName tree) ''code'', TreeBreadcrumb T tree,
     ''<div class="card"><div class="ftable-headrow">'',
     ''<span class="msi" style="font-size:18px;color:var(--text-secondary);">'',
     ''folder_open</span> <strong>'', esc T (treeDirLabel (tv_DirPath tree)),
     ''</strong> <span class="frow-spacer"></span> <span>'',
     esc T (dec_nat (length (tv_Rows tree))), '' items</span></div>'',
     if length (tv_Rows tree) = 0 then ''<div class="lt-empty">Empty directory</div>''
     else flat (map (\<lambda>row. TreeFileRow T tree row) (tv_Rows tree)),
     ''</div></section>'']\<close>

definition FileBreadcrumb :: "templ_lib \<Rightarrow> FileView \<Rightarrow> html" where
  \<open>FileBreadcrumb T file =
    flat [''<nav class="path-crumb"><a href="'', esc T (''/-/'' @ fv_RepoName file), ''">'',
     esc T (fv_RepoName file), ''</a> '',
     flat (map (\<lambda>seg. flat [''<span class="sep">/</span> <a href="'', esc T (bs_URL seg), ''">'', esc T (bs_Name seg),
       ''</a>'']) (breadcrumbSegments (fv_Owner file) (fv_RepoName file) (fv_BranchName file) (fv_FilePath file))),
     ''</nav>'']\<close>

definition FileToolbar :: "templ_lib \<Rightarrow> FileView \<Rightarrow> html" where
  \<open>FileToolbar T file =
    flat [''<div class="card-head file-toolbar"><span class="file-toolbar-path">'',
     esc T (fv_FilePath file), ''</span> <span class="frow-spacer"></span> '',
     if fv_Locked file then flat [''<span class="frow-lock" title="'', att T (lockTooltip (fv_LockOwner file)),
       ''"><span class="msi">lock</span>'', esc T (lockLabel (fv_LockOwner file)), ''</span> '']
     else '''',
     if fv_LexerName file \<noteq> '''' then flat [''<span class="badge">'', esc T (fv_LexerName file), ''</span> '']
     else '''',
     ''<a class="pillbtn" href="'', esc T (fv_RawURL file),
     ''"><span class="msi">download</span>Raw</a></div>'']\<close>

definition FileTooLarge :: "FileView \<Rightarrow> html" where
  \<open>FileTooLarge file =
    flat [''<div class="file-too-large"><p>'',
     ''This file is binary or too large to display inline.</p></div>'']\<close>

definition FilePage_html :: "templ_lib \<Rightarrow> FileView \<Rightarrow> html" where
  \<open>FilePage_html T file =
    flat [''<section class="file-view">'',
     RepoSubHeader T (fv_RepoName file) (fv_BranchName file) ''code'', FileBreadcrumb T file,
     ''<div class="card">'', FileToolbar T file,
     if fv_TooLarge file then FileTooLarge file
     else flat [''<div class="file-body">'',
       (case fv_Body file of None \<Rightarrow> '''' | Some h \<Rightarrow> h), ''</div>''],
     ''</div></section>'']\<close>

definition lock_row_html :: "templ_lib \<Rightarrow> LocksView \<Rightarrow> LockRowView \<Rightarrow> html" where
  \<open>lock_row_html T view row =
    flat [''<div class="lt-row"><code>'', esc T (lw_Path row), ''</code> <span>'',
     esc T (lw_Owner row), ''</span> <span>'', esc T (lw_LockedAt row),
     ''</span> <span><form method="post" action="'',
     esc T (''/'' @ lv_Owner view @ ''/'' @ lv_RepoName view @ ''/locks/branch/'' @ lv_BranchName view @ ''/release''),
     ''" style="display:inline"><input type="hidden" name="branch" value="'',
     att T (lw_Branch row), ''"> <input type="hidden" name="hash" value="'', att T (lw_Hash row),
     ''"> <input type="hidden" name="description" value="'', att T (lw_Description row),
     ''"> <button type="submit" class="admin-delete">Release</button></form></span>'',
     ''</div>'']\<close>

definition LocksPage_html :: "templ_lib \<Rightarrow> LocksView \<Rightarrow> html" where
  \<open>LocksPage_html T view =
    flat [''<section class="locks">'',
     RepoSubHeader T (lv_RepoName view) (lv_BranchName view) ''locks'',
     ''<div class="card" style="--cols: 1fr 200px 200px 120px;"><div class="lt-head">'',
     ''<span>File</span> <span>Locked by</span> <span>Locked at</span> <span></span>'',
     ''</div>'',
     if length (lv_Rows view) = 0 then ''<div class="lt-empty">No locks on this branch.</div>''
     else flat (map (\<lambda>row. lock_row_html T view row) (lv_Rows view)),
     ''</div></section>'']\<close>

section \<open>Every component is balanced\<close>

context escaping_templ begin

lemma commits_tab_balanced [component_rules]:
  "html_run (Text, st) (commits_tab T repo branch active) = (Text, st)"
  unfolding commits_tab_def by (simp add: html_machine run_holes component_rules)

lemma locks_tab_balanced [component_rules]:
  "html_run (Text, st) (locks_tab T repo branch active) = (Text, st)"
  unfolding locks_tab_def by (simp add: html_machine run_holes component_rules)

lemma RepoSubHeader_balanced [component_rules]:
  "html_run (Text, st) (RepoSubHeader T repo branch active) = (Text, st)"
  unfolding RepoSubHeader_def by (simp add: html_machine run_holes component_rules)

lemma HomePage_html_balanced [component_rules]:
  "html_run (Text, st) (HomePage_html T v) = (Text, st)"
  unfolding HomePage_html_def by (simp add: html_machine run_holes component_rules)

lemma RepoRow_balanced [component_rules]:
  "html_run (Text, st) (RepoRow T repo) = (Text, st)"
  unfolding RepoRow_def by (simp add: html_machine run_holes component_rules)

lemma RepoListPage_html_balanced [component_rules]:
  "html_run (Text, st) (RepoListPage_html T repos) = (Text, st)"
  unfolding RepoListPage_html_def by (simp add: html_machine run_holes component_rules)

lemma RepoHeader_balanced [component_rules]:
  "html_run (Text, st) (RepoHeader T repo) = (Text, st)"
  unfolding RepoHeader_def by (simp add: html_machine run_holes component_rules)

lemma EmptyRepo_balanced [component_rules]:
  "html_run (Text, st) (EmptyRepo) = (Text, st)"
  unfolding EmptyRepo_def by (simp add: html_machine run_holes component_rules)

lemma FileRow_balanced [component_rules]:
  "html_run (Text, st) (FileRow T repo row) = (Text, st)"
  unfolding FileRow_def by (simp add: html_machine run_holes component_rules)

lemma FileTable_balanced [component_rules]:
  "html_run (Text, st) (FileTable T repo) = (Text, st)"
  unfolding FileTable_def by (simp add: html_machine run_holes component_rules)

lemma ReadmePanel_balanced [component_rules]:
  "balanced readme \<Longrightarrow> html_run (Text, st) (ReadmePanel readme) = (Text, st)"
  unfolding ReadmePanel_def by (simp add: html_machine run_holes component_rules balanced_run)

lemma CloneCard_balanced [component_rules]:
  "html_run (Text, st) (CloneCard T repo) = (Text, st)"
  unfolding CloneCard_def by (simp add: html_machine run_holes component_rules)

lemma RepoAside_balanced [component_rules]:
  "html_run (Text, st) (RepoAside T repo) = (Text, st)"
  unfolding RepoAside_def by (simp add: html_machine run_holes component_rules)

lemma code_layout_balanced [component_rules]:
  "(\<And>h. rv_Readme repo = Some h \<Longrightarrow> balanced h) \<Longrightarrow> html_run (Text, st) (code_layout T repo) = (Text, st)"
  unfolding code_layout_def by (simp add: html_machine run_holes component_rules balanced_run split: option.split)

lemma RepoPage_html_balanced [component_rules]:
  "(\<And>h. rv_Readme repo = Some h \<Longrightarrow> balanced h) \<Longrightarrow> html_run (Text, st) (RepoPage_html T repo) = (Text, st)"
  unfolding RepoPage_html_def by (simp add: html_machine run_holes component_rules balanced_run)

lemma NotFound_balanced [component_rules]:
  "html_run (Text, st) (NotFound T name) = (Text, st)"
  unfolding NotFound_def by (simp add: html_machine run_holes component_rules)

lemma Forbidden_balanced [component_rules]:
  "html_run (Text, st) (Forbidden T name detail) = (Text, st)"
  unfolding Forbidden_def by (simp add: html_machine run_holes component_rules)

lemma TreeBreadcrumb_balanced [component_rules]:
  "html_run (Text, st) (TreeBreadcrumb T tree) = (Text, st)"
  unfolding TreeBreadcrumb_def by (simp add: html_machine run_holes component_rules)

lemma TreeFileRow_balanced [component_rules]:
  "html_run (Text, st) (TreeFileRow T tree row) = (Text, st)"
  unfolding TreeFileRow_def by (simp add: html_machine run_holes component_rules)

lemma TreePage_html_balanced [component_rules]:
  "html_run (Text, st) (TreePage_html T tree) = (Text, st)"
  unfolding TreePage_html_def by (simp add: html_machine run_holes component_rules)

lemma FileBreadcrumb_balanced [component_rules]:
  "html_run (Text, st) (FileBreadcrumb T file) = (Text, st)"
  unfolding FileBreadcrumb_def by (simp add: html_machine run_holes component_rules)

lemma FileToolbar_balanced [component_rules]:
  "html_run (Text, st) (FileToolbar T file) = (Text, st)"
  unfolding FileToolbar_def by (simp add: html_machine run_holes component_rules)

lemma FileTooLarge_balanced [component_rules]:
  "html_run (Text, st) (FileTooLarge file) = (Text, st)"
  unfolding FileTooLarge_def by (simp add: html_machine run_holes component_rules)

lemma FilePage_html_balanced [component_rules]:
  "(\<And>h. fv_Body file = Some h \<Longrightarrow> balanced h) \<Longrightarrow> html_run (Text, st) (FilePage_html T file) = (Text, st)"
  unfolding FilePage_html_def by (simp add: html_machine run_holes component_rules balanced_run split: option.split)

lemma lock_row_html_balanced [component_rules]:
  "html_run (Text, st) (lock_row_html T view row) = (Text, st)"
  unfolding lock_row_html_def by (simp add: html_machine run_holes component_rules)

lemma LocksPage_html_balanced [component_rules]:
  "html_run (Text, st) (LocksPage_html T view) = (Text, st)"
  unfolding LocksPage_html_def by (simp add: html_machine run_holes component_rules)

end

end
