(* ===== verification/Templ_History.thy ===== *)
theory Templ_History
  imports Templ_Repo
begin

text \<open>
  The templates of the history and of a commit: \<open>commits_templ.go\<close> and \<open>commit_templ.go\<close>, with the
  printers of the latter.
\<close>

section \<open>Helpers\<close>

definition formatUint :: "u64 \<Rightarrow> string" where
  "formatUint n = (if n = 0 then ''0'' else digit_loop (uint n) '''')"

definition templ_formatInt :: "nat \<Rightarrow> string" where
  "templ_formatInt n = formatUint (of_nat n)"

definition formatInt64 :: "int \<Rightarrow> string" where
  "formatInt64 n = (let n = (if n < 0 then 0 else n) in formatUint (word_of_int n))"

definition pluralFiles :: "nat \<Rightarrow> string" where
  "pluralFiles n = (if n = 1 then ''1 file changed'' else templ_formatInt n @ '' files changed'')"

section \<open>Components\<close>

definition CommitRow :: "templ_lib \<Rightarrow> CommitRowView \<Rightarrow> html" where
  \<open>CommitRow T row =
    flat [''<div class="commit-listrow"><span class="commit-listrow-avatar">'',
     esc T (Initials T (cw_Author row)),
     ''</span><div class="commit-listrow-main"><a class="commit-listrow-subject" href="'',
     esc T (cw_URL row), ''">'', esc T (cw_Subject row),
     ''</a><div class="commit-listrow-sub"><span class="commit-listrow-author">'',
     esc T (cw_Author row), ''</span> committed '', esc T (cw_RelTime row),
     ''</div></div><a class="commit-listrow-hash" href="'', esc T (cw_URL row), ''">'',
     esc T (cw_ShortSig row),
     ''</a> <span class="msi commit-listrow-copy">content_copy</span></div>'']\<close>

definition CommitDateSection :: "templ_lib \<Rightarrow> CommitDateGroup \<Rightarrow> html" where
  \<open>CommitDateSection T grp =
    flat [''<div class="commit-grouphead"><span class="msi">calendar_today</span>Commits on '',
     esc T (cg_Date grp), ''</div><div class="card">'',
     flat (map (\<lambda>row. CommitRow T row) (cg_Rows grp)), ''</div>'']\<close>

definition CommitPager :: "templ_lib \<Rightarrow> CommitListView \<Rightarrow> html" where
  \<open>CommitPager T view =
    flat [''<nav class="code-toolbar commit-pager">'',
     if cl_PrevURL view \<noteq> '''' then flat [''<a class="pillbtn" href="'', esc T (cl_PrevURL view),
       ''"><span class="msi">chevron_left</span>Newer</a> '']
     else flat [''<span class="pillbtn disabled"><span class="msi">chevron_left</span>Newer</span>'',
       '' ''],
     ''<span class="spacer"></span> '',
     if cl_NextURL view \<noteq> '''' then flat [''<a class="pillbtn" href="'', esc T (cl_NextURL view),
       ''">Older<span class="msi">chevron_right</span></a>'']
     else flat [''<span class="pillbtn disabled">Older<span class="msi">chevron_right</span>'',
       ''</span>''],
     ''</nav>'']\<close>

definition CommitListPage_html :: "templ_lib \<Rightarrow> CommitListView \<Rightarrow> html" where
  \<open>CommitListPage_html T view =
    flat [''<section class="commits">'',
     RepoSubHeader T (cl_RepoName view) (cl_BranchName view) ''commits'',
     if cl_Empty view then ''<div class="card"><div class="lt-empty">No commits yet.</div></div>''
     else flat [''<div class="commit-list">'',
       flat (map (\<lambda>grp. CommitDateSection T grp) (cl_Groups view)), ''</div>'',
       CommitPager T view],
     ''</section>'']\<close>

definition commit_statsbar :: "templ_lib \<Rightarrow> CommitView \<Rightarrow> html" where
  \<open>commit_statsbar T view =
    flat [esc T (cv_ShortSig view), ''</span></span> <span>parent '',
     if length (cv_Parents view) > 0 then flat [''<a class="mono-accent" href="'', esc T (cp_URL (hd (cv_Parents view))), ''">'',
       esc T (cp_ShortSig (hd (cv_Parents view))), ''</a>'']
     else ''<span class="mono-accent">(root)</span>'',
     ''</span> <span class="spacer"></span> <span>'', esc T (pluralFiles (cv_FilesChanged view)),
     ''</span> <span class="commit-stat-add">+'', esc T (formatUint (cv_Added view)),
     ''</span> <span class="commit-stat-del">'', minus_sign,
     esc T (formatUint (cv_Deleted view))]\<close>

definition CommitDetailHead :: "templ_lib \<Rightarrow> CommitView \<Rightarrow> html" where
  \<open>CommitDetailHead T view =
    flat [''<div class="card commit-detail-head"><div class="commit-detail-headtop">'',
     ''<div class="commit-detail-msg">'', esc T (cv_Subject view), ''</div>'',
     if cv_Body view \<noteq> '''' then flat [''<pre class="commit-message">'', esc T (cv_Body view), ''</pre>'']
     else '''',
     ''<div class="commit-detail-meta"><span class="commit-detail-avatar">'',
     esc T (Initials T (cv_Author view)), ''</span> <span class="commit-author-name">'',
     esc T (cv_Author view), ''</span> '',
     if cv_Committer view \<noteq> '''' then flat [''<span class="commit-committer">committed by '', esc T (cv_Committer view), ''</span> '']
     else '''',
     ''<span class="commit-detail-committed">committed '', esc T (cv_Date view),
     ''</span></div></div><div class="commit-statsbar">'',
     ''<span class="commit-statsbar-ref"><span class="msi">commit</span>'',
     ''commit <span class="mono-accent">'', commit_statsbar T view, ''</span></div></div>'']\<close>

definition commit_file_row :: "templ_lib \<Rightarrow> CommitFileView \<Rightarrow> html" where
  \<open>commit_file_row T file =
    flat [''<div class="commit-files-row"><span class="msi">description</span>'',
     '' <span class="commit-files-path">'', esc T (cf_Path file),
     ''</span> <span class="commit-files-stat">+'', esc T (formatInt64 (cf_Adds file)), '' '',
     minus_sign, esc T (formatInt64 (cf_Dels file)), ''</span></div>'']\<close>

definition CommitPage_html :: "templ_lib \<Rightarrow> CommitView \<Rightarrow> html" where
  \<open>CommitPage_html T view =
    flat [''<section class="commit">'',
     RepoSubHeader T (cv_RepoName view) (cv_BranchName view) ''commits'',
     ''<a class="commit-back" href="'',
     esc T (''/-/'' @ cv_RepoName view @ ''/commits/branch/'' @ cv_BranchName view),
     ''"><span class="msi">arrow_back</span>All commits</a>'', CommitDetailHead T view,
     ''<div class="commit-detail-grid"><aside class="commit-files card">'',
     ''<div class="card-head"><span class="msi">account_tree</span>'',
     ''Changed files <span class="countchip">'', esc T (templ_formatInt (cv_FilesChanged view)),
     ''</span></div><div class="commit-files-list">'',
     flat (map (\<lambda>file. commit_file_row T file) (cv_Files view)),
     ''</div></aside><div class="commit-detail-diff">'',
     case cv_Diff view of Some diff \<Rightarrow> diff
      | None \<Rightarrow> ''<div class="card"><div class="lt-empty">No file changes.</div></div>'',
     ''</div></div></section>'']\<close>

section \<open>Every component is balanced\<close>

context escaping_templ begin

lemma CommitRow_balanced [component_rules]:
  "html_run (Text, st) (CommitRow T row) = (Text, st)"
  unfolding CommitRow_def by (simp add: html_machine run_holes component_rules)

lemma CommitDateSection_balanced [component_rules]:
  "html_run (Text, st) (CommitDateSection T grp) = (Text, st)"
  unfolding CommitDateSection_def by (simp add: html_machine run_holes component_rules)

lemma CommitPager_balanced [component_rules]:
  "html_run (Text, st) (CommitPager T view) = (Text, st)"
  unfolding CommitPager_def by (simp add: html_machine run_holes component_rules)

lemma CommitListPage_html_balanced [component_rules]:
  "html_run (Text, st) (CommitListPage_html T view) = (Text, st)"
  unfolding CommitListPage_html_def by (simp add: html_machine run_holes component_rules)

lemma CommitDetailHead_balanced [component_rules]:
  "html_run (Text, st) (CommitDetailHead T view) = (Text, st)"
  unfolding CommitDetailHead_def commit_statsbar_def by (simp add: html_machine run_holes component_rules minus_sign_def)

lemma commit_file_row_balanced [component_rules]:
  "html_run (Text, st) (commit_file_row T file) = (Text, st)"
  unfolding commit_file_row_def by (simp add: html_machine run_holes component_rules minus_sign_def)

lemma CommitPage_html_balanced [component_rules]:
  "(\<And>h. cv_Diff view = Some h \<Longrightarrow> balanced h) \<Longrightarrow> html_run (Text, st) (CommitPage_html T view) = (Text, st)"
  unfolding CommitPage_html_def by (simp add: html_machine run_holes component_rules balanced_run split: option.split)

end

end
