(* ===== verification/Templ_Admin.thy ===== *)
theory Templ_Admin
  imports Templ_Repo
begin

text \<open>
  The templates of the management pages, of the forms and of the layout: \<open>admin_templ.go\<close>,
  \<open>admin_users_templ.go\<close>, \<open>admin_repos_templ.go\<close>, \<open>admin_grants_templ.go\<close>, \<open>account_templ.go\<close>,
  \<open>login_templ.go\<close>, \<open>register_templ.go\<close>, \<open>stub_templ.go\<close> and \<open>layout_templ.go\<close>.
\<close>

section \<open>Helpers\<close>

record PermMeta =
  pm_ID :: string
  pm_Label :: string
  pm_Desc :: string

definition permCatalog :: "PermMeta list" where
  "permCatalog = [
     \<lparr>pm_ID = ''read'', pm_Label = ''Access'', pm_Desc = ''Clone, browse, and push. Lore doesn'' @ [CHR 0x27] @
       ''t separate read/write '' @ em_dash @ '' any grant gives full access.''\<rparr>,
     \<lparr>pm_ID = ''owner'', pm_Label = ''Owner'', pm_Desc = ''Force-unlock other users'' @ [CHR 0x27] @
       '' locks, and delete this repository'' @ [CHR 0x27] @ ''s access entry.''\<rparr>,
     \<lparr>pm_ID = ''obliterate'', pm_Label = ''Obliterate'',
       pm_Desc = ''Permanently remove content (obliterate).''\<rparr>,
     \<lparr>pm_ID = ''migrate'', pm_Label = ''Migrate'', pm_Desc = ''Manage admin locks (migrate).''\<rparr>]"

fun hasPerm :: "string list \<Rightarrow> string \<Rightarrow> bool" where
  "hasPerm [] perm = False"
| "hasPerm (p # perms) perm = (if p = perm then True else hasPerm perms perm)"

definition grantedCount :: "AdminGrantsResource list \<Rightarrow> nat" where
  "grantedCount resources = foldl (\<lambda>n res. foldl (\<lambda>n meta.
     if hasPerm (ag_Permissions res) (pm_ID meta) then n + 1 else n) n permCatalog) 0 resources"

definition memberDisplay :: "AdminGrantsMember \<Rightarrow> string" where
  "memberDisplay m = (if gm_DisplayName m \<noteq> '''' then gm_DisplayName m else gm_Username m)"

definition resourceDisplay :: "AdminGrantsResource \<Rightarrow> string" where
  "resourceDisplay res = (if ag_Name res \<noteq> '''' then ag_Name res else ag_ResourceID res)"

text \<open>The zero value when no member is selected; the page does not use the flag beside it.\<close>

definition selectedMember :: "AdminGrantsMember list \<Rightarrow> AdminGrantsMember" where
  "selectedMember members = (case find gm_Selected members of
      Some m \<Rightarrow> m
    | None \<Rightarrow> \<lparr>gm_Username = '''', gm_DisplayName = '''', gm_IsAdmin = False, gm_Selected = False\<rparr>)"

definition toggleAction :: "bool \<Rightarrow> string" where
  "toggleAction granted = (if granted then ''/admin/grants/delete'' else ''/admin/grants'')"

definition toggleAria :: "bool \<Rightarrow> string \<Rightarrow> string \<Rightarrow> string" where
  "toggleAria granted label rsc = (if granted then ''Revoke '' @ label @ '' on '' @ rsc
     else ''Grant '' @ label @ '' on '' @ rsc)"

definition countLabel :: "nat \<Rightarrow> nat \<Rightarrow> string" where
  "countLabel granted tot = dec_nat granted @ '' of '' @ dec_nat tot @ '' permissions granted''"

section \<open>Components\<close>

definition AdminHeader :: "templ_lib \<Rightarrow> string \<Rightarrow> html" where
  \<open>AdminHeader T active =
    flat [''<div class="page-head"><h1>Administration</h1><p>'',
     ''Manage users, repositories, and grants for this Lore server.</p></div>'',
     ''<div class="tabbar">'', ''<a class="'',
     cls T [(''tab'', True), (''active'', active = ''users'')],
     ''" href="/admin/users"><span class="msi">group</span>Users</a> '', ''<a class="'',
     cls T [(''tab'', True), (''active'', active = ''repos'')],
     ''" href="/admin/repos"><span class="msi">folder</span>Repositories</a> '', ''<a class="'',
     cls T [(''tab'', True), (''active'', active = ''grants'')],
     ''" href="/admin/grants"><span class="msi">key</span>Grants</a></div>'']\<close>

definition admin_user_row :: "templ_lib \<Rightarrow> AdminUserView \<Rightarrow> html" where
  \<open>admin_user_row T u =
    flat [''<tr><td>'', esc T (au_Username u), ''</td><td>'', esc T (au_DisplayName u), ''</td><td>'',
     if au_IsAdmin u then ''<span class="role-chip admin">Admin</span>''
     else ''<span class="role-chip">Member</span>'',
     ''</td><td class="admin-actions"><form method="post" action="'',
     esc T (''/admin/users/'' @ au_Username u @ ''/admin''), ''" style="display:inline">'',
     if au_IsAdmin u then flat [''<input type="hidden" name="is_admin" value="0"> <button type="submit">'',
       ''Demote</button>'']
     else flat [''<input type="hidden" name="is_admin" value="1"> <button type="submit">'',
       ''Promote</button>''],
     ''</form><details class="admin-inline-form"><summary>Set password</summary>'',
     ''<form method="post" action="'', esc T (''/admin/users/'' @ au_Username u @ ''/password''),
     ''"><input type="password" name="password" placeholder="New password" required>'',
     '' <button type="submit">Set</button></form></details><form method="post" action="'',
     esc T (''/admin/users/'' @ au_Username u @ ''/delete''),
     ''" style="display:inline"><button type="submit" class="admin-delete">'',
     ''Delete</button></form></td></tr>'']\<close>

definition AdminUsersPage_html :: "templ_lib \<Rightarrow> AdminUserView list \<Rightarrow> string \<Rightarrow> bool \<Rightarrow> html" where
  \<open>AdminUsersPage_html T users errMsg registrationOpen =
    flat [''<section class="admin">'', AdminHeader T ''users'',
     if errMsg \<noteq> '''' then flat [''<p class="admin-error">'', esc T errMsg, ''</p>'']
     else '''',
     ''<form class="admin-reg-toggle" method="post" action="/admin/registration">'',
     if registrationOpen then flat [''<span>Registration: <strong>OPEN</strong></span>'',
       '' <input type="hidden" name="open" value="0"> <button type="submit">'',
       ''Close</button>'']
     else flat [''<span>Registration: <strong>CLOSED</strong></span>'',
       '' <input type="hidden" name="open" value="1"> <button type="submit">Open</button>''],
     ''</form><details class="admin-create" open><summary>Create user</summary>'',
     ''<form class="admin-form" method="post" action="/admin/users"><label>'',
     ''Username <input type="text" name="username" required></label> <label>'',
     ''Display name <input type="text" name="display_name"></label> <label>'',
     ''Password <input type="password" name="password" required></label>'',
     '' <label class="admin-checkbox"><input type="checkbox" name="is_admin" value="1">'',
     '' Admin</label> <button type="submit">Create</button></form></details>'',
     ''<table class="admin-table"><thead><tr><th>Username</th><th>Display name</th><th>'',
     ''Admin</th><th>Actions</th></tr></thead> <tbody>'',
     flat (map (\<lambda>u. admin_user_row T u) users), ''</tbody></table></section>'']\<close>

definition admin_repo_row :: "templ_lib \<Rightarrow> AdminRepoView \<Rightarrow> html" where
  \<open>admin_repo_row T repo =
    flat [''<tr><td><a href="'', esc T (''/-/'' @ av_Name repo), ''">'', esc T (av_Name repo),
     ''</a></td><td class="repo-id-cell"><code class="repo-id">'', esc T (av_ID repo),
     ''</code> <button type="button" class="copy-btn" data-copy="'', att T (av_ID repo),
     ''" title="Copy repository ID">Copy</button></td><td>'', esc T (av_Description repo),
     ''</td><td>'', esc T (av_DefaultBranchName repo), ''</td><td>'', esc T (av_Creator repo),
     ''</td><td><form method="post" action="'',
     esc T (''/admin/repos/'' @ av_ID repo @ ''/delete''),
     ''" data-confirm="Delete this repository? This permanently deletes it on the '',
     ''server and removes its access entry. This cannot be undone." '',
     ''style="display:inline"><button type="submit" class="admin-delete">'',
     ''Delete</button></form></td></tr>'']\<close>

definition AdminReposPage_html :: "templ_lib \<Rightarrow> AdminRepoView list \<Rightarrow> string \<Rightarrow> html" where
  \<open>AdminReposPage_html T repos errMsg =
    flat [''<section class="admin">'', AdminHeader T ''repos'',
     if errMsg \<noteq> '''' then flat [''<p class="admin-error">'', esc T errMsg, ''</p>'']
     else '''',
     ''<details class="admin-create"><summary>New repository</summary>'',
     ''<form class="admin-form" method="post" action="/admin/repos"><label>'',
     ''Name <input type="text" name="name" required></label> <label>'',
     ''Description <input type="text" name="description"></label>'',
     '' <button type="submit">Create repository</button></form></details>'',
     '' <details class="admin-create"><summary>Import existing repository</summary>'',
     ''<p class="admin-hint">Register a repo that already exists on lore-server but isn'',
     [CHR 0x27],
     ''t listed here (e.g. created before this panel, or after a DB reset). Paste its '',
     ''<strong>Repository ID</strong> (32-hex); you become its owner and it appears '',
     ''below with its real name. A repo that exists on the server but isn&#39;t listed '',
     ''here? Get its ID with <code>lore status</code>'',
     '' in the wired folder and import it by ID. (The panel can&#39;t auto-discover it '',
     em_dash, '' lore-server only lists registered repos.)</p>'',
     ''<form class="admin-form" method="post" action="/admin/repos/import"><label>'',
     ''Repository ID <input type="text" name="resource_id" '',
     ''placeholder="019ed680340e706199da36c108c00af7" required></label> <label>'',
     ''Name (optional) <input type="text" name="name"></label> <button type="submit">'',
     ''Import repository</button></form></details><p class="admin-hint">The <strong>'',
     ''Repository ID</strong> is what wires a local folder to a repo: <code>'',
     ''lore repository create lore://&lt;host&gt;:41337/&lt;name&gt; --id '',
     ''&lt;ID&gt;</code> (attach an existing folder), or just <code>'',
     ''lore clone lore://&lt;host&gt;:41337/&lt;name&gt;</code> (fresh checkout '', em_dash,
     '' resolves the ID for you).</p><table class="admin-table"><thead><tr><th>'',
     ''Name</th><th>Repository ID</th><th>Description</th><th>Default branch</th><th>'',
     ''Creator</th><th></th></tr></thead> <tbody>'',
     flat (map (\<lambda>repo. admin_repo_row T repo) repos),
     if length repos = 0 then ''<tr><td colspan="6" class="admin-empty">No repositories yet.</td></tr>''
     else '''',
     ''</tbody></table></section>'']\<close>

definition member_row :: "templ_lib \<Rightarrow> AdminGrantsMember \<Rightarrow> html" where
  \<open>member_row T m =
    flat [''<a class="'', cls T [(''member-row'', True), (''selected'', gm_Selected m)], ''" href="'',
     esc T (''/admin/grants?user='' @ gm_Username m), ''"><span class="member-avatar">'',
     esc T (Initials T (memberDisplay m)),
     ''</span> <span class="member-meta"><span class="member-name">'', esc T (memberDisplay m),
     ''</span> <span class="member-sub">'', esc T (gm_Username m), '' '',
     if gm_IsAdmin m then ''<span class="member-tag">admin</span>''
     else '''',
     ''</span></span> '',
     if gm_Selected m then ''<span class="msi member-check">check_circle</span>''
     else '''',
     ''</a> '']\<close>

definition perm_item :: "templ_lib \<Rightarrow> string \<Rightarrow> AdminGrantsResource \<Rightarrow> PermMeta \<Rightarrow> html" where
  \<open>perm_item T selectedUser res meta =
    (let granted = hasPerm (ag_Permissions res) (pm_ID meta) in
    flat [''<div class="perm-item"><div class="perm-item-meta"><div class="perm-item-label">'',
     esc T (pm_Label meta), ''</div><div class="perm-item-desc">'', esc T (pm_Desc meta),
     ''</div></div><form method="post" action="'', url T (toggleAction granted),
     ''" class="perm-toggle-form"><input type="hidden" name="username" value="'',
     att T selectedUser, ''"> <input type="hidden" name="resource_id" value="'',
     att T (ag_ResourceID res), ''"> <input type="hidden" name="permission" value="'',
     att T (pm_ID meta), ''"> '', ''<button type="submit" class="'',
     cls T [(''perm-toggle'', True), (''on'', granted)], ''" aria-label="'',
     att T (toggleAria granted (pm_Label meta) (resourceDisplay res)),
     ''"><span class="perm-knob"></span></button></form></div>''])\<close>

definition perm_resource :: "templ_lib \<Rightarrow> string \<Rightarrow> AdminGrantsResource \<Rightarrow> html" where
  \<open>perm_resource T selectedUser res =
    flat [''<div class="perm-resource"><div class="perm-resource-head"><span>'',
     esc T (resourceDisplay res), ''</span> <span class="perm-resource-id">'',
     esc T (ag_ResourceID res), ''</span></div>'',
     flat (map (\<lambda>meta. perm_item T selectedUser res meta) permCatalog), ''</div>'']\<close>

definition perm_panel :: "templ_lib \<Rightarrow> AdminGrantsMember list \<Rightarrow> AdminGrantsResource list \<Rightarrow> string \<Rightarrow> html" where
  \<open>perm_panel T members resources selectedUser =
    (let sel = selectedMember members in
    flat [''<div class="perm-panel-head"><span class="perm-panel-avatar">'',
     esc T (Initials T (memberDisplay sel)),
     ''</span><div class="perm-panel-id"><div class="perm-panel-namerow">'',
     ''<span class="perm-panel-name">'', esc T (memberDisplay sel), ''</span> '',
     if gm_IsAdmin sel then ''<span class="role-chip admin">Admin</span>''
     else '''',
     ''</div><div class="perm-panel-count">'',
     esc T (countLabel (grantedCount resources) (length resources * length permCatalog)),
     ''</div>'',
     if gm_IsAdmin sel then ''<div class="perm-panel-note">Admins have full access regardless of grants.</div>''
     else '''',
     ''</div></div>'',
     if length resources = 0 then ''<div class="lt-empty">No resources registered yet.</div>''
     else '''',
     flat (map (\<lambda>res. perm_resource T selectedUser res) resources)])\<close>

definition grant_resource_row :: "templ_lib \<Rightarrow> AdminGrantsResource \<Rightarrow> html" where
  \<open>grant_resource_row T res =
    flat [''<tr><td><code>'', esc T (ag_ResourceID res), ''</code></td><td>'', esc T (ag_Name res),
     ''</td><td><form method="post" action="/admin/resources/remove" '',
     ''data-confirm="Remove this access entry? This removes the auth row only. If the '',
     ''repository still exists on the server it becomes an UNLISTED ORPHAN '', em_dash,
     '' to delete a live repo use Delete on the Repositories tab." '',
     ''style="display:inline"><input type="hidden" name="resource_id" value="'',
     att T (ag_ResourceID res),
     ''"> <button type="submit" class="admin-delete">Remove</button></form></td></tr>'']\<close>

definition AdminGrantsPage_html :: "templ_lib \<Rightarrow> AdminGrantsMember list \<Rightarrow> AdminGrantsResource list \<Rightarrow> string \<Rightarrow> string \<Rightarrow> html" where
  \<open>AdminGrantsPage_html T members resources selectedUser errMsg =
    flat [''<section class="admin">'', AdminHeader T ''grants'',
     if errMsg \<noteq> '''' then flat [''<p class="admin-error">'', esc T errMsg, ''</p>'']
     else '''',
     ''<div class="perm-grid"><div class="card member-list"><div class="member-search">'',
     ''<span class="msi">search</span> <input type="text" placeholder="Search members'',
     ellipsis, ''"></div><div class="member-list-scroll">'',
     flat (map (\<lambda>m. member_row T m) members),
     if length members = 0 then ''<div class="lt-empty">No members found.</div>''
     else '''',
     ''</div></div><div class="card perm-panel">'',
     if selectedUser = '''' then ''<div class="lt-empty">Select a member to manage their permissions.</div>''
     else perm_panel T members resources selectedUser,
     ''</div></div><h2>Registered resources</h2><table class="admin-table"><thead><tr>'',
     ''<th>Resource ID</th><th>Name</th><th></th></tr></thead> <tbody>'',
     flat (map (\<lambda>res. grant_resource_row T res) resources),
     if length resources = 0 then ''<tr><td colspan="3" class="admin-empty">No resources registered yet.</td></tr>''
     else '''',
     ''</tbody></table></section>'']\<close>

definition AccountPage_html :: "templ_lib \<Rightarrow> string \<Rightarrow> string \<Rightarrow> html" where
  \<open>AccountPage_html T errMsg success =
    flat [''<section class="account"><div class="page-head"><h1>Account</h1><p>'',
     ''Manage your sign-in credentials.</p></div><div class="card"><h2>'',
     ''Change password</h2>'',
     if errMsg \<noteq> '''' then flat [''<p class="admin-error">'', esc T errMsg, ''</p>'']
     else '''',
     if success \<noteq> '''' then flat [''<p class="admin-success">'', esc T success, ''</p>'']
     else '''',
     ''<form class="admin-form" method="post" action="/account/password"><label>'',
     ''Current password <input type="password" name="current" '',
     ''autocomplete="current-password" required></label> <label>'',
     ''New password <input type="password" name="new" autocomplete="new-password" '',
     ''required></label> <button type="submit">Change password</button></form></div>'',
     ''</section>'']\<close>

definition LoginPage_html :: "templ_lib \<Rightarrow> string \<Rightarrow> bool \<Rightarrow> html" where
  \<open>LoginPage_html T errMsg registrationOpen =
    flat [''<section class="auth-wrap"><div class="auth-card"><div class="auth-brand">'',
     ''<span class="brand-logo"><span class="msi">deployed_code</span></span>'',
     '' <span class="brand-name">ArcLore</span></div><h1 class="auth-title">'', ''Sign in</h1>'',
     if errMsg \<noteq> '''' then flat [''<p class="auth-error">'', esc T errMsg, ''</p>'']
     else '''',
     ''<form class="auth-form" method="post" action="/auth/login"><label>'',
     ''Username <input type="text" name="username" autocomplete="username" autofocus '',
     ''required></label> <label>Password <input type="password" name="password" '',
     ''autocomplete="current-password" required></label>'',
     '' <button class="accentbtn auth-submit" type="submit">Sign in</button></form>'',
     if registrationOpen then ''<p class="auth-alt">Need an account? <a href="/auth/register">Create one</a></p>''
     else '''',
     ''</div></section>'']\<close>

definition SetupPage_html :: "templ_lib \<Rightarrow> string \<Rightarrow> html" where
  \<open>SetupPage_html T errMsg =
    flat [''<section class="auth-wrap"><div class="auth-card"><div class="auth-brand">'',
     ''<span class="brand-logo"><span class="msi">deployed_code</span></span>'',
     '' <span class="brand-name">ArcLore</span></div><h1 class="auth-title">'',
     ''Set up ArcLore</h1><p class="auth-sub">'',
     ''No users exist yet. Create the first administrator account.</p>'',
     if errMsg \<noteq> '''' then flat [''<p class="auth-error">'', esc T errMsg, ''</p>'']
     else '''',
     ''<form class="auth-form" method="post" action="/setup"><label>'',
     ''Username <input type="text" name="username" autocomplete="username" autofocus '',
     ''required></label> <label>Display name <input type="text" name="display_name" '',
     ''autocomplete="name"></label> <label>'',
     ''Password <input type="password" name="password" autocomplete="new-password" '',
     ''required></label> <button class="accentbtn auth-submit" type="submit">'',
     ''Create admin &amp; sign in</button></form></div></section>'']\<close>

definition RegisterPage_html :: "templ_lib \<Rightarrow> string \<Rightarrow> html" where
  \<open>RegisterPage_html T errMsg =
    flat [''<section class="auth-wrap"><div class="auth-card"><div class="auth-brand">'',
     ''<span class="brand-logo"><span class="msi">deployed_code</span></span>'',
     '' <span class="brand-name">ArcLore</span></div><h1 class="auth-title">'',
     ''Create your account</h1>'',
     if errMsg \<noteq> '''' then flat [''<p class="auth-error">'', esc T errMsg, ''</p>'']
     else '''',
     ''<form class="auth-form" method="post" action="/auth/register"><label>'',
     ''Username <input type="text" name="username" autocomplete="username" autofocus '',
     ''required></label> <label>Password <input type="password" name="password" '',
     ''autocomplete="new-password" required></label>'',
     '' <button class="accentbtn auth-submit" type="submit">Create account</button>'',
     ''</form><p class="auth-alt">Already have an account? <a href="/auth/login">'',
     ''Sign in</a></p></div></section>'']\<close>

definition Stub :: "templ_lib \<Rightarrow> string \<Rightarrow> html" where
  \<open>Stub T note' =
    flat [''<section class="stub"><h1>ArcLore</h1><p>'', esc T note', ''</p></section>'']\<close>

definition nav_user :: "templ_lib \<Rightarrow> string \<Rightarrow> bool \<Rightarrow> string \<Rightarrow> html" where
  \<open>nav_user T username isAdmin sect =
    flat [''<div class="nav-search"><span class="msi">search</span>'',
     ''<input type="text" placeholder="Search repositories, users, code'', ellipsis,
     ''" aria-label="Search"></div><span class="nav-spacer"></span>'',
     ''<div class="nav-links">'', ''<a href="/" class="'', cls T [(''active'', sect = ''home'')],
     ''">Home</a> '', ''<a href="/explore" class="'', cls T [(''active'', sect = ''explore'')],
     ''">Explore</a> '',
     if isAdmin then flat [''<a href="/admin/repos" class="'', cls T [(''active'', sect = ''admin'')],
       ''">Admin</a>'']
     else '''',
     ''</div><span class="nav-bell msi" title="Notifications">notifications</span>'',
     ''  <form method="POST" action="/auth/logout">'',
     ''<button type="submit" class="nav-avatar" title="Sign out">'', esc T (Initials T username),
     ''</button></form>'']\<close>

definition Layout_html :: "templ_lib \<Rightarrow> string \<Rightarrow> html \<Rightarrow> string \<Rightarrow> bool \<Rightarrow> string \<Rightarrow> html" where
  \<open>Layout_html T title content username isAdmin sect =
    flat [''<!doctype html><html lang="en"><head><meta charset="utf-8">'',
     ''<meta name="viewport" content="width=device-width, initial-scale=1"><title>'',
     esc T title, ''</title><link rel="stylesheet" href="/static/app.css">'',
     ''<link rel="stylesheet" href="/static/chroma.css">'',
     ''<script src="/static/htmx.min.js" defer></script>'',
     ''<script src="/static/app.js" defer></script></head><body><nav class="topnav">'',
     ''<a href="/" class="brand" hx-get="/" hx-target="#main-content" '',
     ''hx-push-url="true"><span class="brand-logo"><span class="msi">'',
     ''deployed_code</span></span> <span class="brand-name">ArcLore</span></a> '',
     if username \<noteq> '''' then nav_user T username isAdmin sect
     else ''<span class="nav-spacer"></span>'',
     ''</nav><main id="main-content" hx-boost="false">'', content, ''</main></body></html>'']\<close>

section \<open>Every component is balanced\<close>

context escaping_templ begin

lemma AdminHeader_balanced [component_rules]:
  "html_run (Text, st) (AdminHeader T active) = (Text, st)"
  unfolding AdminHeader_def by (simp add: html_machine run_holes component_rules)

lemma admin_user_row_balanced [component_rules]:
  "html_run (Text, st) (admin_user_row T u) = (Text, st)"
  unfolding admin_user_row_def by (simp add: html_machine run_holes component_rules)

lemma AdminUsersPage_html_balanced [component_rules]:
  "html_run (Text, st) (AdminUsersPage_html T users errMsg registrationOpen) = (Text, st)"
  unfolding AdminUsersPage_html_def by (simp add: html_machine run_holes component_rules)

lemma admin_repo_row_balanced [component_rules]:
  "html_run (Text, st) (admin_repo_row T repo) = (Text, st)"
  unfolding admin_repo_row_def by (simp add: html_machine run_holes component_rules)

lemma AdminReposPage_html_balanced [component_rules]:
  "html_run (Text, st) (AdminReposPage_html T repos errMsg) = (Text, st)"
  unfolding AdminReposPage_html_def by (simp add: html_machine run_holes component_rules)

lemma member_row_balanced [component_rules]:
  "html_run (Text, st) (member_row T m) = (Text, st)"
  unfolding member_row_def by (simp add: html_machine run_holes component_rules)

lemma perm_item_balanced [component_rules]:
  "html_run (Text, st) (perm_item T selectedUser res meta) = (Text, st)"
  unfolding perm_item_def Let_def by (simp add: html_machine run_holes component_rules)

lemma perm_resource_balanced [component_rules]:
  "html_run (Text, st) (perm_resource T selectedUser res) = (Text, st)"
  unfolding perm_resource_def by (simp add: html_machine run_holes component_rules)

lemma perm_panel_balanced [component_rules]:
  "html_run (Text, st) (perm_panel T members resources selectedUser) = (Text, st)"
  unfolding perm_panel_def Let_def by (simp add: html_machine run_holes component_rules)

lemma grant_resource_row_balanced [component_rules]:
  "html_run (Text, st) (grant_resource_row T res) = (Text, st)"
  unfolding grant_resource_row_def by (simp add: html_machine run_holes component_rules)

lemma AdminGrantsPage_html_balanced [component_rules]:
  "html_run (Text, st) (AdminGrantsPage_html T members resources selectedUser errMsg) = (Text, st)"
  unfolding AdminGrantsPage_html_def by (simp add: html_machine run_holes component_rules)

lemma AccountPage_html_balanced [component_rules]:
  "html_run (Text, st) (AccountPage_html T errMsg success) = (Text, st)"
  unfolding AccountPage_html_def by (simp add: html_machine run_holes component_rules)

lemma LoginPage_html_balanced [component_rules]:
  "html_run (Text, st) (LoginPage_html T errMsg registrationOpen) = (Text, st)"
  unfolding LoginPage_html_def by (simp add: html_machine run_holes component_rules)

lemma SetupPage_html_balanced [component_rules]:
  "html_run (Text, st) (SetupPage_html T errMsg) = (Text, st)"
  unfolding SetupPage_html_def by (simp add: html_machine run_holes component_rules)

lemma RegisterPage_html_balanced [component_rules]:
  "html_run (Text, st) (RegisterPage_html T errMsg) = (Text, st)"
  unfolding RegisterPage_html_def by (simp add: html_machine run_holes component_rules)

lemma Stub_balanced [component_rules]:
  "html_run (Text, st) (Stub T note') = (Text, st)"
  unfolding Stub_def by (simp add: html_machine run_holes component_rules)

lemma nav_user_balanced [component_rules]:
  "html_run (Text, st) (nav_user T username isAdmin sect) = (Text, st)"
  unfolding nav_user_def by (simp add: html_machine run_holes component_rules)

lemma Layout_html_balanced [component_rules]:
  "balanced content \<Longrightarrow> html_run (Text, st) (Layout_html T title content username isAdmin sect) = (Text, st)"
  unfolding Layout_html_def by (simp add: html_machine run_holes component_rules balanced_run)

end

end
