(* ===== verification/Page_Html.thy ===== *)
theory Page_Html
  imports Templ_Repo Templ_History Templ_Admin Renderers Front_Laws
begin

text \<open>
  From the answers of the web client to the HTML that is sent: which template prints which page, and the
  proof that every page a handler gives is printed, and as well-formed HTML without inline scripts.
\<close>

section \<open>The pages in HTML\<close>

text \<open>\<open>None\<close> where the template calls a component that is nil: a file view without body that is not too
  large to show.\<close>

fun page_html :: "templ_lib \<Rightarrow> front_page \<Rightarrow> html option" where
  "page_html T (ForbiddenPage name detail) = Some (Forbidden T name detail)"
| "page_html T (NotFoundPage name) = Some (NotFound T name)"
| "page_html T (HomePage v) = Some (HomePage_html T v)"
| "page_html T (RepoListPage repos) = Some (RepoListPage_html T repos)"
| "page_html T (RepoPage v) = Some (RepoPage_html T v)"
| "page_html T (TreePage v) = Some (TreePage_html T v)"
| "page_html T (FilePage v) =
    (if \<not> fv_TooLarge v \<and> fv_Body v = None then None else Some (FilePage_html T v))"
| "page_html T (CommitListPage v) = Some (CommitListPage_html T v)"
| "page_html T (CommitPage v) = Some (CommitPage_html T v)"
| "page_html T (LocksPage v) = Some (LocksPage_html T v)"
| "page_html T (AdminUsersPage us msg opn) = Some (AdminUsersPage_html T us msg opn)"
| "page_html T (AdminReposPage repos msg) = Some (AdminReposPage_html T repos msg)"
| "page_html T (AdminGrantsPage ms rs sel msg) = Some (AdminGrantsPage_html T ms rs sel msg)"
| "page_html T (LoginPage msg opn) = Some (LoginPage_html T msg opn)"
| "page_html T (RegisterPage msg) = Some (RegisterPage_html T msg)"
| "page_html T (AccountPage err msg) = Some (AccountPage_html T err msg)"
| "page_html T (SetupPage msg) = Some (SetupPage_html T msg)"

text \<open>What the body of an answer is on the wire.\<close>

datatype rendered = NotHTML | NilComponent | HTML html

fun body_html :: "templ_lib \<Rightarrow> front_body \<Rightarrow> rendered" where
  "body_html T (Fragment pg) = (case page_html T pg of None \<Rightarrow> NilComponent | Some h \<Rightarrow> HTML h)"
| "body_html T (Layout title pg username isAdmin sect) = (case page_html T pg of
      None \<Rightarrow> NilComponent | Some h \<Rightarrow> HTML (Layout_html T title h username isAdmin sect))"
| "body_html T _ = NotHTML"

fun sent_ok :: "rendered \<Rightarrow> bool" where
  "sent_ok NotHTML = True"
| "sent_ok NilComponent = False"
| "sent_ok (HTML h) = well_formed h"

text \<open>The parts of a page that are not escaped: a rendered README, file or diff.\<close>

fun page_ok :: "front_page \<Rightarrow> bool" where
  "page_ok (RepoPage v) = (case rv_Readme v of None \<Rightarrow> True | Some h \<Rightarrow> balanced h)"
| "page_ok (FilePage v) = (case fv_Body v of None \<Rightarrow> fv_TooLarge v | Some h \<Rightarrow> balanced h)"
| "page_ok (CommitPage v) = (case cv_Diff v of None \<Rightarrow> True | Some h \<Rightarrow> balanced h)"
| "page_ok _ = True"

fun body_ok :: "front_body \<Rightarrow> bool" where
  "body_ok (Fragment pg) = page_ok pg"
| "body_ok (Layout title pg username isAdmin sect) = page_ok pg"
| "body_ok _ = True"

abbreviation resp_ok :: "front_response \<Rightarrow> bool" where
  "resp_ok resp \<equiv> body_ok (fp_body resp)"

lemma page_html_some: "page_ok pg \<Longrightarrow> page_html T pg \<noteq> None"
  by (cases pg) (auto split: option.splits)

context escaping_templ begin

lemma page_html_run:
  "page_ok pg \<Longrightarrow> page_html T pg = Some h \<Longrightarrow> html_run (Text, st) h = (Text, st)"
  by (cases pg) (auto simp: component_rules split: option.splits if_splits
    intro!: RepoPage_html_balanced FilePage_html_balanced CommitPage_html_balanced)

lemma body_html_ok:
  assumes "body_ok b"
  shows "sent_ok (body_html T b)"
proof (cases b)
  case (Fragment pg)
  with assms show ?thesis
    using page_html_some [of pg T] by (auto simp: well_formed_def page_html_run)
next
  case (Layout title pg username isAdmin sect)
  with assms obtain h where "page_html T pg = Some h" "balanced h"
    using page_html_some [of pg T] by (auto simp: balanced_def page_html_run)
  with Layout show ?thesis by (simp add: well_formed_def component_rules)
qed simp_all

end

section \<open>The diff of a commit\<close>

lemma inert_digit: "is_digit c \<Longrightarrow> inert s \<Longrightarrow> inert (c # s)"
  by (auto simp: inert_def is_digit_def)

lemma inert_digit_loop: "inert buf \<Longrightarrow> inert (digit_loop n buf)"
proof (induction n buf rule: digit_loop.induct)
  case (1 n buf)
  have "inert (digit_char (nat (n mod 10)) # buf)"
    using 1(2) by (intro inert_digit digit_char_ok) auto
  with 1 show ?case by (subst digit_loop.simps) simp
qed

lemma inert_parts:
  "inert (decimal n)" "inert (lineNumberText n)" "inert (lineKindClass k)" "inert minus_sign"
  by (auto simp: decimal_def lineNumberText_def minus_sign_def inert_digit_loop inert_def [of "''''"]
      inert_def [of "''0''"]) (cases k; simp add: inert_def)+

lemma write_row_run:
  "(\<And>s. inert (e s)) \<Longrightarrow> html_run (Text, st) (write_row e row) = (Text, st)"
  by (simp add: write_row_def html_run_append html_machine html_run_inert inert_parts)

lemma html_run_each:
  "(\<And>x. html_run (Text, st) (f x) = (Text, st)) \<Longrightarrow> html_run (Text, st) (concat (map f xs)) = (Text, st)"
  by (induction xs) (simp_all add: html_run_append)

lemma write_hunk_run:
  "(\<And>s. inert (e s)) \<Longrightarrow> html_run (Text, st) (write_hunk e hunk) = (Text, st)"
  by (simp add: write_hunk_def html_run_append html_machine html_run_inert html_run_each write_row_run)

lemma write_view_run:
  "(\<And>s. inert (e s)) \<Longrightarrow> html_run (Text, st) (write_view e view) = (Text, st)"
  by (simp add: write_view_def html_run_append html_machine html_run_inert inert_parts html_run_each
      write_hunk_run)

lemma Diff_balanced: "(\<And>s. inert (e s)) \<Longrightarrow> balanced (Diff e files)"
  by (simp add: balanced_def Diff_def writeDiff_def html_run_each write_view_run)

section \<open>What the handlers give\<close>

text \<open>\<open>gives Q m\<close>: whatever the state, the result of \<open>m\<close> is in \<open>Q\<close>.\<close>

definition gives :: "('r \<Rightarrow> bool) \<Rightarrow> ('s, 'r) state \<Rightarrow> bool" where
  "gives Q m \<longleftrightarrow> (\<forall>s. Q (fst (run_state m s)))"

named_theorems gives_rules \<open>rules on the results of computations\<close>

lemma givesD: "gives Q m \<Longrightarrow> Q (fst (run_state m s))"
  by (simp add: gives_def)

lemma gives_return [gives_rules]: "Q x \<Longrightarrow> gives Q (State_Monad.return x)"
  by (simp add: gives_def)

lemma gives_bind [gives_rules]: "(\<And>x. gives Q (f x)) \<Longrightarrow> gives Q (State_Monad.bind m f)"
  by (simp add: gives_def)

lemma gives_then: "gives P m \<Longrightarrow> (\<And>x. P x \<Longrightarrow> gives Q (f x)) \<Longrightarrow> gives Q (State_Monad.bind m f)"
  by (simp add: gives_def)

lemma gives_if [gives_rules]:
  "(b \<Longrightarrow> gives Q m) \<Longrightarrow> (\<not> b \<Longrightarrow> gives Q n) \<Longrightarrow> gives Q (if b then m else n)"
  by simp

lemma gives_case_sum [gives_rules]:
  "(\<And>e. gives Q (f e)) \<Longrightarrow> (\<And>x. gives Q (g x)) \<Longrightarrow> gives Q (case r of Inl e \<Rightarrow> f e | Inr x \<Rightarrow> g x)"
  by (cases r) simp_all

lemma gives_case_option [gives_rules]:
  "gives Q m \<Longrightarrow> (\<And>x. gives Q (g x)) \<Longrightarrow> gives Q (case r of None \<Rightarrow> m | Some x \<Rightarrow> g x)"
  by (cases r) simp_all

lemma gives_case_prod [gives_rules]: "(\<And>x y. gives Q (f x y)) \<Longrightarrow> gives Q (case r of (x, y) \<Rightarrow> f x y)"
  by (cases r) simp

lemma gives_case_node_type [gives_rules]:
  "gives Q m1 \<Longrightarrow> gives Q m2 \<Longrightarrow> gives Q m3 \<Longrightarrow> (\<And>n. gives Q (m4 n)) \<Longrightarrow>
    gives Q (case t of NodeDirectory \<Rightarrow> m1 | NodeFile \<Rightarrow> m2 | NodeLink \<Rightarrow> m3 | NodeUnknown n \<Rightarrow> m4 n)"
  by (cases t) simp_all

lemma gives_case_mgmt_err [gives_rules]:
  "(\<And>c s. gives Q (f c s)) \<Longrightarrow> (\<And>s. gives Q (g s)) \<Longrightarrow>
    gives Q (case e of APIError c s \<Rightarrow> f c s | MgmtErr s \<Rightarrow> g s)"
  by (cases e) simp_all

lemma gives_case_throttled [gives_rules]:
  "gives Q m \<Longrightarrow> (\<And>x. gives Q (g x)) \<Longrightarrow> gives Q (case t of TooManyRequests \<Rightarrow> m | Passed x \<Rightarrow> g x)"
  by (cases t) simp_all

lemma gives_Let [gives_rules]: "(\<And>x. gives Q (f x)) \<Longrightarrow> gives Q (Let a f)"
  by (simp add: Let_def)

lemma gives_on_world [gives_rules]:
  "gives Q a \<Longrightarrow> gives Q (on_session a)" "gives Q b \<Longrightarrow> gives Q (on_mgmt b)" "gives Q c \<Longrightarrow> gives Q (on_lore c)"
  by (simp_all add: gives_def)

text \<open>The answers: only the pages of a repository, a file and a commit carry text that is not escaped.\<close>

lemma resp_ok_simps [simp]:
  "resp_ok (http_Error m c)" "resp_ok http_NotFound" "resp_ok (http_Redirect u)" "resp_ok (bad_gateway d e)"
  "resp_ok (forbidden_page r n e)" "resp_ok (not_found_page r t n)" "resp_ok (raw_response p x)"
  "resp_ok (renderPageStatus r c t pg) = page_ok pg" "resp_ok (renderPage r t pg) = page_ok pg"
  "resp_ok (renderAuthPage r t pg) = page_ok pg" "resp_ok (plain_text c m)" "resp_ok (lock_error r m)"
  by (simp_all add: http_Error_def http_NotFound_def http_Redirect_def bad_gateway_def forbidden_page_def
      not_found_page_def renderPage_def renderPageStatus_def renderAuthPage_def plain_text_def
      lock_error_def raw_response_def Let_def)

lemma resp_ok_split:
  "resp_ok (if b then x else y) = ((b \<longrightarrow> resp_ok x) \<and> (\<not> b \<longrightarrow> resp_ok y))"
  by simp

definition fragment_ok :: "string option \<Rightarrow> bool" where
  "fragment_ok x \<longleftrightarrow> (case x of None \<Rightarrow> True | Some h \<Rightarrow> balanced h)"

text \<open>The renderers and the escaping of the diffs.\<close>

definition safe_pages :: "'s page_env \<Rightarrow> bool" where
  "safe_pages pe \<longleftrightarrow> (\<forall>src. fragment_ok (rn_Markdown (pe_renderers pe) src)) \<and>
     (\<forall>n src. fragment_ok (rn_Highlight (pe_renderers pe) n src)) \<and> (\<forall>s. inert (pe_escape pe s))"

lemma gives_with_repo [gives_rules]:
  "(\<And>e. Q (forbidden e)) \<Longrightarrow> Q missing \<Longrightarrow> (\<And>e. Q (bad_gateway ''failed to load repository'' e)) \<Longrightarrow>
    (\<And>repo i ctx. gives Q (k repo i ctx)) \<Longrightarrow> gives Q (with_repo lc r forbidden missing name k)"
  unfolding with_repo_def by (intro gives_rules) auto

lemma gives_with_branch [gives_rules]:
  "Q missing \<Longrightarrow> (\<And>e. Q (bad_gateway ''failed to load branch'' e)) \<Longrightarrow> (\<And>b. gives Q (k b)) \<Longrightarrow>
    gives Q (with_branch lc ctx missing name k)"
  unfolding with_branch_def by (intro gives_rules) auto

lemma gives_renderReadme:
  "safe_pages pe \<Longrightarrow> gives fragment_ok (renderReadme lc (pe_renderers pe) ctx i nodes)"
  unfolding renderReadme_def
  by (intro gives_rules) (auto simp: safe_pages_def fragment_ok_def split: option.splits sum.splits if_splits)

lemma gives_RepoHome:
  assumes "safe_pages pe"
  shows "gives resp_ok (RepoHome lc (pe_renderers pe) host r)"
  unfolding RepoHome_def Let_def
  by (intro gives_with_repo gives_then [OF gives_renderReadme [OF assms]] gives_rules)
    (auto simp: resp_ok_split fragment_ok_def split: option.splits)

lemma highlight_ok:
  "safe_pages pe \<Longrightarrow> highlight_view (pe_renderers pe) n src = (l, h) \<Longrightarrow> balanced h"
  by (auto simp: highlight_view_def safe_pages_def fragment_ok_def balanced_def html_run_inert inert_escape
      split: option.splits)

lemma gives_renderFileView:
  assumes "safe_pages pe"
  shows "gives resp_ok (renderFileView lc (pe_renderers pe) r ctx i b rn bn ow fp node)"
  unfolding renderFileView_def Let_def
  by (intro gives_rules) (auto simp: resp_ok_split highlight_ok [OF assms] split: option.splits prod.splits)

lemma gives_renderDirListing:
  "gives resp_ok (renderDirListing lc r ctx b rn bn ow dp fetched)"
  unfolding renderDirListing_def by (intro gives_rules) (simp_all add: resp_ok_split)

lemma gives_Tree:
  assumes "safe_pages pe"
  shows "gives resp_ok (Tree lc (pe_renderers pe) r)"
  unfolding Tree_def Let_def
  by (intro gives_renderFileView [OF assms] gives_renderDirListing gives_rules)
    (simp_all add: resp_ok_split)

lemma new_commit_view [simp]: "cv_Diff (buildCommitView ow n sig rv) = None"
  by (simp add: buildCommitView_def Let_def split: prod.split)

lemma gives_Commit:
  assumes "safe_pages pe"
  shows "gives resp_ok (Commit lc (pe_renderers pe) (pe_escape pe) sched r)"
  using assms Diff_balanced [of "pe_escape pe"] unfolding Commit_def safe_pages_def Let_def
  by (intro gives_rules) (auto simp: resp_ok_split)

lemma gives_listings:
  "gives resp_ok (Home lc r)" "gives resp_ok (Explore lc r)" "gives resp_ok (Raw lc r)"
  "gives resp_ok (Commits lc clock sched r)" "gives resp_ok (Locks lc clock r)" "gives resp_ok (ReleaseLock lc r)"
  unfolding Home_def Explore_def Raw_def raw_file_def Commits_def commits_list_def Locks_def ReleaseLock_def
    Let_def
  by (intro gives_rules; auto simp: resp_ok_split split: sum.splits option.splits)+

lemma gives_browse: "safe_pages pe \<Longrightarrow> gives resp_ok (browse lc pe route r)"
  by (cases route) (simp_all add: gives_RepoHome gives_Tree gives_Commit gives_listings)

lemma gives_StoreIdentity:
  "gives (\<lambda>x. case x of None \<Rightarrow> True | Some resp \<Rightarrow> resp_ok resp) (StoreIdentity m u n t e a)"
  unfolding StoreIdentity_def Let_def by (intro gives_rules) auto

lemma gives_store_login: "gives resp_ok (store_login n resp)"
  unfolding store_login_def
  by (intro gives_then [OF gives_on_world(1) [OF gives_StoreIdentity]] gives_rules) (auto split: option.splits)

lemma gives_native:
  "gives resp_ok (LoginForm n r)" "gives resp_ok (login_page n r msg)" "gives resp_ok (LoginSubmit n r)"
  "gives resp_ok (RegisterForm n r)" "gives resp_ok (RegisterSubmit n r)" "gives resp_ok (AccountForm r)"
  "gives resp_ok (ChangePassword n r)" "gives resp_ok (SetupForm n r)" "gives resp_ok (SetupSubmit n r)"
  "gives resp_ok (Logout n)" "gives resp_ok (DevLoginHandler m u)"
  unfolding LoginForm_def login_page_def LoginSubmit_def RegisterForm_def RegisterSubmit_def AccountForm_def
    ChangePassword_def SetupForm_def SetupSubmit_def Logout_def DevLoginHandler_def account_page_def
    setup_page_def Let_def
  by (intro gives_store_login gives_rules; auto simp: resp_ok_split split: option.splits)+

lemma gives_admin_page: "gives resp_ok (admin_page h ar r)"
  by (cases ar; simp only: admin_page.simps AdminUsers_def AdminCreateUser_def AdminDeleteUser_def
      AdminSetPassword_def AdminSetAdmin_def AdminSetRegistration_def AdminRepos_def AdminCreateRepo_def
      AdminImportRepo_def AdminDeleteRepo_def AdminRemoveResource_def AdminGrants_def AdminAddGrant_def
      AdminRemoveGrant_def Let_def;
    intro gives_rules;
    auto simp: posted_def back_to_def back_err_def bad_form_def grant_posted_def resp_ok_split
      split: option.splits sum.splits)

lemma gives_guards [gives_rules]:
  "(\<And>r. gives resp_ok (nxt r)) \<Longrightarrow> gives resp_ok (RequireAuth m now nxt r)"
  "(\<And>r. gives resp_ok (nxt r)) \<Longrightarrow> gives resp_ok (RequireAdmin m nxt r)"
  "gives resp_ok p \<Longrightarrow> gives resp_ok (with_throttle a now q p)"
  unfolding RequireAuth_def RequireAdmin_def with_throttle_def Let_def by (intro gives_rules; simp)+

lemma gives_auth_page: "gives resp_ok (auth_page a now q ar r)"
  by (cases ar) (simp_all add: gives_native gives_guards)

lemma gives_account_handler: "gives resp_ok (account_handler a ar r)"
  by (cases ar) (simp_all add: gives_native)

lemma gives_dispatch:
  assumes "safe_pages (ap_pages a)" and "route \<noteq> GetChroma" and "\<And>p. route \<noteq> GetStatic p"
  shows "gives resp_ok (dispatch a now q route r)"
  using assms by (cases route)
    (auto intro!: gives_rules gives_browse gives_admin_page gives_auth_page gives_account_handler gives_native)

lemma gives_serve_front:
  assumes "safe_pages (ap_pages a)" and "route \<noteq> GetChroma" and "\<And>p. route \<noteq> GetStatic p"
  shows "gives resp_ok (serve_front a now q route r)"
  unfolding serve_front_def
  by (rule gives_then [where P = resp_ok]) (auto intro!: gives_rules gives_dispatch [OF assms])

section \<open>Every page is printed, and well formed\<close>

text \<open>C38: No data can break or script a page. Whatever the session, the servers behind and the request, an answer
  that is a page of the web client is printed (no template calls a component that is nil), and the HTML is
  well formed: every element is closed in order, values of attributes are quoted, and there is no event
  handler and no inline script, as the content security policy of the program demands. This rests on the
  escaping of templ, on goldmark without its unsafe option and on the formatter of chroma giving balanced
  HTML, and on an escaping for diffs that gives neither angle brackets nor quotes.\<close>

theorem pages_well_formed:
  assumes "\<And>s. inert (tl_EscapeString T s)" and "\<And>s. inert (tl_AttributeValue T s)"
    and "pe_renderers (ap_pages a) = web_renderers ch convert unified parse readError"
    and "\<And>opts src h. convert opts src = Some h \<Longrightarrow> \<not> go_Unsafe opts \<Longrightarrow> balanced h"
    and "\<And>opts style toks h. chroma_Format ch opts style toks = Some h \<Longrightarrow> balanced h"
    and "\<And>s. inert (pe_escape (ap_pages a) s)"
    and "route \<noteq> GetChroma" and "\<And>p. route \<noteq> GetStatic p"
    and "run_state (serve_front a now q route r) w = (resp, w')"
  shows "case body_html T (fp_body resp) of NotHTML \<Rightarrow> True | NilComponent \<Rightarrow> False | HTML h \<Rightarrow> well_formed h"
proof -
  have "safe_pages (ap_pages a)"
    using assms(4) [of markdownEngine] assms(5,6)
    by (auto simp: safe_pages_def fragment_ok_def assms(3) web_renderers_def Markdown_def markdownEngine_def
        Highlight_def split: option.splits)
  from givesD [OF gives_serve_front [OF this assms(7,8)], of now q r w] assms(9)
  have "body_ok (fp_body resp)" by simp
  then show ?thesis
    using escaping_templ.body_html_ok [of T "fp_body resp"] assms(1,2)
    by (auto simp: escaping_templ_def split: rendered.split)
qed

text \<open>A highlighter and a Markdown library for the witness; the latter passes raw HTML when told so.\<close>

definition demo_chroma :: "(unit, string) chroma_lib" where
  "demo_chroma = \<lparr>lexers_Match = \<lambda>_. None, lexers_Analyse = \<lambda>_. None, lexers_Fallback = (),
     lexer_Config_Name = \<lambda>_. ''plaintext'', chroma_Tokenise = \<lambda>_ s. Some s,
     chroma_Format = \<lambda>_ _ t. Some (''<pre>'' @ html_EscapeString t @ ''</pre>''),
     chroma_WriteCSS = \<lambda>_ _. Some ''''\<rparr>"

definition demo_goldmark :: goldmark_lib where
  "demo_goldmark opts src = Some (if go_Unsafe opts then raw_string src
     else ''<p>'' @ html_EscapeString (raw_string src) @ ''</p>'')"

lemma demo_libs:
  "demo_goldmark opts src = Some h \<Longrightarrow> \<not> go_Unsafe opts \<Longrightarrow> balanced h"
  "chroma_Format demo_chroma o2 style toks = Some h2 \<Longrightarrow> balanced h2"
  by (auto simp: demo_goldmark_def demo_chroma_def balanced_def html_run_append html_machine html_run_inert
      inert_escape)

theorem pages_well_formed_witness:
  "\<forall>(tr :: 'm transport) c (lc :: ('s, 'h) LoreClient) (m :: 'm) (s :: 's) rl. let
      pe = demo_pages\<lparr>pe_renderers := web_renderers demo_chroma demo_goldmark (\<lambda>_ _ _ _. '''') (\<lambda>_. None) ''EOF''\<rparr>;
      w = \<lparr>fw_session = demo_session, fw_mgmt = m, fw_lore = s, fw_throttle = rl\<rparr>
    in case body_html (go_templ id) (fp_body (fst (run_state
        (serve_front (demo_app tr c lc pe) 0 demo_get (AccountRoute GetAccountPage) front_demo) w))) of
        HTML h \<Rightarrow> well_formed h | _ \<Rightarrow> False"
proof (intro allI)
  fix tr :: "'m transport" and c and lc :: "('s, 'h) LoreClient" and m :: 'm and s :: 's and rl
  define pe :: "'s page_env" where "pe = demo_pages\<lparr>pe_renderers := web_renderers demo_chroma demo_goldmark
    (\<lambda>_ _ _ _. '''') (\<lambda>_. None) ''EOF''\<rparr>"
  define a where "a = demo_app tr c lc pe"
  define w where "w = \<lparr>fw_session = demo_session, fw_mgmt = m, fw_lore = s, fw_throttle = rl\<rparr>"
  let ?resp = "fst (run_state (serve_front a 0 demo_get (AccountRoute GetAccountPage) front_demo) w)"
  have r: "pe_renderers (ap_pages a) = web_renderers demo_chroma demo_goldmark (\<lambda>_ _ _ _. '''') (\<lambda>_. None) ''EOF''"
    "\<And>s. inert (pe_escape (ap_pages a) s)"
    by (simp_all add: a_def pe_def demo_app_def demo_pages_def inert_escape)
  have "case body_html (go_templ id) (fp_body ?resp) of
      NotHTML \<Rightarrow> True | NilComponent \<Rightarrow> False | HTML h \<Rightarrow> well_formed h"
    by (rule pages_well_formed [OF _ _ r(1) demo_libs r(2) _ _ surjective_pairing])
      (simp_all add: go_templ_def inert_escape)
  moreover have "logged_in (ap_sessions a) (fw_session w) 0"
    by (simp add: a_def w_def demo_app_def logged_in_def demo_scs_def demo_session_def GetString_def
        GetInt64_def session_keys)
  then have "body_html (go_templ id) (fp_body ?resp) \<noteq> NotHTML"
    by (simp add: serve_front_def a_def w_def demo_app_def cop_check_def demo_get_def RequireAuth_in
        AccountForm_def account_page_def renderAuthPage_def)
  ultimately show "let pe = demo_pages\<lparr>pe_renderers := web_renderers demo_chroma demo_goldmark
        (\<lambda>_ _ _ _. '''') (\<lambda>_. None) ''EOF''\<rparr>;
      w = \<lparr>fw_session = demo_session, fw_mgmt = m, fw_lore = s, fw_throttle = rl\<rparr>
    in case body_html (go_templ id) (fp_body (fst (run_state
        (serve_front (demo_app tr c lc pe) 0 demo_get (AccountRoute GetAccountPage) front_demo) w))) of
        HTML h \<Rightarrow> well_formed h | _ \<Rightarrow> False"
    unfolding Let_def a_def w_def pe_def by (simp split: rendered.splits)
qed

end
