(* ===== verification/Keys.thy ===== *)
theory Keys
  imports Daemon
begin

text \<open>
  The keys of the authentication server, \<open>src/arc-lore-auth/keys.go\<close>: the RSA key that signs the
  tokens, its id and the JWKS document, and the certificate of the gRPC listener. The state is the file
  system with a schedule of faults, one entry per call, and the source of random bytes. The
  cryptographic and encoding libraries are the record \<open>crypto\<close>, over private keys of type \<open>'k\<close>, key
  pairs of type \<open>'c\<close>, JSON web keys of type \<open>'j\<close> and random sources of type \<open>'r\<close>. Lines
  printed to the terminal are left out.
\<close>

unbundle bit_operations_syntax

section \<open>The file system\<close>

record fs_file =
  ff_Data :: "byte list"
  ff_Mode :: u32

text \<open>A call goes well, fails before it does anything, or fails in the middle of a write.\<close>

datatype fs_fault = FsFine | FsFails string | FsCut nat string

record 'r host =
  ho_files :: "string \<Rightarrow> fs_file option"
  ho_umask :: u32
  ho_faults :: "fs_fault list"
  ho_rand :: 'r

definition next_fault :: "('r host, fs_fault) state" where
  "next_fault = do {
     h \<leftarrow> State_Monad.get;
     State_Monad.set (h\<lparr>ho_faults := tl (ho_faults h)\<rparr>);
     State_Monad.return (case ho_faults h of [] \<Rightarrow> FsFine | f # _ \<Rightarrow> f) }"

definition fault_text :: "fs_fault \<Rightarrow> string option" where
  "fault_text f = (case f of FsFine \<Rightarrow> None | FsFails e \<Rightarrow> Some e | FsCut _ e \<Rightarrow> Some e)"

datatype stat_result = StatNotExist | StatError string | StatMode u32

definition os_Stat :: "string \<Rightarrow> ('r host, stat_result) state" where
  "os_Stat path = do {
     f \<leftarrow> next_fault;
     h \<leftarrow> State_Monad.get;
     State_Monad.return (case fault_text f of
         Some e \<Rightarrow> StatError e
       | None \<Rightarrow> (case ho_files h path of None \<Rightarrow> StatNotExist | Some x \<Rightarrow> StatMode (ff_Mode x))) }"

text \<open>Directories are not part of the state: that one cannot be made is a fault.\<close>

definition os_MkdirAll :: "string \<Rightarrow> u32 \<Rightarrow> ('r host, string option) state" where
  "os_MkdirAll dir perm = do { f \<leftarrow> next_fault; State_Monad.return (fault_text f) }"

text \<open>\<open>OpenFile\<close> with \<open>O_WRONLY|O_CREATE|O_EXCL\<close>.\<close>

definition os_CreateExcl :: "string \<Rightarrow> u32 \<Rightarrow> ('r host, string option) state" where
  "os_CreateExcl path perm = do {
     f \<leftarrow> next_fault;
     h \<leftarrow> State_Monad.get;
     case fault_text f of
       Some e \<Rightarrow> State_Monad.return (Some e)
     | None \<Rightarrow> if ho_files h path \<noteq> None then State_Monad.return (Some ''file exists'')
         else do {
           State_Monad.set (h\<lparr>ho_files := (ho_files h)(path \<mapsto>
             \<lparr>ff_Data = [], ff_Mode = perm AND NOT (ho_umask h)\<rparr>)\<rparr>);
           State_Monad.return None } }"

text \<open>What a write leaves of its bytes.\<close>

definition written_part :: "fs_fault \<Rightarrow> byte list \<Rightarrow> byte list" where
  "written_part f data = (case f of FsFine \<Rightarrow> data | FsFails _ \<Rightarrow> [] | FsCut n _ \<Rightarrow> take n data)"

definition file_Write :: "string \<Rightarrow> byte list \<Rightarrow> ('r host, string option) state" where
  "file_Write path data = do {
     f \<leftarrow> next_fault;
     State_Monad.update (\<lambda>h. h\<lparr>ho_files := (ho_files h)(path :=
       map_option (\<lambda>x. x\<lparr>ff_Data := ff_Data x @ written_part f data\<rparr>) (ho_files h path))\<rparr>);
     State_Monad.return (fault_text f) }"

definition os_ReadFile :: "string \<Rightarrow> ('r host, (string, byte list) result) state" where
  "os_ReadFile path = do {
     f \<leftarrow> next_fault;
     h \<leftarrow> State_Monad.get;
     State_Monad.return (case fault_text f of
         Some e \<Rightarrow> Inl e
       | None \<Rightarrow> (case ho_files h path of None \<Rightarrow> Inl ''no such file'' | Some x \<Rightarrow> Inr (ff_Data x))) }"

text \<open>\<open>os.WriteFile\<close> truncates a file that is there and keeps its mode; a fault before it opened the file
  leaves it.\<close>

definition os_WriteFile :: "string \<Rightarrow> byte list \<Rightarrow> u32 \<Rightarrow> ('r host, string option) state" where
  "os_WriteFile path data perm = do {
     f \<leftarrow> next_fault;
     h \<leftarrow> State_Monad.get;
     State_Monad.set (case f of FsFails _ \<Rightarrow> h
       | _ \<Rightarrow> h\<lparr>ho_files := (ho_files h)(path \<mapsto> \<lparr>ff_Data = written_part f data,
           ff_Mode = (case ho_files h path of Some x \<Rightarrow> ff_Mode x | None \<Rightarrow> perm AND NOT (ho_umask h))\<rparr>)\<rparr>);
     State_Monad.return (fault_text f) }"

section \<open>The libraries\<close>

datatype 'k pkcs8_key = RSAKey 'k | OtherKey

datatype key_usage = KeyUsageDigitalSignature | KeyUsageKeyEncipherment
datatype ext_key_usage = ExtKeyUsageServerAuth

record certificate =
  ce_SerialNumber :: int
  ce_CommonName :: string
  ce_NotBefore :: int
  ce_NotAfter :: int
  ce_KeyUsage :: "key_usage list"
  ce_ExtKeyUsage :: "ext_key_usage list"
  ce_IsCA :: bool
  ce_BasicConstraintsValid :: bool
  ce_IPAddresses :: "string list"
  ce_DNSNames :: "string list"

text \<open>Random bytes are drawn by the functions that return a new source. \<open>cr_Dir\<close> is \<open>filepath.Dir\<close> and
  \<open>cr_windows\<close> whether the program runs there.\<close>

record ('k, 'c, 'j, 'r) crypto =
  rsa_GenerateKey :: "nat \<Rightarrow> 'r \<Rightarrow> (string, 'k) result \<times> 'r"
  rand_Int :: "int \<Rightarrow> 'r \<Rightarrow> (string, int) result \<times> 'r"
  MarshalPKCS8 :: "'k \<Rightarrow> (string, byte list) result"
  ParsePKCS8 :: "byte list \<Rightarrow> (string, 'k pkcs8_key) result"
  MarshalPKIX :: "'k \<Rightarrow> (string, byte list) result"
  CreateCertificate :: "certificate \<Rightarrow> 'k \<Rightarrow> 'r \<Rightarrow> (string, byte list) result \<times> 'r"
  pem_Encode :: "string \<Rightarrow> byte list \<Rightarrow> byte list"
  pem_Decode :: "byte list \<Rightarrow> (string \<times> byte list) option"
  sha256_Sum :: "byte list \<Rightarrow> byte list"
  X509KeyPair :: "byte list \<Rightarrow> byte list \<Rightarrow> (string, 'c) result"
  net_ParseIP :: "string \<Rightarrow> string option"
  jwk_FromRaw :: "'k \<Rightarrow> (string, 'j) result"
  jwk_Set :: "string \<Rightarrow> string \<Rightarrow> 'j \<Rightarrow> (string, 'j) result"
  jwk_Marshal :: "'j list \<Rightarrow> (string, byte list) result"
  cr_Dir :: "string \<Rightarrow> string"
  cr_windows :: bool

text \<open>What the program relies on: what was encoded is decoded, and what was marshalled is parsed.\<close>

definition crypto_ok :: "('k, 'c, 'j, 'r) crypto \<Rightarrow> bool" where
  "crypto_ok cr \<longleftrightarrow> (\<forall>t bs. pem_Decode cr (pem_Encode cr t bs) = Some (t, bs)) \<and>
     (\<forall>k bs. MarshalPKCS8 cr k = Inr bs \<longrightarrow> ParsePKCS8 cr bs = Inr (RSAKey k))"

text \<open>A draw of random bytes.\<close>

definition drawing :: "('r \<Rightarrow> 'a \<times> 'r) \<Rightarrow> ('r host, 'a) state" where
  "drawing f = do {
     h \<leftarrow> State_Monad.get;
     State_Monad.set (h\<lparr>ho_rand := snd (f (ho_rand h))\<rparr>);
     State_Monad.return (fst (f (ho_rand h))) }"

section \<open>The signing key\<close>

definition writeFileWithDir :: "('k, 'c, 'j, 'r) crypto \<Rightarrow> string \<Rightarrow> byte list \<Rightarrow> u32 \<Rightarrow>
    ('r host, string option) state" where
  "writeFileWithDir cr path data perm = do {
     e \<leftarrow> os_MkdirAll (cr_Dir cr path) 448;
     case e of
       Some e \<Rightarrow> State_Monad.return (Some (''creating dir '' @ cr_Dir cr path @ '': '' @ e))
     | None \<Rightarrow> os_WriteFile path data perm }"

definition generateAndSaveKey :: "('k, 'c, 'j, 'r) crypto \<Rightarrow> string \<Rightarrow> ('r host, (string, 'k) result) state" where
  "generateAndSaveKey cr keyPath = do {
     g \<leftarrow> drawing (rsa_GenerateKey cr 2048);
     case g of
       Inl e \<Rightarrow> State_Monad.return (Inl (''generating RSA key: '' @ e))
     | Inr priv \<Rightarrow> (case MarshalPKCS8 cr priv of
         Inl e \<Rightarrow> State_Monad.return (Inl (''marshaling PKCS8: '' @ e))
       | Inr pkcs8 \<Rightarrow> do {
           let dir = cr_Dir cr keyPath;
           e \<leftarrow> os_MkdirAll dir 448;
           case e of
             Some e \<Rightarrow> State_Monad.return (Inl (''creating key dir '' @ dir @ '': '' @ e))
           | None \<Rightarrow> do {
               e \<leftarrow> os_CreateExcl keyPath 384;
               case e of
                 Some e \<Rightarrow> State_Monad.return (Inl (''creating key file '' @ keyPath @ '': '' @ e))
               | None \<Rightarrow> do {
                   e \<leftarrow> file_Write keyPath (pem_Encode cr ''PRIVATE KEY'' pkcs8);
                   State_Monad.return (case e of
                       Some e \<Rightarrow> Inl (''writing PEM key: '' @ e)
                     | None \<Rightarrow> Inr priv) } } }) }"

text \<open>\<open>%04o\<close> of permission bits.\<close>

definition octal4 :: "u32 \<Rightarrow> string" where
  "octal4 m = map (\<lambda>i. digit_char (unat m div 8 ^ i mod 8)) [3, 2, 1, 0]"

definition unsafe_mode :: "u32 \<Rightarrow> bool" where
  "unsafe_mode m \<longleftrightarrow> m AND 127 \<noteq> 0"

text \<open>The part of \<open>loadKey\<close> after the check of the permissions.\<close>

definition parse_key_file :: "('k, 'c, 'j, 'r) crypto \<Rightarrow> string \<Rightarrow> byte list \<Rightarrow> (string, 'k) result" where
  "parse_key_file cr keyPath data = (case pem_Decode cr data of
      None \<Rightarrow> Inl (''key file '' @ keyPath @ '' contains no PEM block'')
    | Some (_, bytes) \<Rightarrow> (case ParsePKCS8 cr bytes of
        Inl e \<Rightarrow> Inl (''parsing PKCS8 key: '' @ e)
      | Inr OtherKey \<Rightarrow> Inl (''key file '' @ keyPath @ '' does not contain an RSA private key'')
      | Inr (RSAKey priv) \<Rightarrow> Inr priv))"

definition loadKey :: "('k, 'c, 'j, 'r) crypto \<Rightarrow> string \<Rightarrow> ('r host, (string, 'k) result) state" where
  "loadKey cr keyPath = do {
     bad \<leftarrow> (if cr_windows cr then State_Monad.return None
       else do {
         st \<leftarrow> os_Stat keyPath;
         State_Monad.return (case st of
             StatNotExist \<Rightarrow> Some (''stat key file '' @ keyPath @ '': no such file'')
           | StatError e \<Rightarrow> Some (''stat key file '' @ keyPath @ '': '' @ e)
           | StatMode m \<Rightarrow> if unsafe_mode m
               then Some (''key file '' @ keyPath @ '' has unsafe permissions '' @ octal4 m @
                 '' '' @ em_dash @ '' must be 0600'')
               else None) });
     case bad of
       Some e \<Rightarrow> State_Monad.return (Inl e)
     | None \<Rightarrow> do {
         d \<leftarrow> os_ReadFile keyPath;
         State_Monad.return (case d of
             Inl e \<Rightarrow> Inl (''reading key file '' @ keyPath @ '': '' @ e)
           | Inr data \<Rightarrow> parse_key_file cr keyPath data) } }"

definition loadOrGenerateKey :: "('k, 'c, 'j, 'r) crypto \<Rightarrow> string \<Rightarrow> ('r host, (string, 'k) result) state" where
  "loadOrGenerateKey cr keyPath = do {
     st \<leftarrow> os_Stat keyPath;
     if st = StatNotExist then generateAndSaveKey cr keyPath else loadKey cr keyPath }"

section \<open>Its id and the JWKS document\<close>

definition keyID :: "('k, 'c, 'j, 'r) crypto \<Rightarrow> 'k \<Rightarrow> (string, string) result" where
  "keyID cr pub = (case MarshalPKIX cr pub of
      Inl e \<Rightarrow> Inl (''marshaling public key to DER: '' @ e)
    | Inr der \<Rightarrow> Inr (hex_encode (sha256_Sum cr der)))"

text \<open>The set is new, so adding the one key cannot meet a duplicate.\<close>

definition buildJWKSet :: "('k, 'c, 'j, 'r) crypto \<Rightarrow> 'k \<Rightarrow> string \<Rightarrow> (string, 'j list) result" where
  "buildJWKSet cr priv kid = (case jwk_FromRaw cr priv of
      Inl e \<Rightarrow> Inl (''jwk.FromRaw: '' @ e)
    | Inr key \<Rightarrow> (case jwk_Set cr ''kid'' kid key of
        Inl e \<Rightarrow> Inl (''setting kid: '' @ e)
      | Inr key \<Rightarrow> (case jwk_Set cr ''alg'' ''RS256'' key of
          Inl e \<Rightarrow> Inl (''setting alg: '' @ e)
        | Inr key \<Rightarrow> (case jwk_Set cr ''use'' ''sig'' key of
            Inl e \<Rightarrow> Inl (''setting use: '' @ e)
          | Inr key \<Rightarrow> Inr [key]))))"

definition marshalJWKSet :: "('k, 'c, 'j, 'r) crypto \<Rightarrow> 'j list \<Rightarrow> (string, byte list) result" where
  "marshalJWKSet cr jwks = (case jwk_Marshal cr jwks of
      Inl e \<Rightarrow> Inl (''json.Marshal JWKS: '' @ e)
    | Inr data \<Rightarrow> Inr data)"

section \<open>The certificate of the gRPC listener\<close>

definition tlsCertValidity :: int where
  "tlsCertValidity = 825 * 24 * 60 * nminute"

definition cert_template :: "('k, 'c, 'j, 'r) crypto \<Rightarrow> int \<Rightarrow> int \<Rightarrow> string \<Rightarrow> certificate" where
  "cert_template cr serial now san = \<lparr>ce_SerialNumber = serial, ce_CommonName = san,
     ce_NotBefore = now - 60 * nminute, ce_NotAfter = now + tlsCertValidity,
     ce_KeyUsage = [KeyUsageDigitalSignature, KeyUsageKeyEncipherment],
     ce_ExtKeyUsage = [ExtKeyUsageServerAuth], ce_IsCA = False, ce_BasicConstraintsValid = True,
     ce_IPAddresses = (case net_ParseIP cr san of Some ip \<Rightarrow> [ip] | None \<Rightarrow> []),
     ce_DNSNames = (case net_ParseIP cr san of Some _ \<Rightarrow> [] | None \<Rightarrow> [san])\<rparr>"

text \<open>The end of \<open>generateAndSaveTLSCert\<close>: both files are written, and what was written is parsed.\<close>

definition saveTLSCert :: "('k, 'c, 'j, 'r) crypto \<Rightarrow> string \<Rightarrow> string \<Rightarrow> byte list \<Rightarrow> byte list \<Rightarrow>
    ('r host, (string, 'c) result) state" where
  "saveTLSCert cr certPath keyPath certPEM keyPEM = do {
     e \<leftarrow> writeFileWithDir cr certPath certPEM 420;
     case e of
       Some e \<Rightarrow> State_Monad.return (Inl (''writing TLS cert '' @ certPath @ '': '' @ e))
     | None \<Rightarrow> do {
         e \<leftarrow> writeFileWithDir cr keyPath keyPEM 384;
         State_Monad.return (case e of
             Some e \<Rightarrow> Inl (''writing TLS key '' @ keyPath @ '': '' @ e)
           | None \<Rightarrow> (case X509KeyPair cr certPEM keyPEM of
               Inl e \<Rightarrow> Inl (''parsing generated TLS keypair: '' @ e)
             | Inr cert \<Rightarrow> Inr cert)) } }"

definition generateAndSaveTLSCert :: "('k, 'c, 'j, 'r) crypto \<Rightarrow> int \<Rightarrow> string \<Rightarrow> string \<Rightarrow> string \<Rightarrow>
    ('r host, (string, 'c) result) state" where
  "generateAndSaveTLSCert cr now certPath keyPath san =
    (if san = '''' then State_Monad.return
       (Inl ''tls_san is required to generate a self-signed cert (must equal the auth_url host)'')
     else do {
       g \<leftarrow> drawing (rsa_GenerateKey cr 2048);
       case g of
         Inl e \<Rightarrow> State_Monad.return (Inl (''generating TLS key: '' @ e))
       | Inr priv \<Rightarrow> do {
           s \<leftarrow> drawing (rand_Int cr (2 ^ 128));
           case s of
             Inl e \<Rightarrow> State_Monad.return (Inl (''generating serial number: '' @ e))
           | Inr serial \<Rightarrow> do {
               c \<leftarrow> drawing (CreateCertificate cr (cert_template cr serial now san) priv);
               case c of
                 Inl e \<Rightarrow> State_Monad.return (Inl (''creating self-signed certificate: '' @ e))
               | Inr der \<Rightarrow> (case MarshalPKCS8 cr priv of
                   Inl e \<Rightarrow> State_Monad.return (Inl (''marshaling TLS PKCS8 key: '' @ e))
                 | Inr pkcs8 \<Rightarrow> saveTLSCert cr certPath keyPath (pem_Encode cr ''CERTIFICATE'' der)
                     (pem_Encode cr ''PRIVATE KEY'' pkcs8)) } } })"

definition stat_ok :: "stat_result \<Rightarrow> bool" where
  "stat_ok st \<longleftrightarrow> (case st of StatMode _ \<Rightarrow> True | _ \<Rightarrow> False)"

text \<open>\<open>tls.LoadX509KeyPair\<close>.\<close>

definition LoadX509KeyPair :: "('k, 'c, 'j, 'r) crypto \<Rightarrow> string \<Rightarrow> string \<Rightarrow> ('r host, (string, 'c) result) state" where
  "LoadX509KeyPair cr certPath keyPath = do {
     c \<leftarrow> os_ReadFile certPath;
     case c of
       Inl e \<Rightarrow> State_Monad.return (Inl e)
     | Inr certPEM \<Rightarrow> do {
         k \<leftarrow> os_ReadFile keyPath;
         State_Monad.return (case k of Inl e \<Rightarrow> Inl e | Inr keyPEM \<Rightarrow> X509KeyPair cr certPEM keyPEM) } }"

definition bool_text :: "bool \<Rightarrow> string" where
  "bool_text b = (if b then ''true'' else ''false'')"

text \<open>The certificate, and whether it is new.\<close>

definition loadOrGenerateTLSCert :: "('k, 'c, 'j, 'r) crypto \<Rightarrow> int \<Rightarrow> string \<Rightarrow> string \<Rightarrow> string \<Rightarrow>
    ('r host, (string, 'c \<times> bool) result) state" where
  "loadOrGenerateTLSCert cr now certPath keyPath san = do {
     sc \<leftarrow> os_Stat certPath;
     sk \<leftarrow> os_Stat keyPath;
     let certExists = stat_ok sc;
     let keyExists = stat_ok sk;
     if certExists \<and> keyExists then do {
       p \<leftarrow> LoadX509KeyPair cr certPath keyPath;
       State_Monad.return (case p of
           Inl e \<Rightarrow> Inl (''loading TLS keypair ('' @ certPath @ '' / '' @ keyPath @ ''): '' @ e)
         | Inr cert \<Rightarrow> Inr (cert, False)) }
     else if certExists \<noteq> keyExists then State_Monad.return
       (Inl (''TLS cert/key are half-present (cert='' @ bool_text certExists @ '' key='' @ bool_text keyExists @
         ''): supply BOTH '' @ certPath @ '' and '' @ keyPath @ '', or neither (to auto-generate)''))
     else do {
       g \<leftarrow> generateAndSaveTLSCert cr now certPath keyPath san;
       State_Monad.return (case g of Inl e \<Rightarrow> Inl e | Inr cert \<Rightarrow> Inr (cert, True)) } }"

section \<open>How the calls run\<close>

lemma run_next_fault [simp]:
  "run_state next_fault h = (case ho_faults h of [] \<Rightarrow> FsFine | f # _ \<Rightarrow> f, h\<lparr>ho_faults := tl (ho_faults h)\<rparr>)"
  by (simp add: next_fault_def)

lemma run_drawing [simp]:
  "run_state (drawing f) h = (fst (f (ho_rand h)), h\<lparr>ho_rand := snd (f (ho_rand h))\<rparr>)"
  by (simp add: drawing_def)

lemmas fs_calls = os_Stat_def os_MkdirAll_def os_CreateExcl_def file_Write_def os_ReadFile_def
  os_WriteFile_def written_part_def fault_text_def

lemmas fs_splits = if_splits option.splits sum.splits list.splits fs_fault.splits stat_result.splits

text \<open>What a file must be for its key to be loaded.\<close>

definition key_file :: "('k, 'c, 'j, 'r) crypto \<Rightarrow> string \<Rightarrow> fs_file \<Rightarrow> 'k \<Rightarrow> bool" where
  "key_file cr path f k \<longleftrightarrow> (cr_windows cr \<or> \<not> unsafe_mode (ff_Mode f)) \<and>
     parse_key_file cr path (ff_Data f) = Inr k"

lemma loadKey_Inr:
  assumes "run_state (loadKey cr path) h = (Inr k, h')"
  shows "ho_files h' = ho_files h \<and> (\<exists>f. ho_files h path = Some f \<and> key_file cr path f k)"
  using assms unfolding loadKey_def key_file_def by (auto simp: fs_calls split: fs_splits)

lemma owner_only: "\<not> unsafe_mode (384 AND NOT u)"
proof -
  have "(384 AND NOT u) AND 127 = (384 AND 127) AND NOT u"
    by (simp add: and.assoc and.commute and.left_commute)
  then show ?thesis by (simp add: unsafe_mode_def)
qed

lemma saved_key_file:
  "crypto_ok cr \<Longrightarrow> MarshalPKCS8 cr k = Inr bs \<Longrightarrow>
    key_file cr path \<lparr>ff_Data = pem_Encode cr t bs, ff_Mode = 384 AND NOT u\<rparr> k"
  by (simp add: key_file_def owner_only parse_key_file_def crypto_ok_def)

lemma generated_Inr:
  assumes "run_state (generateAndSaveKey cr path) h = (Inr k, h')"
  obtains bs u where "ho_files h path = None" "MarshalPKCS8 cr k = Inr bs"
    "ho_files h' = (ho_files h)(path \<mapsto> \<lparr>ff_Data = pem_Encode cr ''PRIVATE KEY'' bs, ff_Mode = 384 AND NOT u\<rparr>)"
  using assms unfolding generateAndSaveKey_def
  by (auto simp: fs_calls Let_def split: fs_splits)

lemma key_obtained:
  assumes "crypto_ok cr" and "run_state (loadOrGenerateKey cr path) h = (Inr k, h1)"
  shows "(ho_files h path \<noteq> None \<longrightarrow> ho_files h1 = ho_files h) \<and>
    (\<forall>q. q \<noteq> path \<longrightarrow> ho_files h1 q = ho_files h q) \<and>
    (\<exists>f. ho_files h1 path = Some f \<and> key_file cr path f k)"
proof -
  let ?st = "run_state (os_Stat path) h"
  have st: "ho_files (snd ?st) = ho_files h" "fst ?st = StatNotExist \<Longrightarrow> ho_files h path = None"
    by (auto simp: fs_calls split: fs_splits)
  show ?thesis
  proof (cases "fst ?st = StatNotExist")
    case True
    with assms(2) have "run_state (generateAndSaveKey cr path) (snd ?st) = (Inr k, h1)"
      by (simp add: loadOrGenerateKey_def)
    then show ?thesis
      using st True saved_key_file [OF assms(1)] by (elim generated_Inr) simp
  next
    case False
    with assms(2) have "run_state (loadKey cr path) (snd ?st) = (Inr k, h1)"
      by (simp add: loadOrGenerateKey_def)
    then show ?thesis using loadKey_Inr st(1) by metis
  qed
qed

lemma key_again:
  assumes "ho_files h path = Some f" and "key_file cr path f k" and "ho_faults h = []"
  shows "run_state (loadOrGenerateKey cr path) h = (Inr k, h)"
proof -
  have "run_state (os_Stat path) h = (StatMode (ff_Mode f), h)"
    using assms(1,3) by (simp add: fs_calls)
  moreover have "run_state (loadKey cr path) h = (Inr k, h)"
    using assms unfolding loadKey_def key_file_def by (auto simp: fs_calls)
  ultimately show ?thesis by (simp add: loadOrGenerateKey_def)
qed

text \<open>C26: The signing key is made once and stays. Whatever call of the file system failed on the way: when the
  program obtains a key, a file that was there has not been touched, and neither has any other; the key is
  in the file, which only its owner can read (Windows has no such modes); and every later start that finds
  this file, and no failing call, obtains the same key, hence the same id, and changes nothing. So the
  tokens of before remain verifiable.\<close>

theorem signing_key_stable:
  assumes "crypto_ok cr" and "run_state (loadOrGenerateKey cr path) h = (Inr k, h1)"
    and "ho_files h2 path = ho_files h1 path" and "ho_faults h2 = []"
  shows "(ho_files h path \<noteq> None \<longrightarrow> ho_files h1 = ho_files h) \<and>
    (\<forall>q. q \<noteq> path \<longrightarrow> ho_files h1 q = ho_files h q) \<and>
    (\<exists>f. ho_files h1 path = Some f \<and> (cr_windows cr \<or> ff_Mode f AND 127 = 0)) \<and>
    run_state (loadOrGenerateKey cr path) h2 = (Inr k, h2)"
proof -
  from key_obtained [OF assms(1,2)] obtain f where f: "ho_files h1 path = Some f" "key_file cr path f k"
    by blast
  with key_again [of h2 path f] assms(3,4) have "run_state (loadOrGenerateKey cr path) h2 = (Inr k, h2)"
    by simp
  with f key_obtained [OF assms(1,2)] show ?thesis by (auto simp: key_file_def unsafe_mode_def)
qed

text \<open>Keys that are numbers, for the witnesses: the random source is the next key.\<close>

fun demo_pem_read :: "byte list \<Rightarrow> (string \<times> byte list) option" where
  "demo_pem_read [] = None"
| "demo_pem_read (b # bs) = (if b = 0 then Some ('''', bs) else (case bs of
      [] \<Rightarrow> None
    | c # r \<Rightarrow> map_option (\<lambda>(t, d). (char_of (unat c) # t, d)) (demo_pem_read r)))"

definition demo_pem :: "string \<Rightarrow> byte list \<Rightarrow> byte list" where
  "demo_pem t bs = concat (map (\<lambda>c. [1, of_nat (of_char c)]) t) @ 0 # bs"

definition demo_crypto :: "(nat, nat \<times> nat, string, nat) crypto" where
  "demo_crypto = \<lparr>rsa_GenerateKey = \<lambda>bits r. (Inr r, r + 1), rand_Int = \<lambda>m r. (Inr (int r), r + 1),
     MarshalPKCS8 = \<lambda>k. Inr (replicate k 1), ParsePKCS8 = \<lambda>bs. Inr (RSAKey (length bs)),
     MarshalPKIX = \<lambda>k. Inr (replicate k 2), CreateCertificate = \<lambda>c k r. (Inr (replicate k 3), r + 1),
     pem_Encode = demo_pem, pem_Decode = demo_pem_read, sha256_Sum = \<lambda>bs. bs,
     X509KeyPair = \<lambda>c k. Inr (length c, length k), net_ParseIP = \<lambda>_. None, jwk_FromRaw = \<lambda>k. Inr ''key'',
     jwk_Set = \<lambda>n v j. Inr (j @ n @ v), jwk_Marshal = \<lambda>_. Inr [], cr_Dir = id, cr_windows = False\<rparr>"

lemma demo_pem_roundtrip: "demo_pem_read (demo_pem t bs) = Some (t, bs)"
proof (induction t)
  case (Cons c t)
  have "(of_char c :: nat) < 256" by (metis char_of_eq_iff of_char_mod_256 mod_less_divisor zero_less_numeral)
  then have "unat (of_nat (of_char c) :: 8 word) = of_char c" by (simp add: unat_of_nat)
  with Cons show ?case by (simp add: demo_pem_def)
qed (simp add: demo_pem_def)

lemma demo_crypto_ok: "crypto_ok demo_crypto"
  by (simp add: crypto_ok_def demo_crypto_def demo_pem_roundtrip)

definition demo_host :: "nat host" where
  "demo_host = \<lparr>ho_files = Map.empty, ho_umask = 18, ho_faults = [], ho_rand = 5\<rparr>"

theorem signing_key_stable_witness:
  "let h1 = snd (run_state (loadOrGenerateKey demo_crypto ''key.pem'') demo_host)
    in fst (run_state (loadOrGenerateKey demo_crypto ''key.pem'') (h1\<lparr>ho_rand := 99\<rparr>)) = Inr 5"
proof -
  let ?m = "loadOrGenerateKey demo_crypto ''key.pem''"
  have "fst (run_state ?m demo_host) = Inr 5" and f: "ho_faults (snd (run_state ?m demo_host)) = []"
    by (simp_all add: loadOrGenerateKey_def generateAndSaveKey_def fs_calls demo_host_def demo_crypto_def)
  then have r: "run_state ?m demo_host = (Inr 5, snd (run_state ?m demo_host))"
    by (simp add: prod_eq_iff)
  from signing_key_stable [OF demo_crypto_ok r, of "(snd (run_state ?m demo_host))\<lparr>ho_rand := 99\<rparr>"] f
  show ?thesis by (simp add: Let_def)
qed

section \<open>What the certificate can lose\<close>

text \<open>Both files are taken for missing when \<open>Stat\<close> fails on both for another reason: a pair that was
  supplied is overwritten.\<close>

definition supplied_pair :: "nat host" where
  "supplied_pair = demo_host\<lparr>ho_files := [''crt'' \<mapsto> \<lparr>ff_Data = [7], ff_Mode = 420\<rparr>,
     ''key'' \<mapsto> \<lparr>ff_Data = [8], ff_Mode = 384\<rparr>]\<rparr>"

abbreviation demo_tls :: "(nat host, (string, (nat \<times> nat) \<times> bool) result) state" where
  "demo_tls \<equiv> loadOrGenerateTLSCert demo_crypto 0 ''crt'' ''key'' ''host''"

lemmas tls_defs = loadOrGenerateTLSCert_def generateAndSaveTLSCert_def saveTLSCert_def writeFileWithDir_def
  LoadX509KeyPair_def fs_calls stat_ok_def Let_def demo_crypto_def demo_host_def demo_pem_def

lemma tls_pair_overwritten:
  "\<exists>cert h'. run_state demo_tls (supplied_pair\<lparr>ho_faults := [FsFails ''i/o error'', FsFails ''i/o error'']\<rparr>) =
      (Inr (cert, True), h') \<and>
    ho_files h' ''crt'' \<noteq> ho_files supplied_pair ''crt'' \<and> ho_files h' ''key'' \<noteq> ho_files supplied_pair ''key''"
  by (simp add: tls_defs supplied_pair_def)

text \<open>A write of the key that fails leaves the certificate alone behind, and then no start gets further.\<close>

lemma tls_half_present_refused:
  assumes "ho_faults h = []" and "(ho_files h cert = None) \<noteq> (ho_files h key = None)"
  shows "\<exists>e. run_state (loadOrGenerateTLSCert cr now cert key san) h = (Inl e, h)"
  using assms by (cases "ho_files h cert"; cases "ho_files h key")
    (simp_all add: loadOrGenerateTLSCert_def fs_calls stat_ok_def Let_def)

lemma tls_crash_leaves_half:
  "\<exists>e h'. run_state demo_tls (demo_host\<lparr>ho_faults := replicate 5 FsFine @ [FsFails ''disk full'']\<rparr>) = (Inl e, h') \<and>
    ho_faults h' = [] \<and> ho_files h' ''crt'' \<noteq> None \<and> ho_files h' ''key'' = None"
  by (simp add: tls_defs numeral_eq_Suc)

text \<open>So does a write of the signing key: the file it leaves has no key in it.\<close>

lemma key_crash_leaves_stub:
  "\<exists>e h' e'. run_state (loadOrGenerateKey demo_crypto ''key.pem'')
      (demo_host\<lparr>ho_faults := replicate 3 FsFine @ [FsFails ''disk full'']\<rparr>) = (Inl e, h') \<and> ho_faults h' = [] \<and>
    run_state (loadOrGenerateKey demo_crypto ''key.pem'') h' = (Inl e', h')"
  by (simp add: loadOrGenerateKey_def generateAndSaveKey_def loadKey_def parse_key_file_def unsafe_mode_def tls_defs
      numeral_eq_Suc)

end
