(* ===== verification/Startup.thy ===== *)
theory Startup
  imports Keys
begin

text \<open>
  The start of the authentication server and the command line around it: \<open>main\<close> and \<open>runDaemon\<close> of
  \<open>src/arc-lore-auth/main.go\<close> with the keys of \<open>Keys\<close>, \<open>server.go\<close>, and the subcommands of \<open>cli.go\<close>
  that need a key or print a table. Opening the database, decoding files and listening are arguments or
  left out; what is printed is a list of lines.
\<close>

section \<open>main.go\<close>

datatype command =
    CmdMint "string list" | CmdPrintJWKS | CmdUserAdd "string list" | CmdUserList | CmdUserDel "string list"
  | CmdSetPw "string list" | CmdHashSecret "string list" | CmdDaemon

text \<open>The arguments after the global flags; any other word starts the daemon.\<close>

definition main_command :: "string list \<Rightarrow> command" where
  "main_command args = (case args of
      [] \<Rightarrow> CmdDaemon
    | sub # rest \<Rightarrow>
        if sub = ''mint'' then CmdMint rest
        else if sub = ''print-jwks'' then CmdPrintJWKS
        else if sub = ''useradd'' then CmdUserAdd rest
        else if sub = ''userlist'' then CmdUserList
        else if sub = ''userdel'' then CmdUserDel rest
        else if sub = ''setpw'' then CmdSetPw rest
        else if sub = ''hash-secret'' then CmdHashSecret rest
        else CmdDaemon)"

section \<open>server.go\<close>

text \<open>The handlers that need no store: what \<open>newAuthServer\<close> serialised, and the probe.\<close>

record auth_public =
  ap_kid :: string
  ap_jwkJSON :: "byte list"

definition newAuthServer :: "('k, 'c, 'j, 'r) crypto \<Rightarrow> string \<Rightarrow> 'j list \<Rightarrow> (string, auth_public) result" where
  "newAuthServer cr kid jwks = (case jwk_Marshal cr jwks of
      Inl e \<Rightarrow> Inl (''serialising JWKS: '' @ e)
    | Inr raw \<Rightarrow> Inr \<lparr>ap_kid = kid, ap_jwkJSON = raw\<rparr>)"

record plain_response =
  pr_status :: nat
  pr_headers :: "(string \<times> string) list"
  pr_body :: "byte list"

definition handleJWKS :: "auth_public \<Rightarrow> plain_response" where
  "handleJWKS s = \<lparr>pr_status = 200, pr_headers = [(''Content-Type'', ''application/json'')], pr_body = ap_jwkJSON s\<rparr>"

definition handleHealthz :: plain_response where
  "handleHealthz = \<lparr>pr_status = 200, pr_headers = [], pr_body = map (\<lambda>c. of_nat (of_char c)) ''ok''\<rparr>"

text \<open>What \<open>registerRoutes\<close> puts on the mux. The pages and the API are there once \<open>attachWeb\<close> has run.\<close>

datatype auth_endpoint =
    EndpointJWKS | EndpointHealthz | EndpointPage web_call

definition registerRoutes :: "bool \<Rightarrow> (string \<times> auth_endpoint) list" where
  "registerRoutes attached =
     [(''/jwks.json'', EndpointJWKS), (''/.well-known/jwks.json'', EndpointJWKS), (''/healthz'', EndpointHealthz)] @
     (if attached then
       [(''/login'', EndpointPage WebLogin), (''/admin'', EndpointPage WebAdmin),
        (''/admin/unlock'', EndpointPage WebUnlock), (''/admin/users'', EndpointPage WebUserCreate),
        (''/admin/users/setpw'', EndpointPage WebUserSetPassword),
        (''/admin/users/delete'', EndpointPage WebUserDelete)]
      else [])"

section \<open>The daemon\<close>

text \<open>Everything that is built before the listeners start.\<close>

record ('k, 'c, 'j) daemon =
  dm_config :: daemon_config
  dm_priv :: 'k
  dm_jwks :: "'j list"
  dm_public :: auth_public
  dm_server :: auth_server
  dm_cert :: 'c
  dm_generated :: bool

text \<open>The steps up to the store: the settings, the signing key, its id and the JWKS document.\<close>

definition daemon_key :: "('k, 'c, 'j, 'r) crypto \<Rightarrow> string \<Rightarrow> ('r host, (string, 'k \<times> string \<times> 'j list) result) state" where
  "daemon_key cr keyPath = do {
     k \<leftarrow> loadOrGenerateKey cr keyPath;
     State_Monad.return (case k of
         Inl e \<Rightarrow> Inl (''arc-lore-auth: key: '' @ e)
       | Inr priv \<Rightarrow> (case keyID cr priv of
           Inl e \<Rightarrow> Inl (''arc-lore-auth: kid: '' @ e)
         | Inr kid \<Rightarrow> (case buildJWKSet cr priv kid of
             Inl e \<Rightarrow> Inl (''arc-lore-auth: JWKS: '' @ e)
           | Inr jwks \<Rightarrow> Inr (priv, kid, jwks)))) }"

text \<open>The whole start. \<open>opened\<close> is what opening the database gave, \<open>file\<close> the retired users file, \<open>now\<close>
  the clock.\<close>

definition startDaemon ::
  "('k, 'c, 'j, 'r) crypto \<Rightarrow> int \<Rightarrow> (string, daemon_config) result \<Rightarrow> string \<Rightarrow> string \<Rightarrow> (string, db) result \<Rightarrow>
    legacy_file \<Rightarrow> ('r host, (string, ('k, 'c, 'j) daemon) result) state" where
  "startDaemon cr now loaded listenOverride audienceOverride opened file =
    (case daemon_settings loaded listenOverride audienceOverride of
       Inl e \<Rightarrow> State_Monad.return (Inl e)
     | Inr cfg \<Rightarrow> do {
         k \<leftarrow> daemon_key cr (cfg_KeyPath cfg);
         case k of
           Inl e \<Rightarrow> State_Monad.return (Inl e)
         | Inr (priv, kid, jwks) \<Rightarrow> (case opened of
             Inl e \<Rightarrow> State_Monad.return (Inl (''arc-lore-auth: db: '' @ e))
           | Inr d \<Rightarrow> (case run_state (importLegacyUsersFile (cfg_UsersFile cfg) file) d of
               (Inl e, _) \<Rightarrow> State_Monad.return (Inl (''arc-lore-auth: legacy user import: '' @ e))
             | (Inr _, d') \<Rightarrow> (case newAuthServer cr kid jwks of
                 Inl e \<Rightarrow> State_Monad.return (Inl (''arc-lore-auth: server init: '' @ e))
               | Inr pub \<Rightarrow> do {
                   c \<leftarrow> loadOrGenerateTLSCert cr now (cfg_TLSCertPath cfg) (cfg_TLSKeyPath cfg) (cfg_TLSSAN cfg);
                   State_Monad.return (case c of
                       Inl e \<Rightarrow> Inl (''arc-lore-auth: TLS: '' @ e)
                     | Inr (cert, generated) \<Rightarrow> Inr \<lparr>dm_config = cfg, dm_priv = priv, dm_jwks = jwks,
                         dm_public = pub,
                         dm_server = attachWeb now (NewSessionStore (cfg_SessionTTL cfg * nsec)) d',
                         dm_cert = cert, dm_generated = generated\<rparr>) }))) })"

text \<open>The lines printed once everything is built. The arrow of the code's other messages and the flags'
  usage are left out.\<close>

definition daemon_banner :: "('k, 'c, 'j) daemon \<Rightarrow> string list" where
  "daemon_banner d = (let cfg = dm_config d; web = cfg_WebListenAddr cfg in
     [''arc-lore-auth listening:'',
      ''  HTTP  : http://'' @ web @ ''  (JWKS + web login/admin)'',
      ''  JWKS  : http://'' @ web @ ''/jwks.json'',
      ''  login : http://'' @ web @ ''/login  (interactive; reach via web_base_url)'',
      (if cfg_AdminSecret cfg \<noteq> '''' then ''  admin : http://'' @ web @ ''/admin  (admin_secret required)''
       else ''  admin : DISABLED (admin_secret unset '' @ em_dash @ '' /admin returns 503)''),
      ''  gRPC  : https://'' @ cfg_GRPCListenAddr cfg @ ''  (epic_urc.UrcAuthApi, TLS/h2)'',
      ''  kid   : '' @ ap_kid (dm_public d),
      ''  issuer: '' @ cfg_Issuer cfg,
      ''  aud   : '' @ cfg_Audience cfg,
      ''  TLS   : cert='' @ cfg_TLSCertPath cfg @ '' san='' @ Quote (cfg_TLSSAN cfg)] @
     (if dm_generated d then
       [''  install the gRPC cert into each editor host'' @ [CHR 0x27] @ ''s Trusted Root store:'',
        ''    certutil -addstore Root '' @ cfg_TLSCertPath cfg] else []))"

text \<open>The warnings: an admin secret in plain text, and the pages served without TLS beyond the loopback
  interface. \<open>splitHost\<close> and \<open>isLoopback\<close> are \<open>net.SplitHostPort\<close> and the judgement of \<open>net\<close>.\<close>

datatype daemon_warning = PlainSecret | PlainListener string

definition daemon_warnings :: "(string \<Rightarrow> string option) \<Rightarrow> (string \<Rightarrow> bool) \<Rightarrow> daemon_config \<Rightarrow> daemon_warning list" where
  "daemon_warnings splitHost isLoopback cfg =
    (if cfg_AdminSecret cfg \<noteq> '''' \<and> \<not> HasPrefix (cfg_AdminSecret cfg) ''$argon2id$'' then [PlainSecret] else []) @
    (if cfg_WebTLSCertPath cfg = '''' then
       (let host = (case splitHost (cfg_WebListenAddr cfg) of Some h \<Rightarrow> h | None \<Rightarrow> cfg_WebListenAddr cfg)
        in if host = ''localhost'' \<or> isLoopback host then [] else [PlainListener (cfg_WebListenAddr cfg)])
     else [])"

section \<open>cli.go\<close>

definition key_of_command :: "('k, 'c, 'j, 'r) crypto \<Rightarrow> string \<Rightarrow> string \<Rightarrow>
    ('r host, (string, 'k \<times> string) result) state" where
  "key_of_command cr cmd keyPath = do {
     k \<leftarrow> loadOrGenerateKey cr keyPath;
     State_Monad.return (case k of
         Inl e \<Rightarrow> Inl (cmd @ '': key: '' @ e)
       | Inr priv \<Rightarrow> (case keyID cr priv of
           Inl e \<Rightarrow> Inl (cmd @ '': kid: '' @ e)
         | Inr kid \<Rightarrow> Inr (priv, kid))) }"

text \<open>The document, or the message of the exit.\<close>

definition runPrintJWKSCmd :: "('k, 'c, 'j, 'r) crypto \<Rightarrow> (string, daemon_config) result \<Rightarrow> string \<Rightarrow>
    ('r host, (string, byte list) result) state" where
  "runPrintJWKSCmd cr loaded audienceOverride = (case loaded of
      Inl e \<Rightarrow> State_Monad.return (Inl (''print-jwks: config: '' @ e))
    | Inr cfg \<Rightarrow> do {
        let cfg = (if audienceOverride \<noteq> '''' then cfg\<lparr>cfg_Audience := audienceOverride\<rparr> else cfg);
        k \<leftarrow> key_of_command cr ''print-jwks'' (cfg_KeyPath cfg);
        State_Monad.return (case k of
            Inl e \<Rightarrow> Inl e
          | Inr (priv, kid) \<Rightarrow> (case buildJWKSet cr priv kid of
              Inl e \<Rightarrow> Inl (''print-jwks: '' @ e)
            | Inr jwks \<Rightarrow> (case marshalJWKSet cr jwks of
                Inl e \<Rightarrow> Inl (''print-jwks: marshal: '' @ e)
              | Inr data \<Rightarrow> Inr data))) })"

text \<open>\<open>mint\<close> with the key it loads or makes; the token goes to the file named by \<open>--out\<close> or to the
  terminal. \<open>sign\<close> is signing with the key.\<close>

definition mint_with_key :: "('k, 'c, 'j, 'r) crypto \<Rightarrow> ('k \<Rightarrow> jwt_lib) \<Rightarrow> (string, daemon_config) result \<Rightarrow> int \<Rightarrow>
    string \<Rightarrow> string \<Rightarrow> string \<Rightarrow> string \<Rightarrow> ('r host, cli_result) state" where
  "mint_with_key cr sign loaded now audienceOverride user out aud =
    (if user = '''' then State_Monad.return (CliExit ''mint: --user is required'')
     else case loaded of
       Inl e \<Rightarrow> State_Monad.return (CliExit (''mint: config: '' @ e))
     | Inr cfg \<Rightarrow>
         let audienceOverride = (if aud \<noteq> '''' then aud else audienceOverride);
             cfg = (if audienceOverride \<noteq> '''' then cfg\<lparr>cfg_Audience := audienceOverride\<rparr> else cfg)
         in if cfg_Audience cfg = '''' then State_Monad.return
              (CliExit ''mint: audience is required (set in config.toml or via -audience flag)'')
            else do {
              k \<leftarrow> key_of_command cr ''mint'' (cfg_KeyPath cfg);
              case k of
                Inl e \<Rightarrow> State_Monad.return (CliExit e)
              | Inr (priv, kid) \<Rightarrow> (case mintToken (sign priv) (auth_config.truncate cfg) now kid user of
                  Inl e \<Rightarrow> State_Monad.return (CliMintFailed e)
                | Inr token \<Rightarrow>
                    if out \<noteq> '''' then do {
                      w \<leftarrow> os_WriteFile out (map (\<lambda>c. of_nat (of_char c)) token) 384;
                      State_Monad.return (case w of
                          Some e \<Rightarrow> CliExit (''mint: writing output file: '' @ e)
                        | None \<Rightarrow> CliWritten out token) }
                    else State_Monad.return (CliOut token)) })"

text \<open>\<open>%-24s\<close>: \<open>fmt\<close> pads to a number of characters, counted as the bytes that start one
  (in valid UTF-8).\<close>

definition rune_count :: "string \<Rightarrow> nat" where
  "rune_count s = length (filter (\<lambda>c. \<not> (128 \<le> (of_char c :: nat) \<and> (of_char c :: nat) < 192)) s)"

definition pad_right :: "nat \<Rightarrow> string \<Rightarrow> string" where
  "pad_right n s = s @ replicate (n - rune_count s) CHR '' ''"

definition user_line :: "string \<Rightarrow> string \<Rightarrow> string \<Rightarrow> string \<Rightarrow> string" where
  "user_line name display admin created = pad_right 24 name @ '' '' @ pad_right 24 display @ '' '' @
     pad_right 6 admin @ '' '' @ created"

definition runUserListCmd :: "(string, daemon_config) result \<Rightarrow> (string, unit) result \<Rightarrow>
    (db, (string, string list) result) state" where
  "runUserListCmd loaded opened = (case loaded of
      Inl e \<Rightarrow> State_Monad.return (Inl (''userlist: config: '' @ e))
    | Inr cfg \<Rightarrow> (case opened of
        Inl e \<Rightarrow> State_Monad.return (Inl (''userlist: opening db: '' @ e))
      | Inr _ \<Rightarrow> do {
          us \<leftarrow> ListUsers;
          State_Monad.return (case us of
              Inl e \<Rightarrow> Inl (''userlist: '' @ err_text e)
            | Inr us \<Rightarrow> Inr (user_line ''USERNAME'' ''DISPLAY'' ''ADMIN'' ''CREATED'' #
                map (\<lambda>u. user_line (Username u) (DisplayName u) (if IsAdmin u then ''yes'' else ''no'')
                  (unixToStr (Created u))) us)) }))"

section \<open>A start and the next\<close>

lemma written_file:
  assumes "run_state (writeFileWithDir cr path data perm) h = (None, h')"
  shows "\<exists>f. ho_files h' = (ho_files h)(path \<mapsto> f) \<and> ff_Data f = data"
  using assms unfolding writeFileWithDir_def by (auto simp: fs_calls split: fs_splits)

lemma saved_pair:
  assumes "run_state (saveTLSCert cr c k certPEM keyPEM) h = (Inr cert, h')" and "c \<noteq> k"
  shows "\<exists>fc fk. ho_files h' = (ho_files h)(c \<mapsto> fc, k \<mapsto> fk) \<and> ff_Data fc = certPEM \<and> ff_Data fk = keyPEM \<and>
    X509KeyPair cr certPEM keyPEM = Inr cert"
proof -
  from assms(1) obtain h1 where "run_state (writeFileWithDir cr c certPEM 420) h = (None, h1)"
    "run_state (writeFileWithDir cr k keyPEM 384) h1 = (None, h')" "X509KeyPair cr certPEM keyPEM = Inr cert"
    unfolding saveTLSCert_def by (auto simp: prod_eq_iff split: option.splits sum.splits)
  with written_file [OF this(1)] written_file [OF this(2)] show ?thesis by metis
qed

lemma generated_pair:
  assumes "run_state (generateAndSaveTLSCert cr now c k san) h = (Inr cert, h')"
  obtains certPEM keyPEM h0 where "ho_files h0 = ho_files h"
    "run_state (saveTLSCert cr c k certPEM keyPEM) h0 = (Inr cert, h')"
  using assms unfolding generateAndSaveTLSCert_def by (auto intro: that [rotated] split: if_splits sum.splits)

lemma loaded_pair:
  assumes "run_state (LoadX509KeyPair cr c k) h = (Inr cert, h')"
  shows "ho_files h' = ho_files h \<and> (\<exists>fc fk. ho_files h c = Some fc \<and> ho_files h k = Some fk \<and>
    X509KeyPair cr (ff_Data fc) (ff_Data fk) = Inr cert)"
  using assms unfolding LoadX509KeyPair_def by (auto simp: fs_calls split: fs_splits)

lemma stat_keeps: "ho_files (snd (run_state (os_Stat path) h)) = ho_files h"
  by (simp add: fs_calls)

text \<open>A start that succeeds leaves both files behind, with the pair it uses.\<close>

lemma tls_pair_left:
  assumes "run_state (loadOrGenerateTLSCert cr now c k san) h = (Inr (cert, g), h')" and "c \<noteq> k"
  shows "(\<exists>fc fk. ho_files h' c = Some fc \<and> ho_files h' k = Some fk \<and>
      X509KeyPair cr (ff_Data fc) (ff_Data fk) = Inr cert) \<and>
    (\<forall>q. q \<noteq> c \<longrightarrow> q \<noteq> k \<longrightarrow> ho_files h' q = ho_files h q)"
proof -
  define h0 where "h0 = snd (run_state (os_Stat k) (snd (run_state (os_Stat c) h)))"
  have h0: "ho_files h0 = ho_files h" by (simp add: h0_def stat_keeps)
  from assms(1) consider "run_state (LoadX509KeyPair cr c k) h0 = (Inr cert, h')"
    | "run_state (generateAndSaveTLSCert cr now c k san) h0 = (Inr cert, h')"
    unfolding loadOrGenerateTLSCert_def h0_def by (auto simp: Let_def prod_eq_iff split: fs_splits)
  then show ?thesis
  proof cases
    case 1
    from loaded_pair [OF this] h0 show ?thesis by auto
  next
    case 2
    then obtain p q h1 where "ho_files h1 = ho_files h0"
      "run_state (saveTLSCert cr c k p q) h1 = (Inr cert, h')" by (rule generated_pair)
    from saved_pair [OF this(2) assms(2)] this(1) h0 assms(2) show ?thesis by auto
  qed
qed

lemma tls_pair_loaded:
  assumes "ho_faults h = []" and "ho_files h c = Some fc" and "ho_files h k = Some fk"
    and "X509KeyPair cr (ff_Data fc) (ff_Data fk) = Inr cert"
  shows "run_state (loadOrGenerateTLSCert cr now c k san) h = (Inr (cert, False), h)"
  using assms by (simp add: loadOrGenerateTLSCert_def LoadX509KeyPair_def fs_calls stat_ok_def Let_def)

text \<open>The steps of a start that succeeds.\<close>

lemma startDaemon_Inr:
  assumes "run_state (startDaemon cr now loaded lo ao opened file) h = (Inr d, h')"
  obtains h1 where "daemon_settings loaded lo ao = Inr (dm_config d)"
    "run_state (loadOrGenerateKey cr (cfg_KeyPath (dm_config d))) h = (Inr (dm_priv d), h1)"
    "keyID cr (dm_priv d) = Inr (ap_kid (dm_public d))"
    "buildJWKSet cr (dm_priv d) (ap_kid (dm_public d)) = Inr (dm_jwks d)"
    "newAuthServer cr (ap_kid (dm_public d)) (dm_jwks d) = Inr (dm_public d)"
    "run_state (loadOrGenerateTLSCert cr now (cfg_TLSCertPath (dm_config d)) (cfg_TLSKeyPath (dm_config d))
       (cfg_TLSSAN (dm_config d))) h1 = (Inr (dm_cert d, dm_generated d), h')"
    "runDaemon now loaded lo ao opened file = Inr (dm_config d, dm_server d)"
  using assms unfolding startDaemon_def daemon_key_def runDaemon_def newAuthServer_def
  by (auto simp: prod_eq_iff split: sum.splits prod.splits)

lemma daemon_key_again:
  assumes "crypto_ok cr" and "run_state (startDaemon cr now loaded lo ao opened file) h = (Inr d, h1)"
    and "distinct [cfg_KeyPath (dm_config d), cfg_TLSCertPath (dm_config d), cfg_TLSKeyPath (dm_config d)]"
    and "ho_files h2 = ho_files h1" and "ho_faults h2 = []"
  shows "run_state (daemon_key cr (cfg_KeyPath (dm_config d))) h2 =
    (Inr (dm_priv d, ap_kid (dm_public d), dm_jwks d), h2)"
proof -
  obtain h0 where s: "run_state (loadOrGenerateKey cr (cfg_KeyPath (dm_config d))) h = (Inr (dm_priv d), h0)"
    "keyID cr (dm_priv d) = Inr (ap_kid (dm_public d))"
    "buildJWKSet cr (dm_priv d) (ap_kid (dm_public d)) = Inr (dm_jwks d)"
    "run_state (loadOrGenerateTLSCert cr now (cfg_TLSCertPath (dm_config d)) (cfg_TLSKeyPath (dm_config d))
       (cfg_TLSSAN (dm_config d))) h0 = (Inr (dm_cert d, dm_generated d), h1)"
    using startDaemon_Inr [OF assms(2)] by metis
  from key_obtained [OF assms(1) s(1)] obtain f where
    "ho_files h0 (cfg_KeyPath (dm_config d)) = Some f" "key_file cr (cfg_KeyPath (dm_config d)) f (dm_priv d)"
    by blast
  with tls_pair_left [OF s(4)] assms(3-5) have
    "run_state (loadOrGenerateKey cr (cfg_KeyPath (dm_config d))) h2 = (Inr (dm_priv d), h2)"
    by (intro key_again [where f = f]) auto
  with s(2,3) show ?thesis by (simp add: daemon_key_def)
qed

text \<open>C27: A server that stopped comes up again. If a start succeeded (whatever failed before), its three files are
  different ones, and nothing touched the file system since, then the next start with the same settings
  succeeds as well, as long as the database opens and the import of the retired file does not fail:
  no step for the keys can stop it, it uses the same signing key, id, JWKS document and certificate, and
  it writes no file.\<close>

theorem daemon_comes_up_again:
  assumes "crypto_ok cr" and "run_state (startDaemon cr now loaded lo ao opened file) h = (Inr d, h1)"
    and "distinct [cfg_KeyPath (dm_config d), cfg_TLSCertPath (dm_config d), cfg_TLSKeyPath (dm_config d)]"
    and "ho_files h2 = ho_files h1" and "ho_faults h2 = []"
    and "run_state (importLegacyUsersFile (cfg_UsersFile (dm_config d)) file') db = (Inr (), db')"
  shows "\<exists>d'. run_state (startDaemon cr now' loaded lo ao (Inr db) file') h2 = (Inr d', h2) \<and>
    dm_priv d' = dm_priv d \<and> dm_public d' = dm_public d \<and> dm_jwks d' = dm_jwks d \<and> dm_cert d' = dm_cert d \<and>
    dm_config d' = dm_config d \<and> \<not> dm_generated d' \<and> as_db (dm_server d') = db'"
proof -
  obtain h0 where s: "daemon_settings loaded lo ao = Inr (dm_config d)"
    "newAuthServer cr (ap_kid (dm_public d)) (dm_jwks d) = Inr (dm_public d)"
    "run_state (loadOrGenerateTLSCert cr now (cfg_TLSCertPath (dm_config d)) (cfg_TLSKeyPath (dm_config d))
       (cfg_TLSSAN (dm_config d))) h0 = (Inr (dm_cert d, dm_generated d), h1)"
    using startDaemon_Inr [OF assms(2)] by metis
  from tls_pair_left [OF s(3)] assms(3) obtain fc fk where
    "ho_files h1 (cfg_TLSCertPath (dm_config d)) = Some fc" "ho_files h1 (cfg_TLSKeyPath (dm_config d)) = Some fk"
    "X509KeyPair cr (ff_Data fc) (ff_Data fk) = Inr (dm_cert d)" by auto
  with assms(4,5) have "run_state (loadOrGenerateTLSCert cr now' (cfg_TLSCertPath (dm_config d))
      (cfg_TLSKeyPath (dm_config d)) (cfg_TLSSAN (dm_config d))) h2 = (Inr (dm_cert d, False), h2)"
    by (intro tls_pair_loaded) simp_all
  then show ?thesis
    by (simp add: startDaemon_def s(1,2) daemon_key_again [OF assms(1-5)] assms(6) attachWeb_def)
qed

text \<open>A first start on an empty disk, for the witness.\<close>

definition demo_settings :: daemon_config where
  "demo_settings = (defaultConfig ''key.pem'')\<lparr>cfg_Audience := ''host.lan'', cfg_TLSSAN := ''host.lan'', cfg_UsersFile := ''''\<rparr>"

definition demo_db :: db where
  "demo_db = \<lparr>users = [], resources = [], grants = [], config = [], faults = []\<rparr>"

theorem daemon_comes_up_again_witness:
  "let start = startDaemon demo_crypto 0 (Inr demo_settings) '''' '''' (Inr demo_db) FileMissing;
       (r, h1) = run_state start demo_host
    in \<exists>d'. run_state start (h1\<lparr>ho_rand := 99\<rparr>) = (Inr d', h1\<lparr>ho_rand := 99\<rparr>) \<and> dm_priv d' = 5"
proof -
  let ?start = "startDaemon demo_crypto 0 (Inr demo_settings) '''' '''' (Inr demo_db) FileMissing"
  let ?h1 = "snd (run_state ?start demo_host)"
  note defs = startDaemon_def daemon_key_def keyID_def buildJWKSet_def newAuthServer_def loadOrGenerateKey_def
    generateAndSaveKey_def demo_settings_def defaultConfig_def daemon_settings_def importLegacyUsersFile_def
    tls_defs
  obtain d where d: "run_state ?start demo_host = (Inr d, ?h1)" "dm_config d = demo_settings" "dm_priv d = 5"
    by (simp add: defs)
  have f: "ho_faults ?h1 = []" by (simp add: defs)
  have "run_state (importLegacyUsersFile (cfg_UsersFile (dm_config d)) FileMissing) demo_db = (Inr (), demo_db)"
    by (simp add: d(2) demo_settings_def importLegacyUsersFile_def)
  from daemon_comes_up_again [OF demo_crypto_ok d(1) _ _ _ this, of "?h1\<lparr>ho_rand := 99\<rparr>" 0] f d
  show ?thesis by (auto simp: Let_def demo_settings_def defaultConfig_def split: prod.split)
qed

end
