(* ===== verification/Stream_Loops.thy ===== *)
theory Stream_Loops
  imports Lore_Client
begin

text \<open>
  The loops over \<open>stream.Recv\<close> as loops, over a stream that may never end. \<open>Lore_Client\<close> takes a stream
  to be the list of its messages; here a stream is a function that answers the next \<open>Recv\<close> and moves on,
  a loop is a partial function, and not returning is \<open>None\<close>. What is shown: on a stream that ends the
  loops return what the list model says, and exactly when they return otherwise.
\<close>

section \<open>The loop\<close>

datatype 'm recv = RecvEOF | RecvErr go_err | RecvMsg 'm

type_synonym ('q, 'm) stream = "'q \<Rightarrow> 'm recv \<times> 'q"

text \<open>\<open>step\<close> is the body on a message: to return, or the next value of the variables; \<open>fin\<close> is what is
  returned at the end of the stream or on its error.\<close>

partial_function (option) recv_loop ::
  "('a \<Rightarrow> 'm \<Rightarrow> 'r + 'a) \<Rightarrow> ('a \<Rightarrow> go_err option \<Rightarrow> 'r) \<Rightarrow> ('q, 'm) stream \<Rightarrow> 'a \<Rightarrow> 'q \<Rightarrow> 'r option" where
  "recv_loop step fin recv acc q = (case recv q of
      (RecvEOF, q') \<Rightarrow> Some (fin acc None)
    | (RecvErr e, q') \<Rightarrow> Some (fin acc (Some e))
    | (RecvMsg m, q') \<Rightarrow> (case step acc m of
        Inl r \<Rightarrow> Some r
      | Inr acc' \<Rightarrow> recv_loop step fin recv acc' q'))"

definition tree_step :: "bool \<times> 'h option \<times> tree_node list \<Rightarrow> 'h tree_msg \<Rightarrow>
    ('h option \<times> tree_node list \<times> lore_err option) + (bool \<times> 'h option \<times> tree_node list)" where
  "tree_step acc m = (case acc of (first, header, nodes) \<Rightarrow> (case m of
      TreeHeader h \<Rightarrow> if \<not> first then Inl (header, nodes, Some (LoreMsg ''lore: RevisionTree header out of order''))
        else Inr (False, Some h, nodes)
    | TreeNodeMsg n \<Rightarrow> Inr (False, header, nodes @ [n])
    | TreeNoPayload \<Rightarrow> Inl (header, nodes, Some (LoreMsg ''lore: RevisionTree unexpected payload <nil>''))))"

definition tree_loop :: "('q, 'h tree_msg) stream \<Rightarrow> 'q \<Rightarrow> ('h option \<times> tree_node list \<times> lore_err option) option" where
  "tree_loop recv q = recv_loop tree_step
     (\<lambda>(first, header, nodes) e. (header, nodes, map_option PlainErr e)) recv (True, None, []) q"

definition diff_step :: "bool \<times> 'h option \<times> diff_change option list \<Rightarrow> 'h diff_msg \<Rightarrow>
    ('h option \<times> diff_change option list \<times> lore_err option) + (bool \<times> 'h option \<times> diff_change option list)" where
  "diff_step acc m = (case acc of (first, header, entries) \<Rightarrow> (case m of
      DiffHeader h \<Rightarrow> if \<not> first then Inl (header, entries, Some (LoreMsg ''lore: RevisionDiff header out of order''))
        else Inr (False, Some h, entries)
    | DiffChangeMsg c \<Rightarrow> Inr (False, header, entries @ [Some c])
    | DiffConflictMsg \<Rightarrow> Inr (False, header, entries @ [None])
    | DiffNoPayload \<Rightarrow> Inl (header, entries, Some (LoreMsg ''lore: RevisionDiff unexpected payload <nil>''))))"

definition diff_loop :: "('q, 'h diff_msg) stream \<Rightarrow> 'q \<Rightarrow>
    ('h option \<times> diff_change option list \<times> lore_err option) option" where
  "diff_loop recv q = recv_loop diff_step
     (\<lambda>(first, header, entries) e. (header, entries, map_option PlainErr e)) recv (True, None, []) q"

text \<open>The loops of \<open>ListRepositories\<close> and \<open>ListBranches\<close>.\<close>

definition rows_step :: "nat \<Rightarrow> 'm list \<Rightarrow> 'm option \<Rightarrow> ('m list \<times> lore_err option) + 'm list" where
  "rows_step cap out m = (case m of
      None \<Rightarrow> Inr out
    | Some x \<Rightarrow> if length (out @ [x]) \<ge> cap then Inl (out @ [x], None) else Inr (out @ [x]))"

definition rows_fin :: "string \<Rightarrow> 'm list \<Rightarrow> go_err option \<Rightarrow> 'm list \<times> lore_err option" where
  "rows_fin op out e = (out, map_option (\<lambda>e. LoreCtx (''lore: '' @ op @ '' recv'') (PlainErr e)) e)"

definition rows_loop :: "nat \<Rightarrow> string \<Rightarrow> ('q, 'm option) stream \<Rightarrow> 'q \<Rightarrow> ('m list \<times> lore_err option) option" where
  "rows_loop cap op recv q = recv_loop (rows_step cap) (rows_fin op) recv [] q"

section \<open>When a loop returns\<close>

text \<open>The stream sends the messages, and is then at \<open>q'\<close>.\<close>

fun sends :: "('q, 'm) stream \<Rightarrow> 'q \<Rightarrow> 'm list \<Rightarrow> 'q \<Rightarrow> bool" where
  "sends recv q [] q' = (q' = q)"
| "sends recv q (m # ms) q' = (fst (recv q) = RecvMsg m \<and> sends recv (snd (recv q)) ms q')"

text \<open>The stream sends the messages and ends, with or without an error.\<close>

definition delivers :: "('q, 'm) stream \<Rightarrow> 'q \<Rightarrow> 'm list \<Rightarrow> go_err option \<Rightarrow> bool" where
  "delivers recv q ms e \<longleftrightarrow> (\<exists>q'. sends recv q ms q' \<and>
     fst (recv q') = (case e of None \<Rightarrow> RecvEOF | Some x \<Rightarrow> RecvErr x))"

text \<open>The same loop over a list.\<close>

fun list_loop :: "('a \<Rightarrow> 'm \<Rightarrow> 'r + 'a) \<Rightarrow> ('a \<Rightarrow> go_err option \<Rightarrow> 'r) \<Rightarrow> 'a \<Rightarrow> 'm list \<Rightarrow> go_err option \<Rightarrow> 'r" where
  "list_loop step fin acc [] e = fin acc e"
| "list_loop step fin acc (m # ms) e = (case step acc m of Inl r \<Rightarrow> r | Inr acc' \<Rightarrow> list_loop step fin acc' ms e)"

text \<open>The variables after messages that do not return.\<close>

fun loop_vars :: "('a \<Rightarrow> 'm \<Rightarrow> 'r + 'a) \<Rightarrow> 'a \<Rightarrow> 'm list \<Rightarrow> 'a option" where
  "loop_vars step acc [] = Some acc"
| "loop_vars step acc (m # ms) = (case step acc m of Inl r \<Rightarrow> None | Inr acc' \<Rightarrow> loop_vars step acc' ms)"

lemma recv_loop_unfold:
  "recv_loop step fin recv acc q = (case fst (recv q) of
      RecvEOF \<Rightarrow> Some (fin acc None) | RecvErr e \<Rightarrow> Some (fin acc (Some e))
    | RecvMsg m \<Rightarrow> (case step acc m of Inl r \<Rightarrow> Some r | Inr acc' \<Rightarrow> recv_loop step fin recv acc' (snd (recv q))))"
  by (subst recv_loop.simps, cases "recv q") (simp split: recv.split sum.split)

lemma recv_loop_delivers:
  "delivers recv q ms e \<Longrightarrow> recv_loop step fin recv acc q = Some (list_loop step fin acc ms e)"
proof (induction ms arbitrary: acc q)
  case Nil
  then show ?case
    by (subst recv_loop_unfold) (auto simp: delivers_def split: option.splits)
next
  case (Cons m ms)
  then have "fst (recv q) = RecvMsg m" "delivers recv (snd (recv q)) ms e"
    by (auto simp: delivers_def)
  with Cons.IH show ?case
    by (subst recv_loop_unfold) (simp split: sum.split)
qed

text \<open>How a loop whose variables are \<open>acc\<close> returns \<open>r\<close> at once, on the answer \<open>x\<close> of \<open>Recv\<close>.\<close>

definition returns :: "('a \<Rightarrow> 'm \<Rightarrow> 'r + 'a) \<Rightarrow> ('a \<Rightarrow> go_err option \<Rightarrow> 'r) \<Rightarrow> 'a \<Rightarrow> 'm recv \<Rightarrow> 'r \<Rightarrow> bool" where
  "returns step fin acc x r \<longleftrightarrow> (case x of
      RecvEOF \<Rightarrow> r = fin acc None
    | RecvErr e \<Rightarrow> r = fin acc (Some e)
    | RecvMsg m \<Rightarrow> step acc m = Inl r)"

lemma recv_loop_intro:
  "sends recv q ms q' \<Longrightarrow> loop_vars step acc ms = Some acc' \<Longrightarrow> returns step fin acc' (fst (recv q')) r \<Longrightarrow>
    recv_loop step fin recv acc q = Some r"
proof (induction ms arbitrary: acc q)
  case Nil
  then show ?case
    by (subst recv_loop_unfold) (auto simp: returns_def split: recv.splits sum.splits)
next
  case (Cons m ms)
  then show ?case
    by (subst recv_loop_unfold) (auto split: sum.splits)
qed

lemma recv_loop_returned:
  fixes step :: "'a \<Rightarrow> 'm \<Rightarrow> 'r + 'a" and recv :: "('q, 'm) stream"
  assumes "recv_loop step fin recv acc q = Some r"
  shows "\<exists>ms q' acc'. sends recv q ms q' \<and> loop_vars step acc ms = Some acc' \<and> returns step fin acc' (fst (recv q')) r"
  using assms
proof (rule recv_loop.raw_induct [rotated, where P = "\<lambda>step fin recv acc q r. \<exists>ms q' acc'.
    sends recv q ms q' \<and> loop_vars step acc ms = Some acc' \<and> returns step fin acc' (fst (recv q')) r"])
  fix loop :: "('a \<Rightarrow> 'm \<Rightarrow> 'r + 'a) \<Rightarrow> ('a \<Rightarrow> go_err option \<Rightarrow> 'r) \<Rightarrow> ('q, 'm) stream \<Rightarrow> 'a \<Rightarrow> 'q \<Rightarrow> 'r option"
    and step fin recv acc q r
  assume ih: "\<And>step fin recv acc q r. loop step fin recv acc q = Some r \<Longrightarrow>
      \<exists>ms q' acc'. sends recv q ms q' \<and> loop_vars step acc ms = Some acc' \<and> returns step fin acc' (fst (recv q')) r"
    and body: "(case recv q of (RecvEOF, q') \<Rightarrow> Some (fin acc None) | (RecvErr e, q') \<Rightarrow> Some (fin acc (Some e))
      | (RecvMsg m, q') \<Rightarrow> (case step acc m of Inl r \<Rightarrow> Some r | Inr acc' \<Rightarrow> loop step fin recv acc' q')) = Some r"
  show "\<exists>ms q' acc'. sends recv q ms q' \<and> loop_vars step acc ms = Some acc' \<and> returns step fin acc' (fst (recv q')) r"
  proof (cases "returns step fin acc (fst (recv q)) r")
    case True
    then have "sends recv q [] q \<and> loop_vars step acc [] = Some acc \<and> returns step fin acc (fst (recv q)) r" by simp
    then show ?thesis by blast
  next
    case False
    with body obtain m acc' where m: "fst (recv q) = RecvMsg m" "step acc m = Inr acc'"
      by (cases "recv q") (auto simp: returns_def split: recv.splits sum.splits)
    with body have "loop step fin recv acc' (snd (recv q)) = Some r"
      by (cases "recv q") simp
    from ih [OF this] obtain ms q' acc'' where
      "sends recv (snd (recv q)) ms q'" "loop_vars step acc' ms = Some acc''" "returns step fin acc'' (fst (recv q')) r"
      by blast
    with m have "sends recv q (m # ms) q' \<and> loop_vars step acc (m # ms) = Some acc'' \<and>
      returns step fin acc'' (fst (recv q')) r" by simp
    then show ?thesis by blast
  qed
qed

text \<open>A loop returns \<open>r\<close> just when, after some messages that do not return, the answer of \<open>Recv\<close> makes it.\<close>

lemma recv_loop_iff:
  "recv_loop step fin recv acc q = Some r \<longleftrightarrow>
    (\<exists>ms q' acc'. sends recv q ms q' \<and> loop_vars step acc ms = Some acc' \<and> returns step fin acc' (fst (recv q')) r)"
  by (blast intro: recv_loop_intro dest: recv_loop_returned)

section \<open>The loops of the client\<close>

lemma list_tree_loop:
  "list_loop tree_step (\<lambda>(first, header, nodes) e. (header, nodes, map_option PlainErr e)) (b, h, ns) ms e =
    drain_tree b h ns ms e"
  by (induction b h ns ms e rule: drain_tree.induct) (simp_all add: tree_step_def)

lemma list_diff_loop:
  "list_loop diff_step (\<lambda>(first, header, entries) e. (header, entries, map_option PlainErr e)) (b, h, es) ms e =
    drain_diff b h es ms e"
  by (induction b h es ms e rule: drain_diff.induct) (simp_all add: diff_step_def)

lemma rows_step_simps [simp]:
  "rows_step cap out None = Inr out"
  "rows_step cap out (Some x) = (if cap \<le> Suc (length out) then Inl (out @ [x], None) else Inr (out @ [x]))"
  by (simp_all add: rows_step_def)

lemma list_rows_loop:
  "list_loop (rows_step cap) (rows_fin op) out ms e = drain_rows cap op out ms e"
  by (induction cap op out ms e rule: drain_rows.induct) (auto simp: rows_fin_def split: option.split)

text \<open>The loops and the drains over lists of \<open>Lore_Client\<close> agree on streams that end.\<close>

lemma loops_agree:
  "delivers recv q ms e \<Longrightarrow> tree_loop recv q = Some (drainRevisionTree (ms, e))"
  "delivers recv_d qd ds e \<Longrightarrow> diff_loop recv_d qd = Some (drainRevisionDiff (ds, e))"
  "delivers recv_r qr rs e \<Longrightarrow> rows_loop cap opn recv_r qr = Some (drain_rows cap opn [] rs e)"
  by (simp_all add: tree_loop_def diff_loop_def rows_loop_def recv_loop_delivers list_tree_loop list_diff_loop
      list_rows_loop drainRevisionTree_def drainRevisionDiff_def)

section \<open>What the messages say\<close>

text \<open>A stream of a tree is in order when every message has a payload and a header comes first or not at
  all; what it says is the header and the nodes.\<close>

definition tree_in_order :: "'h tree_msg list \<Rightarrow> bool" where
  "tree_in_order ms \<longleftrightarrow> TreeNoPayload \<notin> set ms \<and> (\<forall>h. TreeHeader h \<notin> set (tl ms))"

definition tree_header :: "'h tree_msg list \<Rightarrow> 'h option" where
  "tree_header ms = (case ms of TreeHeader h # _ \<Rightarrow> Some h | _ \<Rightarrow> None)"

definition tree_nodes :: "'h tree_msg list \<Rightarrow> tree_node list" where
  "tree_nodes ms = List.map_filter (\<lambda>m. case m of TreeNodeMsg n \<Rightarrow> Some n | _ \<Rightarrow> None) ms"

definition diff_in_order :: "'h diff_msg list \<Rightarrow> bool" where
  "diff_in_order ms \<longleftrightarrow> DiffNoPayload \<notin> set ms \<and> (\<forall>h. DiffHeader h \<notin> set (tl ms))"

definition diff_header :: "'h diff_msg list \<Rightarrow> 'h option" where
  "diff_header ms = (case ms of DiffHeader h # _ \<Rightarrow> Some h | _ \<Rightarrow> None)"

definition diff_entries :: "'h diff_msg list \<Rightarrow> diff_change option list" where
  "diff_entries ms = List.map_filter (\<lambda>m. case m of
      DiffChangeMsg c \<Rightarrow> Some (Some c) | DiffConflictMsg \<Rightarrow> Some None | _ \<Rightarrow> None) ms"

text \<open>The rows of a list; empty messages count for nothing.\<close>

definition rows_of :: "'m option list \<Rightarrow> 'm list" where
  "rows_of ms = List.map_filter id ms"

lemma rows_of_simps [simp]:
  "rows_of [] = []" "rows_of (None # ms) = rows_of ms" "rows_of (Some x # ms) = x # rows_of ms"
  by (simp_all add: rows_of_def map_filter_simps)

lemma tree_vars_later:
  "loop_vars tree_step (False, h, ns) ms = (if TreeNoPayload \<notin> set ms \<and> (\<forall>h. TreeHeader h \<notin> set ms)
     then Some (False, h, ns @ tree_nodes ms) else None)"
  by (induction ms arbitrary: ns)
     (auto simp: tree_step_def tree_nodes_def map_filter_simps split: tree_msg.splits)

lemma tree_vars:
  "loop_vars tree_step (True, None, []) ms =
    (if tree_in_order ms then Some (ms = [], tree_header ms, tree_nodes ms) else None)"
  by (cases ms; cases "hd ms")
     (simp_all add: tree_vars_later tree_step_def tree_in_order_def tree_header_def tree_nodes_def map_filter_simps)

lemma diff_vars_later:
  "loop_vars diff_step (False, h, es) ms = (if DiffNoPayload \<notin> set ms \<and> (\<forall>h. DiffHeader h \<notin> set ms)
     then Some (False, h, es @ diff_entries ms) else None)"
  by (induction ms arbitrary: es)
     (auto simp: diff_step_def diff_entries_def map_filter_simps split: diff_msg.splits)

lemma diff_vars:
  "loop_vars diff_step (True, None, []) ms =
    (if diff_in_order ms then Some (ms = [], diff_header ms, diff_entries ms) else None)"
  by (cases ms; cases "hd ms")
     (simp_all add: diff_vars_later diff_step_def diff_in_order_def diff_header_def diff_entries_def map_filter_simps)

lemma rows_vars:
  "length out < cap \<Longrightarrow> loop_vars (rows_step cap) out ms =
    (if length out + length (rows_of ms) < cap then Some (out @ rows_of ms) else None)"
proof (induction ms arbitrary: out)
  case (Cons m ms)
  then show ?case by (cases m) auto
qed simp

lemma tree_loop_iff:
  "tree_loop recv q = Some out \<longleftrightarrow> (\<exists>ms q'. sends recv q ms q' \<and> tree_in_order ms \<and> (case fst (recv q') of
        RecvEOF \<Rightarrow> out = (tree_header ms, tree_nodes ms, None)
      | RecvErr e \<Rightarrow> out = (tree_header ms, tree_nodes ms, Some (PlainErr e))
      | RecvMsg TreeNoPayload \<Rightarrow> out = (tree_header ms, tree_nodes ms,
          Some (LoreMsg ''lore: RevisionTree unexpected payload <nil>''))
      | RecvMsg (TreeHeader h) \<Rightarrow> ms \<noteq> [] \<and> out = (tree_header ms, tree_nodes ms,
          Some (LoreMsg ''lore: RevisionTree header out of order''))
      | RecvMsg (TreeNodeMsg n) \<Rightarrow> False))"
proof -
  have "(\<exists>acc'. sends recv q ms q' \<and> loop_vars tree_step (True, None, []) ms = Some acc' \<and>
      returns tree_step (\<lambda>(first, header, nodes) e. (header, nodes, map_option PlainErr e)) acc' (fst (recv q')) out)
    \<longleftrightarrow> sends recv q ms q' \<and> tree_in_order ms \<and> (case fst (recv q') of
        RecvEOF \<Rightarrow> out = (tree_header ms, tree_nodes ms, None)
      | RecvErr e \<Rightarrow> out = (tree_header ms, tree_nodes ms, Some (PlainErr e))
      | RecvMsg TreeNoPayload \<Rightarrow> out = (tree_header ms, tree_nodes ms,
          Some (LoreMsg ''lore: RevisionTree unexpected payload <nil>''))
      | RecvMsg (TreeHeader h) \<Rightarrow> ms \<noteq> [] \<and> out = (tree_header ms, tree_nodes ms,
          Some (LoreMsg ''lore: RevisionTree header out of order''))
      | RecvMsg (TreeNodeMsg n) \<Rightarrow> False)" for ms q'
    by (auto simp: tree_vars returns_def tree_step_def split: recv.splits tree_msg.splits if_splits)
  then show ?thesis unfolding tree_loop_def recv_loop_iff by blast
qed

lemma diff_loop_iff:
  "diff_loop recv_d qd = Some out_d \<longleftrightarrow> (\<exists>ms q'. sends recv_d qd ms q' \<and> diff_in_order ms \<and> (case fst (recv_d q') of
        RecvEOF \<Rightarrow> out_d = (diff_header ms, diff_entries ms, None)
      | RecvErr e \<Rightarrow> out_d = (diff_header ms, diff_entries ms, Some (PlainErr e))
      | RecvMsg DiffNoPayload \<Rightarrow> out_d = (diff_header ms, diff_entries ms,
          Some (LoreMsg ''lore: RevisionDiff unexpected payload <nil>''))
      | RecvMsg (DiffHeader h) \<Rightarrow> ms \<noteq> [] \<and> out_d = (diff_header ms, diff_entries ms,
          Some (LoreMsg ''lore: RevisionDiff header out of order''))
      | RecvMsg _ \<Rightarrow> False))"
proof -
  have "(\<exists>acc'. sends recv_d qd ms q' \<and> loop_vars diff_step (True, None, []) ms = Some acc' \<and>
      returns diff_step (\<lambda>(first, header, entries) e. (header, entries, map_option PlainErr e)) acc' (fst (recv_d q')) out_d)
    \<longleftrightarrow> sends recv_d qd ms q' \<and> diff_in_order ms \<and> (case fst (recv_d q') of
        RecvEOF \<Rightarrow> out_d = (diff_header ms, diff_entries ms, None)
      | RecvErr e \<Rightarrow> out_d = (diff_header ms, diff_entries ms, Some (PlainErr e))
      | RecvMsg DiffNoPayload \<Rightarrow> out_d = (diff_header ms, diff_entries ms,
          Some (LoreMsg ''lore: RevisionDiff unexpected payload <nil>''))
      | RecvMsg (DiffHeader h) \<Rightarrow> ms \<noteq> [] \<and> out_d = (diff_header ms, diff_entries ms,
          Some (LoreMsg ''lore: RevisionDiff header out of order''))
      | RecvMsg _ \<Rightarrow> False)" for ms q'
    by (auto simp: diff_vars returns_def diff_step_def split: recv.splits diff_msg.splits if_splits)
  then show ?thesis unfolding diff_loop_def recv_loop_iff by blast
qed

lemma rows_loop_iff:
  assumes "cap > 0"
  shows "rows_loop cap opn recv_r qr = Some out_r \<longleftrightarrow> (\<exists>ms q'. sends recv_r qr ms q' \<and> length (rows_of ms) < cap \<and>
      (case fst (recv_r q') of
        RecvEOF \<Rightarrow> out_r = (rows_of ms, None)
      | RecvErr e \<Rightarrow> out_r = (rows_of ms, Some (LoreCtx (''lore: '' @ opn @ '' recv'') (PlainErr e)))
      | RecvMsg None \<Rightarrow> False
      | RecvMsg (Some x) \<Rightarrow> length (rows_of ms) + 1 = cap \<and> out_r = (rows_of ms @ [x], None)))"
proof -
  have "(\<exists>acc'. sends recv_r qr ms q' \<and> loop_vars (rows_step cap) [] ms = Some acc' \<and>
      returns (rows_step cap) (rows_fin opn) acc' (fst (recv_r q')) out_r)
    \<longleftrightarrow> sends recv_r qr ms q' \<and> length (rows_of ms) < cap \<and> (case fst (recv_r q') of
        RecvEOF \<Rightarrow> out_r = (rows_of ms, None)
      | RecvErr e \<Rightarrow> out_r = (rows_of ms, Some (LoreCtx (''lore: '' @ opn @ '' recv'') (PlainErr e)))
      | RecvMsg None \<Rightarrow> False
      | RecvMsg (Some x) \<Rightarrow> length (rows_of ms) + 1 = cap \<and> out_r = (rows_of ms @ [x], None))" for ms q'
    using assms by (auto simp: rows_vars returns_def rows_fin_def split: recv.splits option.splits if_splits)
  then show ?thesis unfolding rows_loop_def recv_loop_iff by blast
qed

section \<open>The property\<close>

text \<open>C39: The loops over the streams of the Lore server return exactly when they must, and what they must. The
  drain of a tree, and likewise of a diff, returns just when, after messages in order, the stream ends or
  fails or sends a message without payload or a header after another message; it answers the header and all
  nodes (changes and conflicts) sent until then, in order, with the error of that moment, or none at the end of the
  stream; nothing else bounds it. The loops of the lists of repositories and branches return just when the stream
  ends or fails below the bound on the rows, with the rows sent and the error, or sends the row that reaches the
  bound, with exactly these rows and no error; a stream that goes on sending empty messages keeps them busy for ever.\<close>

theorem drains_return:
  assumes "cap > 0"
  shows "(tree_loop recv q = Some out \<longleftrightarrow> (\<exists>ms q'. sends recv q ms q' \<and> tree_in_order ms \<and> (case fst (recv q') of
        RecvEOF \<Rightarrow> out = (tree_header ms, tree_nodes ms, None)
      | RecvErr e \<Rightarrow> out = (tree_header ms, tree_nodes ms, Some (PlainErr e))
      | RecvMsg TreeNoPayload \<Rightarrow> out = (tree_header ms, tree_nodes ms,
          Some (LoreMsg ''lore: RevisionTree unexpected payload <nil>''))
      | RecvMsg (TreeHeader h) \<Rightarrow> ms \<noteq> [] \<and> out = (tree_header ms, tree_nodes ms,
          Some (LoreMsg ''lore: RevisionTree header out of order''))
      | RecvMsg (TreeNodeMsg n) \<Rightarrow> False))) \<and>
    (diff_loop recv_d qd = Some out_d \<longleftrightarrow> (\<exists>ms q'. sends recv_d qd ms q' \<and> diff_in_order ms \<and> (case fst (recv_d q') of
        RecvEOF \<Rightarrow> out_d = (diff_header ms, diff_entries ms, None)
      | RecvErr e \<Rightarrow> out_d = (diff_header ms, diff_entries ms, Some (PlainErr e))
      | RecvMsg DiffNoPayload \<Rightarrow> out_d = (diff_header ms, diff_entries ms,
          Some (LoreMsg ''lore: RevisionDiff unexpected payload <nil>''))
      | RecvMsg (DiffHeader h) \<Rightarrow> ms \<noteq> [] \<and> out_d = (diff_header ms, diff_entries ms,
          Some (LoreMsg ''lore: RevisionDiff header out of order''))
      | RecvMsg _ \<Rightarrow> False))) \<and>
    (rows_loop cap opn recv_r qr = Some out_r \<longleftrightarrow> (\<exists>ms q'. sends recv_r qr ms q' \<and> length (rows_of ms) < cap \<and>
      (case fst (recv_r q') of
        RecvEOF \<Rightarrow> out_r = (rows_of ms, None)
      | RecvErr e \<Rightarrow> out_r = (rows_of ms, Some (LoreCtx (''lore: '' @ opn @ '' recv'') (PlainErr e)))
      | RecvMsg None \<Rightarrow> False
      | RecvMsg (Some x) \<Rightarrow> length (rows_of ms) + 1 = cap \<and> out_r = (rows_of ms @ [x], None))))"
  by (intro conjI tree_loop_iff diff_loop_iff rows_loop_iff [OF assms])

text \<open>A stream over a list of messages, for the witness.\<close>

definition list_stream :: "('m list, 'm) stream" where
  "list_stream q = (case q of [] \<Rightarrow> (RecvEOF, []) | m # ms \<Rightarrow> (RecvMsg m, ms))"

theorem drains_return_witness:
  "rows_loop 2 ''rows'' (\<lambda>q. (RecvMsg (Some q), q + 1)) (0::nat) = Some ([0, 1], None) \<and>
   rows_loop 2 ''rows'' (\<lambda>q. (RecvMsg (None :: nat option), q + 1)) (0::nat) = None \<and>
   tree_loop list_stream [TreeHeader (7::nat), TreeHeader 8] =
     Some (Some 7, [], Some (LoreMsg ''lore: RevisionTree header out of order''))"
proof -
  let ?busy = "\<lambda>q::nat. (RecvMsg (Some q), q + 1)" and ?empty = "\<lambda>q::nat. (RecvMsg (None :: nat option), q + 1)"
  note all = drains_return [of 2, OF zero_less_numeral]
  note rows = all [THEN conjunct2, THEN conjunct2]
  have "sends ?busy 0 [Some 0] 1" by simp
  then have 1: "rows_loop 2 ''rows'' ?busy 0 = Some ([0, 1], None)"
    by (subst rows) (intro exI [of _ "[Some 0]"] exI [of _ 1], simp)
  have 2: "rows_loop 2 ''rows'' ?empty 0 = None"
    by (cases "rows_loop 2 ''rows'' ?empty 0") (auto simp: rows)
  have "sends list_stream [TreeHeader (7::nat), TreeHeader 8] [TreeHeader 7] [TreeHeader 8]"
    by (simp add: list_stream_def)
  then have "tree_loop list_stream [TreeHeader (7::nat), TreeHeader 8] =
      Some (Some 7, [], Some (LoreMsg ''lore: RevisionTree header out of order''))"
    by (subst all [THEN conjunct1]) (intro exI [of _ "[TreeHeader 7]"] exI [of _ "[TreeHeader 8]"],
      simp add: list_stream_def tree_in_order_def tree_header_def tree_nodes_def map_filter_simps)
  with 1 2 show ?thesis by blast
qed

end
