(* ===== verification/Spec2Isabelle.thy ===== *)
theory Spec2Isabelle
  imports Server Web_Html Front_Login Front_Start Page_Html Startup Stream_Loops
begin

text \<open>
  A model of the ArcLore control plane and the theorems that make it correct. The repository has
  two Go programs. \<open>arc-lore-auth\<close> keeps the users, resources and grants of a Lore server in
  SQLite, signs the tokens the server accepts, and answers three kinds of requests over one state:
  the gRPC services \<open>UrcAuthApi\<close> and \<open>RebacApi\<close>, the JSON management API under \<open>/api\<close>, and the
  browser pages of the interactive login and of the user administration. \<open>ArcLoreWeb\<close> is the web
  front end: it logs its users in against the JSON API, keeps the token it gets in their session,
  exchanges it for an authorization token over gRPC, caches that, and shows repositories it reads from
  the Lore server with it; its management pages go to the JSON API and to the Lore server.

  How to read the model. A stateful Go method is a value of \<open>('s, 'a) state\<close> of the library's
  \<open>State_Monad\<close>, written with \<open>do\<close> in the order of the code, and composed as the code composes
  its calls; \<open>run_state m s\<close> gives result and final state. An \<open>(T, error)\<close> result is a sum, the
  error on the left, and every early return is a branch. Records, constructors and functions keep
  their names in the source where Isabelle allows it. What the programs take from elsewhere is an
  argument: \<open>argon2.IDKey\<close> (\<open>idkey\<close>), the JWT library (\<open>jwt_lib\<close>), HMAC, \<open>net.SplitHostPort\<close>,
  the random bytes, the clock (one value per reading, in the order of the readings), the file
  system, the terminal, the session manager (\<open>scs\<close>), the renderers of content and remote calls.
  Hypotheses on them (\<open>jwt_exact\<close>, \<open>jwt_fixed\<close>, \<open>scs_ok\<close>, \<open>reads_tokens\<close>) state their
  documented behaviour, and each property with a hypothesis has a witness, a concrete run in which
  the hypotheses hold.

  The theories, in the order of import.

  \<^item> \<open>Arc_Prelude\<close>: types, the rules for running stateful computations and for properties they
    keep (\<open>keeps\<close>, collection \<open>keeps_rules\<close>), facts on lists. \<open>Go_Strings\<close>, \<open>Codec\<close>,
    \<open>Durations\<close>: the parts of \<open>strings\<close>, \<open>strconv\<close>, \<open>fmt\<close>, \<open>encoding/hex\<close>,
    \<open>encoding/base64\<close> and \<open>time.ParseDuration\<close> that both programs use. The locale
    \<open>text_codec\<close> is the interface of an encoding; it is interpreted for each of them.
  \<^item> \<open>Users\<close> (\<open>users.go\<close>): password records, policies, the prompt.
  \<^item> \<open>Store\<close> (\<open>store.go\<close> over \<open>migrations\<close>): the four tables and every method of the store.
    Each SQL call consumes one entry of a schedule of driver faults, so each error branch of the code
    is a branch of the model. \<open>Store_Laws\<close> holds the interfaces \<open>read_inv\<close>, \<open>grow_inv\<close> and
    \<open>table_inv\<close> (what a property of the tables must promise on a few statements so that every
    method keeps it) and their interpretations: the integrity of the tables (\<open>db_ok\<close>), the
    presence of an administrator (\<open>has_admin\<close>), the tables being unchanged. \<open>Store_Spec\<close> states
    what each method does to a directory of maps (\<open>spec_call\<close>) and proves the refinement, the
    atomicity under faults and the growth of token versions.
  \<^item> \<open>Service\<close> (\<open>perms.go\<close>, \<open>mint.go\<close>, \<open>service.go\<close>): effective grants, claims, minting
    and verification with the revocation by token version.
  \<^item> \<open>Sessions\<close> (\<open>session.go\<close>): the sessions of the interactive login and their traces.
  \<^item> \<open>Grpc\<close> (\<open>grpc.go\<close>, \<open>rebac.go\<close>): every method of the two services.
  \<^item> \<open>Rate_Limit\<close> (\<open>rateLimiter\<close> of \<open>web.go\<close>, \<open>throttle.go\<close>): both limiters meet the locale
    \<open>token_bucket\<close>, in which the bound over a window is proved once.
  \<^item> \<open>Admin_Gate\<close>: the CSRF token and the signed cookie of \<open>web.go\<close>.
  \<^item> \<open>Api\<close> (\<open>api.go\<close>), \<open>Web\<close> (\<open>web.go\<close>), \<open>Daemon\<close> (\<open>config.go\<close>, \<open>main.go\<close>, \<open>cli.go\<close>):
    the handlers, the pages, start-up and the command line. \<open>Server\<close> runs all of them over one
    state in any order. \<open>Keys\<close> (\<open>keys.go\<close>): the signing key, its id, the JWKS document and the
    certificate, over a file system in which any call can fail; \<open>Startup\<close> (\<open>main.go\<close>, \<open>server.go\<close>,
    the rest of \<open>cli.go\<close>): the whole start of the daemon, its routes, banner and warnings. \<open>Web_Html\<close>: the
    templates of \<open>web.go\<close> as the texts they write, over the locale \<open>escaping_html\<close>, what they rely on of
    \<open>html/template\<close>.
  \<^item> \<open>Lore_Encoding\<close>, \<open>Authz_Cache\<close>, \<open>Lore_Client\<close> (\<open>encoding.go\<close>, \<open>exchange.go\<close> and the other
    files of \<open>internal/lore\<close>): ids and addresses, the cache of exchanged tokens, the calls of the Lore
    server with the metadata they carry, the drains of the streams and the reads of contents.
    \<open>Stream_Loops\<close> takes the drains as loops over streams that may never end (partial functions) and
    says when they return.
  \<^item> \<open>Go_Http\<close>: the parts of \<open>net/url\<close> and \<open>net/http\<close> the web client uses; two more
    interpretations of \<open>text_codec\<close>. \<open>Mgmt_Client\<close> (\<open>internal/mgmt\<close>): the client of the JSON API over a
    transport. \<open>Api_Http\<close> is that transport onto \<open>Api\<close>: the patterns of the mux, its cleaning of paths,
    the decoding of bodies; each method of the client is proved to reach its handler.
  \<^item> \<open>Browse_Views\<close> and \<open>Diff_Views\<close>: the pure helpers of \<open>internal/handlers\<close> and
    \<open>internal/render/diff.go\<close>. \<open>Lore_Api\<close>: the interface \<open>LoreClient\<close> as a record of computations, its
    construction from the concrete client, and the locale \<open>lore_traffic\<close>, what the calls promise about
    the tokens they present, interpreted on that client with a log of its calls (\<open>web_traffic\<close>).
  \<^item> \<open>Front_Http\<close> (requests, responses, views of \<open>web/templates\<close>, \<open>render.go\<close>), \<open>Pages\<close> (the browse
    handlers) and \<open>Page_Laws\<close> (what they guarantee); \<open>Front_Session\<close> (\<open>internal/auth\<close>, \<open>auth.go\<close>),
    \<open>Front_Admin\<close> (\<open>admin.go\<close>), \<open>Front_App\<close> (\<open>cmd/arcloreweb/main.go\<close>), \<open>Front_Laws\<close> (properties of
    the assembled program) and \<open>Front_Login\<close> (the login across both programs).
  \<^item> \<open>Html_Text\<close>: texts of HTML, the machine that decides whether one is well formed, and the locale
    \<open>escaping_templ\<close>, what the pages rely on of the templ library, interpreted for its documented
    escaping. \<open>Templ_Repo\<close>, \<open>Templ_History\<close>, \<open>Templ_Admin\<close>: every component of \<open>web/templates\<close> as the
    text it writes. \<open>Renderers\<close> (\<open>highlight.go\<close>, \<open>markdown.go\<close>, \<open>css.go\<close>).
    \<open>Front_Start\<close> (\<open>config.go\<close>, \<open>session.go\<close>, \<open>embed.go\<close>, \<open>main.go\<close>, \<open>jwtdebug.go\<close>): the client from its
    environment to the program of \<open>Front_App\<close>. \<open>Page_Html\<close>: which
    template prints which page, and the rules \<open>gives\<close> by which every handler is shown to hand over a
    page that prints.

  What the groups of lemmas show. Store: integrity, refinement of the maps, atomicity, one first
  administrator. Tokens: what is minted is what is granted and what verification accepts, and a
  change of credentials revokes it. Requests: who may do what on each interface, and what exactly a
  request changes; the last administrator stays under sequential requests, and does not under the
  interleaving of two. Login: a token is delivered once, to the holder of the client state, for the
  user whose password was given. Limits: how many attempts a client gets, and the work each costs.
  Client: the cache of exchanged tokens keeps identities apart; a session reaches the Lore server only
  with tokens obtained for its own identity token, and no page without a session or no management page
  without an administrator's; a login makes the session the identity the authentication service signed.
  Pages: what is shown is what the server answered, for any order of the workers, and it is printed as
  well-formed HTML whatever the data. Start: the keys of a server that came up once are the keys of
  every later start. Streams: the loops return exactly when the stream lets them.

  Choices. A Go string is a list of bytes (\<open>char list\<close>), a byte slice a list of \<open>8 word\<close>;
  \<open>uint32\<close> and \<open>uint8\<close> parameters are words; times are integers of nanoseconds and are not
  taken near the ends of the 64-bit range, except where a hypothesis says so. Case mapping and white
  space are those of ASCII. Token counts of the limiters, floating point in the code, are exact
  rationals. Strings of time and of errors are kept where the code branches on or shows them. A JSON
  body arrives decoded, or as \<open>None\<close> when it does not decode (the bound of 1 MiB and the replacement of invalid
  UTF-8 are part of the decoding, \<open>wire\<close> in \<open>Api_Http\<close>, and the refusal of control characters in a header by
  the HTTP client is not modelled); line numbers of a diff are integers; a page is the data its template
  gets. A mutex that covers a method makes it one step; where the code takes a lock twice or issues
  two statements, the pieces are definitions of their own, and the properties on interleavings
  (\<open>last_admin_race\<close>, \<open>authz_cache_isolated\<close>, \<open>session_single_delivery\<close>) are stated over them.
  The loops are structural recursions, folds, recursions with a measure or, over streams, partial
  functions; no fuel is used. In the HTML machine names of elements and attributes are read to their
  end, values must be quoted, attributes that start with \<open>on\<close> and content of a script are failures;
  what a style or a link contains is not judged. The worker
  pools of the history and of the commit page run their jobs in an order that is an argument, each job
  as one step: jobs write to different places and share only the client, whose cache tolerates any
  interleaving (\<open>Authz_Cache\<close>). A request to \<open>ArcLoreWeb\<close> comes with the route the router matched
  and with its parsed form; a redirect is its target as handed to \<open>http.Redirect\<close>. A stream of the Lore
  server is the messages it delivers and the error it ends with, a body the bytes it delivers up to its
  end or an error.

  Not modelled: the listeners, TLS handshakes and signals, generated protocol code, the files under
  \<open>static\<close> themselves, the parsing of flags and of the environment, timeouts, logging, and the semaphore around
  argon2, which bounds resources and leaves no trace in the state.
\<close>

end
